(* ===== verification/Prelude.thy ===== *)
theory Prelude
  imports Main "HOL-Library.Word"
begin

text \<open>
  What every component of the daemon's model shares: the result type of fallible code, the
  state-passing form of the effectful calls, 64-bit sizes with their wrap-around, and the generic
  lemmas on sums, lists and maps.  The collection \<open>result_iff\<close> holds the inversion rules that turn
  "this computation returned Ok" into facts about its parts.
\<close>

named_theorems result_iff
named_theorems io_simps

section \<open>Results\<close>

text \<open>\<open>anyhow::Result<T>\<close>: the error is what the server sends back, its message.\<close>

type_synonym error = string
type_synonym 'a result = "error + 'a"

definition bind_result :: "'a result \<Rightarrow> ('a \<Rightarrow> 'b result) \<Rightarrow> 'b result" where
  "bind_result m k = (case m of Inl e \<Rightarrow> Inl e | Inr a \<Rightarrow> k a)"

definition map_err :: "(error \<Rightarrow> error) \<Rightarrow> 'a result \<Rightarrow> 'a result" where
  "map_err f m = (case m of Inl e \<Rightarrow> Inl (f e) | Inr a \<Rightarrow> Inr a)"

definition ok_or :: "error \<Rightarrow> 'a option \<Rightarrow> 'a result" where
  "ok_or e x = (case x of None \<Rightarrow> Inl e | Some a \<Rightarrow> Inr a)"

definition ok_opt :: "'a result \<Rightarrow> 'a option" where
  "ok_opt m = (case m of Inl _ \<Rightarrow> None | Inr a \<Rightarrow> Some a)"

definition is_ok :: "'a result \<Rightarrow> bool" where
  "is_ok m = (case m of Inl _ \<Rightarrow> False | Inr _ \<Rightarrow> True)"

definition filter_opt :: "('a \<Rightarrow> bool) \<Rightarrow> 'a option \<Rightarrow> 'a option" where
  "filter_opt p x = (case x of None \<Rightarrow> None | Some a \<Rightarrow> if p a then Some a else None)"

definition unwrap_or :: "'a \<Rightarrow> 'a option \<Rightarrow> 'a" where
  "unwrap_or d x = (case x of None \<Rightarrow> d | Some a \<Rightarrow> a)"

lemma bind_result_simps [simp]:
  "bind_result (Inl e) k = Inl e"
  "bind_result (Inr a) k = k a"
  by (simp_all add: bind_result_def)

lemma map_err_simps [simp]:
  "map_err f (Inl e) = Inl (f e)"
  "map_err f (Inr a) = Inr a"
  by (simp_all add: map_err_def)

lemma ok_or_simps [simp]:
  "ok_or e None = Inl e"
  "ok_or e (Some a) = Inr a"
  by (simp_all add: ok_or_def)

lemma ok_opt_simps [simp]: "ok_opt (Inl e) = None" "ok_opt (Inr a) = Some a"
  by (simp_all add: ok_opt_def)

lemma is_ok_simps [simp]: "\<not> is_ok (Inl e)" "is_ok (Inr a)"
  by (simp_all add: is_ok_def)

lemma filter_opt_simps [simp]:
  "filter_opt p None = None"
  "filter_opt p (Some a) = (if p a then Some a else None)"
  by (simp_all add: filter_opt_def)

lemma unwrap_or_simps [simp]: "unwrap_or d None = d" "unwrap_or d (Some a) = a"
  by (simp_all add: unwrap_or_def)

lemma bind_result_Inr [result_iff]:
  "bind_result m k = Inr b \<longleftrightarrow> (\<exists>a. m = Inr a \<and> k a = Inr b)"
  by (cases m) simp_all

lemma bind_result_Inl [result_iff]:
  "bind_result m k = Inl e \<longleftrightarrow> m = Inl e \<or> (\<exists>a. m = Inr a \<and> k a = Inl e)"
  by (cases m) simp_all

lemma map_err_Inr [result_iff]: "map_err f m = Inr a \<longleftrightarrow> m = Inr a"
  by (cases m) simp_all

lemma ok_or_Inr [result_iff]: "ok_or e x = Inr a \<longleftrightarrow> x = Some a"
  by (cases x) simp_all

lemma ok_or_Inl [result_iff]: "ok_or e x = Inl e' \<longleftrightarrow> x = None \<and> e' = e"
  by (cases x) auto

lemma filter_opt_Some [result_iff]: "filter_opt p x = Some a \<longleftrightarrow> x = Some a \<and> p a"
  by (cases x) auto

lemma is_ok_iff: "is_ok m \<longleftrightarrow> (\<exists>a. m = Inr a)"
  by (cases m) simp_all

section \<open>Effects\<close>

text \<open>
  A call into a client library or a server: it may fail, and it may change the outside world
  \<open>'w\<close>.  The code's \<open>?\<close> is \<open>io_bind\<close>; a failed call keeps the effects it had.
\<close>

type_synonym ('w, 'a) io = "'w \<Rightarrow> 'a result \<times> 'w"

definition io_ok :: "'a \<Rightarrow> ('w, 'a) io" where
  "io_ok a = (\<lambda>w. (Inr a, w))"

definition io_err :: "error \<Rightarrow> ('w, 'a) io" where
  "io_err e = (\<lambda>w. (Inl e, w))"

definition io_bind :: "('w, 'a) io \<Rightarrow> ('a \<Rightarrow> ('w, 'b) io) \<Rightarrow> ('w, 'b) io" where
  "io_bind m k = (\<lambda>w. case m w of (Inl e, w') \<Rightarrow> (Inl e, w') | (Inr a, w') \<Rightarrow> k a w')"

text \<open>The result of a call as a value: the code inspects it with \<open>match\<close> instead of \<open>?\<close>.\<close>

definition io_try :: "('w, 'a) io \<Rightarrow> ('w, 'a result) io" where
  "io_try m = (\<lambda>w. case m w of (r, w') \<Rightarrow> (Inr r, w'))"

text \<open>The code's \<open>match\<close> on a call: what follows an error, what follows success.\<close>

definition io_match :: "('w, 'a) io \<Rightarrow> (error \<Rightarrow> ('w, 'b) io) \<Rightarrow> ('a \<Rightarrow> ('w, 'b) io) \<Rightarrow> ('w, 'b) io" where
  "io_match m f g = (\<lambda>w. case m w of (Inl e, w') \<Rightarrow> f e w' | (Inr a, w') \<Rightarrow> g a w')"

definition io_lift :: "'a result \<Rightarrow> ('w, 'a) io" where
  "io_lift r = (\<lambda>w. (r, w))"

definition io_map_err :: "(error \<Rightarrow> error) \<Rightarrow> ('w, 'a) io \<Rightarrow> ('w, 'a) io" where
  "io_map_err f m = (\<lambda>w. case m w of (r, w') \<Rightarrow> (map_err f r, w'))"

lemma io_ok_app [io_simps, simp]: "io_ok a w = (Inr a, w)"
  by (simp add: io_ok_def)

lemma io_err_app [io_simps, simp]: "io_err e w = (Inl e, w)"
  by (simp add: io_err_def)

lemma io_lift_app [io_simps, simp]: "io_lift r w = (r, w)"
  by (simp add: io_lift_def)

lemma io_bind_app [io_simps]:
  "io_bind m k w = (case m w of (Inl e, w') \<Rightarrow> (Inl e, w') | (Inr a, w') \<Rightarrow> k a w')"
  by (simp add: io_bind_def)

lemma io_match_app [io_simps]:
  "io_match m f g w = (case m w of (Inl e, w') \<Rightarrow> f e w' | (Inr a, w') \<Rightarrow> g a w')"
  by (simp add: io_match_def)

lemma io_try_app [io_simps]: "io_try m w = (case m w of (r, w') \<Rightarrow> (Inr r, w'))"
  by (simp add: io_try_def)

lemma io_map_err_app [io_simps]: "io_map_err f m w = (case m w of (r, w') \<Rightarrow> (map_err f r, w'))"
  by (simp add: io_map_err_def)

lemma io_bind_Inr [result_iff]:
  "io_bind m k w = (Inr b, w'') \<longleftrightarrow> (\<exists>a w'. m w = (Inr a, w') \<and> k a w' = (Inr b, w''))"
  by (auto simp: io_bind_def split: prod.splits sum.splits)

lemma io_lift_Inr [result_iff]: "io_lift r w = (Inr a, w') \<longleftrightarrow> r = Inr a \<and> w' = w"
  by (auto simp: io_lift_def)

lemma io_try_Inr [result_iff]: "io_try m w = (Inr r, w') \<longleftrightarrow> m w = (r, w')"
  by (auto simp: io_try_def split: prod.splits)

lemma io_match_Inr [result_iff]:
  "io_match m f g w = (Inr b, w'') \<longleftrightarrow>
     (\<exists>e w'. m w = (Inl e, w') \<and> f e w' = (Inr b, w'')) \<or> (\<exists>a w'. m w = (Inr a, w') \<and> g a w' = (Inr b, w''))"
  by (auto simp: io_match_def split: prod.splits sum.splits)

lemma io_map_err_Inr [result_iff]: "io_map_err f m w = (Inr a, w') \<longleftrightarrow> m w = (Inr a, w')"
  by (auto simp: io_map_err_def result_iff split: prod.splits)

lemma io_ok_Inr [result_iff]: "io_ok a w = (Inr b, w') \<longleftrightarrow> b = a \<and> w' = w"
  by (auto simp: io_ok_def)

lemma io_err_Inr [result_iff]: "io_err e w \<noteq> (Inr b, w')"
  by (simp add: io_err_def)

section \<open>Sizes and identifiers\<close>

text \<open>\<open>u64\<close> identifiers, and \<open>usize\<close> sums on the 64-bit build, which wrap in the release profile.\<close>

type_synonym u64 = "64 word"
type_synonym u16 = "16 word"
type_synonym u32 = "32 word"

definition usize_mod :: nat where
  "usize_mod = 2 ^ 64"

definition usize_add :: "nat \<Rightarrow> nat \<Rightarrow> nat" where
  "usize_add a b = (a + b) mod usize_mod"

lemma usize_mod_pos [simp]: "0 < usize_mod"
  by (simp add: usize_mod_def)

lemma usize_add_small: "a + b < usize_mod \<Longrightarrow> usize_add a b = a + b"
  by (simp add: usize_add_def)

lemma usize_add_lt [simp]: "usize_add a b < usize_mod"
  by (simp add: usize_add_def)

lemma usize_add_le: "usize_add a b \<le> a + b"
  by (simp add: usize_add_def)

text \<open>The f64 and f32 of the wire as their IEEE-754 bits; the model never rounds one.\<close>

type_synonym f64 = "64 word"
type_synonym f32 = "32 word"

section \<open>Lists\<close>

text \<open>\<open>slice.get(i)\<close> and \<open>&v[i..j]\<close>; the second panics (\<open>None\<close>) outside the bounds.\<close>

definition nth_opt :: "'a list \<Rightarrow> nat \<Rightarrow> 'a option" where
  "nth_opt xs i = (if i < length xs then Some (xs ! i) else None)"

definition first_opt :: "'a list \<Rightarrow> 'a option" where
  "first_opt xs = (case xs of [] \<Rightarrow> None | x # _ \<Rightarrow> Some x)"

definition sub_slice :: "'a list \<Rightarrow> nat \<Rightarrow> nat \<Rightarrow> 'a list option" where
  "sub_slice xs i j = (if i \<le> j \<and> j \<le> length xs then Some (take (j - i) (drop i xs)) else None)"

lemma nth_opt_simps [simp]:
  "nth_opt [] i = None"
  "nth_opt (x # xs) 0 = Some x"
  "nth_opt (x # xs) (Suc i) = nth_opt xs i"
  by (simp_all add: nth_opt_def)

lemma nth_opt_numeral [simp]:
  "nth_opt (x # xs) (numeral k) = nth_opt xs (pred_numeral k)"
  by (simp add: numeral_eq_Suc)

lemma first_opt_simps [simp]: "first_opt [] = None" "first_opt (x # xs) = Some x"
  by (simp_all add: first_opt_def)

lemma nth_opt_Some [result_iff]: "nth_opt xs i = Some x \<longleftrightarrow> i < length xs \<and> xs ! i = x"
  by (auto simp: nth_opt_def)

lemma sub_slice_Some: "i \<le> j \<Longrightarrow> j \<le> length xs \<Longrightarrow> sub_slice xs i j = Some (take (j - i) (drop i xs))"
  by (simp add: sub_slice_def)

lemma sub_slice_length: "sub_slice xs i j = Some ys \<Longrightarrow> length ys = j - i"
  by (auto simp: sub_slice_def split: if_splits)

text \<open>\<open>filter_map\<close>.\<close>

fun filter_map :: "('a \<Rightarrow> 'b option) \<Rightarrow> 'a list \<Rightarrow> 'b list" where
  "filter_map f [] = []"
| "filter_map f (x # xs) = (case f x of None \<Rightarrow> filter_map f xs | Some y \<Rightarrow> y # filter_map f xs)"

lemma filter_map_append [simp]: "filter_map f (xs @ ys) = filter_map f xs @ filter_map f ys"
  by (induction xs) (auto split: option.split)

lemma set_filter_map: "set (filter_map f xs) = {y. \<exists>x\<in>set xs. f x = Some y}"
  by (induction xs) (auto split: option.split)

lemma filter_map_Some [simp]: "filter_map (\<lambda>x. Some (g x)) xs = map g xs"
  by (induction xs) auto

lemma map_snoc_update: "i < length xs \<Longrightarrow> (xs @ [x])[i := y] = xs[i := y] @ [x]"
  by (simp add: list_update_append)

section \<open>Maps\<close>

lemma map_upd_drop_other: "k \<noteq> k' \<Longrightarrow> (m(k := v)) k' = m k'"
  by simp

end
