(* ===== verification/Rust_Str.thy ===== *)
theory Rust_Str
  imports Prelude
begin

text \<open>
  The \<open>str\<close> and \<open>char\<close> operations of the Rust standard library that the daemon uses.  A
  \<open>String\<close> is its UTF-8 bytes, one \<open>char\<close> per byte, so that byte-level code (percent encoding,
  UTF-8 validation) and the ASCII patterns of the parsers read as in the source.  White space is
  Unicode's \<open>White_Space\<close>, recognised by its byte sequences.
\<close>

named_theorems str_simps

section \<open>Bytes and literals\<close>

definition byte :: "char \<Rightarrow> nat" where
  "byte c = of_char c"

definition ch :: "nat \<Rightarrow> char" where
  "ch n = char_of n"

lemma byte_ch [simp]: "n < 256 \<Longrightarrow> byte (ch n) = n"
  by (simp add: byte_def ch_def)

lemma ch_byte [simp]: "ch (byte c) = c"
  by (simp add: byte_def ch_def)

lemma byte_lt [simp]: "byte c < 256"
  by (simp add: byte_def)

lemma byte_inj: "byte c = byte d \<longleftrightarrow> c = d"
  by (simp add: byte_def)

text \<open>The quote character, a quoted text, and the two non-ASCII signs of the daemon's messages.\<close>

definition sq :: string where "sq = [CHR 0x27]"
definition dq :: string where "dq = [CHR 0x22]"
definition em_dash :: string where "em_dash = [CHR 0xE2, CHR 0x80, CHR 0x94]"
definition right_arrow :: string where "right_arrow = [CHR 0xE2, CHR 0x86, CHR 0x92]"

definition quoted :: "string \<Rightarrow> string" where
  "quoted s = sq @ s @ sq"

section \<open>White space and trimming\<close>

definition is_ascii_ws :: "char \<Rightarrow> bool" where
  "is_ascii_ws c \<longleftrightarrow> byte c = 32 \<or> (9 \<le> byte c \<and> byte c \<le> 13)"

text \<open>Length in bytes of the white-space character a text starts with, 0 when it starts with none.\<close>

definition ws_len2 :: "nat \<Rightarrow> nat \<Rightarrow> bool" where
  "ws_len2 a b \<longleftrightarrow> a = 0xC2 \<and> (b = 0x85 \<or> b = 0xA0)"

definition ws_len3 :: "nat \<Rightarrow> nat \<Rightarrow> nat \<Rightarrow> bool" where
  "ws_len3 a b c \<longleftrightarrow>
     (a = 0xE1 \<and> b = 0x9A \<and> c = 0x80) \<or>
     (a = 0xE2 \<and> b = 0x80 \<and> (0x80 \<le> c \<and> c \<le> 0x8A \<or> c = 0xA8 \<or> c = 0xA9 \<or> c = 0xAF)) \<or>
     (a = 0xE2 \<and> b = 0x81 \<and> c = 0x9F) \<or>
     (a = 0xE3 \<and> b = 0x80 \<and> c = 0x80)"

fun ws_len :: "string \<Rightarrow> nat" where
  "ws_len [] = 0"
| "ws_len [a] = (if is_ascii_ws a then 1 else 0)"
| "ws_len [a, b] = (if is_ascii_ws a then 1 else if ws_len2 (byte a) (byte b) then 2 else 0)"
| "ws_len (a # b # c # s) =
     (if is_ascii_ws a then 1
      else if ws_len2 (byte a) (byte b) then 2
      else if ws_len3 (byte a) (byte b) (byte c) then 3 else 0)"

text \<open>The same on a reversed text, for the white space a text ends with.\<close>

fun ws_len_rev :: "string \<Rightarrow> nat" where
  "ws_len_rev [] = 0"
| "ws_len_rev [a] = (if is_ascii_ws a then 1 else 0)"
| "ws_len_rev [b, a] = (if is_ascii_ws b then 1 else if ws_len2 (byte a) (byte b) then 2 else 0)"
| "ws_len_rev (c # b # a # s) =
     (if is_ascii_ws c then 1
      else if ws_len2 (byte b) (byte c) then 2
      else if ws_len3 (byte a) (byte b) (byte c) then 3 else 0)"

function strip_while :: "(string \<Rightarrow> nat) \<Rightarrow> string \<Rightarrow> string" where
  "strip_while f s = (if f s = 0 \<or> s = [] then s else strip_while f (drop (f s) s))"
  by pat_completeness auto
termination
  by (relation "measure (\<lambda>(f, s). length s)") auto

declare strip_while.simps [simp del]

definition trim_start :: "string \<Rightarrow> string" where
  "trim_start s = strip_while ws_len s"

definition trim_end :: "string \<Rightarrow> string" where
  "trim_end s = rev (strip_while ws_len_rev (rev s))"

definition trim :: "string \<Rightarrow> string" where
  "trim s = trim_end (trim_start s)"

lemma strip_while_stop [str_simps]: "f s = 0 \<Longrightarrow> strip_while f s = s"
  by (simp add: strip_while.simps)

lemma strip_while_Nil [simp]: "strip_while f [] = []"
  by (simp add: strip_while.simps)

lemma strip_while_done: "f (strip_while f s) = 0 \<or> strip_while f s = []"
proof (induction f s rule: strip_while.induct)
  case (1 f s)
  then show ?case by (cases "f s = 0 \<or> s = []") (auto simp: strip_while.simps [of f s])
qed

lemma strip_while_suffix: "\<exists>n. strip_while f s = drop n s"
proof (induction f s rule: strip_while.induct)
  case (1 f s)
  show ?case
  proof (cases "f s = 0 \<or> s = []")
    case True
    then show ?thesis by (auto simp: strip_while.simps [of f s] intro: exI [of _ 0])
  next
    case False
    with 1 obtain n where "strip_while f (drop (f s) s) = drop n (drop (f s) s)" by blast
    with False show ?thesis by (auto simp: strip_while.simps [of f s])
  qed
qed

text \<open>
  A byte that starts (ends) no white-space character: every ASCII byte that is not itself white
  space, which is what the delimiters of the source are.
\<close>

definition plain_byte :: "char \<Rightarrow> bool" where
  "plain_byte c \<longleftrightarrow> byte c < 128 \<and> \<not> is_ascii_ws c"

lemma ws_len_plain: "plain_byte c \<Longrightarrow> ws_len (c # s) = 0"
  by (cases s rule: remdups_adj.cases) (auto simp: plain_byte_def ws_len2_def ws_len3_def)

lemma ws_len_rev_plain: "plain_byte c \<Longrightarrow> ws_len_rev (c # s) = 0"
  by (cases s rule: remdups_adj.cases) (auto simp: plain_byte_def ws_len2_def ws_len3_def)

lemma trim_start_plain [str_simps]: "plain_byte c \<Longrightarrow> trim_start (c # s) = c # s"
  by (simp add: trim_start_def strip_while_stop ws_len_plain)

lemma trim_end_plain [str_simps]: "plain_byte c \<Longrightarrow> trim_end (s @ [c]) = s @ [c]"
  by (simp add: trim_end_def strip_while_stop ws_len_rev_plain)

lemma trim_Nil [simp]: "trim_start [] = []" "trim_end [] = []" "trim [] = []"
  by (simp_all add: trim_start_def trim_end_def trim_def)

lemma trim_plain [str_simps]:
  "plain_byte c \<Longrightarrow> plain_byte d \<Longrightarrow> trim (c # s @ [d]) = c # s @ [d]"
  using trim_end_plain [of d "c # s"] by (simp add: trim_def trim_start_plain)

lemma trim_single [str_simps]: "plain_byte c \<Longrightarrow> trim [c] = [c]"
  using trim_end_plain [of c "[]"] by (simp add: trim_def trim_start_plain)

lemma trim_start_space: "trim_start (CHR '' '' # s) = trim_start s"
proof -
  have sp: "is_ascii_ws (CHR '' '')" by (simp add: is_ascii_ws_def byte_def)
  then have "ws_len (CHR '' '' # s) = 1"
    by (cases s rule: remdups_adj.cases) simp_all
  then show ?thesis by (simp add: trim_start_def strip_while.simps [of ws_len "CHR '' '' # s"])
qed

lemma trim_end_space: "trim_end (s @ [CHR '' '']) = trim_end s"
proof -
  have sp: "is_ascii_ws (CHR '' '')" by (simp add: is_ascii_ws_def byte_def)
  then have "ws_len_rev (CHR '' '' # rev s) = 1"
    by (cases "rev s" rule: remdups_adj.cases) simp_all
  then show ?thesis
    by (simp add: trim_end_def strip_while.simps [of ws_len_rev "CHR '' '' # rev s"])
qed


section \<open>Prefixes, splitting, replacing\<close>

fun strip_prefix :: "string \<Rightarrow> string \<Rightarrow> string option" where
  "strip_prefix [] s = Some s"
| "strip_prefix (p # ps) [] = None"
| "strip_prefix (p # ps) (c # cs) = (if p = c then strip_prefix ps cs else None)"

definition strip_suffix :: "string \<Rightarrow> string \<Rightarrow> string option" where
  "strip_suffix p s = map_option rev (strip_prefix (rev p) (rev s))"

definition starts_with :: "string \<Rightarrow> string \<Rightarrow> bool" where
  "starts_with p s \<longleftrightarrow> strip_prefix p s \<noteq> None"

text \<open>\<open>split_once\<close>: around the first occurrence of a pattern.\<close>

fun split_once :: "string \<Rightarrow> string \<Rightarrow> (string \<times> string) option" where
  "split_once p [] = (if p = [] then Some ([], []) else None)"
| "split_once p (c # cs) =
     (case strip_prefix p (c # cs) of
        Some r \<Rightarrow> Some ([], r)
      | None \<Rightarrow> map_option (\<lambda>(a, b). (c # a, b)) (split_once p cs))"

text \<open>\<open>rsplit_once\<close> at a one-byte character.\<close>

definition rsplit_once :: "char \<Rightarrow> string \<Rightarrow> (string \<times> string) option" where
  "rsplit_once c s = map_option (\<lambda>(a, b). (rev b, rev a)) (split_once [c] (rev s))"

text \<open>\<open>split_once(char::is_whitespace)\<close>.\<close>

fun split_ws :: "string \<Rightarrow> (string \<times> string) option" where
  "split_ws [] = None"
| "split_ws (c # cs) =
     (if ws_len (c # cs) > 0 then Some ([], drop (ws_len (c # cs)) (c # cs))
      else map_option (\<lambda>(a, b). (c # a, b)) (split_ws cs))"

definition contains :: "string \<Rightarrow> string \<Rightarrow> bool" where
  "contains p s \<longleftrightarrow> split_once p s \<noteq> None"

text \<open>\<open>str::replace\<close> of one ASCII character.\<close>

definition replace_char :: "char \<Rightarrow> string \<Rightarrow> string \<Rightarrow> string" where
  "replace_char c to s = concat (map (\<lambda>x. if x = c then to else [x]) s)"

text \<open>\<open>join\<close>.\<close>

fun join :: "string \<Rightarrow> string list \<Rightarrow> string" where
  "join sep [] = []"
| "join sep [s] = s"
| "join sep (s # t # ts) = s @ sep @ join sep (t # ts)"

lemma strip_prefix_append [simp]: "strip_prefix p (p @ s) = Some s"
  by (induction p) auto

lemma strip_prefix_Some: "strip_prefix p s = Some r \<longleftrightarrow> s = p @ r"
  by (induction p s rule: strip_prefix.induct) auto

lemma strip_suffix_Some: "strip_suffix p s = Some r \<longleftrightarrow> s = r @ p"
proof -
  have "strip_suffix p s = Some r \<longleftrightarrow> rev s = rev p @ rev r"
    by (auto simp: strip_suffix_def strip_prefix_Some)
  also have "\<dots> \<longleftrightarrow> s = r @ p"
    by (metis rev_append rev_rev_ident)
  finally show ?thesis .
qed

lemma strip_suffix_append [simp]: "strip_suffix p (s @ p) = Some s"
  by (simp add: strip_suffix_Some)

lemma split_once_Some: "split_once p s = Some (a, b) \<Longrightarrow> s = a @ p @ b"
proof (induction p s arbitrary: a b rule: split_once.induct)
  case (1 p)
  then show ?case by (auto split: if_splits)
next
  case (2 p c cs)
  then show ?case by (auto simp: strip_prefix_Some split: option.splits)
qed

lemma split_once_char [str_simps]: "c \<notin> set a \<Longrightarrow> split_once [c] (a @ c # b) = Some (a, b)"
  by (induction a) auto

lemma split_once_char_None: "c \<notin> set s \<Longrightarrow> split_once [c] s = None"
  by (induction s) auto

lemma rsplit_once_char [str_simps]: "c \<notin> set b \<Longrightarrow> rsplit_once c (a @ c # b) = Some (a, b)"
  using split_once_char [of c "rev b" "rev a"] by (simp add: rsplit_once_def)

lemma split_ws_space:
  "(\<forall>c\<in>set a. plain_byte c) \<Longrightarrow> split_ws (a @ CHR '' '' # b) = Some (a, b)"
proof (induction a)
  case Nil
  have "ws_len (CHR '' '' # b) = 1"
    by (cases b rule: remdups_adj.cases) (simp_all add: is_ascii_ws_def byte_def)
  then show ?case by simp
next
  case (Cons c a)
  then show ?case by (simp add: ws_len_plain)
qed

lemma split_ws_plain_None: "(\<forall>c\<in>set a. plain_byte c) \<Longrightarrow> split_ws a = None"
  by (induction a) (simp_all add: ws_len_plain)

lemma replace_char_Nil [simp]: "replace_char c to [] = []"
  by (simp add: replace_char_def)

lemma replace_char_Cons [simp]:
  "replace_char c to (x # s) = (if x = c then to else [x]) @ replace_char c to s"
  by (simp add: replace_char_def)

lemma replace_char_append: "replace_char c to (s @ t) = replace_char c to s @ replace_char c to t"
  by (simp add: replace_char_def)

lemma replace_char_id: "c \<notin> set s \<Longrightarrow> replace_char c to s = s"
  by (induction s) auto

section \<open>Letter case\<close>

definition ascii_lower :: "char \<Rightarrow> char" where
  "ascii_lower c = (if 65 \<le> byte c \<and> byte c \<le> 90 then ch (byte c + 32) else c)"

definition ascii_upper :: "char \<Rightarrow> char" where
  "ascii_upper c = (if 97 \<le> byte c \<and> byte c \<le> 122 then ch (byte c - 32) else c)"

definition to_ascii_lowercase :: "string \<Rightarrow> string" where
  "to_ascii_lowercase s = map ascii_lower s"

definition to_ascii_uppercase :: "string \<Rightarrow> string" where
  "to_ascii_uppercase s = map ascii_upper s"

definition eq_ignore_ascii_case :: "string \<Rightarrow> string \<Rightarrow> bool" where
  "eq_ignore_ascii_case a b \<longleftrightarrow> to_ascii_lowercase a = to_ascii_lowercase b"

definition is_ascii :: "string \<Rightarrow> bool" where
  "is_ascii s \<longleftrightarrow> (\<forall>c\<in>set s. byte c < 128)"

text \<open>
  \<open>str::to_uppercase\<close> is Unicode's full mapping; the definitions that use it take it as an
  argument, and what they rely on is that it is the ASCII mapping on ASCII texts.
\<close>

definition upper_law :: "(string \<Rightarrow> string) \<Rightarrow> bool" where
  "upper_law up \<longleftrightarrow> (\<forall>s. is_ascii s \<longrightarrow> up s = to_ascii_uppercase s)"

lemma upper_law_ascii: "upper_law to_ascii_uppercase"
  by (simp add: upper_law_def)

lemma ascii_lower_upper [simp]: "ascii_lower (ascii_upper c) = ascii_lower c"
  by (auto simp: ascii_lower_def ascii_upper_def)

lemma eq_ignore_ascii_case_upper [simp]:
  "eq_ignore_ascii_case (to_ascii_uppercase a) b \<longleftrightarrow> eq_ignore_ascii_case a b"
  by (simp add: eq_ignore_ascii_case_def to_ascii_lowercase_def to_ascii_uppercase_def comp_def)

lemma eq_ignore_ascii_case_refl [simp]: "eq_ignore_ascii_case a a"
  by (simp add: eq_ignore_ascii_case_def)

lemma eq_ignore_ascii_case_sym: "eq_ignore_ascii_case a b \<longleftrightarrow> eq_ignore_ascii_case b a"
  by (auto simp: eq_ignore_ascii_case_def)

section \<open>Decimal numbers\<close>

definition digit :: "nat \<Rightarrow> char" where
  "digit n = ch (48 + n)"

fun show_nat :: "nat \<Rightarrow> string" where
  "show_nat n = (if n < 10 then [digit n] else show_nat (n div 10) @ [digit (n mod 10)])"

declare show_nat.simps [simp del]

definition show_int :: "int \<Rightarrow> string" where
  "show_int i = (if i < 0 then CHR ''-'' # show_nat (nat (- i)) else show_nat (nat i))"

definition digit_val :: "char \<Rightarrow> nat option" where
  "digit_val c = (if 48 \<le> byte c \<and> byte c \<le> 57 then Some (byte c - 48) else None)"

text \<open>The digit loop of \<open>from_str\<close>: checked multiply, checked add, an error on any other byte.\<close>

fun parse_digits :: "nat \<Rightarrow> nat \<Rightarrow> string \<Rightarrow> nat option" where
  "parse_digits bound acc [] = Some acc"
| "parse_digits bound acc (c # cs) =
     (case digit_val c of
        None \<Rightarrow> None
      | Some d \<Rightarrow> if acc * 10 + d < bound then parse_digits bound (acc * 10 + d) cs else None)"

definition parse_unsigned :: "nat \<Rightarrow> string \<Rightarrow> nat option" where
  "parse_unsigned bound s =
     (case s of
        [] \<Rightarrow> None
      | [c] \<Rightarrow> if c = CHR ''+'' \<or> c = CHR ''-'' then None else parse_digits bound 0 [c]
      | c # cs \<Rightarrow> if c = CHR ''+'' then parse_digits bound 0 cs else parse_digits bound 0 (c # cs))"

lemma digit_val_digit [simp]: "n < 10 \<Longrightarrow> digit_val (digit n) = Some n"
  by (simp add: digit_val_def digit_def)

lemma digit_ne [simp]: "n < 10 \<Longrightarrow> digit n \<noteq> CHR ''+''" "n < 10 \<Longrightarrow> digit n \<noteq> CHR ''-''"
  by (auto dest!: arg_cong [of _ _ byte] simp: digit_def) (simp_all add: byte_def)

lemma show_nat_ne [simp]: "show_nat n \<noteq> []"
  by (subst show_nat.simps) simp

lemma set_show_nat: "c \<in> set (show_nat n) \<Longrightarrow> \<exists>d<10. c = digit d"
proof (induction n rule: show_nat.induct)
  case (1 n)
  show ?case
  proof (cases "n < 10")
    case True
    with 1(2) show ?thesis by (subst (asm) show_nat.simps) auto
  next
    case False
    with 1(2) have "c \<in> set (show_nat (n div 10)) \<or> c = digit (n mod 10)"
      by (subst (asm) show_nat.simps) auto
    with 1(1) False show ?thesis by force
  qed
qed

lemma parse_digits_append:
  "parse_digits b a (s @ t) = (case parse_digits b a s of None \<Rightarrow> None | Some v \<Rightarrow> parse_digits b v t)"
  by (induction b a s rule: parse_digits.induct) (auto split: option.split)

lemma parse_digits_show: "n < b \<Longrightarrow> parse_digits b 0 (show_nat n) = Some n"
proof (induction n rule: show_nat.induct)
  case (1 n)
  show ?case
  proof (cases "n < 10")
    case True
    with 1(2) show ?thesis by (subst show_nat.simps) simp
  next
    case False
    from 1(2) have "n div 10 < b" by (metis div_le_dividend le_less_trans)
    with 1(1) False have "parse_digits b 0 (show_nat (n div 10)) = Some (n div 10)" by simp
    with False 1(2) show ?thesis
      by (subst show_nat.simps) (simp add: parse_digits_append)
  qed
qed

lemma parse_unsigned_show: "n < b \<Longrightarrow> parse_unsigned b (show_nat n) = Some n"
proof -
  assume n: "n < b"
  obtain c cs where s: "show_nat n = c # cs" by (cases "show_nat n") auto
  then obtain d where "d < 10" "c = digit d" using set_show_nat [of c n] by auto
  then have c: "c \<noteq> CHR ''+''" "c \<noteq> CHR ''-''" by auto
  from parse_digits_show [OF n] s c show ?thesis
    by (cases cs) (auto simp: parse_unsigned_def)
qed

lemma parse_digits_lt: "a < b \<Longrightarrow> parse_digits b a s = Some v \<Longrightarrow> v < b"
  by (induction b a s rule: parse_digits.induct) (auto split: option.splits if_splits)

lemma parse_unsigned_lt: "0 < b \<Longrightarrow> parse_unsigned b s = Some v \<Longrightarrow> v < b"
  by (auto simp: parse_unsigned_def simp del: parse_digits.simps
      dest: parse_digits_lt [rotated] split: list.splits if_splits)

section \<open>UTF-8\<close>

text \<open>
  \<open>std::str::from_utf8\<close>: the bytes of a well-formed text.  \<open>utf8_width\<close> is the length of the
  scalar value a byte sequence starts with, \<open>None\<close> when it starts with no valid one.
\<close>

definition cont :: "char \<Rightarrow> bool" where
  "cont c \<longleftrightarrow> 0x80 \<le> byte c \<and> byte c \<le> 0xBF"

text \<open>The range of the second byte, which excludes overlong forms and surrogates.\<close>

definition second_ok :: "char \<Rightarrow> char \<Rightarrow> bool" where
  "second_ok a b \<longleftrightarrow>
     (if byte a = 0xE0 then 0xA0 \<le> byte b \<and> byte b \<le> 0xBF
      else if byte a = 0xED then 0x80 \<le> byte b \<and> byte b \<le> 0x9F
      else if byte a = 0xF0 then 0x90 \<le> byte b \<and> byte b \<le> 0xBF
      else if byte a = 0xF4 then 0x80 \<le> byte b \<and> byte b \<le> 0x8F
      else cont b)"

definition lead_width :: "char \<Rightarrow> nat" where
  "lead_width a =
     (if byte a < 0x80 then 1
      else if 0xC2 \<le> byte a \<and> byte a \<le> 0xDF then 2
      else if 0xE0 \<le> byte a \<and> byte a \<le> 0xEF then 3
      else if 0xF0 \<le> byte a \<and> byte a \<le> 0xF4 then 4 else 0)"

text \<open>
  How many bytes from the front belong together, and whether they are a valid scalar value: an
  invalid sequence takes its longest prefix that could have started a valid one.
\<close>

definition utf8_chunk :: "string \<Rightarrow> bool \<times> nat" where
  "utf8_chunk s =
     (case s of
        [] \<Rightarrow> (False, 0)
      | a # r \<Rightarrow>
          (if lead_width a = 0 then (False, 1)
           else if lead_width a = 1 then (True, 1)
           else (case r of
              [] \<Rightarrow> (False, 1)
            | b # r2 \<Rightarrow>
                (if \<not> second_ok a b then (False, 1)
                 else if lead_width a = 2 then (True, 2)
                 else (case r2 of
                    [] \<Rightarrow> (False, 2)
                  | c # r3 \<Rightarrow>
                      (if \<not> cont c then (False, 2)
                       else if lead_width a = 3 then (True, 3)
                       else (case r3 of
                          [] \<Rightarrow> (False, 3)
                        | d # _ \<Rightarrow> (if cont d then (True, 4) else (False, 3)))))))))"

lemma utf8_chunk_pos: "s \<noteq> [] \<Longrightarrow> 0 < snd (utf8_chunk s)"
  by (auto simp: utf8_chunk_def split: list.splits)

function utf8_valid :: "string \<Rightarrow> bool" where
  "utf8_valid s =
     (if s = [] then True
      else fst (utf8_chunk s) \<and> utf8_valid (drop (snd (utf8_chunk s)) s))"
  by pat_completeness auto
termination
  by (relation "measure length") (auto simp: utf8_chunk_pos)

text \<open>\<open>String::from_utf8_lossy\<close>: every invalid chunk becomes U+FFFD.\<close>

definition replacement :: string where
  "replacement = [CHR 0xEF, CHR 0xBF, CHR 0xBD]"

function utf8_lossy :: "string \<Rightarrow> string" where
  "utf8_lossy s =
     (if s = [] then []
      else (if fst (utf8_chunk s) then take (snd (utf8_chunk s)) s else replacement)
        @ utf8_lossy (drop (snd (utf8_chunk s)) s))"
  by pat_completeness auto
termination
  by (relation "measure length") (auto simp: utf8_chunk_pos)

declare utf8_valid.simps [simp del] utf8_lossy.simps [simp del]

lemma utf8_lossy_valid: "utf8_valid s \<Longrightarrow> utf8_lossy s = s"
proof (induction s rule: utf8_valid.induct)
  case (1 s)
  then show ?case
    using utf8_lossy.simps [of "[]"]
    by (cases "s = []") (simp_all add: utf8_valid.simps [of s] utf8_lossy.simps [of s])
qed

lemma utf8_valid_ascii: "is_ascii s \<Longrightarrow> utf8_valid s"
proof (induction s)
  case Nil
  then show ?case by (simp add: utf8_valid.simps)
next
  case (Cons c s)
  then have "utf8_chunk (c # s) = (True, 1)"
    by (simp add: utf8_chunk_def lead_width_def is_ascii_def)
  with Cons show ?case by (simp add: utf8_valid.simps [of "c # s"] is_ascii_def)
qed

end
