(* ===== verification/Json.thy ===== *)
theory Json
  imports Rust_Str
begin

text \<open>
  The values the daemon reads and writes: one constructor per kind of JSON value its code builds or
  inspects (\<open>serde_json::Value\<close>), and the envelopes of \<open>rpc.rs\<close>.  An object keeps its entries as
  an association list with distinct keys; the theorems only speak of lookups, so the order in which
  the encoder writes them plays no role.  The text form of a value is the encoder's business:
  outgoing lines are kept as the values they encode.
\<close>

datatype json =
    JNull
  | JBool bool
  | JInt int
  | JFloat f64
  | JStr string
  | JArr "json list"
  | JObj "(string \<times> json) list"

section \<open>Inspecting and building\<close>

definition json_get :: "string \<Rightarrow> json \<Rightarrow> json option" where
  "json_get k j = (case j of JObj kvs \<Rightarrow> map_of kvs k | _ \<Rightarrow> None)"

definition json_u64 :: "json \<Rightarrow> nat option" where
  "json_u64 j = (case j of JInt i \<Rightarrow> if 0 \<le> i \<and> i < 2 ^ 64 then Some (nat i) else None | _ \<Rightarrow> None)"

definition json_bool :: "json \<Rightarrow> bool option" where
  "json_bool j = (case j of JBool b \<Rightarrow> Some b | _ \<Rightarrow> None)"

definition json_str :: "json \<Rightarrow> string option" where
  "json_str j = (case j of JStr s \<Rightarrow> Some s | _ \<Rightarrow> None)"

text \<open>\<open>serialize_f64\<close>: an infinity or a NaN, whose exponent bits are all set, has no JSON number.\<close>

definition f64_finite :: "f64 \<Rightarrow> bool" where
  "f64_finite f \<longleftrightarrow> and (drop_bit 52 f) 0x7FF \<noteq> 0x7FF"

definition float_json :: "f64 \<Rightarrow> json" where
  "float_json f = (if f64_finite f then JFloat f else JNull)"

text \<open>\<open>Map::insert\<close>: replaces the value of a key that is there, adds it otherwise.\<close>

fun obj_insert :: "string \<Rightarrow> json \<Rightarrow> (string \<times> json) list \<Rightarrow> (string \<times> json) list" where
  "obj_insert k v [] = [(k, v)]"
| "obj_insert k v ((k', v') # kvs) =
     (if k = k' then (k, v) # kvs else (k', v') # obj_insert k v kvs)"

definition json_set :: "string \<Rightarrow> json \<Rightarrow> json \<Rightarrow> json" where
  "json_set k v j = (case j of JObj kvs \<Rightarrow> JObj (obj_insert k v kvs) | _ \<Rightarrow> j)"

lemma map_of_obj_insert [simp]: "map_of (obj_insert k v kvs) = (map_of kvs)(k \<mapsto> v)"
  by (induction k v kvs rule: obj_insert.induct) auto

lemma keys_obj_insert: "set (map fst (obj_insert k v kvs)) = insert k (set (map fst kvs))"
  by (induction k v kvs rule: obj_insert.induct) auto

lemma distinct_obj_insert: "distinct (map fst kvs) \<Longrightarrow> distinct (map fst (obj_insert k v kvs))"
proof (induction k v kvs rule: obj_insert.induct)
  case (2 k v k' v' kvs)
  then show ?case using keys_obj_insert [of k v kvs] by auto
qed simp

lemma json_get_obj [simp]: "json_get k (JObj kvs) = map_of kvs k"
  by (simp add: json_get_def)

lemma json_get_set [simp]:
  "json_get k' (json_set k v (JObj kvs)) = (if k' = k then Some v else map_of kvs k')"
  by (simp add: json_set_def)

section \<open>Envelopes (rpc.rs)\<close>

definition PROTO :: u32 where
  "PROTO = 1"

record request =
  rq_id :: u64
  rq_method :: string
  rq_params :: json

definition response_ok :: "u64 \<Rightarrow> json \<Rightarrow> json" where
  "response_ok i result =
     JObj [(''id'', JInt (uint i)), (''ok'', JBool True), (''result'', result)]"

definition response_err :: "u64 \<Rightarrow> error \<Rightarrow> json" where
  "response_err i e =
     JObj [(''id'', JInt (uint i)), (''ok'', JBool False), (''error'', JStr e)]"

definition notification :: "string \<Rightarrow> json \<Rightarrow> json" where
  "notification m params = JObj [(''method'', JStr m), (''params'', params)]"

text \<open>
  How a client tells the three kinds of lines apart: a response has an \<open>id\<close>, a notification has
  none.
\<close>

definition is_response_to :: "u64 \<Rightarrow> json \<Rightarrow> bool" where
  "is_response_to i j \<longleftrightarrow> json_get ''id'' j = Some (JInt (uint i))"

lemma response_id_iff [simp]:
  "is_response_to i (response_ok j r) \<longleftrightarrow> i = j"
  "is_response_to i (response_err j e) \<longleftrightarrow> i = j"
  "\<not> is_response_to i (notification m p)"
  by (auto simp: word_uint_eq_iff is_response_to_def response_ok_def response_err_def notification_def)

lemma envelope_distinct [simp]:
  "response_ok i r \<noteq> response_err j e" "response_err j e \<noteq> response_ok i r"
  "response_ok i r \<noteq> notification m p" "notification m p \<noteq> response_ok i r"
  "response_err i e' \<noteq> notification m p" "notification m p \<noteq> response_err i e'"
  by (simp_all add: response_ok_def response_err_def notification_def)

lemma envelope_inj [simp]:
  "response_ok i r = response_ok j s \<longleftrightarrow> i = j \<and> r = s"
  "response_err i e = response_err j f \<longleftrightarrow> i = j \<and> e = f"
  "notification m p = notification n q \<longleftrightarrow> m = n \<and> p = q"
  by (auto simp: word_uint_eq_iff response_ok_def response_err_def notification_def)

end
