(* ===== verification/Vault.thy ===== *)
theory Vault
  imports Json
begin

text \<open>
  \<open>vault.rs\<close>: the one-shot client of the keyring agent.  The environment is a partial map; the
  agent at the end of the socket is an argument: for a path, no connection, or what a session with it
  yields (a write error, the lines it sends, and how the stream ends).  The JSON parser is an
  argument too.  The read loop is a recursion over the lines.
\<close>

type_synonym env = "string \<rightharpoonup> string"

record agent_session =
  se_write_err :: "error option"
  se_lines :: "string list"
  se_end :: "error option"

type_synonym agent = "string \<Rightarrow> json \<Rightarrow> agent_session option"

definition socket_path :: "env \<Rightarrow> string option" where
  "socket_path env =
     (case filter_opt (\<lambda>s. s \<noteq> []) (env ''LVIM_KEYRING_SOCK'') of
        Some s \<Rightarrow> Some s
      | None \<Rightarrow>
          (case filter_opt (\<lambda>s. s \<noteq> []) (env ''XDG_RUNTIME_DIR'') of
             None \<Rightarrow> None
           | Some runtime \<Rightarrow> Some (runtime @ ''/lvim-keyring/agent.sock'')))"

definition vault_request :: "string \<Rightarrow> json" where
  "vault_request name =
     JObj [(''id'', JInt 1), (''method'', JStr ''secret.get''),
           (''params'', JObj [(''name'', JStr name)])]"

definition vault_closed :: error where
  "vault_closed = ''secret: lvim-keyring closed the connection''"

text \<open>The answer to our request: its value, or the agent's error.\<close>

definition vault_answer :: "json \<Rightarrow> string result" where
  "vault_answer msg =
     (if Option.bind (json_get ''ok'' msg) json_bool = Some True
      then ok_or ''secret: lvim-keyring returned no value''
             (Option.bind (Option.bind (json_get ''result'' msg) (json_get ''value'')) json_str)
      else (let err = unwrap_or ''unknown error'' (Option.bind (json_get ''error'' msg) json_str)
            in Inl (if err = ''locked''
                    then ''secret: the keyring is locked '' @ em_dash @ '' :LvimKeyring unlock''
                    else ''secret: lvim-keyring: '' @ err)))"

text \<open>
  \<open>fetch_loop\<close> reads lines until the response; an empty read is the end of the stream, and \<open>read_line\<close>
  fails on a line that is not UTF-8, with this message.
\<close>

definition not_utf8 :: error where
  "not_utf8 = ''stream did not contain valid UTF-8''"

fun fetch_loop :: "(string \<Rightarrow> json option) \<Rightarrow> string list \<Rightarrow> error option \<Rightarrow> string result" where
  "fetch_loop parse [] fin = (case fin of Some e \<Rightarrow> Inl e | None \<Rightarrow> Inl vault_closed)"
| "fetch_loop parse (line # rest) fin =
     (if \<not> utf8_valid line then Inl not_utf8
      else if line = [] then Inl vault_closed
      else (case parse (trim line) of
         None \<Rightarrow> fetch_loop parse rest fin
       | Some msg \<Rightarrow>
           (if Option.bind (json_get ''id'' msg) json_u64 \<noteq> Some 1 then fetch_loop parse rest fin
            else vault_answer msg)))"

definition vault_fetch :: "(string \<Rightarrow> json option) \<Rightarrow> env \<Rightarrow> agent \<Rightarrow> string \<Rightarrow> string result" where
  "vault_fetch parse env agent name =
     bind_result
       (ok_or (''secret: lvim-keyring socket path is unknown (set $XDG_RUNTIME_DIR or $LVIM_KEYRING_SOCK)'')
          (socket_path env))
       (\<lambda>path.
         bind_result
           (ok_or (''secret: lvim-keyring is not running '' @ em_dash
                    @ '' open Neovim'' @ sq @ ''s :LvimKeyring (or install lvim-keyring)'')
              (agent path (vault_request name)))
           (\<lambda>s. case se_write_err s of
                  Some e \<Rightarrow> Inl e
                | None \<Rightarrow> fetch_loop parse (se_lines s) (se_end s)))"

section \<open>What a fetch returns\<close>

text \<open>A line of text the loop skips: not JSON, or a message that is not the response to request 1.\<close>

definition vault_skips :: "(string \<Rightarrow> json option) \<Rightarrow> string \<Rightarrow> bool" where
  "vault_skips parse line \<longleftrightarrow>
     utf8_valid line \<and> line \<noteq> [] \<and>
     (case parse (trim line) of None \<Rightarrow> True
      | Some msg \<Rightarrow> Option.bind (json_get ''id'' msg) json_u64 \<noteq> Some 1)"

lemma fetch_loop_skips:
  "(\<forall>l\<in>set pre. vault_skips parse l) \<Longrightarrow>
   fetch_loop parse (pre @ rest) fin = fetch_loop parse rest fin"
  by (induction pre) (auto simp: vault_skips_def split: option.splits)

lemma fetch_loop_answer:
  assumes "\<forall>l\<in>set pre. vault_skips parse l"
    and "utf8_valid line" "line \<noteq> []" "parse (trim line) = Some msg"
    and "Option.bind (json_get ''id'' msg) json_u64 = Some 1"
  shows "fetch_loop parse (pre @ line # rest) fin = vault_answer msg"
  using assms by (simp add: fetch_loop_skips)

lemma fetch_loop_no_answer:
  "(\<forall>l\<in>set ls. vault_skips parse l) \<Longrightarrow>
   fetch_loop parse ls fin = Inl (unwrap_or vault_closed fin)"
  using fetch_loop_skips [of ls parse "[]" fin] by (auto split: option.splits)

lemma fetch_loop_not_utf8:
  assumes "\<forall>l\<in>set pre. vault_skips parse l" "\<not> utf8_valid bad"
  shows "fetch_loop parse (pre @ bad # rest) fin = Inl not_utf8"
  using assms by (simp add: fetch_loop_skips)

text \<open>
  The interleaving property of the agent protocol: lines that are not the response to request 1 do
  not change what a fetch returns, wherever they stand before it, and nothing after it is read.
\<close>

lemma vault_fetch_session:
  assumes "socket_path env = Some path" "agent path (vault_request name) = Some s"
    and "se_write_err s = None"
  shows "vault_fetch parse env agent name = fetch_loop parse (se_lines s) (se_end s)"
  using assms by (simp add: vault_fetch_def)

end
