(* ===== verification/Secret.thy ===== *)
theory Secret
  imports Vault
begin

text \<open>
  \<open>secret.rs\<close>: credential templates.  Resolution reads the environment, runs a shell command or
  asks the keyring agent; all three are arguments, gathered in one record.  A spawned command yields
  an operating-system error or its exit status with its standard output.
\<close>

datatype secret = Secret string

record world =
  w_env :: env
  w_spawn :: "string \<Rightarrow> error + bool \<times> string"
  w_parse :: "string \<Rightarrow> json option"
  w_agent :: agent

definition secret_is_empty :: "secret \<Rightarrow> bool" where
  "secret_is_empty s = (case s of Secret t \<Rightarrow> t = [])"

text \<open>The redacting \<open>Debug\<close>.\<close>

definition secret_debug :: "secret \<Rightarrow> string" where
  "secret_debug s =
     (case s of Secret t \<Rightarrow> if t = [] then ''Secret(empty)'' else ''Secret(redacted)'')"

definition strip_template :: "string \<Rightarrow> string option" where
  "strip_template s =
     (case strip_prefix ''{{'' (trim s) of
        None \<Rightarrow> None
      | Some r \<Rightarrow> (case strip_suffix ''}}'' r of None \<Rightarrow> None | Some inner \<Rightarrow> Some (trim inner)))"

definition split_verb :: "string \<Rightarrow> (string \<times> string) result" where
  "split_verb inner0 =
     (let inner = trim inner0 in
      bind_result (ok_or (''secret: malformed template '' @ quoted inner) (split_ws inner))
        (\<lambda>(verb, rest0).
           let rest = trim rest0 in
           bind_result
             (ok_or ''secret: template argument must be double-quoted''
                (Option.bind (strip_prefix dq rest) (strip_suffix dq)))
             (\<lambda>arg. Inr (verb, arg))))"

definition run_cmd :: "world \<Rightarrow> string \<Rightarrow> string result" where
  "run_cmd w cmd =
     (case w_spawn w cmd of
        Inl e \<Rightarrow> Inl (''secret: command failed to spawn: '' @ e)
      | Inr (success, out) \<Rightarrow>
          if \<not> success then Inl ''secret: command exited with a non-zero status''
          else Inr (trim (utf8_lossy out)))"

definition secret_resolve :: "world \<Rightarrow> secret \<Rightarrow> string result" where
  "secret_resolve w s =
     (case s of Secret t \<Rightarrow>
        (let raw = trim t in
         if raw = [] then Inr []
         else (case strip_template raw of
            Some inner \<Rightarrow>
              bind_result (split_verb inner)
                (\<lambda>(verb, arg).
                   if verb = ''env''
                   then ok_or (''secret: environment variable '' @ quoted arg @ '' is not set'')
                          (w_env w arg)
                   else if verb = ''cmd'' then run_cmd w arg
                   else if verb = ''vault'' then vault_fetch (w_parse w) (w_env w) (w_agent w) arg
                   else Inl (''secret: unknown template verb '' @ quoted verb))
          | None \<Rightarrow> Inr raw)))"

section \<open>Templates parse as written\<close>

text \<open>The template text the connection form writes: \<open>{{ verb "arg" }}\<close>.\<close>

definition template :: "string \<Rightarrow> string \<Rightarrow> string" where
  "template verb arg = ''{{ '' @ verb @ '' '' @ dq @ arg @ dq @ '' }}''"

lemma plain_bytes [simp]:
  "plain_byte (CHR 0x22)" "plain_byte (CHR ''{'')" "plain_byte (CHR ''}'')"
  by (simp_all add: plain_byte_def is_ascii_ws_def byte_def)

lemma trim_template: "trim (template verb arg) = template verb arg"
proof -
  have "template verb arg = CHR ''{'' # (''{ '' @ verb @ '' '' @ dq @ arg @ dq @ '' }'') @ [CHR ''}'']"
    by (simp add: template_def)
  then show ?thesis using trim_plain by (metis plain_bytes(2,3))
qed

text \<open>What stands between the braces.\<close>

definition template_body :: "string \<Rightarrow> string \<Rightarrow> string" where
  "template_body verb arg = verb @ '' '' @ dq @ arg @ dq"

lemma trim_body:
  assumes "verb \<noteq> []" "\<forall>c\<in>set verb. plain_byte c"
  shows "trim (template_body verb arg) = template_body verb arg"
    and "trim (CHR '' '' # template_body verb arg @ '' '') = template_body verb arg"
proof -
  obtain v vs where v: "verb = v # vs" "plain_byte v" using assms by (cases verb) auto
  have shape: "template_body verb arg = v # (vs @ '' '' @ dq @ arg) @ [CHR 0x22]"
    using v by (simp add: template_body_def dq_def)
  show 1: "trim (template_body verb arg) = template_body verb arg"
    unfolding shape by (rule trim_plain) (simp_all add: v)
  have "trim_start (CHR '' '' # template_body verb arg @ '' '') = template_body verb arg @ '' ''"
    by (simp only: shape trim_start_space append_Cons trim_start_plain v(2))
  then have "trim (CHR '' '' # template_body verb arg @ '' '') = trim_end (template_body verb arg)"
    by (simp add: trim_def trim_end_space)
  also have "\<dots> = template_body verb arg"
    using trim_end_plain [of "CHR 0x22" "v # vs @ '' '' @ dq @ arg"] by (simp add: shape)
  finally show "trim (CHR '' '' # template_body verb arg @ '' '') = template_body verb arg" .
qed

lemma strip_template_template:
  assumes "verb \<noteq> []" "\<forall>c\<in>set verb. plain_byte c"
  shows "strip_template (template verb arg) = Some (template_body verb arg)"
proof -
  let ?inner = "CHR '' '' # template_body verb arg @ '' ''"
  have "strip_prefix ''{{'' (template verb arg) = Some (?inner @ ''}}'')"
    by (simp add: strip_prefix_Some template_def template_body_def)
  moreover have "strip_suffix ''}}'' (?inner @ ''}}'') = Some ?inner"
    by (rule strip_suffix_append)
  ultimately show ?thesis
    using trim_body(2) [OF assms] by (simp add: strip_template_def trim_template)
qed

lemma split_verb_body:
  assumes "verb \<noteq> []" "\<forall>c\<in>set verb. plain_byte c"
  shows "split_verb (template_body verb arg) = Inr (verb, arg)"
proof -
  have "split_ws (template_body verb arg) = Some (verb, dq @ arg @ dq)"
    using split_ws_space [OF assms(2)] by (simp add: template_body_def)
  moreover have "trim (dq @ arg @ dq) = dq @ arg @ dq"
    using trim_plain [of "CHR 0x22" "CHR 0x22" arg] by (simp add: dq_def)
  moreover have "strip_suffix dq (arg @ dq) = Some arg" by simp
  ultimately show ?thesis
    by (simp add: split_verb_def trim_body(1) [OF assms])
qed

lemma resolve_template:
  assumes "verb \<noteq> []" "\<forall>c\<in>set verb. plain_byte c"
  shows "secret_resolve w (Secret (template verb arg)) =
     (if verb = ''env''
      then ok_or (''secret: environment variable '' @ quoted arg @ '' is not set'') (w_env w arg)
      else if verb = ''cmd'' then run_cmd w arg
      else if verb = ''vault'' then vault_fetch (w_parse w) (w_env w) (w_agent w) arg
      else Inl (''secret: unknown template verb '' @ quoted verb))"
proof -
  have "template verb arg \<noteq> []" by (simp add: template_def)
  then show ?thesis
    using assms
    by (simp add: secret_resolve_def trim_template strip_template_template split_verb_body)
qed

end
