(* ===== verification/Spec.thy ===== *)
theory Spec
  imports Secret
begin

text \<open>
  \<open>spec.rs\<close>: the wire data model.  Structs are records, enums are datatypes; the accessors of
  \<open>ConnSpec\<close> and the predicates of \<open>TlsSpec\<close> are functions; the hand-written serialisation of a
  result cell is \<open>value_json\<close>, next to the field-by-field encoders the derive attributes name.
\<close>

section \<open>Driver metadata\<close>

record caps =
  cap_sql :: bool
  cap_schemas :: bool
  cap_cancel :: bool
  cap_tls :: bool
  cap_tunnel :: bool
  cap_multi_db :: bool
  cap_kv :: bool
  cap_indexes :: bool
  cap_ddl :: bool

datatype auth_kind = AK_None | AK_Password | AK_ClientCert | AK_Provider | AK_Kerberos

datatype param_type = PT_String | PT_Int | PT_Bool | PT_File | PT_Enum

record param_spec =
  ps_key :: string
  ps_label :: string
  ps_kind :: param_type
  ps_required :: bool
  ps_secret :: bool
  ps_default :: "string option"

record driver_meta =
  dm_kind :: string
  dm_display :: string
  dm_default_port :: "u16 option"
  dm_params :: "param_spec list"
  dm_auth :: "auth_kind list"
  dm_caps :: caps

section \<open>TLS posture\<close>

datatype tls_mode = Disable | Prefer | Require | VerifyCa | VerifyFull

text \<open>\<open>TlsMode\<close> is declared "from least to most strict": the order of its constructors.\<close>

fun tls_rank :: "tls_mode \<Rightarrow> nat" where
  "tls_rank Disable = 0"
| "tls_rank Prefer = 1"
| "tls_rank Require = 2"
| "tls_rank VerifyCa = 3"
| "tls_rank VerifyFull = 4"

lemma tls_rank_inj: "tls_rank a = tls_rank b \<Longrightarrow> a = b"
  by (cases a; cases b) simp_all

instantiation tls_mode :: linorder
begin

definition less_eq_tls_mode :: "tls_mode \<Rightarrow> tls_mode \<Rightarrow> bool" where
  "less_eq_tls_mode a b \<longleftrightarrow> tls_rank a \<le> tls_rank b"

definition less_tls_mode :: "tls_mode \<Rightarrow> tls_mode \<Rightarrow> bool" where
  "less_tls_mode a b \<longleftrightarrow> tls_rank a < tls_rank b"

instance
  by intro_classes (auto simp: less_eq_tls_mode_def less_tls_mode_def dest: tls_rank_inj)

end

record tls_spec =
  tls_md :: tls_mode
  tls_ca :: "string option"
  tls_client_cert :: "string option"
  tls_client_key :: "string option"

definition tls_default :: tls_spec where
  "tls_default = \<lparr>tls_md = Prefer, tls_ca = None, tls_client_cert = None, tls_client_key = None\<rparr>"

definition tls_required :: "tls_spec \<Rightarrow> bool" where
  "tls_required t = (case tls_md t of Require \<Rightarrow> True | VerifyCa \<Rightarrow> True | VerifyFull \<Rightarrow> True | _ \<Rightarrow> False)"

definition tls_wanted :: "tls_spec \<Rightarrow> bool" where
  "tls_wanted t = (\<not> (case tls_md t of Disable \<Rightarrow> True | _ \<Rightarrow> False))"

definition verifies_cert :: "tls_spec \<Rightarrow> bool" where
  "verifies_cert t = (case tls_md t of VerifyCa \<Rightarrow> True | VerifyFull \<Rightarrow> True | _ \<Rightarrow> False)"

definition verifies_hostname :: "tls_spec \<Rightarrow> bool" where
  "verifies_hostname t = (case tls_md t of VerifyFull \<Rightarrow> True | _ \<Rightarrow> False)"

lemma tls_required_iff: "tls_required t \<longleftrightarrow> Require \<le> tls_md t"
  by (cases "tls_md t") (simp_all add: tls_required_def less_eq_tls_mode_def)

lemma tls_wanted_iff: "tls_wanted t \<longleftrightarrow> Prefer \<le> tls_md t"
  by (cases "tls_md t") (simp_all add: tls_wanted_def less_eq_tls_mode_def)

lemma verifies_cert_iff: "verifies_cert t \<longleftrightarrow> VerifyCa \<le> tls_md t"
  by (cases "tls_md t") (simp_all add: verifies_cert_def less_eq_tls_mode_def)

lemma verifies_hostname_iff: "verifies_hostname t \<longleftrightarrow> VerifyFull \<le> tls_md t"
  by (cases "tls_md t") (simp_all add: verifies_hostname_def less_eq_tls_mode_def)

lemma tls_required_wanted: "tls_required t \<Longrightarrow> tls_wanted t"
  by (cases "tls_md t") (simp_all add: tls_required_def tls_wanted_def)

section \<open>The connection spec\<close>

datatype auth_spec =
    Auth_None
  | Auth_Password (au_user: string) (au_password: secret)
  | Auth_ClientCert (au_cert: string) (au_key: string) (au_key_password: secret) (au_cert_user: string)
  | Auth_Provider (au_provider: string) (au_token: secret) (au_provider_user: string)
  | Auth_Kerberos (au_principal: "string option")

datatype tunnel_auth =
    Tun_Agent
  | Tun_Key string secret
  | Tun_Password secret

record tunnel_spec =
  tun_host :: string
  tun_port :: u16
  tun_user :: string
  tun_auth :: tunnel_auth

definition default_ssh_port :: u16 where
  "default_ssh_port = 22"

record conn_spec =
  cs_driver :: string
  cs_params :: "string \<rightharpoonup> string"
  cs_auth :: auth_spec
  cs_tls :: tls_spec
  cs_tunnel :: "tunnel_spec option"

definition param_opt :: "conn_spec \<Rightarrow> string \<Rightarrow> string option" where
  "param_opt spec key = filter_opt (\<lambda>s. s \<noteq> []) (cs_params spec key)"

definition param :: "conn_spec \<Rightarrow> string \<Rightarrow> string result" where
  "param spec key =
     ok_or (''missing required parameter '' @ quoted key)
       (filter_opt (\<lambda>s. s \<noteq> []) (cs_params spec key))"

text \<open>\<open>str::parse::<u16>\<close>.\<close>

definition parse_u16 :: "string \<Rightarrow> u16 option" where
  "parse_u16 s = map_option of_nat (parse_unsigned 65536 s)"

definition port :: "conn_spec \<Rightarrow> u16 \<Rightarrow> u16" where
  "port spec dflt = unwrap_or dflt (Option.bind (param_opt spec ''port'') parse_u16)"

definition show_port :: "u16 \<Rightarrow> string" where
  "show_port p = show_nat (unat p)"

lemma parse_u16_show [simp]: "parse_u16 (show_port p) = Some p"
proof -
  have "unat p < 2 ^ LENGTH(16)" by (rule unsigned_less)
  then have "unat p < 65536" by simp
  then show ?thesis by (simp add: parse_u16_def show_port_def parse_unsigned_show)
qed

lemma show_port_ne [simp]: "show_port p \<noteq> []"
  by (simp add: show_port_def)

lemma colon_notin_port [simp]: "CHR '':'' \<notin> set (show_port p)"
proof
  assume "CHR '':'' \<in> set (show_port p)"
  then obtain d where d: "d < 10" "CHR '':'' = digit d"
    using set_show_nat by (auto simp: show_port_def)
  from d(2) have "byte (CHR '':'') = byte (digit d)" by simp
  with d(1) show False by (simp add: digit_def) (simp add: byte_def)
qed

text \<open>An address as the net layer hands it out: \<open>host:port\<close>.\<close>

definition addr_of :: "string \<Rightarrow> u16 \<Rightarrow> string" where
  "addr_of host p = host @ '':'' @ show_port p"

lemma rsplit_addr [simp]: "rsplit_once (CHR '':'') (addr_of host p) = Some (host, show_port p)"
  using rsplit_once_char [of "CHR '':''" "show_port p" host] by (simp add: addr_of_def)

section \<open>The result model\<close>

record column =
  col_name :: string
  col_type :: string

record table_column =
  tc_name :: string
  tc_type :: string
  tc_primary :: bool

datatype node = Node (nd_name: string) (nd_kind: string) (nd_schema: "string option") (nd_children: "node list")

record index =
  ix_name :: string
  ix_columns :: "string list"
  ix_unique :: bool
  ix_primary :: bool

record obj_ref =
  ob_name :: string
  ob_schema :: "string option"

datatype val =
    VNull
  | VBool bool
  | VInt int
  | VFloat f64
  | VText string
  | VBytes string nat
  | VJson json
  | VTimestamp string
  | VOid string
  | VExt string string

type_synonym row = "val list"

section \<open>Home directories\<close>

definition expand_tilde :: "env \<Rightarrow> string \<Rightarrow> string" where
  "expand_tilde env path =
     (case strip_prefix ''~'' path of
        Some rest \<Rightarrow>
          (if rest = [] \<or> starts_with ''/'' rest
           then (case env ''HOME'' of Some home \<Rightarrow> home @ rest | None \<Rightarrow> path)
           else path)
      | None \<Rightarrow> path)"

section \<open>Serialisation\<close>

text \<open>
  A cell on the wire.  A 64-bit integer goes out as a number only below 2^53, the exact range of the
  client's doubles, and as tagged decimal text otherwise.
\<close>

definition value_json :: "val \<Rightarrow> json" where
  "value_json v =
     (case v of
        VNull \<Rightarrow> JNull
      | VBool b \<Rightarrow> JBool b
      | VInt i \<Rightarrow> (if \<bar>i\<bar> < 2 ^ 53 then JInt i else JObj [(''__int'', JStr (show_int i))])
      | VFloat f \<Rightarrow> float_json f
      | VText t \<Rightarrow> JStr t
      | VTimestamp t \<Rightarrow> JStr t
      | VJson j \<Rightarrow> j
      | VBytes b64 len \<Rightarrow> JObj [(''__bytes'', JStr b64), (''len'', JInt (int len))]
      | VOid hex \<Rightarrow> JObj [(''__oid'', JStr hex)]
      | VExt text key \<Rightarrow> JObj [(''__ext'', JStr key), (''v'', JStr text)])"

definition opt_json :: "('a \<Rightarrow> json) \<Rightarrow> 'a option \<Rightarrow> json" where
  "opt_json f x = (case x of None \<Rightarrow> JNull | Some a \<Rightarrow> f a)"

definition column_json :: "column \<Rightarrow> json" where
  "column_json c = JObj [(''name'', JStr (col_name c)), (''type'', JStr (col_type c))]"

definition table_column_json :: "table_column \<Rightarrow> json" where
  "table_column_json c =
     JObj [(''name'', JStr (tc_name c)), (''type'', JStr (tc_type c)),
           (''primary'', JBool (tc_primary c))]"

fun node_json :: "node \<Rightarrow> json" where
  "node_json (Node name kind schema children) =
     JObj ([(''name'', JStr name), (''kind'', JStr kind), (''schema'', opt_json JStr schema)]
           @ (if children = [] then [] else [(''children'', JArr (map node_json children))]))"

definition index_json :: "index \<Rightarrow> json" where
  "index_json i =
     JObj [(''name'', JStr (ix_name i)), (''columns'', JArr (map JStr (ix_columns i))),
           (''unique'', JBool (ix_unique i)), (''primary'', JBool (ix_primary i))]"

definition caps_json :: "caps \<Rightarrow> json" where
  "caps_json c =
     JObj [(''sql'', JBool (cap_sql c)), (''schemas'', JBool (cap_schemas c)),
           (''cancel'', JBool (cap_cancel c)), (''tls'', JBool (cap_tls c)),
           (''tunnel'', JBool (cap_tunnel c)), (''multi_db'', JBool (cap_multi_db c)),
           (''kv'', JBool (cap_kv c)), (''indexes'', JBool (cap_indexes c)),
           (''ddl'', JBool (cap_ddl c))]"

definition auth_kind_json :: "auth_kind \<Rightarrow> json" where
  "auth_kind_json a =
     JStr (case a of AK_None \<Rightarrow> ''none'' | AK_Password \<Rightarrow> ''password''
           | AK_ClientCert \<Rightarrow> ''client_cert'' | AK_Provider \<Rightarrow> ''provider'' | AK_Kerberos \<Rightarrow> ''kerberos'')"

definition param_type_json :: "param_type \<Rightarrow> json" where
  "param_type_json p =
     JStr (case p of PT_String \<Rightarrow> ''string'' | PT_Int \<Rightarrow> ''int'' | PT_Bool \<Rightarrow> ''bool''
           | PT_File \<Rightarrow> ''file'' | PT_Enum \<Rightarrow> ''enum'')"

definition param_spec_json :: "param_spec \<Rightarrow> json" where
  "param_spec_json p =
     JObj [(''key'', JStr (ps_key p)), (''label'', JStr (ps_label p)),
           (''type'', param_type_json (ps_kind p)), (''required'', JBool (ps_required p)),
           (''secret'', JBool (ps_secret p)), (''default'', opt_json JStr (ps_default p))]"

definition driver_meta_json :: "driver_meta \<Rightarrow> json" where
  "driver_meta_json m =
     JObj [(''kind'', JStr (dm_kind m)), (''display'', JStr (dm_display m)),
           (''default_port'', opt_json (\<lambda>p. JInt (uint p)) (dm_default_port m)),
           (''params'', JArr (map param_spec_json (dm_params m))),
           (''auth'', JArr (map auth_kind_json (dm_auth m))),
           (''caps'', caps_json (dm_caps m))]"

section \<open>What a client can read back\<close>

text \<open>
  The client's reading of a cell: a number is exact only below 2^53, tagged text is parsed.  This is
  the specification \<open>value_json\<close> is checked against.
\<close>

definition parse_int_text :: "string \<Rightarrow> int option" where
  "parse_int_text s =
     (case s of
        [] \<Rightarrow> None
      | c # cs \<Rightarrow>
          if c = CHR ''-'' then map_option (\<lambda>n. - int n) (parse_unsigned (2 ^ 63 + 1) cs)
          else map_option int (parse_unsigned (2 ^ 63) (c # cs)))"

definition client_int :: "json \<Rightarrow> int option" where
  "client_int j =
     (case j of
        JInt i \<Rightarrow> if \<bar>i\<bar> < 2 ^ 53 then Some i else None
      | JObj _ \<Rightarrow>
          (case Option.bind (json_get ''__int'' j) json_str of
             None \<Rightarrow> None | Some s \<Rightarrow> parse_int_text s)
      | _ \<Rightarrow> None)"

lemma parse_int_text_show:
  assumes "- (2 ^ 63) \<le> i" "i < 2 ^ 63"
  shows "parse_int_text (show_int i) = Some i"
proof (cases "i < 0")
  case True
  have "nat (- i) < 2 ^ 63 + 1" using assms(1) by simp
  then show ?thesis
    using True by (simp add: parse_int_text_def show_int_def parse_unsigned_show)
next
  case False
  obtain c cs where s: "show_nat (nat i) = c # cs" by (cases "show_nat (nat i)") auto
  then obtain d where "d < 10" "c = digit d" using set_show_nat [of c "nat i"] by auto
  then have "c \<noteq> CHR ''-''" by simp
  moreover have "parse_unsigned (2 ^ 63) (c # cs) = Some (nat i)"
    using assms(2) False parse_unsigned_show [of "nat i" "2 ^ 63"] s by simp
  ultimately show ?thesis
    using False s by (simp add: parse_int_text_def show_int_def)
qed

lemma client_int_value_json:
  "- (2 ^ 63) \<le> i \<Longrightarrow> i < 2 ^ 63 \<Longrightarrow> client_int (value_json (VInt i)) = Some i"
  by (simp add: client_int_def value_json_def parse_int_text_show json_str_def)

end
