(* ===== verification/Net.thy ===== *)
theory Net
  imports Spec
begin

text \<open>
  \<open>net.rs\<close>: where a driver dials.  The SSH library, the local listener and the agent are the record
  \<open>ssh\<close>; a public-key identity of the agent and a loaded private key are opaque.  An established
  tunnel is the guard the code keeps: its local address and the endpoint its forwarder was started
  for.
\<close>

record ('key, 'ident) ssh =
  sh_connect :: "string \<Rightarrow> u16 \<Rightarrow> unit result"
  sh_password :: "string \<Rightarrow> string \<Rightarrow> bool result"
  sh_load_key :: "string \<Rightarrow> string option \<Rightarrow> 'key result"
  sh_publickey :: "string \<Rightarrow> 'key \<Rightarrow> bool result"
  sh_agent :: "unit result"
  sh_identities :: "'ident list result"
  sh_agent_auth :: "string \<Rightarrow> 'ident \<Rightarrow> bool result"
  sh_bind :: "unit result"
  sh_local_addr :: "string result"

record tunnel_guard =
  tg_local_addr :: string
  tg_db_host :: string
  tg_db_port :: u16

text \<open>The agent's identities in turn, until one is accepted; a failed attempt is skipped.\<close>

fun agent_loop :: "('key, 'ident) ssh \<Rightarrow> string \<Rightarrow> 'ident list \<Rightarrow> bool" where
  "agent_loop sh user [] = False"
| "agent_loop sh user (i # is) =
     (case sh_agent_auth sh user i of
        Inr True \<Rightarrow> True
      | _ \<Rightarrow> agent_loop sh user is)"

definition tunnel_authenticate ::
  "('key, 'ident) ssh \<Rightarrow> (secret \<Rightarrow> string result) \<Rightarrow> tunnel_spec \<Rightarrow> bool result" where
  "tunnel_authenticate sh resolve spec =
     (case tun_auth spec of
        Tun_Password password \<Rightarrow>
          bind_result (resolve password) (\<lambda>pw.
            map_err (\<lambda>e. ''ssh password auth failed: '' @ e) (sh_password sh (tun_user spec) pw))
      | Tun_Key path passphrase \<Rightarrow>
          bind_result (resolve passphrase) (\<lambda>pass.
            bind_result
              (map_err (\<lambda>e. ''cannot load ssh key '' @ quoted path @ '': '' @ e)
                (sh_load_key sh path (if pass = [] then None else Some pass)))
              (\<lambda>key. map_err (\<lambda>e. ''ssh key auth failed: '' @ e)
                       (sh_publickey sh (tun_user spec) key)))
      | Tun_Agent \<Rightarrow>
          bind_result (map_err (\<lambda>e. ''ssh agent unavailable: '' @ e) (sh_agent sh)) (\<lambda>_.
            bind_result (map_err (\<lambda>e. ''ssh agent has no identities: '' @ e) (sh_identities sh))
              (\<lambda>ids. Inr (agent_loop sh (tun_user spec) ids))))"

definition tunnel_open ::
  "('key, 'ident) ssh \<Rightarrow> (secret \<Rightarrow> string result) \<Rightarrow> tunnel_spec \<Rightarrow> string \<Rightarrow> u16 \<Rightarrow> tunnel_guard result" where
  "tunnel_open sh resolve spec db_host db_port =
     bind_result
       (map_err (\<lambda>e. ''ssh connect to '' @ addr_of (tun_host spec) (tun_port spec) @ '' failed: '' @ e)
         (sh_connect sh (tun_host spec) (tun_port spec)))
       (\<lambda>_. bind_result (tunnel_authenticate sh resolve spec) (\<lambda>authed.
          if \<not> authed then Inl ''ssh authentication was rejected''
          else bind_result (map_err (\<lambda>e. ''cannot bind local forward port: '' @ e) (sh_bind sh)) (\<lambda>_.
            bind_result (sh_local_addr sh) (\<lambda>addr.
              Inr \<lparr>tg_local_addr = addr, tg_db_host = db_host, tg_db_port = db_port\<rparr>))))"

record net_ctx =
  nc_tunnel :: "tunnel_spec option"
  nc_established :: "tunnel_guard option"

definition net_new :: "tunnel_spec option \<Rightarrow> net_ctx" where
  "net_new t = \<lparr>nc_tunnel = t, nc_established = None\<rparr>"

definition tunneled :: "net_ctx \<Rightarrow> bool" where
  "tunneled net \<longleftrightarrow> nc_tunnel net \<noteq> None"

definition net_resolve ::
  "('key, 'ident) ssh \<Rightarrow> (secret \<Rightarrow> string result) \<Rightarrow> string \<Rightarrow> u16 \<Rightarrow> (net_ctx, string) io" where
  "net_resolve sh resolve host p = (\<lambda>net.
     case nc_tunnel net of
       None \<Rightarrow> (Inr (addr_of host p), net)
     | Some spec \<Rightarrow>
         (case nc_established net of
            Some g \<Rightarrow> (Inr (tg_local_addr g), net)
          | None \<Rightarrow>
              (case tunnel_open sh resolve spec host p of
                 Inl e \<Rightarrow> (Inl e, net)
               | Inr g \<Rightarrow> (Inr (tg_local_addr g), net\<lparr>nc_established := Some g\<rparr>))))"

section \<open>A tunnel is never bypassed\<close>

text \<open>An open guard stands for an authenticated session.\<close>

lemma tunnel_open_authenticated:
  "tunnel_open sh resolve spec h p = Inr g \<Longrightarrow>
   tunnel_authenticate sh resolve spec = Inr True \<and> sh_connect sh (tun_host spec) (tun_port spec) = Inr ()
   \<and> sh_local_addr sh = Inr (tg_local_addr g) \<and> tg_db_host g = h \<and> tg_db_port g = p"
  by (auto simp: tunnel_open_def result_iff split: if_splits)

lemma tunnel_open_self:
  "tunnel_open sh resolve spec h p = Inr g \<Longrightarrow>
   tunnel_open sh resolve spec (tg_db_host g) (tg_db_port g) = Inr g"
  using tunnel_open_authenticated by fastforce

lemma agent_loop_iff: "agent_loop sh user ids \<longleftrightarrow> (\<exists>i\<in>set ids. sh_agent_auth sh user i = Inr True)"
  by (induction ids) (auto split: sum.splits bool.splits)

text \<open>The invariant of a context: whatever it established came from its own tunnel.\<close>

definition net_inv :: "('key, 'ident) ssh \<Rightarrow> (secret \<Rightarrow> string result) \<Rightarrow> net_ctx \<Rightarrow> bool" where
  "net_inv sh resolve net \<longleftrightarrow>
     (case nc_established net of
        None \<Rightarrow> True
      | Some g \<Rightarrow>
          (case nc_tunnel net of
             None \<Rightarrow> False
           | Some spec \<Rightarrow> tunnel_open sh resolve spec (tg_db_host g) (tg_db_port g) = Inr g))"

lemma net_inv_new [simp]: "net_inv sh resolve (net_new t)"
  by (simp add: net_inv_def net_new_def)

lemma net_resolve_inv:
  "net_inv sh resolve net \<Longrightarrow> net_resolve sh resolve h p net = (r, net') \<Longrightarrow> net_inv sh resolve net'"
  by (auto simp: net_inv_def net_resolve_def intro: tunnel_open_self split: option.splits sum.splits)

lemma net_resolve_tunnel:
  "net_resolve sh resolve h p net = (r, net') \<Longrightarrow> nc_tunnel net' = nc_tunnel net"
  by (auto simp: net_resolve_def split: option.splits sum.splits)

lemma net_resolve_plain:
  "nc_tunnel net = None \<Longrightarrow> net_resolve sh resolve h p net = (Inr (addr_of h p), net)"
  by (simp add: net_resolve_def)

lemma net_resolve_through:
  assumes "net_inv sh resolve net" "nc_tunnel net = Some spec"
    and "net_resolve sh resolve h p net = (Inr addr, net')"
  shows "tunnel_authenticate sh resolve spec = Inr True
     \<and> (\<exists>g. nc_established net' = Some g \<and> addr = tg_local_addr g)"
  using assms
  by (auto simp: net_resolve_def net_inv_def dest: tunnel_open_authenticated split: option.splits sum.splits)

lemma net_resolve_again:
  "net_resolve sh resolve h p net = (Inr addr, net') \<Longrightarrow>
   nc_tunnel net \<noteq> None \<Longrightarrow> net_resolve sh resolve h' p' net' = (Inr addr, net')"
  by (auto simp: net_resolve_def split: option.splits sum.splits)

end
