(* ===== verification/Registry.thy ===== *)
theory Registry
  imports Net "HOL-Library.RBT" "HOL-Library.List_Lexorder" "HOL-Library.Char_ord"
begin

text \<open>
  \<open>registry.rs\<close> and the traits of \<open>driver.rs\<close>.  A trait object is a reference: the methods of the
  object behind it are a record of functions on the reference, with the object's state in the outside
  world \<open>'w\<close>.  The registry is the ordered map the code keeps, a red-black tree from the kind to the
  driver, so that the metadata list comes out sorted by kind.
\<close>

section \<open>The driver architecture (driver.rs)\<close>

text \<open>\<open>ResultStream\<close>: a stream is a value the call owns; its \<open>next_page\<close> may panic.\<close>

record 's stream_vt =
  sv_columns :: "'s \<Rightarrow> column list"
  sv_affected :: "'s \<Rightarrow> u64 option"
  sv_total :: "'s \<Rightarrow> nat option"
  sv_next_page :: "nat \<Rightarrow> 's \<Rightarrow> (row list option result \<times> 's) option"

record ('c, 's, 'h, 'w) conn_vt =
  cv_databases :: "'c \<Rightarrow> ('w, string list) io"
  cv_switch_database :: "'c \<Rightarrow> string \<Rightarrow> ('w, unit) io"
  cv_structure :: "'c \<Rightarrow> ('w, node list) io"
  cv_columns :: "'c \<Rightarrow> obj_ref \<Rightarrow> ('w, table_column list) io"
  cv_indexes :: "'c \<Rightarrow> obj_ref \<Rightarrow> ('w, index list) io"
  cv_ddl :: "'c \<Rightarrow> obj_ref \<Rightarrow> ('w, string option) io"
  cv_execute :: "'c \<Rightarrow> string \<Rightarrow> ('w, 's) io"
  cv_cancel_token :: "'c \<Rightarrow> 'w \<Rightarrow> 'h option"
  cv_encrypted :: "'c \<Rightarrow> 'w \<Rightarrow> bool"
  cv_close :: "'c \<Rightarrow> ('w, unit) io"

text \<open>The default methods of the traits.\<close>

definition default_indexes :: "'c \<Rightarrow> obj_ref \<Rightarrow> ('w, index list) io" where
  "default_indexes c ob = io_ok []"

definition default_ddl :: "'c \<Rightarrow> obj_ref \<Rightarrow> ('w, string option) io" where
  "default_ddl c ob = io_ok None"

definition default_cancel_token :: "'c \<Rightarrow> 'w \<Rightarrow> 'h option" where
  "default_cancel_token c w = None"

definition default_encrypted :: "'c \<Rightarrow> 'w \<Rightarrow> bool" where
  "default_encrypted c w = False"

text \<open>
  \<open>Driver\<close>: the metadata and the constructor of a connection, which may stand up the tunnel of the
  network context it shares with its caller.
\<close>

record ('c, 'w) driver =
  dr_meta :: driver_meta
  dr_connect :: "conn_spec \<Rightarrow> (net_ctx \<times> 'w, 'c) io"

section \<open>The registry (registry.rs)\<close>

type_synonym ('c, 'w) registry = "(string, ('c, 'w) driver) rbt"

definition registry_add :: "('c, 'w) driver \<Rightarrow> ('c, 'w) registry \<Rightarrow> ('c, 'w) registry" where
  "registry_add d reg = RBT.insert (dm_kind (dr_meta d)) d reg"

definition registry_of :: "('c, 'w) driver list \<Rightarrow> ('c, 'w) registry" where
  "registry_of ds = fold registry_add ds RBT.empty"

definition registry_metas :: "('c, 'w) registry \<Rightarrow> driver_meta list" where
  "registry_metas reg = map (\<lambda>(k, d). dr_meta d) (RBT.entries reg)"

definition registry_get :: "('c, 'w) registry \<Rightarrow> string \<Rightarrow> ('c, 'w) driver result" where
  "registry_get reg kind =
     ok_or (''unknown or not-compiled driver kind '' @ quoted kind) (RBT.lookup reg kind)"

section \<open>Every driver is filed under its own kind\<close>

definition registry_inv :: "('c, 'w) registry \<Rightarrow> bool" where
  "registry_inv reg \<longleftrightarrow> (\<forall>(k, d) \<in> set (RBT.entries reg). dm_kind (dr_meta d) = k)"

lemma registry_inv_lookup:
  "registry_inv reg \<longleftrightarrow> (\<forall>k d. RBT.lookup reg k = Some d \<longrightarrow> dm_kind (dr_meta d) = k)"
  by (force simp: registry_inv_def RBT.lookup_in_tree)

lemma registry_inv_empty [simp]: "registry_inv RBT.empty"
  by (simp add: registry_inv_lookup)

lemma registry_inv_add [simp]: "registry_inv reg \<Longrightarrow> registry_inv (registry_add d reg)"
  by (simp add: registry_inv_lookup registry_add_def)

lemma registry_inv_fold: "registry_inv reg \<Longrightarrow> registry_inv (fold registry_add ds reg)"
  by (induction ds arbitrary: reg) simp_all

lemma registry_inv_of [simp]: "registry_inv (registry_of ds)"
  by (simp add: registry_of_def registry_inv_fold)

lemma entries_kinds:
  "(\<forall>(k, d)\<in>set es. dm_kind (dr_meta d) = k) \<Longrightarrow>
   map dm_kind (map (\<lambda>(k, d). dr_meta d) es) = map fst es"
  by (induction es) auto

lemma metas_kinds:
  "registry_inv reg \<Longrightarrow> map dm_kind (registry_metas reg) = map fst (RBT.entries reg)"
  unfolding registry_metas_def registry_inv_def by (rule entries_kinds)

lemma metas_sorted:
  "registry_inv reg \<Longrightarrow>
   sorted (map dm_kind (registry_metas reg)) \<and> distinct (map dm_kind (registry_metas reg))"
  by (simp add: metas_kinds RBT.sorted_entries RBT.distinct_entries)

lemma metas_get:
  assumes "registry_inv reg"
  shows "m \<in> set (registry_metas reg) \<longleftrightarrow>
     (\<exists>d. registry_get reg (dm_kind m) = Inr d \<and> dr_meta d = m)"
proof -
  have "m \<in> set (registry_metas reg) \<longleftrightarrow> (\<exists>k d. RBT.lookup reg k = Some d \<and> dr_meta d = m)"
    by (force simp: registry_metas_def RBT.lookup_in_tree)
  then show ?thesis
    using assms by (auto simp: registry_get_def registry_inv_lookup result_iff)
qed

text \<open>What the registry holds after registering a list of drivers: the last one of each kind.\<close>

lemma lookup_fold_add:
  "RBT.lookup (fold registry_add ds reg) k =
     (case filter (\<lambda>d. dm_kind (dr_meta d) = k) (rev ds) of
        [] \<Rightarrow> RBT.lookup reg k | d # _ \<Rightarrow> Some d)"
  by (induction ds arbitrary: reg)
    (auto simp: registry_add_def Cons_eq_append_conv filter_empty_conv split: list.splits)

lemma filter_distinct_key:
  "distinct (map f ds) \<Longrightarrow> d \<in> set ds \<Longrightarrow> filter (\<lambda>x. f x = f d) ds = [d]"
proof (induction ds)
  case (Cons a ds)
  have "f d \<in> f ` set ds" if "d \<in> set ds" for d using that by (rule imageI)
  with Cons show ?case by (cases "f a = f d") (auto simp: filter_empty_conv dest: sym)
qed simp

lemma registry_get_of:
  assumes "distinct (map (\<lambda>d. dm_kind (dr_meta d)) ds)" "d \<in> set ds"
  shows "registry_get (registry_of ds) (dm_kind (dr_meta d)) = Inr d"
proof -
  have "filter (\<lambda>x. dm_kind (dr_meta x) = dm_kind (dr_meta d)) (rev ds) = [d]"
    using filter_distinct_key [OF assms] by (simp flip: rev_filter)
  then show ?thesis by (simp add: registry_get_def registry_of_def lookup_fold_add)
qed

end
