(* ===== verification/Result_Stream.thy ===== *)
theory Result_Stream
  imports Spec
begin

text \<open>
  The interface of a paged result (\<open>ResultStream\<close> of \<open>driver.rs\<close>) and the server's pager over it:
  one call's buffer, the loop that fills it, and the page that is cut out of it.  The pager takes
  the stream's \<open>next_page\<close> as an argument, as the trait object does; the locale \<open>result_stream\<close> states
  what a stream promises, and what the pager then returns is proved once, for every stream.

  A pull may panic (\<open>None\<close>: a slice index out of bounds), and it may loop for ever when a stream keeps
  handing out empty pages; the loop is a partial function, and its termination is a theorem.
\<close>

section \<open>The call and its pager (server.rs)\<close>

datatype call_status = Running | Done | Failed | Cancelled

definition status_str :: "call_status \<Rightarrow> string" where
  "status_str s =
     (case s of Running \<Rightarrow> ''running'' | Done \<Rightarrow> ''done'' | Failed \<Rightarrow> ''failed''
      | Cancelled \<Rightarrow> ''cancelled'')"

record ('s, 'h) call =
  ca_status :: call_status
  ca_columns :: "column list"
  ca_stream :: "'s option"
  ca_buffer :: "row list"
  ca_exhausted :: bool
  ca_affected :: "u64 option"
  ca_error :: "error option"
  ca_cancel :: "'h option"

definition call_new :: "('s, 'h) call" where
  "call_new = \<lparr>ca_status = Running, ca_columns = [], ca_stream = None, ca_buffer = [],
     ca_exhausted = False, ca_affected = None, ca_error = None, ca_cancel = None\<rparr>"

type_synonym 's puller = "nat \<Rightarrow> 's \<Rightarrow> (row list option result \<times> 's) option"

datatype pull_end = Pulled | Pull_err error | Pull_panic

partial_function (option) pull ::
  "'s puller \<Rightarrow> nat \<Rightarrow> ('s, 'h) call \<Rightarrow> (pull_end \<times> ('s, 'h) call) option" where
  "pull next need c =
     (if ca_exhausted c \<or> need \<le> length (ca_buffer c) then Some (Pulled, c)
      else (case ca_stream c of
         None \<Rightarrow> Some (Pulled, c)
       | Some s \<Rightarrow>
           (case next (need - length (ca_buffer c)) s of
              None \<Rightarrow> Some (Pull_panic, c)
            | Some (r, s') \<Rightarrow>
                (case r of
                   Inl e \<Rightarrow> Some (Pull_err e, c\<lparr>ca_stream := Some s'\<rparr>)
                 | Inr None \<Rightarrow> pull next need (c\<lparr>ca_stream := Some s', ca_exhausted := True\<rparr>)
                 | Inr (Some rows) \<Rightarrow>
                     pull next need (c\<lparr>ca_stream := Some s', ca_buffer := ca_buffer c @ rows\<rparr>)))))"

declare pull.simps [code]

text \<open>What the handler answers: a line, a panic of the task (no line at all), or no end.\<close>

datatype 'a fate = Returned 'a | Panicked | Diverged

record page_view =
  pv_rows :: "row list"
  pv_from :: nat
  pv_has_more :: bool
  pv_total :: "nat option"

text \<open>The arithmetic after the loop: the bounds are clamped to the buffer, then the slice is taken.\<close>

definition page_total :: "('s \<Rightarrow> nat option) \<Rightarrow> ('s, 'h) call \<Rightarrow> nat option" where
  "page_total tot c =
     (case Option.bind (ca_stream c) tot of
        Some t \<Rightarrow> Some t
      | None \<Rightarrow> if ca_exhausted c then Some (length (ca_buffer c)) else None)"

definition page_cut ::
  "('s \<Rightarrow> nat option) \<Rightarrow> nat \<Rightarrow> nat \<Rightarrow> ('s, 'h) call \<Rightarrow> page_view option" where
  "page_cut tot from need c =
     (let start = min from (length (ca_buffer c));
          stop = min need (length (ca_buffer c))
      in map_option
           (\<lambda>rows. \<lparr>pv_rows = rows, pv_from = start,
                    pv_has_more = (\<not> ca_exhausted c \<or> stop < length (ca_buffer c)),
                    pv_total = page_total tot c\<rparr>)
           (sub_slice (ca_buffer c) start stop))"

definition page_json :: "('s, 'h) call \<Rightarrow> page_view \<Rightarrow> json" where
  "page_json c v =
     JObj [(''ready'', JBool True), (''columns'', JArr (map column_json (ca_columns c))),
           (''rows'', JArr (map (\<lambda>r. JArr (map value_json r)) (pv_rows v))),
           (''from'', JInt (int (pv_from v))), (''has_more'', JBool (pv_has_more v)),
           (''total'', opt_json (\<lambda>t. JInt (int t)) (pv_total v)),
           (''affected'', opt_json (\<lambda>a. JInt (uint a)) (ca_affected c))]"

text \<open>\<open>query.page\<close> on one call; the second component is the call it leaves.\<close>

definition call_page ::
  "'s puller \<Rightarrow> ('s \<Rightarrow> nat option) \<Rightarrow> nat \<Rightarrow> nat \<Rightarrow> ('s, 'h) call
     \<Rightarrow> json result fate \<times> ('s, 'h) call" where
  "call_page next tot from n c =
     (case ca_status c of
        Running \<Rightarrow> (Returned (Inr (JObj [(''ready'', JBool False)])), c)
      | Failed \<Rightarrow> (Returned (Inl (unwrap_or ''query failed'' (ca_error c))), c)
      | Cancelled \<Rightarrow> (Returned (Inl ''query was cancelled''), c)
      | Done \<Rightarrow>
          (let need = usize_add from n in
           case pull next need c of
             None \<Rightarrow> (Diverged, c)
           | Some (Pull_panic, c') \<Rightarrow> (Panicked, c')
           | Some (Pull_err e, c') \<Rightarrow> (Returned (Inl e), c')
           | Some (Pulled, c') \<Rightarrow>
               (case page_cut tot from need c' of
                  None \<Rightarrow> (Panicked, c')
                | Some v \<Rightarrow> (Returned (Inr (page_json c' v)), c'))))"

text \<open>\<open>query.cell\<close>.\<close>

definition call_cell :: "nat \<Rightarrow> nat \<Rightarrow> ('s, 'h) call \<Rightarrow> json result" where
  "call_cell row col c =
     (case Option.bind (nth_opt (ca_buffer c) row) (\<lambda>r. nth_opt r col) of
        Some v \<Rightarrow> Inr (JObj [(''value'', value_json v)])
      | None \<Rightarrow> Inl ''cell out of range'')"

section \<open>The contract of a stream\<close>

text \<open>
  \<open>pending\<close> is what a stream still has to hand out and \<open>at_pos\<close> how much it may already have handed out
  (a stream that does not count is at any position).  A pull
  of \<open>n > 0\<close> rows takes the next \<open>n\<close> of them, or says that nothing is left.
\<close>

text \<open>What the loop leaves alone.\<close>

definition call_frame :: "('s, 'h) call \<Rightarrow> ('s, 'h) call \<Rightarrow> bool" where
  "call_frame c c' \<longleftrightarrow>
     ca_status c' = ca_status c \<and> ca_columns c' = ca_columns c \<and> ca_affected c' = ca_affected c
     \<and> ca_error c' = ca_error c \<and> ca_cancel c' = ca_cancel c"

lemma call_frame_refl [simp]: "call_frame c c"
  by (simp add: call_frame_def)

lemma pull_frame:
  "pull next need c = Some rc \<Longrightarrow>
   call_frame c (snd rc) \<and> (ca_stream (snd rc) = None \<longleftrightarrow> ca_stream c = None)"
proof (erule pull.raw_induct [rotated], goal_cases)
  case (1 f nx need c rc)
  have ih: "call_frame d (snd rc) \<and> (ca_stream (snd rc) = None \<longleftrightarrow> ca_stream d = None)"
    if "f nx need d = Some rc" for d
    using 1(1) that by blast
  from 1(2) show ?case
    by (auto simp: call_frame_def split: if_splits option.splits sum.splits prod.splits dest!: ih)
qed

lemma call_page_frame:
  "call_page next tot from n c = (r, c') \<Longrightarrow>
   call_frame c c' \<and> (ca_stream c' = None \<longleftrightarrow> ca_stream c = None)"
  by (auto simp: call_page_def Let_def dest: pull_frame
      split: call_status.splits option.splits prod.splits pull_end.splits)

locale result_stream =
  fixes next_page :: "'s puller"
    and tot :: "'s \<Rightarrow> nat option"
    and pending :: "'s \<Rightarrow> row list"
    and at_pos :: "'s \<Rightarrow> nat \<Rightarrow> bool"
    and invar :: "'s \<Rightarrow> bool"
  assumes next_page_end:
    "\<And>s n k. invar s \<Longrightarrow> at_pos s k \<Longrightarrow> pending s = [] \<Longrightarrow> 0 < n \<Longrightarrow>
       \<exists>s'. next_page n s = Some (Inr None, s') \<and> invar s' \<and> pending s' = []
          \<and> at_pos s' k \<and> tot s' = tot s"
    and next_page_rows:
    "\<And>s n k. invar s \<Longrightarrow> at_pos s k \<Longrightarrow> pending s \<noteq> [] \<Longrightarrow> 0 < n \<Longrightarrow> k + n < usize_mod \<Longrightarrow>
       \<exists>s'. next_page n s = Some (Inr (Some (take n (pending s))), s') \<and> invar s'
          \<and> pending s' = drop n (pending s)
          \<and> at_pos s' (k + length (take n (pending s))) \<and> tot s' = tot s"
begin

text \<open>A finished call whose buffer holds exactly what its stream has delivered.\<close>

definition call_ok :: "('s, 'h) call \<Rightarrow> bool" where
  "call_ok c \<longleftrightarrow>
     (\<exists>s. ca_stream c = Some s \<and> invar s \<and> at_pos s (length (ca_buffer c))
        \<and> (ca_exhausted c \<longrightarrow> pending s = []))"

definition all_rows :: "('s, 'h) call \<Rightarrow> row list" where
  "all_rows c = ca_buffer c @ (case ca_stream c of None \<Rightarrow> [] | Some s \<Rightarrow> pending s)"

text \<open>
  The relation between a call before and after the loop: no row is lost, the first \<open>need\<close> rows are
  in the buffer, the buffer is short only when the stream is exhausted, the rest is untouched.
\<close>

definition pulled :: "nat \<Rightarrow> ('s, 'h) call \<Rightarrow> ('s, 'h) call \<Rightarrow> bool" where
  "pulled need c c' \<longleftrightarrow>
     call_ok c' \<and> all_rows c' = all_rows c \<and> call_frame c c'
     \<and> length (ca_buffer c') = max (length (ca_buffer c)) (min need (length (all_rows c)))
     \<and> (length (ca_buffer c') < need \<longrightarrow> ca_exhausted c')
     \<and> Option.bind (ca_stream c') tot = Option.bind (ca_stream c) tot"

lemma pulled_refl:
  assumes "call_ok c" "ca_exhausted c \<or> need \<le> length (ca_buffer c)"
  shows "pulled need c c"
  using assms by (auto simp: pulled_def call_ok_def all_rows_def call_frame_def)

lemma pulled_step:
  assumes "pulled need d c'" "call_frame c d" "all_rows d = all_rows c"
    and "Option.bind (ca_stream d) tot = Option.bind (ca_stream c) tot"
    and "max (length (ca_buffer d)) (min need (length (all_rows c)))
       = max (length (ca_buffer c)) (min need (length (all_rows c)))"
  shows "pulled need c c'"
  using assms by (simp add: pulled_def call_frame_def)

text \<open>The loop ends, without an error or a panic.\<close>

lemma pull_correct:
  fixes c :: "('s, 'h) call"
  assumes "call_ok c" and "need < usize_mod"
  shows "\<exists>c'. pull next_page need c = Some (Pulled, c') \<and> pulled need c c'"
  using assms
proof (induction "need - length (ca_buffer c) + (if ca_exhausted c then 0 else 1)"
    arbitrary: c rule: less_induct)
  case less
  from less.prems(1) obtain s where s: "ca_stream c = Some s" "invar s"
    "at_pos s (length (ca_buffer c))" "ca_exhausted c \<longrightarrow> pending s = []"
    by (auto simp: call_ok_def)
  show ?case
  proof (cases "ca_exhausted c \<or> need \<le> length (ca_buffer c)")
    case True
    then have "pull next_page need c = Some (Pulled, c)" by (simp add: pull.simps)
    with True less.prems(1) show ?thesis by (blast intro: pulled_refl)
  next
    case False
    let ?n = "need - length (ca_buffer c)"
    from False have n: "0 < ?n" by simp
    have "\<exists>d. pull next_page need c = pull next_page need d \<and> call_ok d
       \<and> need - length (ca_buffer d) + (if ca_exhausted d then 0 else 1)
           < need - length (ca_buffer c) + (if ca_exhausted c then 0 else 1)
       \<and> call_frame c d \<and> all_rows d = all_rows c
       \<and> Option.bind (ca_stream d) tot = Option.bind (ca_stream c) tot
       \<and> max (length (ca_buffer d)) (min need (length (all_rows c)))
           = max (length (ca_buffer c)) (min need (length (all_rows c)))"
    proof (cases "pending s = []")
      case True
      from next_page_end [OF s(2,3) True n] obtain s' where s':
        "next_page ?n s = Some (Inr None, s')" "invar s'" "pending s' = []"
        "at_pos s' (length (ca_buffer c))" "tot s' = tot s" by blast
      let ?d = "c\<lparr>ca_stream := Some s', ca_exhausted := True\<rparr>"
      have "pull next_page need c = pull next_page need ?d"
        using False s(1) s'(1) by (simp add: pull.simps [of next_page need c])
      then show ?thesis using s s' True False
        by (intro exI [of _ ?d]) (simp add: call_ok_def call_frame_def all_rows_def)
    next
      case pend: False
      have lt: "length (ca_buffer c) + ?n < usize_mod" using False less.prems(2) by simp
      from next_page_rows [OF s(2,3) pend n lt] obtain s' where s':
        "next_page ?n s = Some (Inr (Some (take ?n (pending s))), s')" "invar s'"
        "pending s' = drop ?n (pending s)"
        "at_pos s' (length (ca_buffer c) + length (take ?n (pending s)))" "tot s' = tot s" by blast
      let ?d = "c\<lparr>ca_stream := Some s', ca_buffer := ca_buffer c @ take ?n (pending s)\<rparr>"
      have "pull next_page need c = pull next_page need ?d"
        using False s(1) s'(1) by (simp add: pull.simps [of next_page need c])
      moreover have "0 < min (length (pending s)) ?n" using pend n by simp
      then have "need - (length (ca_buffer c) + min (length (pending s)) ?n) < ?n"
        using n by linarith
      ultimately show ?thesis using s s' False
        by (intro exI [of _ ?d]) (auto simp: call_ok_def call_frame_def all_rows_def)
    qed
    then show ?thesis using less.hyps less.prems(2) pulled_step by metis
  qed
qed

text \<open>
  The page that is cut out: the requested window of all the rows the query yields, and \<open>has_more\<close>
  never hides a row.
\<close>

definition page_of :: "nat \<Rightarrow> nat \<Rightarrow> ('s, 'h) call \<Rightarrow> ('s, 'h) call \<Rightarrow> page_view \<Rightarrow> bool" where
  "page_of from n c c' v \<longleftrightarrow>
     pv_rows v = take n (drop from (all_rows c))
     \<and> pv_from v = min from (length (ca_buffer c'))
     \<and> (\<not> pv_has_more v \<longrightarrow> drop (from + n) (all_rows c) = [])
     \<and> pv_total v = (case Option.bind (ca_stream c) tot of Some t \<Rightarrow> Some t
          | None \<Rightarrow> if ca_exhausted c' then Some (length (all_rows c)) else None)"

lemma call_page_correct:
  fixes c :: "('s, 'h) call"
  assumes "call_ok c" "ca_status c = Done" "from + n < usize_mod"
  shows "\<exists>c' v. call_page next_page tot from n c = (Returned (Inr (page_json c' v)), c')
     \<and> pulled (from + n) c c' \<and> page_of from n c c' v"
proof -
  from pull_correct [OF assms(1,3)] obtain c' where c':
    "pull next_page (from + n) c = Some (Pulled, c')" "pulled (from + n) c c'" by blast
  let ?B = "ca_buffer c'" and ?A = "all_rows c"
  from c'(2) have p: "call_ok c'" "all_rows c' = ?A"
    "length ?B = max (length (ca_buffer c)) (min (from + n) (length ?A))"
    "length ?B < from + n \<longrightarrow> ca_exhausted c'"
    "Option.bind (ca_stream c') tot = Option.bind (ca_stream c) tot"
    by (simp_all add: pulled_def)
  obtain s where s: "ca_stream c' = Some s" "ca_exhausted c' \<longrightarrow> pending s = []"
    using p(1) by (auto simp: call_ok_def)
  have A: "?A = ?B @ pending s" using p(2) s(1) by (simp add: all_rows_def)
  let ?start = "min from (length ?B)" and ?stop = "min (from + n) (length ?B)"
  have cut: "sub_slice ?B ?start ?stop = Some (take (?stop - ?start) (drop ?start ?B))"
    by (simp add: sub_slice_def)
  have rows: "take (?stop - ?start) (drop ?start ?B) = take n (drop from ?A)"
  proof (cases "length ?B < from + n")
    case True
    then have "?A = ?B" using p(4) s(2) A by simp
    with True show ?thesis by (auto simp: min_def)
  next
    case False
    then show ?thesis by (simp add: A)
  qed
  define v where "v = \<lparr>pv_rows = take n (drop from ?A), pv_from = ?start,
     pv_has_more = (\<not> ca_exhausted c' \<or> ?stop < length ?B), pv_total = page_total tot c'\<rparr>"
  have "call_page next_page tot from n c = (Returned (Inr (page_json c' v)), c')"
    using assms(2,3) c'(1) cut rows
    by (simp add: call_page_def usize_add_small page_cut_def Let_def v_def)
  moreover have "page_of from n c c' v"
    using s p(4,5) A by (auto simp: page_of_def v_def page_total_def split: option.splits)
  ultimately show ?thesis using c'(2) by blast
qed

text \<open>
  A window whose end wraps around: the loop runs up to the wrapped end.  When the buffer is already longer
  the bounds of the slice cross; otherwise both are the end of the buffer.
\<close>

lemma usize_add_wraps:
  "a < usize_mod \<Longrightarrow> b < usize_mod \<Longrightarrow> usize_mod \<le> a + b \<Longrightarrow> usize_add a b = a + b - usize_mod"
  unfolding usize_add_def by (simp add: mod_if [of "a + b"])

lemma call_page_overflow:
  fixes c :: "('s, 'h) call"
  assumes "call_ok c" "ca_status c = Done" "fr < usize_mod" "n < usize_mod" "usize_mod \<le> fr + n"
  shows "if fr + n - usize_mod < length (ca_buffer c) then call_page next_page tot fr n c = (Panicked, c)
     else \<exists>c' j. call_page next_page tot fr n c = (Returned (Inr j), c')
       \<and> json_get ''rows'' j = Some (JArr []) \<and> pulled (fr + n - usize_mod) c c'"
proof -
  let ?need = "fr + n - usize_mod"
  have need: "usize_add fr n = ?need" "?need < fr" "?need < usize_mod"
    using assms(3-5) by (simp_all add: usize_add_wraps)
  show ?thesis
  proof (cases "?need < length (ca_buffer c)")
    case True
    then have "pull next_page ?need c = Some (Pulled, c)" by (simp add: pull.simps)
    with True need(1,2) assms(2) show ?thesis
      by (auto simp: call_page_def page_cut_def sub_slice_def Let_def min_def)
  next
    case False
    from pull_correct [OF assms(1) need(3)] obtain c' where c':
      "pull next_page ?need c = Some (Pulled, c')" "pulled ?need c c'" by blast
    then have le: "length (ca_buffer c') \<le> ?need" using False by (simp add: pulled_def)
    then have "min fr (length (ca_buffer c')) = length (ca_buffer c')"
      "min ?need (length (ca_buffer c')) = length (ca_buffer c')" using need(2) by simp_all
    then show ?thesis
      using False le c' need(1) assms(2)
      by (simp add: call_page_def page_cut_def sub_slice_def Let_def page_json_def)
  qed
qed

end

end
