(* ===== verification/Buffered.thy ===== *)
theory Buffered
  imports Result_Stream
begin

text \<open>
  \<open>drivers/buffered.rs\<close>: the fully materialised stream most drivers return, and the proof that it
  meets the contract of a stream.
\<close>

record bstream =
  bs_columns :: "column list"
  bs_rows :: "row list"
  bs_pos :: nat
  bs_affected :: "u64 option"

definition buffered_new :: "column list \<Rightarrow> row list \<Rightarrow> u64 option \<Rightarrow> bstream" where
  "buffered_new columns rows affected =
     \<lparr>bs_columns = columns, bs_rows = rows, bs_pos = 0, bs_affected = affected\<rparr>"

definition buffered_affected :: "bstream \<Rightarrow> u64 option" where
  "buffered_affected b = (if bs_rows b = [] then bs_affected b else None)"

definition buffered_total :: "bstream \<Rightarrow> nat option" where
  "buffered_total b =
     (if bs_rows b = [] \<and> bs_affected b \<noteq> None then None else Some (length (bs_rows b)))"

definition buffered_next_page :: "bstream puller" where
  "buffered_next_page n b =
     (if length (bs_rows b) \<le> bs_pos b then Some (Inr None, b)
      else (let stop = min (usize_add (bs_pos b) n) (length (bs_rows b)) in
            map_option (\<lambda>page. (Inr (Some page), b\<lparr>bs_pos := stop\<rparr>))
              (sub_slice (bs_rows b) (bs_pos b) stop)))"

section \<open>It is a stream\<close>

definition buffered_pending :: "bstream \<Rightarrow> row list" where
  "buffered_pending b = drop (bs_pos b) (bs_rows b)"

definition buffered_inv :: "bstream \<Rightarrow> bool" where
  "buffered_inv b \<longleftrightarrow> bs_pos b \<le> length (bs_rows b) \<and> length (bs_rows b) < usize_mod"

lemma buffered_next_rows:
  assumes "buffered_inv b" "buffered_pending b \<noteq> []" "bs_pos b + n < usize_mod"
  shows "buffered_next_page n b =
     Some (Inr (Some (take n (buffered_pending b))),
           b\<lparr>bs_pos := min (bs_pos b + n) (length (bs_rows b))\<rparr>)"
proof -
  have "bs_pos b < length (bs_rows b)" using assms(2) by (simp add: buffered_pending_def)
  moreover have "take (min (bs_pos b + n) (length (bs_rows b)) - bs_pos b) (drop (bs_pos b) (bs_rows b))
      = take n (buffered_pending b)"
    by (auto simp: buffered_pending_def min_def)
  ultimately show ?thesis
    using assms(3)
    by (simp add: buffered_next_page_def usize_add_small sub_slice_def Let_def)
qed

interpretation buf: result_stream buffered_next_page buffered_total buffered_pending "\<lambda>b k. bs_pos b = k" buffered_inv
proof (unfold_locales, goal_cases)
  case (1 s n k)
  then show ?case by (simp add: buffered_pending_def buffered_next_page_def)
next
  case (2 s n k)
  then show ?case
    by (simp add: buffered_next_rows)
      (auto simp: buffered_inv_def buffered_pending_def buffered_total_def min_def add.commute)
qed

text \<open>What a call over a fresh buffered stream holds: all the rows, in order.\<close>

definition buffered_call :: "bstream \<Rightarrow> (bstream, 'h) call" where
  "buffered_call b =
     call_new\<lparr>ca_status := Done, ca_columns := bs_columns b, ca_affected := buffered_affected b,
              ca_stream := Some b\<rparr>"

lemma buffered_call_ok:
  "length rows < usize_mod \<Longrightarrow> buf.call_ok (buffered_call (buffered_new cols rows aff))"
  by (simp add: buf.call_ok_def buffered_call_def buffered_new_def call_new_def buffered_inv_def)

lemma buffered_all_rows: "buf.all_rows (buffered_call (buffered_new cols rows aff)) = rows"
  by (simp add: buf.all_rows_def buffered_call_def buffered_new_def call_new_def buffered_pending_def)

section \<open>The counters a stream reports\<close>

lemma buffered_total_new:
  "buffered_total (buffered_new cols rows aff) =
     (if rows = [] \<and> aff \<noteq> None then None else Some (length rows))"
  by (simp add: buffered_total_def buffered_new_def)

lemma buffered_affected_new:
  "buffered_affected (buffered_new cols rows aff) = (if rows = [] then aff else None)"
  by (simp add: buffered_affected_def buffered_new_def)

end
