(* ===== verification/Server.thy ===== *)
theory Server
  imports Registry Buffered
begin

text \<open>
  \<open>server.rs\<close>: the daemon's state and its request handlers.  A handler is a function on the state
  that yields the value or the error the client gets; the effects of the driver it calls are on the
  outside world the state carries.  A statement runs in a worker; the worker's steps, and how they
  interleave with the handlers, are in the theory \<open>Server_Conc\<close>.
\<close>

section \<open>State\<close>

record 'c conn_entry =
  ce_conn :: 'c
  ce_net :: net_ctx

text \<open>
  A worker: the task \<open>execute\<close> spawns, its captured variables and how far it is.  \<open>Waiting\<close> and the
  later stages carry the time the task started.
\<close>

datatype 's worker_pc =
    Spawned
  | Waiting nat
  | Locked nat
  | Executing nat
  | Ran nat "'s result"
  | Ended

record ('c, 's) worker =
  wk_call :: u64
  wk_ref :: nat
  wk_cid :: u64
  wk_conn :: 'c
  wk_stmt :: string
  wk_pc :: "'s worker_pc"

text \<open>
  A handler that has looked its connection up and waits for the connection's lock: the request's
  identifier, the connection, and what it will ask the driver once it holds the lock.
\<close>

record 'w waiting =
  wt_id :: u64
  wt_cid :: u64
  wt_task :: "('w, json) io"

text \<open>
  The maps of \<open>Inner\<close>, its counters and its output channel; the call objects live in a heap, so that
  a call the map has released is still the worker's.
\<close>

record ('c, 's, 'h, 'w) srv =
  sr_registry :: "('c, 'w) registry"
  sr_conns :: "u64 \<rightharpoonup> 'c conn_entry"
  sr_calls :: "u64 \<rightharpoonup> nat"
  sr_heap :: "('s, 'h) call list"
  sr_next_conn :: u64
  sr_next_call :: u64
  sr_out :: "json list"
  sr_workers :: "('c, 's) worker list"
  sr_waiting :: "'w waiting list"
  sr_world :: 'w

definition srv_new :: "('c, 'w) registry \<Rightarrow> 'w \<Rightarrow> ('c, 's, 'h, 'w) srv" where
  "srv_new reg w = \<lparr>sr_registry = reg, sr_conns = Map.empty, sr_calls = Map.empty, sr_heap = [],
     sr_next_conn = 1, sr_next_call = 1, sr_out = [], sr_workers = [], sr_waiting = [],
     sr_world = w\<rparr>"

text \<open>
  What the handlers call outside the repository: the methods behind the trait objects, the decoder of
  a connection spec and the messages of a decoding error, the file system, the dialled socket, the
  clock, and what the net and secret layers need.
\<close>

datatype dial = Dial_ok | Dial_failed error | Dial_timeout

record ('c, 's, 'h, 'w, 'key, 'ident) host =
  ho_conn :: "('c, 's, 'h, 'w) conn_vt"
  ho_stream :: "'s stream_vt"
  ho_cancel :: "'h \<Rightarrow> ('w, unit) io"
  ho_spec :: "json \<Rightarrow> conn_spec option"
  ho_de_err :: "string \<Rightarrow> json \<Rightarrow> error"
  ho_stat :: "string \<Rightarrow> ('w, bool \<times> nat) io"
  ho_open :: "string \<Rightarrow> ('w, unit) io"
  ho_dial :: "string \<Rightarrow> ('w, dial) io"
  ho_clock :: "'w \<Rightarrow> nat"
  ho_ssh :: "('key, 'ident) ssh"
  ho_secrets :: world

definition srv_send :: "json \<Rightarrow> ('c, 's, 'h, 'w) srv \<Rightarrow> ('c, 's, 'h, 'w) srv" where
  "srv_send line s = s\<lparr>sr_out := sr_out s @ [line]\<rparr>"

text \<open>A driver's call, seen from the server: it changes the outside world only.\<close>

definition on_world :: "('w, 'a) io \<Rightarrow> (('c, 's, 'h, 'w) srv, 'a) io" where
  "on_world m = (\<lambda>s. case m (sr_world s) of (r, w) \<Rightarrow> (r, s\<lparr>sr_world := w\<rparr>))"

definition show_u64 :: "u64 \<Rightarrow> string" where
  "show_u64 i = show_nat (unat i)"

definition srv_conn :: "u64 \<Rightarrow> (('c, 's, 'h, 'w) srv, 'c) io" where
  "srv_conn i = (\<lambda>s. (ok_or (''no such connection '' @ show_u64 i) (map_option ce_conn (sr_conns s i)), s))"

definition srv_call :: "u64 \<Rightarrow> (('c, 's, 'h, 'w) srv, nat) io" where
  "srv_call i = (\<lambda>s. (ok_or (''no such call '' @ show_u64 i) (sr_calls s i), s))"

section \<open>Decoding parameters\<close>

text \<open>
  \<open>serde_json::from_value\<close> on a derived struct: fields by name from an object, by position from an
  array that is not longer than the struct.
\<close>

definition de_struct :: "string list \<Rightarrow> json \<Rightarrow> (string \<rightharpoonup> json) option" where
  "de_struct keys j =
     (case j of
        JObj kvs \<Rightarrow> Some (map_of kvs)
      | JArr xs \<Rightarrow> if length xs \<le> length keys then Some (map_of (zip keys xs)) else None
      | _ \<Rightarrow> None)"

definition de_u64 :: "json \<Rightarrow> u64 option" where
  "de_u64 j = map_option of_nat (json_u64 j)"

definition de_field :: "(json \<Rightarrow> 'a option) \<Rightarrow> (string \<rightharpoonup> json) \<Rightarrow> string \<Rightarrow> 'a option" where
  "de_field f m k = Option.bind (m k) f"

definition de_field_or :: "'a \<Rightarrow> (json \<Rightarrow> 'a option) \<Rightarrow> (string \<rightharpoonup> json) \<Rightarrow> string \<Rightarrow> 'a option" where
  "de_field_or d f m k = (case m k of None \<Rightarrow> Some d | Some j \<Rightarrow> f j)"

definition de_opt :: "(json \<Rightarrow> 'a option) \<Rightarrow> json \<Rightarrow> 'a option option" where
  "de_opt f j = (case j of JNull \<Rightarrow> Some None | _ \<Rightarrow> map_option Some (f j))"

definition de_pair :: "'a option \<Rightarrow> 'b option \<Rightarrow> ('a \<times> 'b) option" where
  "de_pair x y = Option.bind x (\<lambda>a. map_option (\<lambda>b. (a, b)) y)"

definition de_obj_ref :: "json \<Rightarrow> obj_ref option" where
  "de_obj_ref j = Option.bind (de_struct [''name'', ''schema''] j) (\<lambda>m.
     map_option (\<lambda>(n, s). \<lparr>ob_name = n, ob_schema = s\<rparr>)
       (de_pair (de_field json_str m ''name'') (de_field_or None (de_opt json_str) m ''schema'')))"

definition p_conn_id :: "json \<Rightarrow> u64 option" where
  "p_conn_id j = Option.bind (de_struct [''conn_id''] j) (\<lambda>m. de_field de_u64 m ''conn_id'')"

definition p_call_id :: "json \<Rightarrow> u64 option" where
  "p_call_id j = Option.bind (de_struct [''call_id''] j) (\<lambda>m. de_field de_u64 m ''call_id'')"

definition p_conn_text :: "string \<Rightarrow> json \<Rightarrow> (u64 \<times> string) option" where
  "p_conn_text k j = Option.bind (de_struct [''conn_id'', k] j) (\<lambda>m.
     de_pair (de_field de_u64 m ''conn_id'') (de_field json_str m k))"

definition p_conn_obj :: "json \<Rightarrow> (u64 \<times> obj_ref) option" where
  "p_conn_obj j = Option.bind (de_struct [''conn_id'', ''object''] j) (\<lambda>m.
     de_pair (de_field de_u64 m ''conn_id'') (de_field de_obj_ref m ''object''))"

definition default_n :: nat where
  "default_n = 200"

definition p_page :: "json \<Rightarrow> (u64 \<times> nat \<times> nat) option" where
  "p_page j = Option.bind (de_struct [''call_id'', ''from'', ''n''] j) (\<lambda>m.
     de_pair (de_field de_u64 m ''call_id'')
       (de_pair (de_field_or 0 json_u64 m ''from'') (de_field_or default_n json_u64 m ''n'')))"

definition p_cell :: "json \<Rightarrow> (u64 \<times> nat \<times> nat) option" where
  "p_cell j = Option.bind (de_struct [''call_id'', ''row'', ''col''] j) (\<lambda>m.
     de_pair (de_field de_u64 m ''call_id'')
       (de_pair (de_field json_u64 m ''row'') (de_field json_u64 m ''col'')))"

definition p_test :: "(json \<Rightarrow> conn_spec option) \<Rightarrow> json \<Rightarrow> (string \<times> conn_spec) option" where
  "p_test de_spec j = Option.bind (de_struct [''stage'', ''spec''] j) (\<lambda>m.
     de_pair (de_field json_str m ''stage'') (de_field de_spec m ''spec''))"

definition decode ::
  "('c, 's, 'h, 'w, 'key, 'ident) host \<Rightarrow> string \<Rightarrow> (json \<Rightarrow> 'a option) \<Rightarrow> json
     \<Rightarrow> (('c, 's, 'h, 'w) srv, 'a) io" where
  "decode h meth p params = io_lift (ok_or (ho_de_err h meth params) (p params))"

section \<open>Handshake and connections\<close>

definition srv_hello :: "(('c, 's, 'h, 'w) srv, json) io" where
  "srv_hello = (\<lambda>s.
     (Inr (JObj [(''proto'', JInt (uint PROTO)),
                 (''drivers'', JArr (map driver_meta_json (registry_metas (sr_registry s))))]), s))"

definition srv_driver :: "string \<Rightarrow> (('c, 's, 'h, 'w) srv, ('c, 'w) driver) io" where
  "srv_driver kind = (\<lambda>s. (registry_get (sr_registry s) kind, s))"

text \<open>\<open>driver.connect(spec, net)\<close>: the network context is shared, so its changes come back too.\<close>

definition drive_connect ::
  "('c, 'w) driver \<Rightarrow> conn_spec \<Rightarrow> net_ctx \<Rightarrow> ('w, 'c \<times> net_ctx) io" where
  "drive_connect d spec net = (\<lambda>w.
     case dr_connect d spec (net, w) of
       (Inl e, (net', w')) \<Rightarrow> (Inl e, w')
     | (Inr c, (net', w')) \<Rightarrow> (Inr (c, net'), w'))"

definition warn_unencrypted :: "u64 \<Rightarrow> string \<Rightarrow> json" where
  "warn_unencrypted i drv = notification ''daemon.log''
     (JObj [(''level'', JStr ''warn''),
            (''message'', JStr (''connection '' @ show_u64 i @ '' to driver '' @ quoted drv
               @ '' is NOT encrypted (no TLS negotiated and no SSH tunnel)''))])"

definition connected_json :: "u64 \<Rightarrow> bool \<Rightarrow> bool \<Rightarrow> json" where
  "connected_json i encrypted tunl =
     JObj [(''conn_id'', JInt (uint i)), (''encrypted'', JBool encrypted), (''tunneled'', JBool tunl)]"

text \<open>What happens once the driver has connected.\<close>

definition srv_register ::
  "string \<Rightarrow> bool \<Rightarrow> bool \<Rightarrow> 'c conn_entry \<Rightarrow> (('c, 's, 'h, 'w) srv, json) io" where
  "srv_register drv encrypted tunl entry = (\<lambda>s.
     let i = sr_next_conn s;
         s1 = s\<lparr>sr_next_conn := i + 1, sr_conns := (sr_conns s)(i \<mapsto> entry)\<rparr>;
         s2 = (if encrypted then s1 else srv_send (warn_unencrypted i drv) s1)
     in (Inr (connected_json i encrypted tunl), s2))"

text \<open>\<open>conn.encrypted()\<close>.\<close>

definition conn_posture :: "('c, 's, 'h, 'w, 'key, 'ident) host \<Rightarrow> 'c \<Rightarrow> (('c, 's, 'h, 'w) srv, bool) io" where
  "conn_posture h c = on_world (\<lambda>w. (Inr (cv_encrypted (ho_conn h) c w), w))"

definition srv_connect ::
  "('c, 's, 'h, 'w, 'key, 'ident) host \<Rightarrow> json \<Rightarrow> (('c, 's, 'h, 'w) srv, json) io" where
  "srv_connect h params =
     io_bind (decode h ''conn.connect'' (ho_spec h) params) (\<lambda>spec.
     io_bind (srv_driver (cs_driver spec)) (\<lambda>d.
     let net = net_new (cs_tunnel spec) in
     io_bind (on_world (drive_connect d spec net)) (\<lambda>(conn, net').
     io_bind (conn_posture h conn) (\<lambda>native.
       srv_register (cs_driver spec) (native \<or> tunneled net) (tunneled net)
         \<lparr>ce_conn = conn, ce_net = net'\<rparr>))))"

text \<open>
  \<open>conn.disconnect\<close>.  \<open>Arc::try_unwrap\<close> succeeds when no worker and no waiting handler still
  holds the connection; then the connection is closed, whatever that returns.
\<close>

definition conn_held :: "('c, 's, 'h, 'w) srv \<Rightarrow> u64 \<Rightarrow> bool" where
  "conn_held s i \<longleftrightarrow>
     (\<exists>w\<in>set (sr_workers s). wk_cid w = i \<and> wk_pc w \<noteq> Ended) \<or> (\<exists>t\<in>set (sr_waiting s). wt_cid t = i)"

definition srv_disconnect ::
  "('c, 's, 'h, 'w, 'key, 'ident) host \<Rightarrow> json \<Rightarrow> (('c, 's, 'h, 'w) srv, json) io" where
  "srv_disconnect h params =
     io_bind (decode h ''conn.disconnect'' p_conn_id params) (\<lambda>i s.
       case sr_conns s i of
         None \<Rightarrow> (Inr (JObj []), s)
       | Some e \<Rightarrow>
           (let s1 = s\<lparr>sr_conns := (sr_conns s)(i := None)\<rparr> in
            if conn_held s i then (Inr (JObj []), s1)
            else (Inr (JObj []), snd (on_world (cv_close (ho_conn h) (ce_conn e)) s1))))"

section \<open>Testing one stage of a spec\<close>

definition host_port :: "string \<Rightarrow> u16 \<Rightarrow> string" where
  "host_port host p = host @ '':'' @ show_port p"

definition host_resolve ::
  "('c, 's, 'h, 'w, 'key, 'ident) host \<Rightarrow> conn_spec \<Rightarrow> string \<Rightarrow> u16 \<Rightarrow> string result" where
  "host_resolve h spec host p =
     fst (net_resolve (ho_ssh h) (secret_resolve (ho_secrets h)) host p (net_new (cs_tunnel spec)))"

definition test_file ::
  "('c, 's, 'h, 'w, 'key, 'ident) host \<Rightarrow> conn_spec \<Rightarrow> param_spec \<Rightarrow> ('w, string) io" where
  "test_file h spec fp =
     io_bind (io_lift (param spec (ps_key fp))) (\<lambda>raw.
     let path = expand_tilde (w_env (ho_secrets h)) raw in
     io_bind (io_map_err (\<lambda>e. ''cannot stat '' @ quoted path @ '': '' @ e) (ho_stat h path)) (\<lambda>(file, len).
     if \<not> file then io_err (quoted path @ '' is not a regular file'')
     else io_bind (io_map_err (\<lambda>e. ''cannot open '' @ quoted path @ '' for reading: '' @ e) (ho_open h path))
       (\<lambda>_. io_ok (path @ '' '' @ em_dash @ '' readable, '' @ show_nat len @ '' bytes''))))"

definition test_dial ::
  "('c, 's, 'h, 'w, 'key, 'ident) host \<Rightarrow> conn_spec \<Rightarrow> string \<Rightarrow> u16 \<Rightarrow> ('w, string) io" where
  "test_dial h spec host p =
     io_bind (io_lift (host_resolve h spec host p)) (\<lambda>addr.
     io_bind (ho_dial h addr) (\<lambda>d.
       case d of
         Dial_timeout \<Rightarrow> io_err (''timed out dialling '' @ host_port host p @ '' after 10s'')
       | Dial_failed e \<Rightarrow> io_err (''cannot reach '' @ host_port host p @ '': '' @ e)
       | Dial_ok \<Rightarrow>
           io_ok (if tunneled (net_new (cs_tunnel spec))
                  then host_port host p @ '' reachable through the SSH tunnel (local '' @ addr @ '')''
                  else host_port host p @ '' reachable (plain TCP)'')))"

definition no_port :: "driver_meta \<Rightarrow> error" where
  "no_port m = ''no port set and '' @ quoted (dm_kind m) @ '' declares no default''"

definition test_endpoint ::
  "('c, 's, 'h, 'w, 'key, 'ident) host \<Rightarrow> conn_spec \<Rightarrow> driver_meta \<Rightarrow> ('w, string) io" where
  "test_endpoint h spec meta =
     (case find (\<lambda>p. ps_kind p = PT_File) (dm_params meta) of
        Some fp \<Rightarrow> test_file h spec fp
      | None \<Rightarrow>
          (case param_opt spec ''host'' of
             None \<Rightarrow> io_err (quoted (dm_kind meta) @ '' has no TCP endpoint to probe '' @ em_dash
                        @ '' use the Auth tab'' @ sq @ ''s test (a full connect)'')
           | Some host \<Rightarrow>
               (let p = port spec (unwrap_or 0 (dm_default_port meta)) in
                if p = 0 then io_err (no_port meta) else test_dial h spec host p)))"

definition test_tunnel ::
  "('c, 's, 'h, 'w, 'key, 'ident) host \<Rightarrow> conn_spec \<Rightarrow> driver_meta \<Rightarrow> ('w, string) io" where
  "test_tunnel h spec meta =
     (case cs_tunnel spec of
        None \<Rightarrow> io_err ''no SSH tunnel configured on this connection''
      | Some t \<Rightarrow>
          (case param_opt spec ''host'' of
             None \<Rightarrow> io_err (''a tunnel needs a host to forward to '' @ em_dash
                         @ '' fill the Connection tab first'')
           | Some host \<Rightarrow>
               (let p = port spec (unwrap_or 0 (dm_default_port meta)) in
                if p = 0 then io_err (no_port meta)
                else io_bind (io_lift (host_resolve h spec host p)) (\<lambda>addr.
                  io_ok (''ssh '' @ tun_user t @ ''@'' @ host_port (tun_host t) (tun_port t)
                    @ '' authenticated '' @ em_dash @ '' forwarding '' @ addr @ '' '' @ right_arrow @ '' ''
                    @ host_port host p)))))"

definition posture_text :: "bool \<Rightarrow> bool \<Rightarrow> string result" where
  "posture_text native tunl =
     (if native then
        (if tunl then Inr (''encrypted '' @ em_dash
           @ '' native TLS negotiated, and the link also rides the SSH tunnel'')
         else Inr (''encrypted '' @ em_dash @ '' native TLS negotiated''))
      else if tunl then Inr (''encrypted '' @ em_dash
           @ '' no native TLS, but the link rides the SSH tunnel'')
      else Inl (''connected but the link is PLAINTEXT '' @ em_dash
           @ '' no TLS negotiated and no SSH tunnel''))"

definition who_text :: "auth_spec \<Rightarrow> string" where
  "who_text a =
     (case a of
        Auth_None \<Rightarrow> ''no credentials (anonymous)''
      | Auth_Password user _ \<Rightarrow> ''password auth accepted for '' @ quoted user
      | Auth_ClientCert _ _ _ user \<Rightarrow>
          if user \<noteq> [] then ''client-certificate auth accepted for '' @ quoted user
          else ''client-certificate auth accepted''
      | Auth_Provider provider _ user \<Rightarrow>
          if user \<noteq> [] then provider @ '' token accepted for '' @ quoted user
          else provider @ '' token accepted''
      | Auth_Kerberos prin \<Rightarrow>
          (case prin of
             Some p \<Rightarrow> ''kerberos accepted for '' @ quoted p
           | None \<Rightarrow> ''kerberos accepted''))"

definition test_connect ::
  "('c, 's, 'h, 'w, 'key, 'ident) host \<Rightarrow> conn_spec \<Rightarrow> string \<Rightarrow> (('c, 's, 'h, 'w) srv, string) io" where
  "test_connect h spec stage =
     io_bind (srv_driver (cs_driver spec)) (\<lambda>d.
     let net = net_new (cs_tunnel spec) in
     io_bind (on_world (drive_connect d spec net)) (\<lambda>(conn, net').
     let tunl = tunneled net in
     io_bind (conn_posture h conn) (\<lambda>native.
     io_bind (on_world (io_try (cv_close (ho_conn h) conn))) (\<lambda>_.
       if stage = ''tls'' then io_lift (posture_text native tunl)
       else io_ok (''connected '' @ em_dash @ '' '' @ who_text (cs_auth spec) @ ''; link ''
              @ (if native \<or> tunl then ''encrypted'' else ''PLAINTEXT''))))))"

definition test_stage ::
  "('c, 's, 'h, 'w, 'key, 'ident) host \<Rightarrow> string \<Rightarrow> conn_spec \<Rightarrow> driver_meta
     \<Rightarrow> (('c, 's, 'h, 'w) srv, string) io" where
  "test_stage h stage spec meta =
     (if stage = ''endpoint'' then on_world (test_endpoint h spec meta)
      else if stage = ''tunnel'' then on_world (test_tunnel h spec meta)
      else if stage = ''tls'' \<or> stage = ''auth'' then test_connect h spec stage
      else io_err (''unknown test stage '' @ quoted stage))"

definition srv_test ::
  "('c, 's, 'h, 'w, 'key, 'ident) host \<Rightarrow> json \<Rightarrow> (('c, 's, 'h, 'w) srv, json) io" where
  "srv_test h params =
     io_bind (decode h ''conn.test'' (p_test (ho_spec h)) params) (\<lambda>(stage, spec) s.
       case find (\<lambda>m. dm_kind m = cs_driver spec) (registry_metas (sr_registry s)) of
         None \<Rightarrow> (Inl (''unknown driver '' @ quoted (cs_driver spec)), s)
       | Some meta \<Rightarrow>
           (let started = ho_clock h (sr_world s) in
            io_bind (test_stage h stage spec meta) (\<lambda>detail s'.
              (Inr (JObj [(''ok'', JBool True),
                 (''ms'', JInt (uint (of_nat (ho_clock h (sr_world s') - started) :: u64))),
                 (''detail'', JStr detail)]), s')) s))"

section \<open>Catalog requests\<close>

text \<open>
  Each decodes its parameters, looks the connection up, and under the connection's lock asks the driver.
  That last part is the \<open>_call\<close> of each; \<open>conn_call\<close> is the connection a request needs, with it.
\<close>

definition databases_call :: "('c, 's, 'h, 'w, 'key, 'ident) host \<Rightarrow> 'c \<Rightarrow> ('w, json) io" where
  "databases_call h c = io_bind (cv_databases (ho_conn h) c) (\<lambda>dbs.
     io_ok (JObj [(''databases'', JArr (map JStr dbs))]))"

definition switch_database_call :: "('c, 's, 'h, 'w, 'key, 'ident) host \<Rightarrow> string \<Rightarrow> 'c \<Rightarrow> ('w, json) io" where
  "switch_database_call h db c = io_bind (cv_switch_database (ho_conn h) c db) (\<lambda>_. io_ok (JObj []))"

definition structure_call :: "('c, 's, 'h, 'w, 'key, 'ident) host \<Rightarrow> 'c \<Rightarrow> ('w, json) io" where
  "structure_call h c = io_bind (cv_structure (ho_conn h) c) (\<lambda>nodes.
     io_ok (JObj [(''nodes'', JArr (map node_json nodes))]))"

definition columns_call :: "('c, 's, 'h, 'w, 'key, 'ident) host \<Rightarrow> obj_ref \<Rightarrow> 'c \<Rightarrow> ('w, json) io" where
  "columns_call h ob c = io_bind (cv_columns (ho_conn h) c ob) (\<lambda>cols.
     io_ok (JObj [(''columns'', JArr (map table_column_json cols))]))"

definition indexes_call :: "('c, 's, 'h, 'w, 'key, 'ident) host \<Rightarrow> obj_ref \<Rightarrow> 'c \<Rightarrow> ('w, json) io" where
  "indexes_call h ob c = io_bind (cv_indexes (ho_conn h) c ob) (\<lambda>idx.
     io_ok (JObj [(''indexes'', JArr (map index_json idx))]))"

definition ddl_call :: "('c, 's, 'h, 'w, 'key, 'ident) host \<Rightarrow> obj_ref \<Rightarrow> 'c \<Rightarrow> ('w, json) io" where
  "ddl_call h ob c = io_bind (cv_ddl (ho_conn h) c ob) (\<lambda>sql.
     io_ok (JObj [(''ddl'', opt_json JStr sql)]))"

definition on_conn :: "u64 \<Rightarrow> ('c \<Rightarrow> ('w, json) io) \<Rightarrow> (('c, 's, 'h, 'w) srv, json) io" where
  "on_conn i m = io_bind (srv_conn i) (\<lambda>c. on_world (m c))"

definition srv_databases ::
  "('c, 's, 'h, 'w, 'key, 'ident) host \<Rightarrow> json \<Rightarrow> (('c, 's, 'h, 'w) srv, json) io" where
  "srv_databases h params =
     io_bind (decode h ''conn.databases'' p_conn_id params) (\<lambda>i. on_conn i (databases_call h))"

definition srv_switch_database ::
  "('c, 's, 'h, 'w, 'key, 'ident) host \<Rightarrow> json \<Rightarrow> (('c, 's, 'h, 'w) srv, json) io" where
  "srv_switch_database h params =
     io_bind (decode h ''conn.switch_database'' (p_conn_text ''database'') params) (\<lambda>(i, db).
       on_conn i (switch_database_call h db))"

definition srv_structure ::
  "('c, 's, 'h, 'w, 'key, 'ident) host \<Rightarrow> json \<Rightarrow> (('c, 's, 'h, 'w) srv, json) io" where
  "srv_structure h params =
     io_bind (decode h ''schema.structure'' p_conn_id params) (\<lambda>i. on_conn i (structure_call h))"

definition srv_columns ::
  "('c, 's, 'h, 'w, 'key, 'ident) host \<Rightarrow> json \<Rightarrow> (('c, 's, 'h, 'w) srv, json) io" where
  "srv_columns h params =
     io_bind (decode h ''schema.columns'' p_conn_obj params) (\<lambda>(i, ob). on_conn i (columns_call h ob))"

definition srv_indexes ::
  "('c, 's, 'h, 'w, 'key, 'ident) host \<Rightarrow> json \<Rightarrow> (('c, 's, 'h, 'w) srv, json) io" where
  "srv_indexes h params =
     io_bind (decode h ''schema.indexes'' p_conn_obj params) (\<lambda>(i, ob). on_conn i (indexes_call h ob))"

definition srv_ddl ::
  "('c, 's, 'h, 'w, 'key, 'ident) host \<Rightarrow> json \<Rightarrow> (('c, 's, 'h, 'w) srv, json) io" where
  "srv_ddl h params =
     io_bind (decode h ''schema.ddl'' p_conn_obj params) (\<lambda>(i, ob). on_conn i (ddl_call h ob))"

definition conn_call ::
  "('c, 's, 'h, 'w, 'key, 'ident) host \<Rightarrow> string \<Rightarrow> json \<Rightarrow> (u64 \<times> ('c \<Rightarrow> ('w, json) io)) option" where
  "conn_call h meth params =
     (if meth = ''conn.databases'' then map_option (\<lambda>i. (i, databases_call h)) (p_conn_id params)
      else if meth = ''conn.switch_database''
      then map_option (\<lambda>(i, db). (i, switch_database_call h db)) (p_conn_text ''database'' params)
      else if meth = ''schema.structure'' then map_option (\<lambda>i. (i, structure_call h)) (p_conn_id params)
      else if meth = ''schema.columns'' then map_option (\<lambda>(i, ob). (i, columns_call h ob)) (p_conn_obj params)
      else if meth = ''schema.indexes'' then map_option (\<lambda>(i, ob). (i, indexes_call h ob)) (p_conn_obj params)
      else if meth = ''schema.ddl'' then map_option (\<lambda>(i, ob). (i, ddl_call h ob)) (p_conn_obj params)
      else None)"

section \<open>Queries\<close>

definition state_params :: "u64 \<Rightarrow> call_status \<Rightarrow> u64 \<Rightarrow> error option \<Rightarrow> u64 option \<Rightarrow> json" where
  "state_params i st ms err aff =
     (let p0 = JObj [(''call_id'', JInt (uint i)), (''state'', JStr (status_str st)),
                     (''ms'', JInt (uint ms))];
          p1 = (case err of Some e \<Rightarrow> json_set ''error'' (JStr e) p0 | None \<Rightarrow> p0)
      in case aff of Some a \<Rightarrow> json_set ''affected'' (JInt (uint a)) p1 | None \<Rightarrow> p1)"

definition notify_state ::
  "u64 \<Rightarrow> call_status \<Rightarrow> u64 \<Rightarrow> error option \<Rightarrow> u64 option \<Rightarrow> ('c, 's, 'h, 'w) srv \<Rightarrow> ('c, 's, 'h, 'w) srv" where
  "notify_state i st ms err aff = srv_send (notification ''query.state'' (state_params i st ms err aff))"

text \<open>
  \<open>query.execute\<close> sends its own response, before the worker that runs the statement exists.
\<close>

definition srv_execute ::
  "('c, 's, 'h, 'w, 'key, 'ident) host \<Rightarrow> u64 \<Rightarrow> json \<Rightarrow> ('c, 's, 'h, 'w) srv \<Rightarrow> ('c, 's, 'h, 'w) srv" where
  "srv_execute h rid params s =
     (case io_bind (decode h ''query.execute'' (p_conn_text ''statement'') params)
             (\<lambda>(cid, stmt). io_bind (srv_conn cid) (\<lambda>c. io_ok (cid, stmt, c))) s of
        (Inl e, s0) \<Rightarrow> srv_send (response_err rid e) s0
      | (Inr (cid, stmt, c), s0) \<Rightarrow>
          (let i = sr_next_call s0; ref = length (sr_heap s0);
               s1 = s0\<lparr>sr_next_call := i + 1, sr_heap := sr_heap s0 @ [call_new],
                       sr_calls := (sr_calls s0)(i \<mapsto> ref)\<rparr>;
               s2 = srv_send (response_ok rid (JObj [(''call_id'', JInt (uint i))])) s1
           in s2\<lparr>sr_workers := sr_workers s2 @
                   [\<lparr>wk_call = i, wk_ref = ref, wk_cid = cid, wk_conn = c, wk_stmt = stmt,
                     wk_pc = Spawned\<rparr>]\<rparr>))"

definition set_call :: "nat \<Rightarrow> ('s, 'h) call \<Rightarrow> ('c, 's, 'h, 'w) srv \<Rightarrow> ('c, 's, 'h, 'w) srv" where
  "set_call ref c s = s\<lparr>sr_heap := (sr_heap s)[ref := c]\<rparr>"

text \<open>The worker registers the cancel handle of its connection, when there is one.\<close>

definition call_register ::
  "('c, 's, 'h, 'w, 'key, 'ident) host \<Rightarrow> 'c \<Rightarrow> 'w \<Rightarrow> ('s, 'h) call \<Rightarrow> ('s, 'h) call" where
  "call_register h conn w c =
     (case cv_cancel_token (ho_conn h) conn w of Some tok \<Rightarrow> c\<lparr>ca_cancel := Some tok\<rparr> | None \<Rightarrow> c)"

text \<open>
  The end of a worker: the handle is dropped; a call cancelled meanwhile stays cancelled, and any
  other takes the outcome of the statement.  The second component is what is notified.
\<close>

definition call_finish ::
  "'s stream_vt \<Rightarrow> 's result \<Rightarrow> ('s, 'h) call
     \<Rightarrow> ('s, 'h) call \<times> (call_status \<times> error option \<times> u64 option)" where
  "call_finish sv outcome c0 =
     (let c = c0\<lparr>ca_cancel := None\<rparr> in
      if ca_status c = Cancelled then (c, (Cancelled, None, None))
      else (case outcome of
         Inr st \<Rightarrow>
           (c\<lparr>ca_columns := sv_columns sv st, ca_affected := sv_affected sv st,
              ca_stream := Some st, ca_status := Done\<rparr>,
            (Done, None, sv_affected sv st))
       | Inl e \<Rightarrow> (c\<lparr>ca_status := Failed, ca_error := Some e\<rparr>, (Failed, Some e, None))))"

definition worker_finish ::
  "('c, 's, 'h, 'w, 'key, 'ident) host \<Rightarrow> u64 \<Rightarrow> nat \<Rightarrow> u64 \<Rightarrow> 's result
     \<Rightarrow> ('c, 's, 'h, 'w) srv \<Rightarrow> ('c, 's, 'h, 'w) srv" where
  "worker_finish h i ref ms outcome s =
     (case call_finish (ho_stream h) outcome (sr_heap s ! ref) of
        (c, (st, err, aff)) \<Rightarrow> notify_state i st ms err aff (set_call ref c s))"

definition srv_page ::
  "('c, 's, 'h, 'w, 'key, 'ident) host \<Rightarrow> json \<Rightarrow> ('c, 's, 'h, 'w) srv
     \<Rightarrow> json result fate \<times> ('c, 's, 'h, 'w) srv" where
  "srv_page h params s =
     (case io_bind (decode h ''query.page'' p_page params)
             (\<lambda>(i, from, n). io_bind (srv_call i) (\<lambda>ref. io_ok (ref, from, n))) s of
        (Inl e, s0) \<Rightarrow> (Returned (Inl e), s0)
      | (Inr (ref, from, n), s0) \<Rightarrow>
          (case call_page (sv_next_page (ho_stream h)) (sv_total (ho_stream h)) from n (sr_heap s0 ! ref) of
             (r, c) \<Rightarrow> (r, set_call ref c s0)))"

text \<open>
  \<open>query.cancel\<close>: under the call's lock the status is set and the handle taken; the handle is fired
  after the lock is released.
\<close>

definition call_take :: "('s, 'h) call \<Rightarrow> 'h option \<times> ('s, 'h) call" where
  "call_take c =
     (ca_cancel c,
      (if ca_status c = Running then c\<lparr>ca_status := Cancelled\<rparr> else c)\<lparr>ca_cancel := None\<rparr>)"

definition cancel_take ::
  "('c, 's, 'h, 'w, 'key, 'ident) host \<Rightarrow> json \<Rightarrow> (('c, 's, 'h, 'w) srv, 'h option) io" where
  "cancel_take h params =
     io_bind (decode h ''query.cancel'' p_call_id params) (\<lambda>i.
     io_bind (srv_call i) (\<lambda>ref s.
       case call_take (sr_heap s ! ref) of (hnd, c) \<Rightarrow> (Inr hnd, set_call ref c s)))"

definition cancel_fire ::
  "('c, 's, 'h, 'w, 'key, 'ident) host \<Rightarrow> 'h option \<Rightarrow> (('c, 's, 'h, 'w) srv, json) io" where
  "cancel_fire h hnd =
     (case hnd of
        Some t \<Rightarrow> io_bind (on_world (ho_cancel h t)) (\<lambda>_. io_ok (JObj []))
      | None \<Rightarrow> io_ok (JObj []))"

definition srv_cancel ::
  "('c, 's, 'h, 'w, 'key, 'ident) host \<Rightarrow> json \<Rightarrow> (('c, 's, 'h, 'w) srv, json) io" where
  "srv_cancel h params = io_bind (cancel_take h params) (cancel_fire h)"

definition srv_release ::
  "('c, 's, 'h, 'w, 'key, 'ident) host \<Rightarrow> json \<Rightarrow> (('c, 's, 'h, 'w) srv, json) io" where
  "srv_release h params =
     io_bind (decode h ''query.release'' p_call_id params) (\<lambda>i s.
       (Inr (JObj []), s\<lparr>sr_calls := (sr_calls s)(i := None)\<rparr>))"

definition srv_cell ::
  "('c, 's, 'h, 'w, 'key, 'ident) host \<Rightarrow> json \<Rightarrow> (('c, 's, 'h, 'w) srv, json) io" where
  "srv_cell h params =
     io_bind (decode h ''query.cell'' p_cell params) (\<lambda>(i, r, cl).
     io_bind (srv_call i) (\<lambda>ref s. (call_cell r cl (sr_heap s ! ref), s)))"

section \<open>Dispatch\<close>

definition returned :: "(('c, 's, 'h, 'w) srv, json) io \<Rightarrow> ('c, 's, 'h, 'w) srv
     \<Rightarrow> json result fate \<times> ('c, 's, 'h, 'w) srv" where
  "returned m s = (case m s of (r, s') \<Rightarrow> (Returned r, s'))"

definition srv_dispatch ::
  "('c, 's, 'h, 'w, 'key, 'ident) host \<Rightarrow> string \<Rightarrow> json \<Rightarrow> ('c, 's, 'h, 'w) srv
     \<Rightarrow> json result fate \<times> ('c, 's, 'h, 'w) srv" where
  "srv_dispatch h meth params =
     (if meth = ''rpc.hello'' then returned srv_hello
      else if meth = ''conn.connect'' then returned (srv_connect h params)
      else if meth = ''conn.test'' then returned (srv_test h params)
      else if meth = ''conn.disconnect'' then returned (srv_disconnect h params)
      else if meth = ''conn.databases'' then returned (srv_databases h params)
      else if meth = ''conn.switch_database'' then returned (srv_switch_database h params)
      else if meth = ''schema.structure'' then returned (srv_structure h params)
      else if meth = ''schema.columns'' then returned (srv_columns h params)
      else if meth = ''schema.indexes'' then returned (srv_indexes h params)
      else if meth = ''schema.ddl'' then returned (srv_ddl h params)
      else if meth = ''query.page'' then srv_page h params
      else if meth = ''query.cancel'' then returned (srv_cancel h params)
      else if meth = ''query.release'' then returned (srv_release h params)
      else if meth = ''query.cell'' then returned (srv_cell h params)
      else returned (io_err (''unknown method '' @ quoted meth)))"

text \<open>A request whose handler panics or never ends gets no line.\<close>

definition srv_reply ::
  "u64 \<Rightarrow> json result fate \<times> ('c, 's, 'h, 'w) srv \<Rightarrow> ('c, 's, 'h, 'w) srv" where
  "srv_reply rid r =
     (case r of
        (Returned (Inr v), s) \<Rightarrow> srv_send (response_ok rid v) s
      | (Returned (Inl e), s) \<Rightarrow> srv_send (response_err rid e) s
      | (_, s) \<Rightarrow> s)"

definition srv_handle ::
  "('c, 's, 'h, 'w, 'key, 'ident) host \<Rightarrow> request \<Rightarrow> ('c, 's, 'h, 'w) srv \<Rightarrow> ('c, 's, 'h, 'w) srv" where
  "srv_handle h req s =
     (if rq_method req = ''query.execute'' then srv_execute h (rq_id req) (rq_params req) s
      else srv_reply (rq_id req) (srv_dispatch h (rq_method req) (rq_params req) s))"

end
