(* ===== verification/Server_Props.thy ===== *)
theory Server_Props
  imports Server
begin

text \<open>
  What the handlers leave alone and what they answer.  A frame is a preorder on states that allows
  the outside world to change; the locale \<open>server_frame\<close> lifts it to the handlers through the
  sequencing operators, once, and \<open>conn_frame\<close> to the two that also change the table of connections.
  They are interpreted for the lines a handler may emit on its own, for the table of calls and for
  the table of connections.
\<close>

section \<open>Frames\<close>

definition within :: "('x \<Rightarrow> 'x \<Rightarrow> bool) \<Rightarrow> ('x, 'a) io \<Rightarrow> bool" where
  "within R m \<longleftrightarrow> (\<forall>s. R s (snd (m s)))"

lemma withinD: "within R m \<Longrightarrow> m s = (r, s') \<Longrightarrow> R s s'"
  by (metis snd_conv within_def)

lemma withinI: "(\<And>s. R s (snd (m s))) \<Longrightarrow> within R m"
  by (simp add: within_def)

lemma within_prod: "(\<And>a b. within R (f a b)) \<Longrightarrow> within R (case p of (a, b) \<Rightarrow> f a b)"
  by (cases p) simp

lemma within_if: "within R m \<Longrightarrow> within R m' \<Longrightarrow> within R (if b then m else m')"
  by simp

lemma within_let: "(\<And>a. within R (f a)) \<Longrightarrow> within R (let x = a in f x)"
  by simp

lemmas within_shape = within_prod within_if within_let

lemma returned_snd [simp]: "snd (returned m s) = snd (m s)"
  by (simp add: returned_def split: prod.split)

lemma returned_fst [simp]: "fst (returned m s) = Returned (fst (m s))"
  by (simp add: returned_def split: prod.split)

locale frame =
  fixes R :: "'x \<Rightarrow> 'x \<Rightarrow> bool"
  assumes frame_refl: "R s s"
    and frame_trans: "R s t \<Longrightarrow> R t u \<Longrightarrow> R s u"
begin

lemma within_ok: "within R (io_ok a)" and within_err: "within R (io_err e)"
  and within_lift: "within R (io_lift r)"
  by (simp_all add: within_def frame_refl)

lemma within_bind: "within R m \<Longrightarrow> (\<And>a. within R (k a)) \<Longrightarrow> within R (io_bind m k)"
proof (rule withinI)
  fix s
  assume m: "within R m" and k: "\<And>a. within R (k a)"
  obtain r t where t: "m s = (r, t)" by (cases "m s")
  have "R s t" using m t by (rule withinD)
  moreover have "R t (snd (k a t))" for a using k by (simp add: within_def)
  ultimately show "R s (snd (io_bind m k s))"
    using t by (auto simp: io_bind_def intro: frame_trans split: sum.split)
qed

end

text \<open>A driver's call changes the outside world only, so the handlers built from such calls are in it.\<close>

locale server_frame = frame R
  for R :: "('c, 's, 'h, 'w) srv \<Rightarrow> ('c, 's, 'h, 'w) srv \<Rightarrow> bool" +
  assumes frame_world: "R s (s\<lparr>sr_world := w\<rparr>)"
begin

lemma within_on_world: "within R (on_world m)"
  by (rule withinI) (simp add: on_world_def frame_world split: prod.split)

lemma within_reads:
  "within R (srv_conn i)" "within R (srv_call i)" "within R (srv_driver k)" "within R srv_hello"
  "within R (decode h meth p params)" "within R (conn_posture h c)"
  by (simp_all add: within_def srv_conn_def srv_call_def srv_driver_def srv_hello_def decode_def conn_posture_def
      on_world_def frame_refl)

lemmas rules = within_bind within_ok within_err within_lift within_on_world within_reads within_shape

lemma within_on_conn: "within R (on_conn i m)"
  unfolding on_conn_def by (intro rules)

lemma within_test_stage: "within R (test_stage h stage spec meta)"
  unfolding test_stage_def test_connect_def by (intro rules)

lemma within_test: "within R (srv_test h params)"
  unfolding srv_test_def
proof (intro within_bind within_reads within_prod withinI, goal_cases)
  case (1 a stage spec s)
  have "within R (io_bind (test_stage h stage spec meta) (\<lambda>detail s'. (f detail s', s')))"
    for meta and f :: "string \<Rightarrow> ('c, 's, 'h, 'w) srv \<Rightarrow> json result"
    by (intro within_bind within_test_stage) (simp add: within_def frame_refl)
  then show ?case by (simp add: within_def Let_def frame_refl split: option.split)
qed

lemma within_catalog:
  "within R (srv_databases h params)" "within R (srv_switch_database h params)"
  "within R (srv_structure h params)" "within R (srv_columns h params)"
  "within R (srv_indexes h params)" "within R (srv_ddl h params)"
  unfolding srv_databases_def srv_switch_database_def srv_structure_def srv_columns_def srv_indexes_def
    srv_ddl_def
  by (intro rules within_on_conn)+

text \<open>The rules for the dispatcher, which runs one of the handlers on a state.\<close>

lemma snd_within: "within R m \<Longrightarrow> R s (snd (returned m s))"
  by (simp add: within_def)

lemma snd_if:
  "(b \<Longrightarrow> R s (snd (f s))) \<Longrightarrow> (\<not> b \<Longrightarrow> R s (snd (g s))) \<Longrightarrow> R s (snd ((if b then f else g) s))"
  by simp

lemma within_cell: "within R (srv_cell h params)"
  unfolding srv_cell_def by (intro rules) (simp add: within_def frame_refl)

lemma within_fire: "within R (cancel_fire h t)"
  unfolding cancel_fire_def by (cases t) (auto intro: rules)

end

section \<open>Lines a handler emits on its own\<close>

definition log_line :: "json \<Rightarrow> bool" where
  "log_line l \<longleftrightarrow> (\<exists>p. l = notification ''daemon.log'' p)"

lemma log_line_not_response [simp]: "log_line l \<Longrightarrow> \<not> is_response_to i l"
  by (auto simp: log_line_def)

lemma log_line_warn [simp]: "log_line (warn_unencrypted i d)"
  by (simp add: log_line_def warn_unencrypted_def)

locale conn_frame = server_frame R
  for R :: "('c, 's, 'h, 'w) srv \<Rightarrow> ('c, 's, 'h, 'w) srv \<Rightarrow> bool" +
  assumes frame_conns: "R s (s\<lparr>sr_next_conn := i, sr_conns := m\<rparr>)"
    and frame_log: "log_line l \<Longrightarrow> R s (srv_send l s)"
begin

lemma within_connect: "within R (srv_connect h params)"
proof -
  have "R s (srv_send l (s\<lparr>sr_next_conn := i, sr_conns := m\<rparr>))" if "log_line l" for s l i m
    using frame_trans [OF frame_conns frame_log] that by blast
  then have "within R (srv_register drv e t entry)" for drv e t entry
    by (simp add: within_def srv_register_def Let_def frame_conns)
  then show ?thesis unfolding srv_connect_def by (intro rules)
qed

lemma within_disconnect: "within R (srv_disconnect h params)"
proof -
  have "s\<lparr>sr_conns := m\<rparr> = s\<lparr>sr_next_conn := sr_next_conn s, sr_conns := m\<rparr>" for s :: "('c, 's, 'h, 'w) srv" and m
    by simp
  then have rem: "R s (s\<lparr>sr_conns := m\<rparr>)" for s m by (metis frame_conns)
  moreover have "R (s\<lparr>sr_conns := m\<rparr>) (snd (on_world io (s\<lparr>sr_conns := m\<rparr>)))"
    for s m and io :: "('w, unit) io"
    using within_on_world [of io] by (simp add: within_def)
  ultimately have "R s (snd (on_world io (s\<lparr>sr_conns := m\<rparr>)))" for s m and io :: "('w, unit) io"
    by (blast intro: frame_trans)
  with rem show ?thesis
    unfolding srv_disconnect_def
    by (intro rules) (auto intro!: withinI simp: Let_def frame_refl split: option.split)
qed

end

definition only_logs :: "('c, 's, 'h, 'w) srv \<Rightarrow> ('c, 's, 'h, 'w) srv \<Rightarrow> bool" where
  "only_logs s s' \<longleftrightarrow> (\<exists>pre. sr_out s' = sr_out s @ pre \<and> (\<forall>l\<in>set pre. log_line l))"

interpretation logs: conn_frame only_logs
proof (unfold_locales, goal_cases)
  case (2 s t u)
  then show ?case by (force simp: only_logs_def)
qed (simp_all add: only_logs_def srv_send_def)

text \<open>The tables of calls and workers, and the table of connections with the registry.\<close>

definition same_calls :: "('c, 's, 'h, 'w) srv \<Rightarrow> ('c, 's, 'h, 'w) srv \<Rightarrow> bool" where
  "same_calls s s' \<longleftrightarrow> sr_calls s' = sr_calls s \<and> sr_heap s' = sr_heap s
     \<and> sr_next_call s' = sr_next_call s \<and> sr_workers s' = sr_workers s"

interpretation calls: conn_frame same_calls
  by unfold_locales (simp_all add: same_calls_def srv_send_def)

definition same_conns :: "('c, 's, 'h, 'w) srv \<Rightarrow> ('c, 's, 'h, 'w) srv \<Rightarrow> bool" where
  "same_conns s s' \<longleftrightarrow> sr_conns s' = sr_conns s \<and> sr_next_conn s' = sr_next_conn s
     \<and> sr_registry s' = sr_registry s"

interpretation conns: server_frame same_conns
  by unfold_locales (simp_all add: same_conns_def)

section \<open>A connect that succeeds\<close>

lemma srv_connect_Inr:
  assumes "srv_connect h params s = (Inr j, s')"
  obtains spec d conn net w where
    "ho_spec h params = Some spec" "registry_get (sr_registry s) (cs_driver spec) = Inr d"
    "drive_connect d spec (net_new (cs_tunnel spec)) (sr_world s) = (Inr (conn, net), w)"
    "srv_register (cs_driver spec) (cv_encrypted (ho_conn h) conn w \<or> tunneled (net_new (cs_tunnel spec)))
       (tunneled (net_new (cs_tunnel spec))) \<lparr>ce_conn = conn, ce_net = net\<rparr> (s\<lparr>sr_world := w\<rparr>) = (Inr j, s')"
  using assms
  by (auto simp: srv_connect_def decode_def ok_or_def io_bind_def srv_driver_def on_world_def conn_posture_def Let_def
      split: option.splits sum.splits prod.splits)

section \<open>The query handlers\<close>

lemma decode_bind:
  "io_bind (decode h meth p params) k s =
     (case p params of None \<Rightarrow> (Inl (ho_de_err h meth params), s) | Some a \<Rightarrow> k a s)"
  by (simp add: io_bind_def decode_def split: option.split)

lemma srv_call_bind:
  "io_bind (srv_call i) k s =
     (case sr_calls s i of None \<Rightarrow> (Inl (''no such call '' @ show_u64 i), s) | Some ref \<Rightarrow> k ref s)"
  by (simp add: io_bind_def srv_call_def split: option.split)

lemma srv_conn_bind:
  "io_bind (srv_conn i) k s =
     (case sr_conns s i of None \<Rightarrow> (Inl (''no such connection '' @ show_u64 i), s)
      | Some e \<Rightarrow> k (ce_conn e) s)"
  by (simp add: io_bind_def srv_conn_def split: option.split)

lemmas bind_lookups = decode_bind srv_call_bind srv_conn_bind

lemma set_call_sel [simp]:
  "sr_out (set_call ref c s) = sr_out s" "sr_calls (set_call ref c s) = sr_calls s"
  "sr_conns (set_call ref c s) = sr_conns s" "sr_workers (set_call ref c s) = sr_workers s"
  "sr_next_call (set_call ref c s) = sr_next_call s" "sr_next_conn (set_call ref c s) = sr_next_conn s"
  "sr_world (set_call ref c s) = sr_world s" "sr_registry (set_call ref c s) = sr_registry s"
  "sr_heap (set_call ref c s) = (sr_heap s)[ref := c]"
  by (simp_all add: set_call_def)

text \<open>A page request reads and writes one call, and nothing else.\<close>

lemma srv_page_cases:
  "srv_page h params s =
     (case p_page params of
        None \<Rightarrow> (Returned (Inl (ho_de_err h ''query.page'' params)), s)
      | Some (i, from, n) \<Rightarrow>
          (case sr_calls s i of
             None \<Rightarrow> (Returned (Inl (''no such call '' @ show_u64 i)), s)
           | Some ref \<Rightarrow>
               (case call_page (sv_next_page (ho_stream h)) (sv_total (ho_stream h)) from n
                       (sr_heap s ! ref) of (r, c) \<Rightarrow> (r, set_call ref c s))))"
  by (simp add: srv_page_def bind_lookups split: option.split)

lemma page_frame: "only_logs s (snd (srv_page h params s))" "same_conns s (snd (srv_page h params s))"
  by (simp_all add: srv_page_cases only_logs_def same_conns_def split: option.split prod.split)

lemma page_out: "sr_out (snd (srv_page h params s)) = sr_out s"
  by (simp add: srv_page_cases split: option.split prod.split)

lemma take_frame: "within only_logs (cancel_take h params)" "within same_conns (cancel_take h params)"
  by (simp_all add: within_def cancel_take_def bind_lookups only_logs_def same_conns_def
      split: option.split prod.split)

lemma release_frame: "within only_logs (srv_release h params)" "within same_conns (srv_release h params)"
  by (simp_all add: within_def srv_release_def bind_lookups only_logs_def same_conns_def
      split: option.split)

lemma cancel_frame: "within only_logs (srv_cancel h params)" "within same_conns (srv_cancel h params)"
  unfolding srv_cancel_def
  by (intro logs.within_bind conns.within_bind take_frame logs.within_fire conns.within_fire)+

text \<open>Whatever the method, a handler emits log notifications only.\<close>

lemma dispatch_logs: "only_logs s (snd (srv_dispatch h meth params s))"
proof -
  note quiet = logs.rules logs.within_connect logs.within_disconnect logs.within_test
    logs.within_catalog logs.within_cell cancel_frame release_frame
  show ?thesis
    unfolding srv_dispatch_def by (intro logs.snd_if logs.snd_within quiet page_frame)
qed

text \<open>Only two methods change the table of connections.\<close>

lemma dispatch_conns:
  "meth \<noteq> ''conn.connect'' \<Longrightarrow> meth \<noteq> ''conn.disconnect'' \<Longrightarrow>
   same_conns s (snd (srv_dispatch h meth params s))"
proof -
  assume m: "meth \<noteq> ''conn.connect''" "meth \<noteq> ''conn.disconnect''"
  note quiet = conns.rules conns.within_test conns.within_catalog conns.within_cell cancel_frame
    release_frame
  show ?thesis
    unfolding srv_dispatch_def
    by (intro conns.snd_if)
      (erule m(1) [THEN notE] m(2) [THEN notE] | rule page_frame
        | (rule conns.snd_within, intro quiet))+
qed

text \<open>Only the four query methods change the calls.\<close>

lemma dispatch_calls:
  "meth \<noteq> ''query.page'' \<Longrightarrow> meth \<noteq> ''query.cancel'' \<Longrightarrow> meth \<noteq> ''query.release'' \<Longrightarrow>
   same_calls s (snd (srv_dispatch h meth params s))"
proof -
  assume m: "meth \<noteq> ''query.page''" "meth \<noteq> ''query.cancel''" "meth \<noteq> ''query.release''"
  note quiet = calls.rules calls.within_connect calls.within_disconnect calls.within_test
    calls.within_catalog calls.within_cell
  show ?thesis
    unfolding srv_dispatch_def
    by (intro calls.snd_if)
      (erule m(1) [THEN notE] m(2) [THEN notE] m(3) [THEN notE]
        | (rule calls.snd_within, intro quiet))+
qed

lemma dispatch_fate:
  "meth \<noteq> ''query.page'' \<Longrightarrow> \<exists>r. fst (srv_dispatch h meth params s) = Returned r"
  unfolding srv_dispatch_def by (simp only: returned_fst fate.inject simp_thms split: if_split)

lemma dispatch_page: "srv_dispatch h ''query.page'' params s = srv_page h params s"
  by (simp add: srv_dispatch_def)

text \<open>The handler of a request that needs a connection is the lookup followed by the driver's call.\<close>

lemma dispatch_conn_call:
  "conn_call h meth params = Some (i, m) \<Longrightarrow> srv_dispatch h meth params s = returned (on_conn i m) s"
  by (auto simp: conn_call_def srv_dispatch_def srv_databases_def srv_switch_database_def srv_structure_def
      srv_columns_def srv_indexes_def srv_ddl_def decode_bind returned_def split: if_splits)

section \<open>Every request is answered once\<close>

lemma srv_send_out [simp]: "sr_out (srv_send l s) = sr_out s @ [l]"
  by (simp add: srv_send_def)

lemma execute_out:
  "\<exists>line. sr_out (srv_execute h rid params s) = sr_out s @ [line] \<and> is_response_to rid line"
  by (simp add: srv_execute_def bind_lookups Let_def split: option.split)

lemma reply_out:
  "only_logs s s' \<Longrightarrow> \<exists>pre line. sr_out (srv_reply rid (Returned r, s')) = sr_out s @ pre @ [line]
     \<and> (\<forall>l\<in>set pre. log_line l) \<and> is_response_to rid line"
  by (cases r) (auto simp: srv_reply_def only_logs_def)

lemma handle_out:
  "(\<exists>pre line. sr_out (srv_handle h req s) = sr_out s @ pre @ [line]
      \<and> (\<forall>l\<in>set pre. log_line l) \<and> is_response_to (rq_id req) line)
   \<or> (rq_method req = ''query.page'' \<and> sr_out (srv_handle h req s) = sr_out s
      \<and> fst (srv_page h (rq_params req) s) \<in> {Panicked, Diverged})"
proof (cases "rq_method req = ''query.execute''")
  case True
  then show ?thesis
    using execute_out [of h "rq_id req" "rq_params req" s] by (auto simp: srv_handle_def intro: exI [of _ "[]"])
next
  case False
  obtain f s' where d: "srv_dispatch h (rq_method req) (rq_params req) s = (f, s')"
    by (cases "srv_dispatch h (rq_method req) (rq_params req) s")
  then have h: "srv_handle h req s = srv_reply (rq_id req) (f, s')"
    using False by (simp add: srv_handle_def)
  have logs: "only_logs s s'" using dispatch_logs [of s h] d by (metis snd_conv)
  show ?thesis
  proof (cases "\<exists>r. f = Returned r")
    case True
    then show ?thesis using reply_out [OF logs] h by auto
  next
    case other: False
    then have p: "rq_method req = ''query.page''"
      using dispatch_fate [of "rq_method req" h "rq_params req" s] d by auto
    then have q: "srv_page h (rq_params req) s = (f, s')" using d by (simp add: dispatch_page)
    have f: "f \<in> {Panicked, Diverged}" using other by (cases f) auto
    moreover have "sr_out s' = sr_out s" using page_out [of h "rq_params req" s] q by simp
    ultimately show ?thesis using p q h by (auto simp: srv_reply_def)
  qed
qed

end
