(* ===== verification/Server_Conc.thy ===== *)
theory Server_Conc
  imports Server_Props
begin

text \<open>
  The daemon as a transition system.  Handlers run as tasks and statements as workers; an event is
  one critical section of one of them: a handler between two waits, the two halves of a cancel, the
  five stages of a worker, or a change of the outside world on its own.  A handler that needs a
  connection looks it up and then waits for its lock, holding the connection meanwhile; it goes on when no
  worker has the lock, and a worker takes the lock when it is free.
  A run is a list of events; the invariants hold in every state a run reaches.
\<close>

section \<open>Events and steps\<close>

record ('c, 's, 'h, 'w) conc =
  cn_srv :: "('c, 's, 'h, 'w) srv"
  cn_firing :: "(u64 \<times> 'h option) list"

datatype 'w event =
    Ev_request request
  | Ev_resume nat
  | Ev_fire nat
  | Ev_start nat
  | Ev_lock nat
  | Ev_register nat
  | Ev_execute nat
  | Ev_finish nat
  | Ev_world 'w

definition holds_lock :: "'s worker_pc \<Rightarrow> bool" where
  "holds_lock pc = (case pc of Locked _ \<Rightarrow> True | Executing _ \<Rightarrow> True | _ \<Rightarrow> False)"

definition conn_locked :: "('c, 's, 'h, 'w) srv \<Rightarrow> u64 \<Rightarrow> bool" where
  "conn_locked s cid \<longleftrightarrow> (\<exists>w\<in>set (sr_workers s). wk_cid w = cid \<and> holds_lock (wk_pc w))"

definition step_cancel ::
  "('c, 's, 'h, 'w, 'key, 'ident) host \<Rightarrow> request \<Rightarrow> ('c, 's, 'h, 'w) conc \<Rightarrow> ('c, 's, 'h, 'w) conc" where
  "step_cancel h req s =
     (case cancel_take h (rq_params req) (cn_srv s) of
        (Inl e, s') \<Rightarrow> s\<lparr>cn_srv := srv_send (response_err (rq_id req) e) s'\<rparr>
      | (Inr t, s') \<Rightarrow> s\<lparr>cn_srv := s', cn_firing := cn_firing s @ [(rq_id req, t)]\<rparr>)"

text \<open>A handler that has found its connection waits for the lock, with the connection in hand.\<close>

definition wait_conn :: "u64 \<Rightarrow> u64 \<Rightarrow> ('w, json) io \<Rightarrow> ('c, 's, 'h, 'w) srv \<Rightarrow> ('c, 's, 'h, 'w) srv" where
  "wait_conn rid cid m s = s\<lparr>sr_waiting := sr_waiting s @ [\<lparr>wt_id = rid, wt_cid = cid, wt_task = m\<rparr>]\<rparr>"

text \<open>
  A request.  One that needs a connection begins with the lookup; any other is handled at once.  A page
  loop that never ends is not an event.
\<close>

definition step_request ::
  "('c, 's, 'h, 'w, 'key, 'ident) host \<Rightarrow> request \<Rightarrow> ('c, 's, 'h, 'w) conc
     \<Rightarrow> ('c, 's, 'h, 'w) conc option" where
  "step_request h req s =
     (if rq_method req = ''query.cancel'' then Some (step_cancel h req s)
      else (case conn_call h (rq_method req) (rq_params req) of
          Some (cid, m) \<Rightarrow>
            (case sr_conns (cn_srv s) cid of
               Some e \<Rightarrow> Some (s\<lparr>cn_srv := wait_conn (rq_id req) cid (m (ce_conn e)) (cn_srv s)\<rparr>)
             | None \<Rightarrow> Some (s\<lparr>cn_srv := srv_handle h req (cn_srv s)\<rparr>))
        | None \<Rightarrow>
            if rq_method req = ''query.page'' \<and> fst (srv_page h (rq_params req) (cn_srv s)) = Diverged
            then None
            else Some (s\<lparr>cn_srv := srv_handle h req (cn_srv s)\<rparr>)))"

text \<open>A waiting handler gets the lock: it asks the driver, answers, and lets the connection go.\<close>

definition step_resume :: "nat \<Rightarrow> ('c, 's, 'h, 'w) conc \<Rightarrow> ('c, 's, 'h, 'w) conc option" where
  "step_resume n s =
     Option.bind (nth_opt (sr_waiting (cn_srv s)) n) (\<lambda>t.
       if conn_locked (cn_srv s) (wt_cid t) then None
       else Some (s\<lparr>cn_srv := srv_reply (wt_id t) (returned (on_world (wt_task t))
              ((cn_srv s)\<lparr>sr_waiting := take n (sr_waiting (cn_srv s)) @ drop (Suc n) (sr_waiting (cn_srv s))\<rparr>))\<rparr>))"

definition step_fire ::
  "('c, 's, 'h, 'w, 'key, 'ident) host \<Rightarrow> nat \<Rightarrow> ('c, 's, 'h, 'w) conc \<Rightarrow> ('c, 's, 'h, 'w) conc option" where
  "step_fire h n s =
     map_option (\<lambda>(rid, t).
         s\<lparr>cn_srv := srv_reply rid (returned (cancel_fire h t) (cn_srv s)),
           cn_firing := take n (cn_firing s) @ drop (Suc n) (cn_firing s)\<rparr>)
       (nth_opt (cn_firing s) n)"

definition set_pc :: "nat \<Rightarrow> 's worker_pc \<Rightarrow> ('c, 's, 'h, 'w) srv \<Rightarrow> ('c, 's, 'h, 'w) srv" where
  "set_pc k pc s = s\<lparr>sr_workers := (sr_workers s)[k := (sr_workers s ! k)\<lparr>wk_pc := pc\<rparr>]\<rparr>"

text \<open>The next stage of a worker, given where it is.\<close>

definition worker_start ::
  "('c, 's, 'h, 'w, 'key, 'ident) host \<Rightarrow> nat \<Rightarrow> ('c, 's) worker \<Rightarrow> ('c, 's, 'h, 'w) srv
     \<Rightarrow> ('c, 's, 'h, 'w) srv option" where
  "worker_start h k w s =
     (case wk_pc w of Spawned \<Rightarrow> Some (set_pc k (Waiting (ho_clock h (sr_world s))) s) | _ \<Rightarrow> None)"

definition worker_lock ::
  "nat \<Rightarrow> ('c, 's) worker \<Rightarrow> ('c, 's, 'h, 'w) srv \<Rightarrow> ('c, 's, 'h, 'w) srv option" where
  "worker_lock k w s =
     (case wk_pc w of
        Waiting t \<Rightarrow> if conn_locked s (wk_cid w) then None else Some (set_pc k (Locked t) s)
      | _ \<Rightarrow> None)"

definition worker_register ::
  "('c, 's, 'h, 'w, 'key, 'ident) host \<Rightarrow> nat \<Rightarrow> ('c, 's) worker \<Rightarrow> ('c, 's, 'h, 'w) srv
     \<Rightarrow> ('c, 's, 'h, 'w) srv option" where
  "worker_register h k w s =
     (case wk_pc w of
        Locked t \<Rightarrow>
          Some (set_pc k (Executing t)
            (set_call (wk_ref w) (call_register h (wk_conn w) (sr_world s) (sr_heap s ! wk_ref w)) s))
      | _ \<Rightarrow> None)"

definition worker_execute ::
  "('c, 's, 'h, 'w, 'key, 'ident) host \<Rightarrow> nat \<Rightarrow> ('c, 's) worker \<Rightarrow> ('c, 's, 'h, 'w) srv
     \<Rightarrow> ('c, 's, 'h, 'w) srv option" where
  "worker_execute h k w s =
     (case wk_pc w of
        Executing t \<Rightarrow>
          (case on_world (cv_execute (ho_conn h) (wk_conn w) (wk_stmt w)) s of
             (r, s') \<Rightarrow> Some (set_pc k (Ran t r) s'))
      | _ \<Rightarrow> None)"

definition worker_end ::
  "('c, 's, 'h, 'w, 'key, 'ident) host \<Rightarrow> nat \<Rightarrow> ('c, 's) worker \<Rightarrow> ('c, 's, 'h, 'w) srv
     \<Rightarrow> ('c, 's, 'h, 'w) srv option" where
  "worker_end h k w s =
     (case wk_pc w of
        Ran t r \<Rightarrow>
          Some (set_pc k Ended
            (worker_finish h (wk_call w) (wk_ref w) (of_nat (ho_clock h (sr_world s) - t)) r s))
      | _ \<Rightarrow> None)"

definition step_worker ::
  "(nat \<Rightarrow> ('c, 's) worker \<Rightarrow> ('c, 's, 'h, 'w) srv \<Rightarrow> ('c, 's, 'h, 'w) srv option) \<Rightarrow> nat
     \<Rightarrow> ('c, 's, 'h, 'w) conc \<Rightarrow> ('c, 's, 'h, 'w) conc option" where
  "step_worker f k s =
     Option.bind (nth_opt (sr_workers (cn_srv s)) k)
       (\<lambda>w. map_option (\<lambda>s'. s\<lparr>cn_srv := s'\<rparr>) (f k w (cn_srv s)))"

definition conc_step ::
  "('c, 's, 'h, 'w, 'key, 'ident) host \<Rightarrow> 'w event \<Rightarrow> ('c, 's, 'h, 'w) conc
     \<Rightarrow> ('c, 's, 'h, 'w) conc option" where
  "conc_step h ev s =
     (case ev of
        Ev_request req \<Rightarrow> step_request h req s
      | Ev_resume n \<Rightarrow> step_resume n s
      | Ev_fire n \<Rightarrow> step_fire h n s
      | Ev_start k \<Rightarrow> step_worker (worker_start h) k s
      | Ev_lock k \<Rightarrow> step_worker worker_lock k s
      | Ev_register k \<Rightarrow> step_worker (worker_register h) k s
      | Ev_execute k \<Rightarrow> step_worker (worker_execute h) k s
      | Ev_finish k \<Rightarrow> step_worker (worker_end h) k s
      | Ev_world w \<Rightarrow> Some (s\<lparr>cn_srv := (cn_srv s)\<lparr>sr_world := w\<rparr>\<rparr>))"

definition conc_new :: "('c, 'w) registry \<Rightarrow> 'w \<Rightarrow> ('c, 's, 'h, 'w) conc" where
  "conc_new reg w = \<lparr>cn_srv = srv_new reg w, cn_firing = []\<rparr>"

fun conc_run ::
  "('c, 's, 'h, 'w, 'key, 'ident) host \<Rightarrow> 'w event list \<Rightarrow> ('c, 's, 'h, 'w) conc
     \<Rightarrow> ('c, 's, 'h, 'w) conc option" where
  "conc_run h [] s = Some s"
| "conc_run h (ev # evs) s = Option.bind (conc_step h ev s) (conc_run h evs)"

inductive reach :: "('c, 's, 'h, 'w, 'key, 'ident) host \<Rightarrow> ('c, 's, 'h, 'w) conc
    \<Rightarrow> ('c, 's, 'h, 'w) conc \<Rightarrow> bool"
  for h s0 where
  reach_init: "reach h s0 s0"
| reach_step: "reach h s0 s \<Longrightarrow> conc_step h ev s = Some s' \<Longrightarrow> reach h s0 s'"

lemma reach_run: "conc_run h evs s = Some s' \<Longrightarrow> reach h s0 s \<Longrightarrow> reach h s0 s'"
proof (induction evs arbitrary: s)
  case (Cons ev evs)
  then show ?case by (auto simp: bind_eq_Some_conv intro: reach_step)
qed simp

text \<open>An invariant that the initial state has and every step keeps holds in every reachable state.\<close>

lemma reach_invariant:
  assumes "reach h s0 s" "P s0" "\<And>s ev s'. P s \<Longrightarrow> conc_step h ev s = Some s' \<Longrightarrow> P s'"
  shows "P s"
  using assms by (induction rule: reach.induct) blast+

section \<open>Waiting for a connection\<close>

lemma conn_locked_wait [simp]: "conn_locked (wait_conn rid cid m s) c \<longleftrightarrow> conn_locked s c"
  by (simp add: conn_locked_def wait_conn_def)

text \<open>Undisturbed, the two steps of a request that needs a connection are the handler.\<close>

lemma wait_then_resume:
  assumes "conn_call h (rq_method req) (rq_params req) = Some (cid, m)" "sr_conns (cn_srv s) cid = Some e"
    and "\<not> conn_locked (cn_srv s) cid"
  shows "conc_run h [Ev_request req, Ev_resume (length (sr_waiting (cn_srv s)))] s
     = Some (s\<lparr>cn_srv := srv_handle h req (cn_srv s)\<rparr>)"
proof -
  have m: "rq_method req \<noteq> ''query.cancel''" "rq_method req \<noteq> ''query.execute''"
    using assms(1) by (auto simp: conn_call_def)
  have "srv_handle h req (cn_srv s)
      = srv_reply (rq_id req) (returned (on_world (m (ce_conn e))) (cn_srv s))"
    using m(2) dispatch_conn_call [OF assms(1)] assms(2)
    by (simp add: srv_handle_def on_conn_def srv_conn_bind returned_def)
  moreover have "step_request h req s
      = Some (s\<lparr>cn_srv := wait_conn (rq_id req) cid (m (ce_conn e)) (cn_srv s)\<rparr>)"
    using m(1) assms(1,2) by (simp add: step_request_def)
  ultimately show ?thesis
    using assms(3) by (simp add: conc_step_def step_resume_def nth_opt_def) (simp add: wait_conn_def)
qed

text \<open>
  A handler that waits holds its connection: a disconnect meanwhile takes the connection off the table
  without closing it, and the handler goes on with it.
\<close>

lemma waiting_keeps_connection:
  assumes "t \<in> set (sr_waiting s)" "p_conn_id params = Some (wt_cid t)"
  shows "srv_disconnect h params s = (Inr (JObj []), s\<lparr>sr_conns := (sr_conns s)(wt_cid t := None)\<rparr>)"
proof -
  have "conn_held s (wt_cid t)" using assms(1) by (auto simp: conn_held_def)
  then show ?thesis
    using assms(2) by (auto simp: srv_disconnect_def decode_bind Let_def fun_upd_idem split: option.split)
qed

section \<open>The tables stay in step\<close>

text \<open>
  A statement's worker, its call object and its identifier are created together: the k-th worker has
  the k-th call object and, counting from one, the k-th identifier.
\<close>

definition shape_inv :: "('c, 's, 'h, 'w) srv \<Rightarrow> bool" where
  "shape_inv s \<longleftrightarrow>
     length (sr_workers s) = length (sr_heap s)
     \<and> (\<forall>k < length (sr_heap s). wk_ref (sr_workers s ! k) = k
          \<and> wk_call (sr_workers s ! k) = of_nat (Suc k))
     \<and> sr_next_call s = of_nat (Suc (length (sr_heap s)))
     \<and> (\<forall>i r. sr_calls s i = Some r \<longrightarrow> r < length (sr_heap s) \<and> i = of_nat (Suc r))"

text \<open>What a call object may look like while its worker is where it is.\<close>

definition call_state :: "'s worker_pc \<Rightarrow> ('s, 'h) call \<Rightarrow> bool" where
  "call_state pc c \<longleftrightarrow>
     (case pc of
        Ended \<Rightarrow> ca_cancel c = None \<and> ca_status c \<noteq> Running
          \<and> (ca_status c = Done \<longrightarrow> ca_stream c \<noteq> None) \<and> (ca_status c = Failed \<longrightarrow> ca_error c \<noteq> None)
      | Executing _ \<Rightarrow> ca_status c = Running \<or> ca_status c = Cancelled
      | Ran _ _ \<Rightarrow> ca_status c = Running \<or> ca_status c = Cancelled
      | _ \<Rightarrow> ca_cancel c = None \<and> (ca_status c = Running \<or> ca_status c = Cancelled))"

definition calls_inv :: "('c, 's, 'h, 'w) srv \<Rightarrow> bool" where
  "calls_inv s \<longleftrightarrow>
     (\<forall>k < length (sr_heap s). call_state (wk_pc (sr_workers s ! k)) (sr_heap s ! k))"

text \<open>Two workers never hold the lock of one connection.\<close>

definition lock_inv :: "('c, 's, 'h, 'w) srv \<Rightarrow> bool" where
  "lock_inv s \<longleftrightarrow>
     (\<forall>j < length (sr_workers s). \<forall>k < length (sr_workers s).
        holds_lock (wk_pc (sr_workers s ! j)) \<longrightarrow> holds_lock (wk_pc (sr_workers s ! k)) \<longrightarrow>
        wk_cid (sr_workers s ! j) = wk_cid (sr_workers s ! k) \<longrightarrow> j = k)"

definition core_inv :: "('c, 's, 'h, 'w) srv \<Rightarrow> bool" where
  "core_inv s \<longleftrightarrow> shape_inv s \<and> calls_inv s \<and> lock_inv s"

text \<open>How a step may change a call its worker does not touch.\<close>

definition call_step :: "('s, 'h) call \<Rightarrow> ('s, 'h) call \<Rightarrow> bool" where
  "call_step c c' \<longleftrightarrow>
     ca_error c' = ca_error c \<and> (ca_stream c' = None \<longleftrightarrow> ca_stream c = None)
     \<and> (ca_cancel c' = ca_cancel c \<or> ca_cancel c' = None)
     \<and> (ca_status c' = ca_status c \<or> ca_status c = Running \<and> ca_status c' = Cancelled)"

lemma call_step_refl [simp]: "call_step c c"
  by (simp add: call_step_def)

lemma call_step_page: "call_page nx tot fr n c = (r, c') \<Longrightarrow> call_step c c'"
  by (drule call_page_frame) (auto simp: call_step_def call_frame_def)

lemma call_step_take: "call_take c = (t, c') \<Longrightarrow> call_step c c'"
  by (auto simp: call_step_def call_take_def split: if_splits)

lemma call_state_step: "call_state pc c \<Longrightarrow> call_step c c' \<Longrightarrow> call_state pc c'"
  by (auto simp: call_state_def call_step_def split: worker_pc.splits)

text \<open>
  The three kinds of change of the tables: a call object in place, a new statement, a worker's stage.
\<close>

definition core_sel :: "('c, 's, 'h, 'w) srv \<Rightarrow> ('c, 's) worker list \<times> ('s, 'h) call list \<times> u64 \<times> (u64 \<rightharpoonup> nat)" where
  "core_sel s = (sr_workers s, sr_heap s, sr_next_call s, sr_calls s)"

lemma core_inv_sel: "core_inv s \<Longrightarrow> core_sel s' = core_sel s \<Longrightarrow> core_inv s'"
  by (simp add: core_inv_def shape_inv_def calls_inv_def lock_inv_def core_sel_def)

lemma core_inv_call:
  assumes "core_inv s" "r < length (sr_heap s)" "call_step (sr_heap s ! r) c"
  shows "core_inv (set_call r c s)"
  using assms
  by (auto simp: core_inv_def shape_inv_def calls_inv_def lock_inv_def nth_list_update
      intro: call_state_step)

lemma core_inv_release: "core_inv s \<Longrightarrow> core_inv (s\<lparr>sr_calls := (sr_calls s)(i := None)\<rparr>)"
  by (auto simp: core_inv_def shape_inv_def calls_inv_def lock_inv_def)

lemma set_pc_sel [simp]:
  "sr_out (set_pc k pc s) = sr_out s" "sr_heap (set_pc k pc s) = sr_heap s"
  "sr_calls (set_pc k pc s) = sr_calls s" "sr_next_call (set_pc k pc s) = sr_next_call s"
  "sr_world (set_pc k pc s) = sr_world s" "sr_conns (set_pc k pc s) = sr_conns s"
  "sr_workers (set_pc k pc s) = (sr_workers s)[k := (sr_workers s ! k)\<lparr>wk_pc := pc\<rparr>]"
  by (simp_all add: set_pc_def)

lemma conn_locked_nth:
  "conn_locked s cid \<longleftrightarrow>
     (\<exists>j < length (sr_workers s). wk_cid (sr_workers s ! j) = cid \<and> holds_lock (wk_pc (sr_workers s ! j)))"
  by (metis conn_locked_def in_set_conv_nth)

text \<open>A worker's stage, with the change it makes to its call.\<close>

lemma core_inv_stage:
  assumes inv: "core_inv s" and k: "k < length (sr_heap s)" and c: "call_state pc c"
    and lock: "holds_lock pc \<Longrightarrow>
      holds_lock (wk_pc (sr_workers s ! k)) \<or> \<not> conn_locked s (wk_cid (sr_workers s ! k))"
  shows "core_inv (set_pc k pc (set_call k c s))"
proof -
  have kw: "k < length (sr_workers s)"
    using inv k by (simp add: core_inv_def shape_inv_def)
  let ?ws = "(sr_workers s)[k := (sr_workers s ! k)\<lparr>wk_pc := pc\<rparr>]"
  have held: "holds_lock (wk_pc (sr_workers s ! i)) \<or> (i = k \<and> holds_lock pc)"
    if "holds_lock (wk_pc (?ws ! i))" for i
    using that kw by (auto simp: nth_list_update split: if_splits)
  have cid: "wk_cid (?ws ! i) = wk_cid (sr_workers s ! i)" for i
    using kw by (simp add: nth_list_update)
  have "i = j" if "i < length (sr_workers s)" "j < length (sr_workers s)"
    "holds_lock (wk_pc (?ws ! i))" "holds_lock (wk_pc (?ws ! j))"
    "wk_cid (sr_workers s ! i) = wk_cid (sr_workers s ! j)" for i j
    using held [OF that(3)] held [OF that(4)] that(1,2,5) inv lock
    unfolding core_inv_def lock_inv_def conn_locked_nth by metis
  then have "lock_inv (set_pc k pc (set_call k c s))"
    by (simp add: lock_inv_def cid)
  moreover have "shape_inv (set_pc k pc (set_call k c s))" "calls_inv (set_pc k pc (set_call k c s))"
    using inv k c by (auto simp: core_inv_def shape_inv_def calls_inv_def nth_list_update)
  ultimately show ?thesis by (simp add: core_inv_def)
qed

lemma core_inv_pc:
  assumes "core_inv s" "k < length (sr_heap s)" "call_state pc (sr_heap s ! k)"
    and "holds_lock pc \<Longrightarrow>
      holds_lock (wk_pc (sr_workers s ! k)) \<or> \<not> conn_locked s (wk_cid (sr_workers s ! k))"
  shows "core_inv (set_pc k pc s)"
proof -
  have "set_call k (sr_heap s ! k) s = s" by (simp add: set_call_def)
  with core_inv_stage [OF assms] show ?thesis by simp
qed

text \<open>A new statement.\<close>

definition add_call :: "u64 \<Rightarrow> 'c \<Rightarrow> string \<Rightarrow> ('c, 's, 'h, 'w) srv \<Rightarrow> ('c, 's, 'h, 'w) srv" where
  "add_call cid c stmt s =
     s\<lparr>sr_next_call := sr_next_call s + 1, sr_heap := sr_heap s @ [call_new],
       sr_calls := (sr_calls s)(sr_next_call s \<mapsto> length (sr_heap s)),
       sr_workers := sr_workers s @
         [\<lparr>wk_call = sr_next_call s, wk_ref = length (sr_heap s), wk_cid = cid, wk_conn = c,
           wk_stmt = stmt, wk_pc = Spawned\<rparr>]\<rparr>"

lemma srv_execute_cases:
  "srv_execute h rid params s =
     (case p_conn_text ''statement'' params of
        None \<Rightarrow> srv_send (response_err rid (ho_de_err h ''query.execute'' params)) s
      | Some (cid, stmt) \<Rightarrow>
          (case sr_conns s cid of
             None \<Rightarrow> srv_send (response_err rid (''no such connection '' @ show_u64 cid)) s
           | Some e \<Rightarrow>
               srv_send (response_ok rid (JObj [(''call_id'', JInt (uint (sr_next_call s)))]))
                 (add_call cid (ce_conn e) stmt s)))"
  by (simp add: srv_execute_def bind_lookups add_call_def srv_send_def Let_def split: option.split)

lemma core_inv_add:
  assumes inv: "core_inv s"
  shows "core_inv (add_call cid c stmt s)"
proof -
  from inv have len: "length (sr_workers s) = length (sr_heap s)"
    and nx: "sr_next_call s = of_nat (Suc (length (sr_heap s)))"
    by (simp_all add: core_inv_def shape_inv_def)
  have "shape_inv (add_call cid c stmt s)"
    using inv len nx
    by (auto simp: core_inv_def shape_inv_def add_call_def nth_append less_Suc_eq ac_simps)
  moreover have "calls_inv (add_call cid c stmt s)"
    using inv len
    by (auto simp: core_inv_def calls_inv_def add_call_def nth_append less_Suc_eq call_state_def
        call_new_def)
  moreover have "lock_inv (add_call cid c stmt s)"
    using inv
    by (auto simp: core_inv_def lock_inv_def add_call_def nth_append less_Suc_eq holds_lock_def
        split: if_splits)
  ultimately show ?thesis by (simp add: core_inv_def)
qed

section \<open>Every step keeps them\<close>

lemma core_sel_send [simp]: "core_sel (srv_send l s) = core_sel s"
  by (simp add: core_sel_def srv_send_def)

lemma core_sel_reply [simp]: "core_sel (srv_reply rid r) = core_sel (snd r)"
  by (cases r; cases "fst r") (auto simp: srv_reply_def split: sum.split)

lemma core_sel_same: "same_calls s s' \<Longrightarrow> core_sel s' = core_sel s"
  by (simp add: same_calls_def core_sel_def)

lemma core_sel_world [simp]: "core_sel (s\<lparr>sr_world := w\<rparr>) = core_sel s"
  by (simp add: core_sel_def)

lemma core_inv_send [simp]: "core_inv s \<Longrightarrow> core_inv (srv_send l s)"
  by (erule core_inv_sel) simp

lemma core_inv_calls_lt: "core_inv s \<Longrightarrow> sr_calls s i = Some r \<Longrightarrow> r < length (sr_heap s)"
  by (auto simp: core_inv_def shape_inv_def)

lemma core_inv_page: "core_inv s \<Longrightarrow> core_inv (snd (srv_page h params s))"
  by (auto simp: srv_page_cases core_inv_call core_inv_calls_lt call_step_page
      split: option.split prod.split)

lemma core_inv_take: "core_inv s \<Longrightarrow> core_inv (snd (cancel_take h params s))"
  by (auto simp: cancel_take_def bind_lookups core_inv_call core_inv_calls_lt call_step_take
      split: option.split prod.split)

lemma core_inv_release_h: "core_inv s \<Longrightarrow> core_inv (snd (srv_release h params s))"
  by (auto simp: srv_release_def bind_lookups core_inv_release split: option.split)

lemma core_inv_dispatch:
  assumes "core_inv s" "meth \<noteq> ''query.cancel''"
  shows "core_inv (snd (srv_dispatch h meth params s))"
proof -
  consider "meth = ''query.page''" | "meth = ''query.release''"
    | "meth \<noteq> ''query.page''" "meth \<noteq> ''query.release''" by blast
  then show ?thesis
  proof cases
    case 1
    with assms(1) show ?thesis by (simp add: dispatch_page core_inv_page)
  next
    case 2
    then have "srv_dispatch h meth params s = returned (srv_release h params) s"
      by (simp add: srv_dispatch_def)
    with assms(1) show ?thesis by (simp add: core_inv_release_h)
  next
    case 3
    with assms show ?thesis by (blast intro: core_inv_sel core_sel_same dispatch_calls)
  qed
qed

lemma core_inv_handle:
  "core_inv s \<Longrightarrow> rq_method req \<noteq> ''query.cancel'' \<Longrightarrow> core_inv (srv_handle h req s)"
  by (auto simp: srv_handle_def srv_execute_cases core_inv_add core_inv_dispatch
      intro: core_inv_sel [of "snd (srv_dispatch h (rq_method req) (rq_params req) s)"]
      split: option.split)

lemma core_inv_cancel: "core_inv (cn_srv s) \<Longrightarrow> core_inv (cn_srv (step_cancel h req s))"
proof -
  assume "core_inv (cn_srv s)"
  from core_inv_take [OF this, of h "rq_params req"] show ?thesis
    by (auto simp: step_cancel_def split: prod.split sum.split)
qed

lemma core_sel_fire: "core_sel (snd (cancel_fire h t s)) = core_sel s"
  using calls.within_fire [of h t] by (simp add: within_def core_sel_same)

lemma core_inv_fire:
  "core_inv (cn_srv s) \<Longrightarrow> step_fire h n s = Some s' \<Longrightarrow> core_inv (cn_srv s')"
  by (auto simp: step_fire_def core_sel_fire intro: core_inv_sel)

lemma core_sel_waiting [simp]:
  "core_sel (s\<lparr>sr_waiting := ts\<rparr>) = core_sel s" "core_sel (wait_conn rid cid m s) = core_sel s"
  by (simp_all add: core_sel_def wait_conn_def)

lemma core_inv_wait [simp]: "core_inv s \<Longrightarrow> core_inv (wait_conn rid cid m s)"
  by (erule core_inv_sel) simp

lemma core_sel_on_world [simp]: "core_sel (snd (on_world m s)) = core_sel s"
  by (simp add: on_world_def split: prod.split)

lemma step_resume_sel: "step_resume n s = Some s' \<Longrightarrow> core_sel (cn_srv s') = core_sel (cn_srv s)"
  by (auto simp: step_resume_def bind_eq_Some_conv split: if_splits)

text \<open>The stages of a worker.\<close>

lemma core_inv_worker:
  assumes inv: "core_inv s" and k: "k < length (sr_workers s)"
    and f: "f \<in> {worker_start h, worker_lock, worker_register h, worker_execute h, worker_end h}"
    and s': "f k (sr_workers s ! k) s = Some s'"
  shows "core_inv s'"
proof -
  let ?w = "sr_workers s ! k"
  from inv k have h: "k < length (sr_heap s)" and ref: "wk_ref ?w = k"
    and st: "call_state (wk_pc ?w) (sr_heap s ! k)"
    by (simp_all add: core_inv_def shape_inv_def calls_inv_def)
  from f consider "f = worker_start h" | "f = worker_lock" | "f = worker_register h"
    | "f = worker_execute h" | "f = worker_end h" by blast
  then show ?thesis
  proof cases
    case 1
    with s' st show ?thesis
      by (auto simp: worker_start_def call_state_def holds_lock_def intro!: core_inv_pc [OF inv h]
          split: worker_pc.splits)
  next
    case 2
    with s' st show ?thesis
      by (auto simp: worker_lock_def call_state_def holds_lock_def intro!: core_inv_pc [OF inv h]
          split: worker_pc.splits if_splits)
  next
    case 3
    with s' st show ?thesis
      by (auto simp: worker_register_def ref call_state_def call_register_def holds_lock_def
          intro!: core_inv_stage [OF inv h] split: worker_pc.splits option.splits)
  next
    case 4
    then obtain t r w where "wk_pc ?w = Executing t" "s' = set_pc k (Ran t r) (s\<lparr>sr_world := w\<rparr>)"
      using s' by (auto simp: worker_execute_def on_world_def split: worker_pc.splits prod.splits)
    moreover have "core_inv (s\<lparr>sr_world := w\<rparr>)" using inv by (rule core_inv_sel) simp
    ultimately show ?thesis
      using h st by (auto simp: call_state_def holds_lock_def intro!: core_inv_pc)
  next
    case 5
    then obtain t r where pc: "wk_pc ?w = Ran t r"
      and s'': "s' = set_pc k Ended
        (worker_finish h (wk_call ?w) k (of_nat (ho_clock h (sr_world s) - t)) r s)"
      using s' by (auto simp: worker_end_def ref split: worker_pc.splits)
    obtain c st' err aff where c: "call_finish (ho_stream h) r (sr_heap s ! k) = (c, st', err, aff)"
      by (cases "call_finish (ho_stream h) r (sr_heap s ! k)") auto
    have "call_state Ended c"
      using c st pc by (auto simp: call_state_def call_finish_def Let_def split: sum.splits if_splits)
    then have "core_inv (set_pc k Ended (set_call k c s))"
      by (intro core_inv_stage [OF inv h]) (simp_all add: holds_lock_def)
    then show ?thesis
      by (rule core_inv_sel)
        (simp add: s'' worker_finish_def c core_sel_def notify_state_def srv_send_def set_pc_def set_call_def)
  qed
qed

lemma core_inv_new: "core_inv (srv_new reg w)"
  by (simp add: core_inv_def shape_inv_def calls_inv_def lock_inv_def srv_new_def)

lemma core_inv_step:
  assumes inv: "core_inv (cn_srv s)" and step: "conc_step h ev s = Some s'"
  shows "core_inv (cn_srv s')"
proof -
  have worker: "core_inv (cn_srv s')"
    if "step_worker f k s = Some s'"
      "f \<in> {worker_start h, worker_lock, worker_register h, worker_execute h, worker_end h}" for f k
    using that core_inv_worker [OF inv, of k f h]
    by (auto simp: step_worker_def bind_eq_Some_conv result_iff)
  show ?thesis
  proof (cases ev)
    case (Ev_request req)
    with inv step show ?thesis
      by (auto simp: conc_step_def step_request_def core_inv_cancel core_inv_handle
          split: if_splits option.splits)
  next
    case (Ev_resume n)
    with inv step show ?thesis by (auto simp: conc_step_def intro: core_inv_sel step_resume_sel)
  next
    case (Ev_fire n)
    with inv step show ?thesis by (auto simp: conc_step_def core_inv_fire)
  next
    case (Ev_world w)
    with inv step show ?thesis by (auto simp: conc_step_def intro: core_inv_sel)
  qed (use step worker in \<open>auto simp: conc_step_def\<close>)
qed

lemma core_inv_reach:
  "reach h (conc_new reg w) s \<Longrightarrow> core_inv (cn_srv s)"
  by (erule reach_invariant [where P = "\<lambda>s. core_inv (cn_srv s)"])
    (auto simp: conc_new_def core_inv_new intro: core_inv_step)

end
