(* ===== verification/Server_Notes.thy ===== *)
theory Server_Notes
  imports Server_Conc
begin

text \<open>
  What a client sees of a statement.  Each step of the daemon has one of four effects on the calls
  and on the lines sent; over these effects the properties of the notifications are proved: the
  response with the identifier precedes the notification of that call, a finished call has been
  notified exactly once, with its final status, and no status changes after that.
\<close>

section \<open>State notifications\<close>

definition state_note :: "u64 \<Rightarrow> json \<Rightarrow> bool" where
  "state_note i l \<longleftrightarrow>
     json_get ''method'' l = Some (JStr ''query.state'')
     \<and> Option.bind (json_get ''params'' l) (json_get ''call_id'') = Some (JInt (uint i))"

definition note_status :: "json \<Rightarrow> json option" where
  "note_status l = Option.bind (json_get ''params'' l) (json_get ''state'')"

definition state_line :: "u64 \<Rightarrow> call_status \<Rightarrow> u64 \<Rightarrow> error option \<Rightarrow> u64 option \<Rightarrow> json" where
  "state_line i st ms err aff = notification ''query.state'' (state_params i st ms err aff)"

lemma state_note_line [simp]: "state_note j (state_line i st ms err aff) \<longleftrightarrow> j = i"
  by (auto simp: word_uint_eq_iff state_note_def state_line_def state_params_def notification_def
      json_set_def json_get_def Let_def split: option.split)

lemma note_status_line [simp]:
  "note_status (state_line i st ms err aff) = Some (JStr (status_str st))"
  by (auto simp: note_status_def state_line_def state_params_def notification_def json_set_def
      json_get_def Let_def split: option.split)

lemma state_note_other [simp]:
  "\<not> state_note i (response_ok j r)" "\<not> state_note i (response_err j e)"
  "log_line l \<Longrightarrow> \<not> state_note i l"
  by (auto simp: state_note_def response_ok_def response_err_def log_line_def notification_def)

lemma response_not_note: "is_response_to j l \<Longrightarrow> json_get ''method'' l = None \<Longrightarrow> \<not> state_note i l"
  by (simp add: state_note_def)

definition call_answer :: "u64 \<Rightarrow> u64 \<Rightarrow> json" where
  "call_answer rid i = response_ok rid (JObj [(''call_id'', JInt (uint i))])"

section \<open>The effects of a step\<close>

definition quiet_out :: "('c, 's, 'h, 'w) srv \<Rightarrow> ('c, 's, 'h, 'w) srv \<Rightarrow> bool" where
  "quiet_out s s' \<longleftrightarrow> (\<exists>ls. sr_out s' = sr_out s @ ls \<and> (\<forall>l\<in>set ls. \<forall>i. \<not> state_note i l))"

inductive effect :: "('c \<Rightarrow> 'w \<Rightarrow> 'h option) \<Rightarrow> ('c, 's, 'h, 'w) srv \<Rightarrow> ('c, 's, 'h, 'w) srv \<Rightarrow> bool"
  for tk where
  eff_calls: "quiet_out s s' \<Longrightarrow> sr_workers s' = sr_workers s \<Longrightarrow>
    list_all2 call_step (sr_heap s) (sr_heap s') \<Longrightarrow> effect tk s s'"
| eff_add: "sr_workers s' = sr_workers s @ [w] \<Longrightarrow> wk_pc w \<noteq> Ended \<Longrightarrow>
    sr_heap s' = sr_heap s @ [call_new] \<Longrightarrow>
    sr_out s' = sr_out s @ [call_answer rid (of_nat (Suc (length (sr_heap s))))] \<Longrightarrow> effect tk s s'"
| eff_stage: "k < length (sr_heap s) \<Longrightarrow> wk_pc (sr_workers s ! k) \<noteq> Ended \<Longrightarrow> pc \<noteq> Ended \<Longrightarrow>
    ca_status c = ca_status (sr_heap s ! k) \<Longrightarrow>
    ca_cancel c = ca_cancel (sr_heap s ! k) \<or> (\<exists>w. ca_cancel c = tk (wk_conn (sr_workers s ! k)) w) \<Longrightarrow>
    sr_workers s' = (sr_workers s)[k := (sr_workers s ! k)\<lparr>wk_pc := pc\<rparr>] \<Longrightarrow>
    sr_heap s' = (sr_heap s)[k := c] \<Longrightarrow> sr_out s' = sr_out s \<Longrightarrow> effect tk s s'"
| eff_finish: "k < length (sr_heap s) \<Longrightarrow> wk_pc (sr_workers s ! k) \<noteq> Ended \<Longrightarrow>
    (ca_status c = Cancelled \<longleftrightarrow> ca_status (sr_heap s ! k) = Cancelled) \<Longrightarrow> ca_status c \<noteq> Running \<Longrightarrow> ca_cancel c = None \<Longrightarrow>
    sr_workers s' = (sr_workers s)[k := (sr_workers s ! k)\<lparr>wk_pc := Ended\<rparr>] \<Longrightarrow>
    sr_heap s' = (sr_heap s)[k := c] \<Longrightarrow>
    sr_out s' = sr_out s @ [state_line (of_nat (Suc k)) (ca_status c) ms err aff] \<Longrightarrow> effect tk s s'"

lemma eff_refl_calls: "quiet_out s s' \<Longrightarrow> same_calls s s' \<Longrightarrow> effect tk s s'"
  by (rule eff_calls) (simp_all add: same_calls_def list.rel_refl)

lemma quiet_refl [simp]: "sr_out s' = sr_out s \<Longrightarrow> quiet_out s s'"
  by (simp add: quiet_out_def)

lemma quiet_logs: "only_logs s s' \<Longrightarrow> quiet_out s s'"
  by (auto simp: only_logs_def quiet_out_def)

lemma quiet_reply: "only_logs s (snd r) \<Longrightarrow> quiet_out s (srv_reply rid r)"
  by (cases r; cases "fst r") (auto simp: srv_reply_def only_logs_def quiet_out_def split: sum.split)

lemma list_all2_update: "k < length xs \<Longrightarrow> call_step (xs ! k) c \<Longrightarrow> list_all2 call_step xs (xs[k := c])"
  by (auto simp: list_all2_conv_all_nth nth_list_update)

lemma core_sel_eq:
  "core_sel s' = core_sel s \<longleftrightarrow> sr_workers s' = sr_workers s \<and> sr_heap s' = sr_heap s
     \<and> sr_next_call s' = sr_next_call s \<and> sr_calls s' = sr_calls s"
  by (auto simp: core_sel_def)

lemma srv_reply_sel [simp]:
  "sr_workers (srv_reply rid r) = sr_workers (snd r)" "sr_heap (srv_reply rid r) = sr_heap (snd r)"
  by (cases r; cases "fst r"; auto simp: srv_reply_def srv_send_def split: sum.split)+

lemma core_sel_effect: "quiet_out s s' \<Longrightarrow> core_sel s' = core_sel s \<Longrightarrow> effect tk s s'"
  by (rule eff_calls) (simp_all add: core_sel_eq list.rel_refl)

lemma dispatch_steps:
  assumes "core_inv s" "meth \<noteq> ''query.cancel''" "srv_dispatch h meth params s = (f, s')"
  shows "sr_workers s' = sr_workers s \<and> list_all2 call_step (sr_heap s) (sr_heap s')"
proof -
  consider "meth = ''query.page''" | "meth = ''query.release''"
    | "meth \<noteq> ''query.page''" "meth \<noteq> ''query.release''" by blast
  then show ?thesis
  proof cases
    case 1
    with assms(1,3) show ?thesis
      by (auto simp: dispatch_page srv_page_cases list.rel_refl list_all2_update core_inv_calls_lt
          call_step_page split: option.splits prod.splits)
  next
    case 2
    then have "srv_dispatch h meth params s = returned (srv_release h params) s"
      by (simp add: srv_dispatch_def)
    with assms(3) show ?thesis
      by (auto simp: returned_def srv_release_def bind_lookups list.rel_refl split: option.splits)
  next
    case 3
    with assms show ?thesis
      using dispatch_calls [of meth s h params] by (simp add: same_calls_def list.rel_refl)
  qed
qed

lemma handle_effect:
  assumes inv: "core_inv s" and "rq_method req \<noteq> ''query.cancel''"
  shows "effect tk s (srv_handle h req s)"
proof (cases "rq_method req = ''query.execute''")
  case True
  have nx: "sr_next_call s = of_nat (Suc (length (sr_heap s)))"
    using inv by (simp add: core_inv_def shape_inv_def)
  have "effect tk s (srv_send (response_err rid e) s)" for rid e
    by (rule core_sel_effect) (simp_all add: quiet_out_def)
  moreover have "effect tk s (srv_send (call_answer rid (sr_next_call s)) (add_call cid c stmt s))"
    for rid cid c stmt
    by (rule eff_add [where rid = rid]) (auto simp: srv_send_def add_call_def nx)
  ultimately show ?thesis
    using True by (simp add: srv_handle_def srv_execute_cases call_answer_def split: option.split)
next
  case False
  obtain f s' where d: "srv_dispatch h (rq_method req) (rq_params req) s = (f, s')"
    by (cases "srv_dispatch h (rq_method req) (rq_params req) s")
  have "quiet_out s (srv_reply (rq_id req) (f, s'))"
    using dispatch_logs [of s h "rq_method req" "rq_params req"] d by (simp add: quiet_reply)
  then have "effect tk s (srv_reply (rq_id req) (f, s'))"
    using dispatch_steps [OF inv assms(2) d] by (intro eff_calls) simp_all
  then show ?thesis using False d by (simp add: srv_handle_def)
qed

lemma cancel_effect:
  assumes inv: "core_inv (cn_srv s)"
  shows "effect tk (cn_srv s) (cn_srv (step_cancel h req s))"
proof -
  obtain r s' where t: "cancel_take h (rq_params req) (cn_srv s) = (r, s')"
    by (cases "cancel_take h (rq_params req) (cn_srv s)")
  then have "sr_out s' = sr_out (cn_srv s) \<and> sr_workers s' = sr_workers (cn_srv s)
     \<and> list_all2 call_step (sr_heap (cn_srv s)) (sr_heap s')"
    using inv
    by (auto simp: cancel_take_def bind_lookups list.rel_refl list_all2_update core_inv_calls_lt
        call_step_take split: option.splits prod.splits)
  then show ?thesis
    by (intro eff_calls) (auto simp: step_cancel_def t quiet_out_def srv_send_def split: sum.split)
qed

lemma fire_effect:
  "core_inv (cn_srv s) \<Longrightarrow> step_fire h n s = Some s' \<Longrightarrow> effect tk (cn_srv s) (cn_srv s')"
proof -
  have "effect tk t (srv_reply rid (returned (cancel_fire h hnd) t))" for t rid hnd
    using logs.within_fire [of h hnd] core_sel_fire [of h hnd t]
    by (intro core_sel_effect quiet_reply) (simp_all add: within_def)
  then show "step_fire h n s = Some s' \<Longrightarrow> ?thesis" by (auto simp: step_fire_def)
qed

text \<open>Waiting for a connection says nothing; the answer afterwards is no notification.\<close>

lemma wait_effect [simp]: "effect tk s (wait_conn rid cid m s)"
  by (rule core_sel_effect) (simp_all add: wait_conn_def)

lemma resume_effect:
  fixes s :: "('c, 's, 'h, 'w) conc"
  shows "step_resume n s = Some s' \<Longrightarrow> effect tk (cn_srv s) (cn_srv s')"
proof -
  assume step: "step_resume n s = Some s'"
  let ?mid = "(cn_srv s)\<lparr>sr_waiting := take n (sr_waiting (cn_srv s)) @ drop (Suc n) (sr_waiting (cn_srv s))\<rparr>"
  from step obtain t :: "'w waiting" where "cn_srv s' = srv_reply (wt_id t) (returned (on_world (wt_task t)) ?mid)"
    by (auto simp: step_resume_def bind_eq_Some_conv split: if_splits)
  moreover have "only_logs (cn_srv s) (snd (returned (on_world m) ?mid))" for m
    by (simp add: only_logs_def on_world_def split: prod.split)
  ultimately show ?thesis using step_resume_sel [OF step] by (simp add: core_sel_effect quiet_reply)
qed

lemma finish_status:
  "call_finish sv r c0 = (c, st, err, aff) \<Longrightarrow>
   ca_status c = st \<and> ca_cancel c = None \<and> st \<noteq> Running \<and> (st = Cancelled \<longleftrightarrow> ca_status c0 = Cancelled)"
  by (auto simp: call_finish_def Let_def split: if_splits sum.splits)

lemma call_register_sel:
  "ca_status (call_register h cn w c) = ca_status c"
  "ca_cancel (call_register h cn w c) = ca_cancel c
     \<or> (\<exists>w'. ca_cancel (call_register h cn w c) = cv_cancel_token (ho_conn h) cn w')"
proof -
  show "ca_status (call_register h cn w c) = ca_status c"
    by (simp add: call_register_def split: option.split)
  show "ca_cancel (call_register h cn w c) = ca_cancel c
     \<or> (\<exists>w'. ca_cancel (call_register h cn w c) = cv_cancel_token (ho_conn h) cn w')"
    by (cases "cv_cancel_token (ho_conn h) cn w") (auto simp: call_register_def intro: exI [of _ w])
qed

lemma worker_effect:
  assumes inv: "core_inv s" and k: "k < length (sr_workers s)"
    and f: "f \<in> {worker_start h, worker_lock, worker_register h, worker_execute h, worker_end h}"
    and s': "f k (sr_workers s ! k) s = Some s'"
  shows "effect (cv_cancel_token (ho_conn h)) s s'"
proof -
  let ?w = "sr_workers s ! k"
  from inv k have h: "k < length (sr_heap s)" and ref: "wk_ref ?w = k" "wk_call ?w = of_nat (Suc k)"
    by (simp_all add: core_inv_def shape_inv_def)
  have stage: "effect (cv_cancel_token (ho_conn h)) s t"
    if "sr_workers t = (sr_workers s)[k := ?w\<lparr>wk_pc := pc\<rparr>]" "sr_heap t = (sr_heap s)[k := c]"
      "wk_pc ?w \<noteq> Ended" "pc \<noteq> Ended" "ca_status c = ca_status (sr_heap s ! k)" "sr_out t = sr_out s"
      "ca_cancel c = ca_cancel (sr_heap s ! k)
        \<or> (\<exists>w. ca_cancel c = cv_cancel_token (ho_conn h) (wk_conn ?w) w)"
    for pc c t
    using that h by (intro eff_stage)
  from f consider "f = worker_start h" | "f = worker_lock" | "f = worker_register h"
    | "f = worker_execute h" | "f = worker_end h" by blast
  then show ?thesis
  proof cases
    case 1
    with s' show ?thesis
      by (auto simp: worker_start_def split: worker_pc.splits
          intro!: stage [where c = "sr_heap s ! k"])
  next
    case 2
    with s' show ?thesis
      by (auto simp: worker_lock_def split: worker_pc.splits if_splits
          intro!: stage [where c = "sr_heap s ! k"])
  next
    case 3
    then obtain t where "wk_pc ?w = Locked t" "s' = set_pc k (Executing t)
        (set_call k (call_register h (wk_conn ?w) (sr_world s) (sr_heap s ! k)) s)"
      using s' by (auto simp: worker_register_def ref split: worker_pc.splits)
    then show ?thesis
      by (intro stage [where pc = "Executing t", OF _ _ _ _ _ _ call_register_sel(2)]) (simp_all add: call_register_sel(1))
  next
    case 4
    with s' show ?thesis
      by (auto simp: worker_execute_def on_world_def split: worker_pc.splits prod.splits
          intro!: stage [where c = "sr_heap s ! k"])
  next
    case 5
    obtain t r where pc: "wk_pc ?w = Ran t r"
      and s'': "s' = set_pc k Ended
        (worker_finish h (wk_call ?w) k (of_nat (ho_clock h (sr_world s) - t)) r s)"
      using s' 5 by (auto simp: worker_end_def ref split: worker_pc.splits)
    obtain c st err aff where c: "call_finish (ho_stream h) r (sr_heap s ! k) = (c, st, err, aff)"
      by (cases "call_finish (ho_stream h) r (sr_heap s ! k)") auto
    note st = finish_status [OF c]
    show ?thesis
      by (rule eff_finish [OF h, where c = c])
        (use pc st in \<open>auto simp: s'' worker_finish_def c notify_state_def state_line_def srv_send_def ref\<close>)
  qed
qed

lemma conc_effect:
  assumes inv: "core_inv (cn_srv s)" and step: "conc_step h ev s = Some s'"
  shows "effect (cv_cancel_token (ho_conn h)) (cn_srv s) (cn_srv s')"
proof -
  have worker: "effect (cv_cancel_token (ho_conn h)) (cn_srv s) (cn_srv s')"
    if "step_worker f k s = Some s'"
      "f \<in> {worker_start h, worker_lock, worker_register h, worker_execute h, worker_end h}" for f k
    using that worker_effect [OF inv, of k f h]
    by (auto simp: step_worker_def bind_eq_Some_conv result_iff)
  show ?thesis
  proof (cases ev)
    case (Ev_request req)
    with inv step show ?thesis
      by (auto simp: conc_step_def step_request_def cancel_effect handle_effect wait_effect
          split: if_splits option.splits)
  next
    case (Ev_resume n)
    with step show ?thesis by (auto simp: conc_step_def resume_effect)
  next
    case (Ev_fire n)
    with inv step show ?thesis by (auto simp: conc_step_def fire_effect)
  next
    case (Ev_world w)
    with step show ?thesis by (auto simp: conc_step_def intro: core_sel_effect)
  qed (use step worker in \<open>auto simp: conc_step_def\<close>)
qed

section \<open>What has been sent about each call\<close>

definition call_id_of :: "nat \<Rightarrow> u64" where
  "call_id_of k = of_nat (Suc k)"

text \<open>Identifiers are distinct as long as the counter has not wrapped around.\<close>

definition in_range :: "('c, 's, 'h, 'w) srv \<Rightarrow> bool" where
  "in_range s \<longleftrightarrow> length (sr_heap s) < usize_mod - 1"

lemma call_id_inj:
  "j < usize_mod - 1 \<Longrightarrow> k < usize_mod - 1 \<Longrightarrow> call_id_of j = call_id_of k \<longleftrightarrow> j = k"
proof -
  assume "j < usize_mod - 1" "k < usize_mod - 1"
  then have "unat (call_id_of j) = Suc j" "unat (call_id_of k) = Suc k"
    unfolding call_id_of_def by (simp_all only: unat_of_nat) (simp_all add: usize_mod_def)
  then show ?thesis by (metis Suc_inject)
qed

definition notes_of :: "nat \<Rightarrow> ('c, 's, 'h, 'w) srv \<Rightarrow> json list" where
  "notes_of k s = filter (state_note (call_id_of k)) (sr_out s)"

text \<open>Nothing before the worker has ended, and then one line, with the call's status.\<close>

definition note_ok :: "nat \<Rightarrow> ('c, 's, 'h, 'w) srv \<Rightarrow> bool" where
  "note_ok k s \<longleftrightarrow>
     (if wk_pc (sr_workers s ! k) = Ended
      then \<exists>l. notes_of k s = [l] \<and> note_status l = Some (JStr (status_str (ca_status (sr_heap s ! k))))
      else notes_of k s = [])"

text \<open>The answer to \<open>query.execute\<close> comes before any line about the call.\<close>

definition answered :: "nat \<Rightarrow> ('c, 's, 'h, 'w) srv \<Rightarrow> bool" where
  "answered k s \<longleftrightarrow>
     (\<exists>pre rid post. sr_out s = pre @ call_answer rid (call_id_of k) # post
        \<and> (\<forall>l\<in>set pre. \<not> state_note (call_id_of k) l))"

definition known_notes :: "('c, 's, 'h, 'w) srv \<Rightarrow> bool" where
  "known_notes s \<longleftrightarrow>
     (\<forall>l\<in>set (sr_out s). \<forall>i. state_note i l \<longrightarrow> (\<exists>k < length (sr_heap s). i = call_id_of k))"

definition out_inv :: "('c, 's, 'h, 'w) srv \<Rightarrow> bool" where
  "out_inv s \<longleftrightarrow> (in_range s \<longrightarrow>
     known_notes s \<and> (\<forall>k < length (sr_heap s). note_ok k s \<and> answered k s))"

lemma answered_append: "answered k s \<Longrightarrow> sr_out s' = sr_out s @ ls \<Longrightarrow> answered k s'"
  by (fastforce simp: answered_def)

lemma effect_length: "effect tk s s' \<Longrightarrow> length (sr_heap s) \<le> length (sr_heap s')"
  by (auto elim!: effect.cases dest: list_all2_lengthD)

lemma out_inv_calls:
  assumes "core_inv s" "out_inv s" "quiet_out s s'" "sr_workers s' = sr_workers s"
    and heap: "list_all2 call_step (sr_heap s) (sr_heap s')"
  shows "out_inv s'"
proof -
  from assms(3) obtain ls where ls: "sr_out s' = sr_out s @ ls" "\<forall>l\<in>set ls. \<forall>i. \<not> state_note i l"
    by (auto simp: quiet_out_def)
  then have sent: "notes_of k s' = notes_of k s" for k
    by (simp add: notes_of_def filter_empty_conv)
  have len: "length (sr_heap s') = length (sr_heap s)"
    using heap by (simp add: list_all2_lengthD)
  have "ca_status (sr_heap s' ! k) = ca_status (sr_heap s ! k)"
    if "k < length (sr_heap s)" "wk_pc (sr_workers s ! k) = Ended" for k
  proof -
    have "call_step (sr_heap s ! k) (sr_heap s' ! k)" using heap that(1) by (simp add: list_all2_nthD)
    moreover have "call_state Ended (sr_heap s ! k)"
      using assms(1) that by (force simp: core_inv_def calls_inv_def)
    ultimately show ?thesis by (auto simp: call_step_def call_state_def)
  qed
  then have "note_ok k s \<Longrightarrow> note_ok k s'" if "k < length (sr_heap s)" for k
    using that assms(4) sent by (auto simp: note_ok_def split: if_splits)
  moreover have "known_notes s \<Longrightarrow> known_notes s'"
    using ls len by (auto simp: known_notes_def)
  ultimately show ?thesis
    using assms(2) ls(1) len by (auto simp: out_inv_def in_range_def intro: answered_append)
qed

lemma out_inv_add:
  assumes "core_inv s" "out_inv s" "sr_workers s' = sr_workers s @ [w]" "wk_pc w \<noteq> Ended"
    and "sr_heap s' = sr_heap s @ [call_new]"
    and "sr_out s' = sr_out s @ [call_answer rid (call_id_of (length (sr_heap s)))]"
  shows "out_inv s'"
proof (unfold out_inv_def, intro impI)
  let ?n = "length (sr_heap s)"
  assume range: "in_range s'"
  then have "in_range s" using assms(5) by (simp add: in_range_def)
  with assms(2) have old: "known_notes s" "\<forall>k < ?n. note_ok k s \<and> answered k s"
    by (simp_all add: out_inv_def)
  have lenw: "length (sr_workers s) = ?n" using assms(1) by (simp add: core_inv_def shape_inv_def)
  have sent: "notes_of k s' = notes_of k s" for k
    using assms(6) by (simp add: notes_of_def call_answer_def)
  have fresh: "\<not> state_note (call_id_of ?n) l" if l: "l \<in> set (sr_out s)" for l
  proof
    assume "state_note (call_id_of ?n) l"
    then obtain k where "k < ?n" "call_id_of ?n = call_id_of k"
      using old(1) l unfolding known_notes_def by blast
    then show False using call_id_inj [of ?n k] range assms(5) by (simp add: in_range_def)
  qed
  have "note_ok ?n s'" "answered ?n s'"
    using fresh assms(3,4,6) lenw
    by (auto simp: note_ok_def notes_of_def filter_empty_conv answered_def call_answer_def nth_append)
  moreover have "note_ok k s'" "answered k s'" if "k < ?n" for k
    using that old(2) assms(3,5,6) lenw sent
    by (auto simp: note_ok_def nth_append intro: answered_append)
  moreover have "known_notes s'"
    using old(1) assms(5,6) by (force simp: known_notes_def call_answer_def less_Suc_eq)
  ultimately show "known_notes s' \<and> (\<forall>k < length (sr_heap s'). note_ok k s' \<and> answered k s')"
    using assms(5) by (auto simp: less_Suc_eq)
qed

lemma out_inv_stage:
  assumes "core_inv s" "out_inv s" "k < length (sr_heap s)" "wk_pc (sr_workers s ! k) \<noteq> Ended" "pc \<noteq> Ended"
    and "sr_workers s' = (sr_workers s)[k := (sr_workers s ! k)\<lparr>wk_pc := pc\<rparr>]"
    and "sr_heap s' = (sr_heap s)[k := c]" "sr_out s' = sr_out s"
  shows "out_inv s'"
proof -
  have lenw: "length (sr_workers s) = length (sr_heap s)"
    using assms(1) by (simp add: core_inv_def shape_inv_def)
  have "note_ok j s'" if "note_ok j s" "j < length (sr_heap s)" for j
    using that assms lenw by (auto simp: note_ok_def notes_of_def nth_list_update split: if_splits)
  then show ?thesis
    using assms(2,7,8) by (auto simp: out_inv_def in_range_def known_notes_def intro: answered_append)
qed

lemma out_inv_finish:
  assumes "core_inv s" "out_inv s" "k < length (sr_heap s)" "wk_pc (sr_workers s ! k) \<noteq> Ended"
    and "sr_workers s' = (sr_workers s)[k := (sr_workers s ! k)\<lparr>wk_pc := Ended\<rparr>]"
    and "sr_heap s' = (sr_heap s)[k := c]"
    and "sr_out s' = sr_out s @ [state_line (call_id_of k) (ca_status c) ms err aff]"
  shows "out_inv s'"
proof (unfold out_inv_def, intro impI)
  assume "in_range s'"
  then have range: "in_range s" using assms(6) by (simp add: in_range_def)
  with assms(2) have old: "known_notes s" "\<forall>k < length (sr_heap s). note_ok k s \<and> answered k s"
    by (simp_all add: out_inv_def)
  have lenw: "length (sr_workers s) = length (sr_heap s)"
    using assms(1) by (simp add: core_inv_def shape_inv_def)
  have other: "call_id_of j = call_id_of k \<longleftrightarrow> j = k" if "j < length (sr_heap s)" for j
    using range assms(3) that call_id_inj [of j k] by (simp add: in_range_def)
  have "note_ok j s'" if j: "j < length (sr_heap s)" for j
  proof (cases "j = k")
    case True
    have "notes_of k s = []" using old(2) assms(3,4) by (auto simp: note_ok_def)
    then show ?thesis using True assms(3,5-7) lenw by (auto simp: note_ok_def notes_of_def)
  next
    case False
    then have "notes_of j s' = notes_of j s" using assms(7) other [OF j] by (simp add: notes_of_def)
    then show ?thesis using False old(2) assms(5,6) j lenw by (auto simp: note_ok_def)
  qed
  moreover have "known_notes s'"
    using old(1) assms(3,6,7) by (auto simp: known_notes_def)
  ultimately show "known_notes s' \<and> (\<forall>k < length (sr_heap s'). note_ok k s' \<and> answered k s')"
    using old(2) assms(6,7) by (auto intro: answered_append)
qed

lemma out_inv_effect: "effect tk s s' \<Longrightarrow> core_inv s \<Longrightarrow> out_inv s \<Longrightarrow> out_inv s'"
proof (induction rule: effect.induct)
  case (eff_calls s s')
  then show ?case by (blast intro: out_inv_calls)
next
  case (eff_add s' s w rid)
  then show ?case by (auto simp: call_id_of_def intro: out_inv_add)
next
  case (eff_stage k s pc c s')
  then show ?case by (blast intro: out_inv_stage)
next
  case (eff_finish k s c s' ms err aff)
  then show ?case
    by (intro out_inv_finish [of s k s' c ms err aff]) (auto simp: call_id_of_def)
qed

lemma out_inv_reach: "reach h (conc_new reg w) s \<Longrightarrow> core_inv (cn_srv s) \<and> out_inv (cn_srv s)"
proof (erule reach_invariant [where P = "\<lambda>s. core_inv (cn_srv s) \<and> out_inv (cn_srv s)"], goal_cases)
  case 1
  then show ?case
    by (simp add: conc_new_def core_inv_new)
      (simp add: srv_new_def out_inv_def known_notes_def)
next
  case (2 s ev s')
  then show ?case by (blast intro: core_inv_step out_inv_effect conc_effect)
qed

section \<open>A cancel handle is the connection's own\<close>

definition token_inv :: "('c \<Rightarrow> 'w \<Rightarrow> 'h option) \<Rightarrow> ('c, 's, 'h, 'w) srv \<Rightarrow> bool" where
  "token_inv tk s \<longleftrightarrow>
     (\<forall>k < length (sr_heap s). \<forall>t. ca_cancel (sr_heap s ! k) = Some t \<longrightarrow>
        (\<exists>w. tk (wk_conn (sr_workers s ! k)) w = Some t))"

lemma token_inv_effect:
  assumes "effect tk s s'" "core_inv s" "token_inv tk s"
  shows "token_inv tk s'"
  using assms
proof (induction rule: effect.induct)
  case (eff_calls s s')
  then have "call_step (sr_heap s ! k) (sr_heap s' ! k)" if "k < length (sr_heap s')" for k
    using that by (simp add: list_all2_conv_all_nth)
  with eff_calls show ?case
    by (fastforce simp: token_inv_def call_step_def dest: list_all2_lengthD)
next
  case (eff_add s' s w rid)
  then have "length (sr_workers s) = length (sr_heap s)" by (simp add: core_inv_def shape_inv_def)
  with eff_add show ?case by (auto simp: token_inv_def nth_append call_new_def less_Suc_eq)
next
  case (eff_stage k s pc c s')
  then have "length (sr_workers s) = length (sr_heap s)" by (simp add: core_inv_def shape_inv_def)
  with eff_stage show ?case
    by (auto simp: token_inv_def nth_list_update)
next
  case (eff_finish k s c s' ms err aff)
  then have "length (sr_workers s) = length (sr_heap s)" by (simp add: core_inv_def shape_inv_def)
  with eff_finish show ?case by (auto simp: token_inv_def nth_list_update)
qed

lemma token_inv_reach:
  "reach h (conc_new reg w) s \<Longrightarrow>
   core_inv (cn_srv s) \<and> token_inv (cv_cancel_token (ho_conn h)) (cn_srv s)"
proof (erule reach_invariant
    [where P = "\<lambda>s. core_inv (cn_srv s) \<and> token_inv (cv_cancel_token (ho_conn h)) (cn_srv s)"], goal_cases)
  case 1
  then show ?case by (simp add: conc_new_def core_inv_new) (simp add: srv_new_def token_inv_def)
next
  case (2 s ev s')
  then show ?case by (blast intro: core_inv_step token_inv_effect conc_effect)
qed

section \<open>Status never changes again\<close>

text \<open>The k-th call object is there from its creation on, and leaves \<open>Running\<close> at most once.\<close>

lemma effect_status:
  assumes "effect tk s s'" "core_inv s" "k < length (sr_heap s)"
  shows "k < length (sr_heap s') \<and>
     (ca_status (sr_heap s ! k) \<noteq> Running \<longrightarrow> ca_status (sr_heap s' ! k) = ca_status (sr_heap s ! k))"
  using assms
proof (induction rule: effect.induct)
  case (eff_calls s s')
  then have "call_step (sr_heap s ! k) (sr_heap s' ! k)" by (simp add: list_all2_nthD)
  with eff_calls show ?case by (auto simp: call_step_def dest: list_all2_lengthD)
next
  case (eff_add s' s w rid)
  then show ?case by (auto simp: nth_append)
next
  case (eff_stage j s pc c s')
  then show ?case by (cases "k = j") simp_all
next
  case (eff_finish j s c s' ms err aff)
  then have "call_state (wk_pc (sr_workers s ! j)) (sr_heap s ! j)"
    by (simp add: core_inv_def calls_inv_def)
  with eff_finish have "ca_status (sr_heap s ! j) = Running \<or> ca_status (sr_heap s ! j) = Cancelled"
    by (auto simp: call_state_def split: worker_pc.splits)
  with eff_finish show ?case by (cases "k = j") auto
qed

lemma reach_status:
  assumes "reach h s0 s" "core_inv (cn_srv s0)" "k < length (sr_heap (cn_srv s0))"
    "ca_status (sr_heap (cn_srv s0) ! k) \<noteq> Running"
  shows "core_inv (cn_srv s) \<and> k < length (sr_heap (cn_srv s))
     \<and> ca_status (sr_heap (cn_srv s) ! k) = ca_status (sr_heap (cn_srv s0) ! k)"
  using assms
proof (induction rule: reach.induct)
  case (reach_step s ev s')
  then have s: "core_inv (cn_srv s)" "k < length (sr_heap (cn_srv s))"
    "ca_status (sr_heap (cn_srv s) ! k) = ca_status (sr_heap (cn_srv s0) ! k)" by auto
  from effect_status [OF conc_effect [OF s(1) reach_step.hyps(2)] s(1,2)] s reach_step
  show ?case by (auto intro: core_inv_step)
qed simp

end
