(* ===== verification/Main_Loop.thy ===== *)
theory Main_Loop
  imports Server_Notes
begin

text \<open>
  \<open>main.rs\<close>: the loop that turns the lines of standard input into requests, and the single writer
  of standard output.  The JSON parser is an argument; the decoder of a request is \<open>rpc.rs\<close>'s.
\<close>

definition de_request :: "json \<Rightarrow> request option" where
  "de_request j = Option.bind (de_struct [''id'', ''method'', ''params''] j) (\<lambda>m.
     map_option (\<lambda>(i, meth). \<lparr>rq_id = i, rq_method = meth, rq_params = unwrap_or JNull (m ''params'')\<rparr>)
       (de_pair (de_field de_u64 m ''id'') (de_field json_str m ''method'')))"

text \<open>
  \<open>next_line\<close> fails on a line that is not UTF-8, and the loop ends there; blank lines and lines
  that are not a request are skipped.
\<close>

fun main_requests :: "(string \<Rightarrow> json option) \<Rightarrow> string list \<Rightarrow> request list" where
  "main_requests parse [] = []"
| "main_requests parse (l # ls) =
     (if \<not> utf8_valid l then []
      else (let line = trim l in
        if line = [] then main_requests parse ls
        else (case Option.bind (parse line) de_request of
           Some req \<Rightarrow> req # main_requests parse ls
         | None \<Rightarrow> main_requests parse ls)))"

text \<open>The request a line stands for, if any.\<close>

definition line_request :: "(string \<Rightarrow> json option) \<Rightarrow> string \<Rightarrow> request option" where
  "line_request parse l = (if trim l = [] then None else Option.bind (parse (trim l)) de_request)"

lemma main_requests_valid:
  "(\<forall>l\<in>set ls. utf8_valid l) \<Longrightarrow> main_requests parse ls = filter_map (line_request parse) ls"
  by (induction ls) (auto simp: line_request_def Let_def split: option.split)

lemma main_requests_stop:
  "(\<forall>l\<in>set ls. utf8_valid l) \<Longrightarrow> \<not> utf8_valid bad \<Longrightarrow>
   main_requests parse (ls @ bad # rest) = filter_map (line_request parse) ls"
  by (induction ls) (auto simp: line_request_def Let_def split: option.split)

text \<open>
  The writer: a line and its newline are two writes, and the first failure ends it.  The list
  says, for each write, whether it succeeds.
\<close>

fun writer :: "bool list \<Rightarrow> string list \<Rightarrow> string" where
  "writer (a # b # oks) (l # ls) =
     (if \<not> a then [] else l @ (if \<not> b then [] else CHR 0x0A # writer oks ls))"
| "writer oks ls = []"

lemma writer_all:
  "length oks = 2 * length ls \<Longrightarrow> (\<forall>ok\<in>set oks. ok) \<Longrightarrow>
   writer oks ls = concat (map (\<lambda>l. l @ [CHR 0x0A]) ls)"
  by (induction oks ls rule: writer.induct) auto

end
