(* ===== verification/Server_Paging.thy ===== *)
theory Server_Paging
  imports Server_Props
begin

text \<open>
  \<open>query.page\<close> through the dispatcher: over a stream that keeps the contract of \<open>Result_Stream\<close>, any
  sequence of page requests on a finished call is answered with the requested windows of one and the
  same list of rows, forwards and backwards.  It is proved for every stream and then stated for the
  buffered one.
\<close>

definition page_request :: "u64 \<Rightarrow> u64 \<Rightarrow> nat \<Rightarrow> nat \<Rightarrow> request" where
  "page_request rid i fr n = \<lparr>rq_id = rid, rq_method = ''query.page'',
     rq_params = JObj [(''call_id'', JInt (uint i)), (''from'', JInt (int fr)), (''n'', JInt (int n))]\<rparr>"

lemma json_u64_nat: "n < usize_mod \<Longrightarrow> json_u64 (JInt (int n)) = Some n"
  by (simp add: json_u64_def usize_mod_def)

lemma json_u64_uint: "json_u64 (JInt (uint i)) = Some (unat (i :: u64))"
proof -
  have "uint i < 2 ^ LENGTH(64)" by (rule unsigned_less)
  then show ?thesis by (simp add: json_u64_def)
qed

lemma de_u64_uint [simp]: "de_u64 (JInt (uint i)) = Some (i :: u64)"
  by (simp add: de_u64_def json_u64_uint)

lemma p_page_request:
  "fr < usize_mod \<Longrightarrow> n < usize_mod \<Longrightarrow> p_page (rq_params (page_request rid i fr n)) = Some (i, fr, n)"
  by (simp add: p_page_def page_request_def de_struct_def de_field_def de_field_or_def de_pair_def
      json_u64_nat)

lemma page_request_sel [simp]:
  "rq_method (page_request rid i fr n) = ''query.page''" "rq_id (page_request rid i fr n) = rid"
  by (simp_all add: page_request_def)

text \<open>What the answer to a page request says.\<close>

definition page_answer :: "row list \<Rightarrow> u64 \<Rightarrow> nat \<Rightarrow> nat \<Rightarrow> json \<Rightarrow> bool" where
  "page_answer rows rid fr n l \<longleftrightarrow>
     (\<exists>j. l = response_ok rid j \<and> json_get ''ready'' j = Some (JBool True)
        \<and> json_get ''rows'' j = Some (JArr (map (\<lambda>r. JArr (map value_json r)) (take n (drop fr rows))))
        \<and> (json_get ''has_more'' j = Some (JBool False) \<longrightarrow> length rows \<le> fr + n))"

fun handle_all ::
  "('c, 's, 'h, 'w, 'key, 'ident) host \<Rightarrow> request list \<Rightarrow> ('c, 's, 'h, 'w) srv \<Rightarrow> ('c, 's, 'h, 'w) srv" where
  "handle_all h [] s = s"
| "handle_all h (r # rs) s = handle_all h rs (srv_handle h r s)"

context result_stream
begin

definition finished_call :: "u64 \<Rightarrow> row list \<Rightarrow> ('c, 's, 'h, 'w) srv \<Rightarrow> bool" where
  "finished_call i rows s \<longleftrightarrow>
     (\<exists>ref. sr_calls s i = Some ref \<and> ref < length (sr_heap s)
        \<and> ca_status (sr_heap s ! ref) = Done \<and> call_ok (sr_heap s ! ref)
        \<and> all_rows (sr_heap s ! ref) = rows)"

lemma page_once:
  assumes "sv_next_page (ho_stream h) = next_page" "sv_total (ho_stream h) = tot"
    and call: "finished_call i rows s" and small: "fr + n < usize_mod"
  shows "\<exists>l. sr_out (srv_handle h (page_request rid i fr n) s) = sr_out s @ [l]
     \<and> page_answer rows rid fr n l \<and> finished_call i rows (srv_handle h (page_request rid i fr n) s)"
proof -
  from call obtain ref where ref: "sr_calls s i = Some ref" "ref < length (sr_heap s)"
    "ca_status (sr_heap s ! ref) = Done" "call_ok (sr_heap s ! ref)" "all_rows (sr_heap s ! ref) = rows"
    by (auto simp: finished_call_def)
  from call_page_correct [OF ref(4,3) small] obtain c v where cv:
    "call_page next_page tot fr n (sr_heap s ! ref) = (Returned (Inr (page_json c v)), c)"
    "pulled (fr + n) (sr_heap s ! ref) c" "page_of fr n (sr_heap s ! ref) c v" by blast
  have h: "srv_handle h (page_request rid i fr n) s
      = srv_send (response_ok rid (page_json c v)) (set_call ref c s)"
    using small cv(1) ref(1) assms(1,2)
    by (simp add: srv_handle_def dispatch_page srv_page_cases p_page_request srv_reply_def)
  have "page_answer rows rid fr n (response_ok rid (page_json c v))"
    using cv(3) ref(5) by (auto simp: page_answer_def page_json_def page_of_def)
  moreover have "finished_call i rows (srv_send (response_ok rid (page_json c v)) (set_call ref c s))"
    using ref cv(2)
    by (auto simp: finished_call_def srv_send_def pulled_def call_frame_def)
  ultimately show ?thesis by (simp add: h)
qed

lemma page_any_order:
  assumes "sv_next_page (ho_stream h) = next_page" "sv_total (ho_stream h) = tot"
    and "finished_call i rows s" "\<forall>(rid, fr, n)\<in>set ps. fr + n < usize_mod"
  shows "\<exists>ls. sr_out (handle_all h (map (\<lambda>(rid, fr, n). page_request rid i fr n) ps) s) = sr_out s @ ls
     \<and> list_all2 (\<lambda>(rid, fr, n) l. page_answer rows rid fr n l) ps ls"
  using assms(3,4)
proof (induction ps arbitrary: s)
  case (Cons p ps)
  obtain rid fr n where p: "p = (rid, fr, n)" by (cases p)
  let ?s = "srv_handle h (page_request rid i fr n) s"
  from page_once [OF assms(1,2) Cons.prems(1), of fr n rid] Cons.prems(2) p obtain l where
    l: "sr_out ?s = sr_out s @ [l]" "page_answer rows rid fr n l" "finished_call i rows ?s" by auto
  from Cons.IH [OF l(3)] Cons.prems(2) obtain ls where
    "sr_out (handle_all h (map (\<lambda>(rid, fr, n). page_request rid i fr n) ps) ?s) = sr_out ?s @ ls"
    "list_all2 (\<lambda>(rid, fr, n) l. page_answer rows rid fr n l) ps ls" by auto
  then show ?case using l p by (intro exI [of _ "l # ls"]) simp
qed simp

end

text \<open>The methods of the buffered stream, as the trait object carries them.\<close>

definition buffered_vt :: "bstream stream_vt" where
  "buffered_vt = \<lparr>sv_columns = bs_columns, sv_affected = buffered_affected, sv_total = buffered_total,
     sv_next_page = buffered_next_page\<rparr>"

text \<open>A worker that ends with a buffered stream leaves a finished call with all its rows.\<close>

lemma finish_buffered:
  assumes "ho_stream h = buffered_vt" "sr_calls s i = Some ref" "ref < length (sr_heap s)"
    and "sr_heap s ! ref = call_new\<lparr>ca_cancel := tok\<rparr>" "length rows < usize_mod"
  shows "buf.finished_call i rows
     (worker_finish h i ref ms (Inr (buffered_new cols rows aff)) s)"
  using assms
  by (auto simp: worker_finish_def call_finish_def Let_def buf.finished_call_def notify_state_def
      srv_send_def buffered_vt_def call_new_def buf.call_ok_def buf.all_rows_def buffered_new_def
      buffered_inv_def buffered_pending_def)

end
