(* ===== verification/Catalog.thy ===== *)
theory Catalog
  imports Spec
begin

text \<open>
  What the drivers share when they read a catalog (\<open>drivers/mod.rs\<close> and the grouping loop each
  \<open>structure\<close> repeats): reading text and flags out of rows, folding one row per index column into
  one index per name, and grouping objects under their schema.  Both folds are instances of one
  locale, which gives them a closed form: one group per distinct key, in the order the keys first
  appear, holding the items of that key in their order.
\<close>

section \<open>Cells\<close>

definition text_of :: "val option \<Rightarrow> string option" where
  "text_of v = (case v of Some (VText s) \<Rightarrow> Some s | _ \<Rightarrow> None)"

text \<open>The closure \<open>get\<close>: the text of a field, empty when there is none.\<close>

definition text_at :: "row \<Rightarrow> nat \<Rightarrow> string" where
  "text_at r i = unwrap_or [] (text_of (nth_opt r i))"

definition flag_of :: "val option \<Rightarrow> bool" where
  "flag_of v =
     (case v of
        Some (VBool b) \<Rightarrow> b
      | Some (VInt i) \<Rightarrow> i \<noteq> 0
      | Some (VText s) \<Rightarrow>
          (let s = to_ascii_lowercase s in s = ''1'' \<or> s = ''t'' \<or> s = ''true'' \<or> s = ''yes'')
      | _ \<Rightarrow> False)"

lemma text_of_simps [simp]:
  "text_of None = None" "text_of (Some (VText s)) = Some s" "text_of (Some VNull) = None"
  "text_of (Some (VInt i)) = None" "text_of (Some (VBool b)) = None"
  by (simp_all add: text_of_def)

section \<open>Grouping in first-occurrence order\<close>

text \<open>\<open>iter_mut().find(p)\<close> followed by a mutation of the element found.\<close>

fun update_first :: "('a \<Rightarrow> bool) \<Rightarrow> ('a \<Rightarrow> 'a) \<Rightarrow> 'a list \<Rightarrow> 'a list option" where
  "update_first p f [] = None"
| "update_first p f (x # xs) =
     (if p x then Some (f x # xs) else map_option ((#) x) (update_first p f xs))"

definition nub_step :: "'a list \<Rightarrow> 'a \<Rightarrow> 'a list" where
  "nub_step out x = (if x \<in> set out then out else out @ [x])"

definition nub :: "'a list \<Rightarrow> 'a list" where
  "nub xs = foldl nub_step [] xs"

lemma nub_Nil [simp]: "nub [] = []"
  by (simp add: nub_def)

lemma nub_snoc: "nub (xs @ [x]) = nub_step (nub xs) x"
  by (simp add: nub_def)

lemma set_nub [simp]: "set (nub xs) = set xs"
  by (induction xs rule: rev_induct) (auto simp: nub_snoc nub_step_def)

lemma distinct_nub [simp]: "distinct (nub xs)"
  by (induction xs rule: rev_induct) (auto simp: nub_snoc nub_step_def)

lemma update_first_None: "update_first p f xs = None \<longleftrightarrow> (\<forall>x\<in>set xs. \<not> p x)"
  by (induction xs) auto

lemma update_first_map:
  "distinct ks \<Longrightarrow> k \<in> set ks \<Longrightarrow> (\<forall>j\<in>set ks. gkey (h j) = j) \<Longrightarrow>
   update_first (\<lambda>g. gkey g = k) f (map h ks) = Some (map (h(k := f (h k))) ks)"
proof (induction ks)
  case (Cons j ks)
  show ?case
  proof (cases "j = k")
    case True
    with Cons.prems have "map (h(k := f (h k))) ks = map h ks" by auto
    with True Cons.prems show ?thesis by simp
  next
    case False
    with Cons show ?thesis by simp
  qed
qed simp

definition group_step ::
  "('g \<Rightarrow> 'k) \<Rightarrow> ('x \<Rightarrow> 'k) \<Rightarrow> ('x \<Rightarrow> 'g) \<Rightarrow> ('x \<Rightarrow> 'g \<Rightarrow> 'g) \<Rightarrow> 'g list \<Rightarrow> 'x \<Rightarrow> 'g list" where
  "group_step gkey key new upd out x =
     (case update_first (\<lambda>g. gkey g = key x) (upd x) out of Some out' \<Rightarrow> out' | None \<Rightarrow> out @ [new x])"

definition group_build :: "('x \<Rightarrow> 'g) \<Rightarrow> ('x \<Rightarrow> 'g \<Rightarrow> 'g) \<Rightarrow> 'x list \<Rightarrow> 'g" where
  "group_build new upd xs = foldl (\<lambda>g y. upd y g) (new (hd xs)) (tl xs)"

definition of_key :: "('x \<Rightarrow> 'k) \<Rightarrow> 'k \<Rightarrow> 'x list \<Rightarrow> 'x list" where
  "of_key key k xs = filter (\<lambda>x. key x = k) xs"

lemma group_build_Cons: "group_build new upd (x # xs) = foldl (\<lambda>g y. upd y g) (new x) xs"
  by (simp add: group_build_def)

lemma group_build_single [simp]: "group_build new upd [x] = new x"
  by (simp add: group_build_def)

lemma group_build_snoc:
  "xs \<noteq> [] \<Longrightarrow> group_build new upd (xs @ [x]) = upd x (group_build new upd xs)"
  by (cases xs) (simp_all add: group_build_Cons)

lemma of_key_Nil: "of_key key k xs = [] \<longleftrightarrow> k \<notin> key ` set xs"
  by (auto simp: of_key_def filter_empty_conv)

locale grouping =
  fixes gkey :: "'g \<Rightarrow> 'k"
    and key :: "'x \<Rightarrow> 'k"
    and new :: "'x \<Rightarrow> 'g"
    and upd :: "'x \<Rightarrow> 'g \<Rightarrow> 'g"
  assumes gkey_new: "gkey (new x) = key x"
    and gkey_upd: "gkey (upd x g) = gkey g"
begin

lemma gkey_foldl: "gkey (foldl (\<lambda>g y. upd y g) g xs) = gkey g"
  by (induction xs arbitrary: g) (simp_all add: gkey_upd)

lemma gkey_build: "k \<in> key ` set xs \<Longrightarrow> gkey (group_build new upd (of_key key k xs)) = k"
proof -
  assume "k \<in> key ` set xs"
  then have "of_key key k xs \<noteq> []" by (simp add: of_key_Nil)
  then obtain y ys where y: "of_key key k xs = y # ys" by (cases "of_key key k xs") auto
  then have "y \<in> set (of_key key k xs)" by simp
  then have "key y = k" by (simp add: of_key_def)
  with y show ?thesis by (simp add: group_build_Cons gkey_foldl gkey_new)
qed

text \<open>The closed form of the fold.\<close>

lemma group_eq:
  "foldl (group_step gkey key new upd) [] xs
   = map (\<lambda>k. group_build new upd (of_key key k xs)) (nub (map key xs))"
proof (induction xs rule: rev_induct)
  case Nil
  show ?case by simp
next
  case (snoc x xs)
  let ?h = "\<lambda>k. group_build new upd (of_key key k xs)" and ?ks = "nub (map key xs)"
  let ?h' = "\<lambda>k. group_build new upd (of_key key k (xs @ [x]))"
  have keys: "\<forall>j\<in>set ?ks. gkey (?h j) = j" by (auto intro: gkey_build)
  have other: "j \<noteq> key x \<Longrightarrow> of_key key j (xs @ [x]) = of_key key j xs" for j
    by (simp add: of_key_def)
  have same: "of_key key (key x) (xs @ [x]) = of_key key (key x) xs @ [x]"
    by (simp add: of_key_def)
  have fold: "foldl (group_step gkey key new upd) [] (xs @ [x])
      = group_step gkey key new upd (map ?h ?ks) x" by (simp add: snoc.IH)
  show ?case
  proof (cases "key x \<in> set ?ks")
    case True
    then have "of_key key (key x) xs \<noteq> []" by (simp add: of_key_Nil)
    then have "upd x (?h (key x)) = ?h' (key x)" by (simp add: same group_build_snoc)
    then have "(?h(key x := upd x (?h (key x)))) = ?h'" by (auto simp: fun_eq_iff other)
    then have "group_step gkey key new upd (map ?h ?ks) x = map ?h' ?ks"
      using update_first_map [where gkey = gkey and h = ?h and f = "upd x", OF distinct_nub True keys]
      by (simp add: group_step_def)
    moreover have "nub (map key (xs @ [x])) = ?ks"
      using True by (simp add: nub_snoc nub_step_def)
    ultimately show ?thesis using fold by simp
  next
    case False
    then have "update_first (\<lambda>g. gkey g = key x) (upd x) (map ?h ?ks) = None"
      using keys False by (simp add: update_first_None) (metis image_eqI)
    moreover have "of_key key (key x) xs = []" using False by (simp add: of_key_Nil)
    moreover have "map ?h' ?ks = map ?h ?ks"
    proof (rule map_cong [OF refl])
      fix j assume "j \<in> set ?ks"
      with False have "j \<noteq> key x" by blast
      then show "?h' j = ?h j" by (simp add: other)
    qed
    ultimately show ?thesis
      using False unfolding fold by (simp add: group_step_def same nub_snoc nub_step_def)
  qed
qed

end

section \<open>Folding index rows (drivers/mod.rs)\<close>

definition group_index_row :: "index list \<Rightarrow> row \<Rightarrow> index list" where
  "group_index_row out r =
     (case text_of (first_opt r) of
        None \<Rightarrow> out
      | Some name \<Rightarrow>
          (let col = text_of (nth_opt r 3) in
           case update_first (\<lambda>i. ix_name i = name)
                  (\<lambda>i. case col of Some c \<Rightarrow> i\<lparr>ix_columns := ix_columns i @ [c]\<rparr> | None \<Rightarrow> i) out of
             Some out' \<Rightarrow> out'
           | None \<Rightarrow>
               out @ [\<lparr>ix_name = name, ix_columns = (case col of Some c \<Rightarrow> [c] | None \<Rightarrow> []),
                       ix_unique = flag_of (nth_opt r 1), ix_primary = flag_of (nth_opt r 2)\<rparr>]))"

definition group_indexes :: "row list \<Rightarrow> index list" where
  "group_indexes rows = foldl group_index_row [] rows"

text \<open>A row that names an index, and what the fold does with it.\<close>

definition index_row_name :: "row \<Rightarrow> string option" where
  "index_row_name r = text_of (first_opt r)"

definition index_new :: "row \<Rightarrow> index" where
  "index_new r = \<lparr>ix_name = unwrap_or [] (index_row_name r),
     ix_columns = (case text_of (nth_opt r 3) of Some c \<Rightarrow> [c] | None \<Rightarrow> []),
     ix_unique = flag_of (nth_opt r 1), ix_primary = flag_of (nth_opt r 2)\<rparr>"

definition index_upd :: "row \<Rightarrow> index \<Rightarrow> index" where
  "index_upd r i = (case text_of (nth_opt r 3) of Some c \<Rightarrow> i\<lparr>ix_columns := ix_columns i @ [c]\<rparr> | None \<Rightarrow> i)"

definition index_key :: "row \<Rightarrow> string" where
  "index_key r = unwrap_or [] (index_row_name r)"

interpretation idx: grouping ix_name index_key index_new index_upd
  by unfold_locales (auto simp: index_new_def index_upd_def index_key_def split: option.split)

text \<open>The columns of the rows that name an index, in their order.\<close>

definition index_columns :: "string \<Rightarrow> row list \<Rightarrow> string list" where
  "index_columns n rows =
     filter_map (\<lambda>r. text_of (nth_opt r 3)) (filter (\<lambda>r. index_row_name r = Some n) rows)"

definition index_first :: "string \<Rightarrow> row list \<Rightarrow> row" where
  "index_first n rows = (case filter (\<lambda>r. index_row_name r = Some n) rows of [] \<Rightarrow> [] | r # _ \<Rightarrow> r)"

lemma group_indexes_named:
  "group_indexes rows = foldl (group_step ix_name index_key index_new index_upd) [] (filter (\<lambda>r. index_row_name r \<noteq> None) rows)"
proof (induction rows rule: rev_induct)
  case (snoc r rows)
  have "group_index_row out r = (if index_row_name r = None then out else group_step ix_name index_key index_new index_upd out r)" for out
    by (cases "text_of (first_opt r)")
      (simp_all add: group_index_row_def index_row_name_def group_step_def index_key_def index_new_def
        index_upd_def [abs_def] Let_def split: option.split)
  with snoc show ?case by (simp add: group_indexes_def)
qed (simp add: group_indexes_def)

lemma index_fold:
  "foldl (\<lambda>g y. index_upd y g) i rs
   = i\<lparr>ix_columns := ix_columns i @ filter_map (\<lambda>r. text_of (nth_opt r 3)) rs\<rparr>"
  by (induction rs arbitrary: i) (auto simp: index_upd_def split: option.split)

lemma index_build:
  "group_build index_new index_upd (r # rs) = \<lparr>ix_name = unwrap_or [] (index_row_name r),
     ix_columns = filter_map (\<lambda>r. text_of (nth_opt r 3)) (r # rs),
     ix_unique = flag_of (nth_opt r 1), ix_primary = flag_of (nth_opt r 2)\<rparr>"
  by (simp add: group_build_Cons index_fold index_new_def split: option.split)

lemma filter_named:
  "filter (\<lambda>r. index_key r = n) (filter (\<lambda>r. index_row_name r \<noteq> None) rows)
   = filter (\<lambda>r. index_row_name r = Some n) rows"
  by (induction rows) (auto simp: index_key_def unwrap_or_def split: option.splits)

lemma named_keys:
  "map index_key (filter (\<lambda>r. index_row_name r \<noteq> None) rows)
   = filter_map index_row_name rows"
  by (induction rows) (auto simp: index_key_def)

text \<open>The closed form of the fold over index rows.\<close>

definition index_of_name :: "row list \<Rightarrow> string \<Rightarrow> index" where
  "index_of_name rows n = \<lparr>ix_name = n, ix_columns = index_columns n rows,
     ix_unique = flag_of (nth_opt (index_first n rows) 1),
     ix_primary = flag_of (nth_opt (index_first n rows) 2)\<rparr>"

lemma group_indexes_eq:
  "group_indexes rows = map (index_of_name rows) (nub (filter_map index_row_name rows))"
proof -
  let ?named = "filter (\<lambda>r. index_row_name r \<noteq> None) rows"
  have "group_build index_new index_upd (of_key index_key n ?named) = index_of_name rows n"
    if n: "n \<in> set (filter_map index_row_name rows)" for n
  proof -
    have "filter (\<lambda>r. index_row_name r = Some n) rows \<noteq> []"
      using n by (auto simp: set_filter_map filter_empty_conv)
    then obtain r rs where r: "filter (\<lambda>r. index_row_name r = Some n) rows = r # rs"
      by (cases "filter (\<lambda>r. index_row_name r = Some n) rows") auto
    then have "r \<in> set (filter (\<lambda>r. index_row_name r = Some n) rows)" by simp
    then have "index_row_name r = Some n" by simp
    with r filter_named [of n rows] show ?thesis
      by (simp add: of_key_def index_build index_of_name_def index_columns_def
          index_first_def del: filter_filter)
  qed
  then show ?thesis
    unfolding group_indexes_named idx.group_eq named_keys
    by (intro map_cong [OF refl]) (simp only: set_nub)
qed

section \<open>The schema tree the drivers build\<close>

text \<open>
  The loop of each \<open>structure\<close>: a row is (schema, name, type), every object becomes a node under its
  schema's node, which is added when the schema first appears.  \<open>kind\<close> is the driver's reading of the
  third field.
\<close>

definition object_node :: "(string \<Rightarrow> string) \<Rightarrow> row \<Rightarrow> node" where
  "object_node kind r = Node (text_at r 1) (kind (text_at r 2)) (Some (text_at r 0)) []"

definition add_child :: "node \<Rightarrow> node \<Rightarrow> node" where
  "add_child n s = (case s of Node name kind schema children \<Rightarrow> Node name kind schema (children @ [n]))"

definition schema_tree_row :: "(string \<Rightarrow> string) \<Rightarrow> node list \<Rightarrow> row \<Rightarrow> node list" where
  "schema_tree_row kind schemas r =
     (let schema = text_at r 0; node = object_node kind r in
      case update_first (\<lambda>s. nd_name s = schema) (add_child node) schemas of
        Some schemas' \<Rightarrow> schemas'
      | None \<Rightarrow> schemas @ [Node schema ''schema'' None [node]])"

definition schema_tree :: "(string \<Rightarrow> string) \<Rightarrow> row list \<Rightarrow> node list" where
  "schema_tree kind rows = foldl (schema_tree_row kind) [] rows"

definition schema_key :: "row \<Rightarrow> string" where
  "schema_key r = text_at r 0"

definition schema_new :: "(string \<Rightarrow> string) \<Rightarrow> row \<Rightarrow> node" where
  "schema_new kind r = Node (schema_key r) ''schema'' None [object_node kind r]"

definition schema_upd :: "(string \<Rightarrow> string) \<Rightarrow> row \<Rightarrow> node \<Rightarrow> node" where
  "schema_upd kind r s = add_child (object_node kind r) s"

interpretation schemas: grouping nd_name schema_key "schema_new kind" "schema_upd kind"
  for kind
  by unfold_locales (auto simp: schema_new_def schema_upd_def add_child_def split: node.split)

lemma schema_fold:
  "foldl (\<lambda>g y. schema_upd kind y g) (Node n k sc ns) rs = Node n k sc (ns @ map (object_node kind) rs)"
  by (induction rs arbitrary: ns) (simp_all add: schema_upd_def add_child_def)

text \<open>The closed form: the objects of a schema are those of its rows, in row order.\<close>

definition schema_node :: "(string \<Rightarrow> string) \<Rightarrow> row list \<Rightarrow> string \<Rightarrow> node" where
  "schema_node kind rows s =
     Node s ''schema'' None (map (object_node kind) (filter (\<lambda>r. text_at r 0 = s) rows))"

lemma schema_tree_eq:
  "schema_tree kind rows = map (schema_node kind rows) (nub (map (\<lambda>r. text_at r 0) rows))"
proof -
  have step: "schema_tree_row kind out r = group_step nd_name schema_key (schema_new kind) (schema_upd kind) out r"
    for out r
    by (simp add: schema_tree_row_def group_step_def schema_key_def schema_new_def schema_upd_def [abs_def]
        Let_def split: option.split)
  have key: "schema_key = (\<lambda>r. text_at r 0)" by (simp add: schema_key_def fun_eq_iff)
  have "group_build (schema_new kind) (schema_upd kind) (of_key schema_key s rows) = schema_node kind rows s"
    if s: "s \<in> set (map schema_key rows)" for s
  proof -
    have "of_key schema_key s rows \<noteq> []" using s by (auto simp: of_key_Nil)
    then obtain r rs where r: "of_key schema_key s rows = r # rs"
      by (cases "of_key schema_key s rows") auto
    then have "r \<in> set (of_key schema_key s rows)" by simp
    then have "schema_key r = s" by (simp add: of_key_def)
    with r show ?thesis
      by (simp add: group_build_Cons schema_new_def schema_fold schema_node_def of_key_def key)
  qed
  then have "map (\<lambda>s. group_build (schema_new kind) (schema_upd kind) (of_key schema_key s rows))
      (nub (map schema_key rows)) = map (schema_node kind rows) (nub (map schema_key rows))"
    by (intro map_cong [OF refl]) (simp only: set_nub)
  then show ?thesis
    unfolding schema_tree_def step [abs_def] schemas.group_eq by (simp add: key)
qed

section \<open>Reading a list of names and a list of columns\<close>

definition first_texts :: "row list \<Rightarrow> string list" where
  "first_texts rows = filter_map (\<lambda>r. text_of (first_opt r)) rows"

definition table_columns :: "nat \<Rightarrow> nat \<Rightarrow> (row \<Rightarrow> bool) \<Rightarrow> row list \<Rightarrow> table_column list" where
  "table_columns ni ti prim rows =
     map (\<lambda>r. \<lparr>tc_name = text_at r ni, tc_type = text_at r ti, tc_primary = prim r\<rparr>) rows"

end
