(* ===== verification/Tls.thy ===== *)
theory Tls
  imports Spec
begin

text \<open>
  \<open>tls.rs\<close>: from a \<open>TlsSpec\<close> to a client configuration.  The file system, the PEM parser, the
  system's root certificates and rustls' own checks are the record \<open>tls_env\<close>; a certificate and a
  key are opaque.  A configuration is what the code decides: who verifies the server, and which
  identity the client shows.
\<close>

record ('cert, 'key) tls_env =
  te_read :: "string \<Rightarrow> string result"
  te_certs :: "string \<Rightarrow> 'cert list result"
  te_key :: "string \<Rightarrow> 'key option result"
  te_native :: "'cert list"
  te_add_root :: "'cert \<Rightarrow> unit result"
  te_client_auth :: "'cert list \<Rightarrow> 'key \<Rightarrow> unit result"

datatype 'cert verifier = Roots "'cert list" | AcceptAny

record ('cert, 'key) client_cfg =
  cc_verifier :: "'cert verifier"
  cc_identity :: "('cert list \<times> 'key) option"

definition load_certs :: "('cert, 'key) tls_env \<Rightarrow> string \<Rightarrow> 'cert list result" where
  "load_certs te path =
     bind_result (map_err (\<lambda>e. ''cannot read cert '' @ quoted path @ '': '' @ e) (te_read te path))
       (\<lambda>data. map_err (\<lambda>e. ''bad certificate '' @ quoted path @ '': '' @ e) (te_certs te data))"

definition load_key :: "('cert, 'key) tls_env \<Rightarrow> string \<Rightarrow> 'key result" where
  "load_key te path =
     bind_result (map_err (\<lambda>e. ''cannot read key '' @ quoted path @ '': '' @ e) (te_read te path))
       (\<lambda>data.
         bind_result (map_err (\<lambda>e. ''bad private key '' @ quoted path @ '': '' @ e) (te_key te data))
           (\<lambda>k. ok_or (''no private key found in '' @ quoted path) k))"

text \<open>The two loops that fill the root store: a bad CA certificate is an error, a bad system root is not.\<close>

fun add_roots :: "('cert, 'key) tls_env \<Rightarrow> 'cert list \<Rightarrow> 'cert list \<Rightarrow> 'cert list result" where
  "add_roots te roots [] = Inr roots"
| "add_roots te roots (c # cs) =
     (case te_add_root te c of
        Inl e \<Rightarrow> Inl (''bad CA certificate: '' @ e)
      | Inr _ \<Rightarrow> add_roots te (roots @ [c]) cs)"

fun add_native :: "('cert, 'key) tls_env \<Rightarrow> 'cert list \<Rightarrow> 'cert list \<Rightarrow> 'cert list" where
  "add_native te roots [] = roots"
| "add_native te roots (c # cs) =
     (case te_add_root te c of
        Inl _ \<Rightarrow> add_native te roots cs
      | Inr _ \<Rightarrow> add_native te (roots @ [c]) cs)"

definition tls_finish ::
  "('cert, 'key) tls_env \<Rightarrow> 'cert verifier \<Rightarrow> tls_spec \<Rightarrow> ('cert, 'key) client_cfg result" where
  "tls_finish te v tls =
     (case (tls_client_cert tls, tls_client_key tls) of
        (Some cert, Some key) \<Rightarrow>
          bind_result (load_certs te cert) (\<lambda>certs.
            bind_result (load_key te key) (\<lambda>k.
              bind_result (map_err (\<lambda>e. ''client certificate rejected: '' @ e) (te_client_auth te certs k))
                (\<lambda>_. Inr \<lparr>cc_verifier = v, cc_identity = Some (certs, k)\<rparr>)))
      | (None, None) \<Rightarrow> Inr \<lparr>cc_verifier = v, cc_identity = None\<rparr>
      | _ \<Rightarrow> Inl ''TLS client cert and key must be provided together'')"

definition client_config :: "('cert, 'key) tls_env \<Rightarrow> tls_spec \<Rightarrow> ('cert, 'key) client_cfg result" where
  "client_config te tls =
     (if verifies_cert tls
      then bind_result
             (case tls_ca tls of
                Some ca \<Rightarrow> bind_result (load_certs te ca) (add_roots te [])
              | None \<Rightarrow> Inr (add_native te [] (te_native te)))
             (\<lambda>roots. tls_finish te (Roots roots) tls)
      else tls_finish te AcceptAny tls)"

section \<open>What a configuration checks\<close>

lemma tls_finish_verifier: "tls_finish te v tls = Inr cfg \<Longrightarrow> cc_verifier cfg = v"
  by (auto simp: tls_finish_def result_iff split: option.splits)

lemma tls_finish_identity:
  "tls_finish te v tls = Inr cfg \<Longrightarrow>
   (cc_identity cfg = None \<longleftrightarrow> tls_client_cert tls = None \<and> tls_client_key tls = None)"
  by (auto simp: tls_finish_def result_iff split: option.splits)

lemma add_roots_Inr: "add_roots te roots cs = Inr rs \<Longrightarrow> rs = roots @ cs"
  by (induction te roots cs arbitrary: rs rule: add_roots.induct) (auto split: sum.splits)

lemma add_native_filter:
  "add_native te roots cs = roots @ filter (\<lambda>c. is_ok (te_add_root te c)) cs"
  by (induction te roots cs rule: add_native.induct) (auto split: sum.splits)

text \<open>The verifying modes never build the accept-any verifier, and a pinned CA is the whole store.\<close>

lemma client_config_verifier:
  assumes "client_config te tls = Inr cfg"
  shows "cc_verifier cfg =
     (if \<not> verifies_cert tls then AcceptAny
      else (case tls_ca tls of
         Some ca \<Rightarrow> (case load_certs te ca of Inr cs \<Rightarrow> Roots cs | Inl _ \<Rightarrow> cc_verifier cfg)
       | None \<Rightarrow> Roots (filter (\<lambda>c. is_ok (te_add_root te c)) (te_native te))))"
  using assms
  by (auto simp: client_config_def add_native_filter result_iff
      dest!: tls_finish_verifier add_roots_Inr split: if_splits option.splits)

end
