(* ===== verification/Fixtures.thy ===== *)
theory Fixtures
  imports Main_Loop Server_Paging Catalog Tls
begin

text \<open>
  A small concrete world for the witnesses: one driver whose connections answer every statement with
  one row, counting the statements it has run.  The runs are lists of events on it.
\<close>

definition demo_caps :: caps where
  "demo_caps = \<lparr>cap_sql = True, cap_schemas = True, cap_cancel = True, cap_tls = True, cap_tunnel = True,
     cap_multi_db = False, cap_kv = False, cap_indexes = False, cap_ddl = False\<rparr>"

definition demo_meta :: driver_meta where
  "demo_meta = \<lparr>dm_kind = ''demo'', dm_display = ''Demo'', dm_default_port = Some 5000, dm_params = [],
     dm_auth = [AK_None], dm_caps = demo_caps\<rparr>"

definition demo_driver :: "(nat, nat) driver" where
  "demo_driver = \<lparr>dr_meta = demo_meta, dr_connect = (\<lambda>spec. io_ok 7)\<rparr>"

definition demo_conn :: "(nat, bstream, nat, nat) conn_vt" where
  "demo_conn = \<lparr>cv_databases = (\<lambda>c. io_ok []), cv_switch_database = (\<lambda>c db. io_ok ()),
     cv_structure = (\<lambda>c. io_ok []), cv_columns = (\<lambda>c ob. io_ok []), cv_indexes = default_indexes,
     cv_ddl = default_ddl,
     cv_execute = (\<lambda>c stmt n. (Inr (buffered_new [\<lparr>col_name = ''a'', col_type = ''text''\<rparr>] [[VText stmt]] None), Suc n)),
     cv_cancel_token = (\<lambda>c w. Some c), cv_encrypted = default_encrypted, cv_close = (\<lambda>c. io_ok ())\<rparr>"

definition demo_spec :: conn_spec where
  "demo_spec = \<lparr>cs_driver = ''demo'', cs_params = Map.empty, cs_auth = Auth_None, cs_tls = tls_default,
     cs_tunnel = None\<rparr>"

definition demo_ssh :: "(unit, unit) ssh" where
  "demo_ssh = \<lparr>sh_connect = (\<lambda>h p. Inr ()), sh_password = (\<lambda>u p. Inr True), sh_load_key = (\<lambda>p s. Inr ()),
     sh_publickey = (\<lambda>u k. Inr True), sh_agent = Inr (), sh_identities = Inr [()],
     sh_agent_auth = (\<lambda>u i. Inr True), sh_bind = Inr (), sh_local_addr = Inr ''127.0.0.1:40000''\<rparr>"

definition demo_world :: world where
  "demo_world = \<lparr>w_env = [''HOME'' \<mapsto> ''/home/u'', ''PW'' \<mapsto> ''hunter2''], w_spawn = (\<lambda>c. Inl ''no shell''),
     w_parse = (\<lambda>s. None), w_agent = (\<lambda>p r. None)\<rparr>"

definition demo_host :: "(nat, bstream, nat, nat, unit, unit) host" where
  "demo_host = \<lparr>ho_conn = demo_conn, ho_stream = buffered_vt, ho_cancel = (\<lambda>t. io_ok ()),
     ho_spec = (\<lambda>j. Some demo_spec), ho_de_err = (\<lambda>m j. ''bad parameters''),
     ho_stat = (\<lambda>p. io_ok (True, 3)), ho_open = (\<lambda>p. io_ok ()), ho_dial = (\<lambda>a. io_ok Dial_ok),
     ho_clock = id, ho_ssh = demo_ssh, ho_secrets = demo_world\<rparr>"

type_synonym demo_srv = "(nat, bstream, nat, nat) srv"
type_synonym demo_conc = "(nat, bstream, nat, nat) conc"

definition demo_start :: demo_conc where
  "demo_start = conc_new (registry_of [demo_driver]) 0"

definition demo_req :: "u64 \<Rightarrow> string \<Rightarrow> (string \<times> json) list \<Rightarrow> nat event" where
  "demo_req i m p = Ev_request \<lparr>rq_id = i, rq_method = m, rq_params = JObj p\<rparr>"

text \<open>Connect, run one statement on the connection, and let it finish.\<close>

definition demo_connect :: "nat event list" where
  "demo_connect = [demo_req 1 ''conn.connect'' [],
     demo_req 2 ''query.execute'' [(''conn_id'', JInt 1), (''statement'', JStr ''select 1'')]]"

definition demo_ran :: "nat event list" where
  "demo_ran = demo_connect @ [Ev_start 0, Ev_lock 0, Ev_register 0, Ev_execute 0]"

definition demo_finish :: "nat event list" where
  "demo_finish = demo_connect @ [Ev_start 0, Ev_lock 0, Ev_register 0, Ev_execute 0, Ev_finish 0]"

text \<open>Cancel the call before its worker has the connection.\<close>

definition demo_cancel :: "nat event list" where
  "demo_cancel = demo_connect @ [Ev_start 0, demo_req 3 ''query.cancel'' [(''call_id'', JInt 1)], Ev_fire 0]"

text \<open>
  The first statement has run and released the connection, and a second one executes on it; then a
  cancel of the first call.
\<close>

definition demo_overlap :: "nat event list" where
  "demo_overlap = demo_connect
     @ [demo_req 4 ''query.execute'' [(''conn_id'', JInt 1), (''statement'', JStr ''select 2'')],
        Ev_start 0, Ev_start 1, Ev_lock 0, Ev_register 0, Ev_execute 0, Ev_lock 1, Ev_register 1]"

definition demo_stale :: "nat event list" where
  "demo_stale = demo_overlap @ [demo_req 5 ''query.cancel'' [(''call_id'', JInt 1)]]"

definition run_of :: "nat event list \<Rightarrow> demo_conc" where
  "run_of evs = the (conc_run demo_host evs demo_start)"

lemma run_reach: "conc_run demo_host evs demo_start \<noteq> None \<Longrightarrow> reach demo_host demo_start (run_of evs)"
  by (auto simp: run_of_def intro: reach_run reach_init)

end
