(* ===== verification/Server_Live.thy ===== *)
theory Server_Live
  imports Server_Notes
begin

text \<open>
  Two views of the daemon as a whole.  The work its statements have left is a measure every stage of a
  worker decreases, and as long as there is any, some stage is enabled: statements neither block each
  other for ever nor run for ever (a driver's calls return).  And the life of the calls refines a small
  specification: a call is open until it is closed, an open one may be asked to cancel, and it is closed
  once, with one notification.
\<close>

section \<open>The work that is left\<close>

definition pc_left :: "'s worker_pc \<Rightarrow> nat" where
  "pc_left pc =
     (case pc of Spawned \<Rightarrow> 5 | Waiting _ \<Rightarrow> 4 | Locked _ \<Rightarrow> 3 | Executing _ \<Rightarrow> 2 | Ran _ _ \<Rightarrow> 1 | Ended \<Rightarrow> 0)"

definition work_left :: "('c, 's, 'h, 'w) srv \<Rightarrow> nat" where
  "work_left s = sum_list (map (\<lambda>w. pc_left (wk_pc w)) (sr_workers s))"

fun worker_event :: "'w event \<Rightarrow> bool" where
  "worker_event (Ev_start k) = True"
| "worker_event (Ev_lock k) = True"
| "worker_event (Ev_register k) = True"
| "worker_event (Ev_execute k) = True"
| "worker_event (Ev_finish k) = True"
| "worker_event _ = False"

lemma pc_left_le: "pc_left pc \<le> 5"
  by (simp add: pc_left_def split: worker_pc.split)

lemma pc_left_0 [simp]: "pc_left pc = 0 \<longleftrightarrow> pc = Ended"
  by (simp add: pc_left_def split: worker_pc.split)

lemma work_left_le: "work_left s \<le> 5 * length (sr_workers s)"
  using sum_list_mono [of "sr_workers s" "\<lambda>w. pc_left (wk_pc w)" "\<lambda>_. 5"]
  by (simp add: work_left_def pc_left_le sum_list_triv mult.commute)

lemma work_left_0: "work_left s = 0 \<longleftrightarrow> (\<forall>w\<in>set (sr_workers s). wk_pc w = Ended)"
  by (simp add: work_left_def sum_list_eq_0_iff)

lemma work_left_update:
  assumes "k < length (sr_workers s)" "sr_workers s' = (sr_workers s)[k := (sr_workers s ! k)\<lparr>wk_pc := pc\<rparr>]"
  shows "work_left s' + pc_left (wk_pc (sr_workers s ! k)) = work_left s + pc_left pc"
proof -
  let ?f = "\<lambda>w. pc_left (wk_pc w)"
  have "sum_list (map ?f (sr_workers s)) = sum_list (map ?f (take k (sr_workers s)))
      + ?f (sr_workers s ! k) + sum_list (map ?f (drop (Suc k) (sr_workers s)))"
    by (subst id_take_nth_drop [OF assms(1)]) simp
  moreover have "sum_list (map ?f (sr_workers s')) = sum_list (map ?f (take k (sr_workers s)))
      + pc_left pc + sum_list (map ?f (drop (Suc k) (sr_workers s)))"
    using assms by (simp add: upd_conv_take_nth_drop)
  ultimately show ?thesis by (simp add: work_left_def)
qed

section \<open>Every stage makes progress\<close>

lemma worker_pc_step:
  assumes "f \<in> {worker_start h, worker_lock, worker_register h, worker_execute h, worker_end h}"
    and "f k (sr_workers s ! k) s = Some s'"
  shows "\<exists>pc. sr_workers s' = (sr_workers s)[k := (sr_workers s ! k)\<lparr>wk_pc := pc\<rparr>]
     \<and> Suc (pc_left pc) = pc_left (wk_pc (sr_workers s ! k))"
  using assms
  by (elim insertE emptyE)
    (auto simp: worker_start_def worker_lock_def worker_register_def worker_execute_def worker_end_def
      worker_finish_def notify_state_def srv_send_def on_world_def pc_left_def
      split: worker_pc.splits if_splits prod.splits)

lemma step_worker_progress:
  assumes "step_worker f k s = Some s'"
    and "f \<in> {worker_start h, worker_lock, worker_register h, worker_execute h, worker_end h}"
  shows "Suc (work_left (cn_srv s')) = work_left (cn_srv s)"
proof -
  from assms(1) have k: "k < length (sr_workers (cn_srv s))"
    and f: "f k (sr_workers (cn_srv s) ! k) (cn_srv s) = Some (cn_srv s')"
    by (auto simp: step_worker_def bind_eq_Some_conv result_iff)
  from worker_pc_step [OF assms(2) f] obtain pc where pc:
    "sr_workers (cn_srv s') = (sr_workers (cn_srv s))[k := (sr_workers (cn_srv s) ! k)\<lparr>wk_pc := pc\<rparr>]"
    "Suc (pc_left pc) = pc_left (wk_pc (sr_workers (cn_srv s) ! k))" by blast
  from work_left_update [OF k pc(1)] pc(2) show ?thesis by simp
qed

lemma worker_event_progress:
  "worker_event ev \<Longrightarrow> conc_step h ev s = Some s' \<Longrightarrow> Suc (work_left (cn_srv s')) = work_left (cn_srv s)"
  by (cases ev) (auto simp: conc_step_def intro!: step_worker_progress [where h = h])

lemma worker_run_progress:
  "list_all worker_event evs \<Longrightarrow> conc_run h evs s = Some s' \<Longrightarrow>
   length evs + work_left (cn_srv s') = work_left (cn_srv s)"
  by (induction evs arbitrary: s) (auto simp: bind_eq_Some_conv dest: worker_event_progress)

text \<open>No deadlock: while a statement has not ended, a worker can move.\<close>

definition next_event :: "nat \<Rightarrow> 's worker_pc \<Rightarrow> 'w event" where
  "next_event k pc =
     (case pc of Spawned \<Rightarrow> Ev_start k | Waiting _ \<Rightarrow> Ev_lock k | Locked _ \<Rightarrow> Ev_register k
      | Executing _ \<Rightarrow> Ev_execute k | _ \<Rightarrow> Ev_finish k)"

lemma next_event_worker [simp]: "worker_event (next_event k pc)"
  by (simp add: next_event_def split: worker_pc.split)

lemma next_event_enabled:
  assumes "k < length (sr_workers (cn_srv s))" "wk_pc (sr_workers (cn_srv s) ! k) \<noteq> Ended"
    and "(\<exists>t. wk_pc (sr_workers (cn_srv s) ! k) = Waiting t) \<longrightarrow>
      \<not> conn_locked (cn_srv s) (wk_cid (sr_workers (cn_srv s) ! k))"
  shows "conc_step h (next_event k (wk_pc (sr_workers (cn_srv s) ! k))) s \<noteq> None"
  using assms
  by (cases "wk_pc (sr_workers (cn_srv s) ! k)")
    (auto simp: next_event_def conc_step_def step_worker_def nth_opt_def worker_start_def worker_lock_def
      worker_register_def worker_execute_def worker_end_def split: prod.split)

lemma holds_lock_moves: "holds_lock pc \<Longrightarrow> pc \<noteq> Ended \<and> (\<forall>t. pc \<noteq> Waiting t)"
  by (simp add: holds_lock_def split: worker_pc.splits)

lemma some_worker_moves:
  assumes "work_left (cn_srv s) \<noteq> 0"
  shows "\<exists>ev s'. worker_event ev \<and> conc_step h ev s = Some s'"
proof -
  let ?ws = "sr_workers (cn_srv s)"
  have "\<exists>k < length ?ws. wk_pc (?ws ! k) \<noteq> Ended
      \<and> ((\<exists>t. wk_pc (?ws ! k) = Waiting t) \<longrightarrow> \<not> conn_locked (cn_srv s) (wk_cid (?ws ! k)))"
  proof (cases "\<exists>k < length ?ws. holds_lock (wk_pc (?ws ! k))")
    case True
    then show ?thesis using holds_lock_moves by blast
  next
    case False
    then have "\<not> conn_locked (cn_srv s) cid" for cid by (auto simp: conn_locked_nth)
    moreover from assms obtain k where "k < length ?ws" "wk_pc (?ws ! k) \<noteq> Ended"
      by (auto simp: work_left_0 in_set_conv_nth)
    ultimately show ?thesis by blast
  qed
  then obtain k where "k < length ?ws" "conc_step h (next_event k (wk_pc (?ws ! k))) s \<noteq> None"
    using next_event_enabled by blast
  then show ?thesis using next_event_worker by blast
qed

lemma workers_finish:
  "\<exists>evs s'. list_all worker_event evs \<and> conc_run h evs s = Some s' \<and> work_left (cn_srv s') = 0"
proof (induction "work_left (cn_srv s)" arbitrary: s)
  case 0
  then show ?case by (intro exI [of _ "[]"]) simp
next
  case (Suc n)
  then have "work_left (cn_srv s) \<noteq> 0" by simp
  then obtain ev t where ev: "worker_event ev" "conc_step h ev s = Some t" using some_worker_moves by blast
  with Suc.hyps(2) have "n = work_left (cn_srv t)" using worker_event_progress [OF ev] by simp
  from Suc.hyps(1) [OF this] obtain evs s' where
    "list_all worker_event evs" "conc_run h evs t = Some s'" "work_left (cn_srv s') = 0" by blast
  with ev show ?case by (intro exI [of _ "ev # evs"]) simp
qed

lemma conc_run_append:
  "conc_run h (evs @ evs') s = Option.bind (conc_run h evs s) (conc_run h evs')"
proof (induction evs arbitrary: s)
  case (Cons ev evs)
  show ?case by (cases "conc_step h ev s") (simp_all add: Cons.IH)
qed simp

text \<open>A worker's stage adds no call.\<close>

lemma worker_event_heap:
  assumes "worker_event ev" "conc_step h ev s = Some s'"
  shows "length (sr_heap (cn_srv s')) = length (sr_heap (cn_srv s))"
proof -
  have *: "length (sr_heap t') = length (sr_heap t)"
    if "f k w t = Some t'" "f \<in> {worker_start h, worker_lock, worker_register h, worker_execute h, worker_end h}"
    for f k w t t'
    using that
    by (elim insertE emptyE)
      (auto simp: worker_start_def worker_lock_def worker_register_def worker_execute_def worker_end_def
        worker_finish_def notify_state_def srv_send_def on_world_def
        split: worker_pc.splits if_splits prod.splits)
  from assms show ?thesis
    by (cases ev) (auto simp: conc_step_def step_worker_def bind_eq_Some_conv dest!: *)
qed

lemma worker_run_heap:
  "list_all worker_event evs \<Longrightarrow> conc_run h evs s = Some s' \<Longrightarrow>
   length (sr_heap (cn_srv s')) = length (sr_heap (cn_srv s))"
  by (induction evs arbitrary: s) (auto simp: bind_eq_Some_conv dest: worker_event_heap)

section \<open>The specification of a call's life\<close>

text \<open>An open call, asked to cancel or not; a closed one with its final status.\<close>

datatype life = Open bool | Closed call_status

definition life_of :: "('c, 's) worker \<times> ('s, 'h) call \<Rightarrow> life" where
  "life_of = (\<lambda>(w, c). if wk_pc w = Ended then Closed (ca_status c) else Open (ca_status c = Cancelled))"

text \<open>The lives of the calls, and the notifications sent so far.\<close>

definition lives :: "('c, 's, 'h, 'w) srv \<Rightarrow> life list \<times> json list" where
  "lives s = (map life_of (zip (sr_workers s) (sr_heap s)), filter (\<lambda>l. \<exists>i. state_note i l) (sr_out s))"

definition asked :: "life \<Rightarrow> life \<Rightarrow> bool" where
  "asked a b \<longleftrightarrow> b = a \<or> (a = Open False \<and> b = Open True)"

inductive spec_step :: "life list \<times> json list \<Rightarrow> life list \<times> json list \<Rightarrow> bool" where
  spec_ask: "list_all2 asked ls ls' \<Longrightarrow> spec_step (ls, ns) (ls', ns)"
| spec_open: "spec_step (ls, ns) (ls @ [Open False], ns)"
| spec_close: "k < length ls \<Longrightarrow> ls ! k = Open b \<Longrightarrow> st \<noteq> Running \<Longrightarrow> (st = Cancelled \<longleftrightarrow> b) \<Longrightarrow>
    state_note (call_id_of k) n \<Longrightarrow> note_status n = Some (JStr (status_str st)) \<Longrightarrow>
    spec_step (ls, ns) (ls[k := Closed st], ns @ [n])"

inductive_cases spec_stepE: "spec_step (ls, ns) (ls', ns')"

lemma lives_same:
  "fst (lives s') = fst (lives s) \<Longrightarrow> snd (lives s') = snd (lives s) \<Longrightarrow> spec_step (lives s) (lives s')"
  by (cases "lives s"; cases "lives s'")
    (simp add: spec_ask list.rel_refl asked_def)

lemma life_of_call_step:
  assumes "call_state (wk_pc w) c" "call_step c c'"
  shows "asked (life_of (w, c)) (life_of (w, c'))"
  using assms by (auto simp: asked_def life_of_def call_step_def call_state_def)

lemma effect_refines:
  assumes "effect tk s s'" "core_inv s"
  shows "spec_step (lives s) (lives s')"
  using assms
proof (induction rule: effect.induct)
  case (eff_calls s s')
  have len: "length (sr_workers s) = length (sr_heap s)" "length (sr_heap s') = length (sr_heap s)"
    using eff_calls by (auto simp: core_inv_def shape_inv_def dest: list_all2_lengthD)
  have "asked (life_of (sr_workers s ! k, sr_heap s ! k)) (life_of (sr_workers s ! k, sr_heap s' ! k))"
    if "k < length (sr_heap s)" for k
    using that eff_calls
    by (intro life_of_call_step) (auto simp: core_inv_def calls_inv_def list_all2_nthD)
  then have "list_all2 asked (fst (lives s)) (fst (lives s'))"
    using eff_calls(2) len by (simp add: lives_def list_all2_conv_all_nth)
  moreover have "snd (lives s') = snd (lives s)"
    using eff_calls(1) by (auto simp: lives_def quiet_out_def filter_empty_conv)
  ultimately show ?case by (cases "lives s"; cases "lives s'") (simp add: spec_ask)
next
  case (eff_add s' s w rid)
  then have "length (sr_workers s) = length (sr_heap s)" by (simp add: core_inv_def shape_inv_def)
  with eff_add have "lives s' = (fst (lives s) @ [Open False], snd (lives s))"
    by (simp add: lives_def life_of_def call_new_def call_answer_def)
  then show ?case by (cases "lives s") (simp add: spec_open)
next
  case (eff_stage k s pc c s')
  then have len: "length (sr_workers s) = length (sr_heap s)" by (simp add: core_inv_def shape_inv_def)
  have "fst (lives s') = (fst (lives s))[k := life_of ((sr_workers s ! k)\<lparr>wk_pc := pc\<rparr>, c)]"
    using eff_stage by (simp add: lives_def zip_update map_update)
  also have "life_of ((sr_workers s ! k)\<lparr>wk_pc := pc\<rparr>, c) = fst (lives s) ! k"
    using eff_stage len by (simp add: lives_def life_of_def)
  finally have "fst (lives s') = fst (lives s)" by simp
  then show ?case using eff_stage by (intro lives_same) (simp_all add: lives_def)
next
  case (eff_finish k s c s' ms err aff)
  then have len: "length (sr_workers s) = length (sr_heap s)" by (simp add: core_inv_def shape_inv_def)
  let ?n = "state_line (of_nat (Suc k)) (ca_status c) ms err aff"
  have "fst (lives s') = (fst (lives s))[k := Closed (ca_status c)]"
    using eff_finish by (simp add: lives_def zip_update map_update life_of_def)
  moreover have "snd (lives s') = snd (lives s) @ [?n]"
    using eff_finish by (auto simp: lives_def)
  moreover have "fst (lives s) ! k = Open (ca_status (sr_heap s ! k) = Cancelled)" "k < length (fst (lives s))"
    using eff_finish len by (simp_all add: lives_def life_of_def)
  ultimately show ?case
    using eff_finish(3,4) spec_close [of k "fst (lives s)" _ "ca_status c" ?n "snd (lives s)"]
    by (cases "lives s"; cases "lives s'") (simp add: call_id_of_def)
qed

end
