(* ===== verification/Server_Claims.thy ===== *)
theory Server_Claims
  imports Fixtures Server_Live
begin

text \<open>Properties of the daemon: requests, calls, their notifications and their interleavings.\<close>

section \<open>Supporting facts\<close>

lemma reach_core: "reach h (conc_new reg w) s \<Longrightarrow> core_inv (cn_srv s)"
  by (rule core_inv_reach)

lemma reach_out:
  "reach h (conc_new reg w) s \<Longrightarrow> in_range (cn_srv s) \<Longrightarrow> k < length (sr_heap (cn_srv s)) \<Longrightarrow>
   note_ok k (cn_srv s) \<and> answered k (cn_srv s)"
  using out_inv_reach [of h reg w s] by (simp add: out_inv_def)

lemma demo_reach:
  "conc_run demo_host evs demo_start \<noteq> None \<Longrightarrow>
   reach demo_host (conc_new (registry_of [demo_driver]) 0) (run_of evs)"
  using run_reach by (simp add: demo_start_def)

lemma runs_ran: "conc_run demo_host demo_ran demo_start \<noteq> None"
proof -
  have "Option.is_none (conc_run demo_host demo_ran demo_start) = False" by code_simp
  then show ?thesis by (auto simp: Option.is_none_def)
qed

lemma runs_finish: "conc_run demo_host demo_finish demo_start \<noteq> None"
  and runs_cancel: "conc_run demo_host demo_cancel demo_start \<noteq> None"
  and runs_stale: "conc_run demo_host demo_stale demo_start \<noteq> None"
proof -
  have "Option.is_none (conc_run demo_host demo_finish demo_start) = False"
    "Option.is_none (conc_run demo_host demo_cancel demo_start) = False"
    "Option.is_none (conc_run demo_host demo_stale demo_start) = False" by code_simp+
  then show "conc_run demo_host demo_finish demo_start \<noteq> None"
    "conc_run demo_host demo_cancel demo_start \<noteq> None"
    "conc_run demo_host demo_stale demo_start \<noteq> None" by (auto simp: Option.is_none_def)
qed

lemma demo_finish_calls: "length (sr_heap (cn_srv (run_of demo_finish))) = 1"
  by code_simp

lemma demo_finish_range: "in_range (cn_srv (run_of demo_finish))"
  by (simp add: in_range_def demo_finish_calls usize_mod_def)

section \<open>Notifications\<close>

text \<open>
  C1: In every state the daemon reaches, a statement whose worker has ended has had exactly one
  query.state notification, which carries the status its call now has; before the worker has ended
  there has been none.  (The identifiers are u64 and the counter has not wrapped around.)
\<close>
theorem notified_exactly_once:
  assumes "reach h (conc_new reg w) s" "in_range (cn_srv s)" "k < length (sr_heap (cn_srv s))"
  shows "if wk_pc (sr_workers (cn_srv s) ! k) = Ended
     then \<exists>l. notes_of k (cn_srv s) = [l]
            \<and> note_status l = Some (JStr (status_str (ca_status (sr_heap (cn_srv s) ! k))))
     else notes_of k (cn_srv s) = []"
  using reach_out [OF assms] by (simp add: note_ok_def)

text \<open>The run that connects, executes and finishes one statement.\<close>
theorem notified_exactly_once_witness:
  "\<exists>l. notes_of 0 (cn_srv (run_of demo_finish)) = [l] \<and> note_status l = Some (JStr ''done'')"
proof -
  have "wk_pc (sr_workers (cn_srv (run_of demo_finish)) ! 0) = Ended"
    "ca_status (sr_heap (cn_srv (run_of demo_finish)) ! 0) = Done" by code_simp+
  with notified_exactly_once [OF demo_reach [OF runs_finish] demo_finish_range, of 0]
  show ?thesis by (simp add: demo_finish_calls status_str_def)
qed



section \<open>The connection lock and the life of a call\<close>




text \<open>
  C5: A call leaves the running state once: from any reachable state on, a call that is done, failed
  or cancelled keeps its status whatever happens next.
\<close>
theorem status_is_final:
  assumes "reach h (conc_new reg w) s" "reach h s s'"
    and "k < length (sr_heap (cn_srv s))" "ca_status (sr_heap (cn_srv s) ! k) \<noteq> Running"
  shows "ca_status (sr_heap (cn_srv s') ! k) = ca_status (sr_heap (cn_srv s) ! k)"
  using reach_status [OF assms(2) reach_core [OF assms(1)] assms(3,4)] by simp

theorem status_is_final_witness:
  "\<exists>s'. conc_run demo_host [Ev_lock 0, Ev_register 0, Ev_execute 0, Ev_finish 0] (run_of demo_cancel) = Some s'
     \<and> ca_status (sr_heap (cn_srv s') ! 0) = Cancelled"
proof -
  let ?evs = "[Ev_lock 0, Ev_register 0, Ev_execute 0, Ev_finish 0] :: nat event list"
  have "Option.is_none (conc_run demo_host ?evs (run_of demo_cancel)) = False" by code_simp
  then obtain s' where s': "conc_run demo_host ?evs (run_of demo_cancel) = Some s'"
    by (auto simp: Option.is_none_def)
  have "length (sr_heap (cn_srv (run_of demo_cancel))) = 1"
    "ca_status (sr_heap (cn_srv (run_of demo_cancel)) ! 0) = Cancelled" by code_simp+
  with status_is_final [OF demo_reach [OF runs_cancel] reach_run [OF s' reach_init], of 0] s'
  show ?thesis by simp
qed

text \<open>
  A cancel handle is in reach only while it can still matter: in every reachable state a call
  that carries one belongs to a worker that is executing its statement, or that has not yet recorded
  its outcome.
\<close>
lemma cancel_handle_window:
  assumes "reach h (conc_new reg w) s" "k < length (sr_heap (cn_srv s))"
    and "ca_cancel (sr_heap (cn_srv s) ! k) \<noteq> None"
  shows "\<exists>t r. wk_pc (sr_workers (cn_srv s) ! k) \<in> {Executing t, Ran t r}"
proof -
  have "call_state (wk_pc (sr_workers (cn_srv s) ! k)) (sr_heap (cn_srv s) ! k)"
    using reach_core [OF assms(1)] assms(2) by (simp add: core_inv_def calls_inv_def)
  with assms(3) show ?thesis by (auto simp: call_state_def split: worker_pc.splits)
qed

lemma cancel_handle_window_witness:
  "\<exists>t r. wk_pc (sr_workers (cn_srv (run_of demo_stale)) ! 1) \<in> {Executing t, Ran t r}"
proof -
  have "length (sr_heap (cn_srv (run_of demo_stale))) = 2"
    "ca_cancel (sr_heap (cn_srv (run_of demo_stale)) ! 1) = Some 7" by code_simp+
  then show ?thesis using cancel_handle_window [OF demo_reach [OF runs_stale], of 1] by simp
qed

section \<open>What cancelling does not stop\<close>

text \<open>
  C18: Cancelling a call before its worker holds the connection does not stop the statement: whatever
  the call's status, a worker that waits for a free connection goes on to execute it, and the only
  trace of the cancel is the status.
\<close>
theorem cancelled_before_lock_still_runs:
  assumes "reach h (conc_new reg w) s" "k < length (sr_workers (cn_srv s))"
    and "wk_pc (sr_workers (cn_srv s) ! k) = Waiting t"
    and "\<not> conn_locked (cn_srv s) (wk_cid (sr_workers (cn_srv s) ! k))"
    and "ca_status (sr_heap (cn_srv s) ! k) = Cancelled"
  shows "\<exists>s'. conc_run h [Ev_lock k, Ev_register k, Ev_execute k] s = Some s'
     \<and> sr_world (cn_srv s') = snd (cv_execute (ho_conn h) (wk_conn (sr_workers (cn_srv s) ! k))
          (wk_stmt (sr_workers (cn_srv s) ! k)) (sr_world (cn_srv s)))
     \<and> ca_status (sr_heap (cn_srv s') ! k) = Cancelled"
proof -
  have ref: "wk_ref (sr_workers (cn_srv s) ! k) = k" "k < length (sr_heap (cn_srv s))"
    using reach_core [OF assms(1)] assms(2) by (simp_all add: core_inv_def shape_inv_def)
  show ?thesis
    using assms(2-5) ref
    by (auto simp: conc_step_def step_worker_def nth_opt_def worker_lock_def worker_register_def
        worker_execute_def on_world_def call_register_def split: prod.split option.split)
qed

theorem cancelled_before_lock_still_runs_witness:
  "\<exists>s'. conc_run demo_host [Ev_lock 0, Ev_register 0, Ev_execute 0] (run_of demo_cancel) = Some s'
     \<and> sr_world (cn_srv s') = 1 \<and> ca_status (sr_heap (cn_srv s') ! 0) = Cancelled"
proof -
  have st: "length (sr_workers (cn_srv (run_of demo_cancel))) = 1"
    "wk_pc (sr_workers (cn_srv (run_of demo_cancel)) ! 0) = Waiting 0"
    "conn_locked (cn_srv (run_of demo_cancel)) (wk_cid (sr_workers (cn_srv (run_of demo_cancel)) ! 0)) = False"
    "ca_status (sr_heap (cn_srv (run_of demo_cancel)) ! 0) = Cancelled"
    "sr_world (cn_srv (run_of demo_cancel)) = 0" by code_simp+
  from cancelled_before_lock_still_runs [OF demo_reach [OF runs_cancel], of 0 0] st
  show ?thesis by (simp add: demo_host_def demo_conn_def)
qed



section \<open>Progress and the specification of a call\<close>






text \<open>
  C7: The daemon refines the specification of a call's life: whatever a step of the daemon does, seen
  on the calls and the notifications it opens one call, marks open calls as asked to cancel, or closes
  one open call with its one notification; a call closes as cancelled exactly when it was asked.
\<close>
theorem calls_refine_spec:
  assumes "reach h (conc_new reg w) s" "conc_step h ev s = Some s'"
  shows "spec_step (lives (cn_srv s)) (lives (cn_srv s'))"
  using effect_refines [OF conc_effect [OF reach_core [OF assms(1)] assms(2)] reach_core [OF assms(1)]] .

theorem calls_refine_spec_witness:
  "\<exists>s'. conc_step demo_host (Ev_finish 0) (run_of demo_ran) = Some s'
     \<and> fst (lives (cn_srv (run_of demo_ran))) = [Open False] \<and> fst (lives (cn_srv s')) = [Closed Done]
     \<and> spec_step (lives (cn_srv (run_of demo_ran))) (lives (cn_srv s'))"
proof -
  let ?step = "conc_step demo_host (Ev_finish 0) (run_of demo_ran)"
  have "Option.is_none ?step = False" by code_simp
  then obtain s' where s': "?step = Some s'" by (auto simp: Option.is_none_def)
  have "map_option (\<lambda>s. map life_of (zip (sr_workers (cn_srv s)) (sr_heap (cn_srv s)))) ?step = Some [Closed Done]"
    "map life_of (zip (sr_workers (cn_srv (run_of demo_ran))) (sr_heap (cn_srv (run_of demo_ran)))) = [Open False]"
    by code_simp+
  with s' calls_refine_spec [OF demo_reach [OF runs_ran] s'] show ?thesis by (simp add: lives_def)
qed

section \<open>Requests and their answers\<close>

text \<open>
  C10: Handling a request adds its one response line, after log notifications only, and no line that
  answers another request; the exception is a page request whose stream panics or never ends.
\<close>
theorem one_answer_per_request:
  "(\<exists>pre line. sr_out (srv_handle h req s) = sr_out s @ pre @ [line]
      \<and> (\<forall>l\<in>set pre. log_line l \<and> (\<forall>i. \<not> is_response_to i l)) \<and> is_response_to (rq_id req) line)
   \<or> (rq_method req = ''query.page'' \<and> sr_out (srv_handle h req s) = sr_out s
      \<and> fst (srv_page h (rq_params req) s) \<in> {Panicked, Diverged})"
  using handle_out [of h req s] log_line_not_response by blast

theorem one_answer_per_request_witness:
  "\<exists>pre line. sr_out (srv_handle demo_host \<lparr>rq_id = 9, rq_method = ''rpc.hello'', rq_params = JNull\<rparr>
       (cn_srv demo_start)) = sr_out (cn_srv demo_start) @ pre @ [line] \<and> is_response_to 9 line"
  using one_answer_per_request [of demo_host "\<lparr>rq_id = 9, rq_method = ''rpc.hello'', rq_params = JNull\<rparr>"
      "cn_srv demo_start"] by auto

text \<open>
  C2: Paging.  Once a worker has ended with a buffered result, any sequence of page requests, in any
  order, forwards and backwards, whose windows end below 2 ^ 64 (offset plus size does not wrap around), is
  answered with exactly the requested windows of the result's rows; a page that says there is no more
  reaches the end of them.
\<close>
theorem paging_any_order:
  assumes "ho_stream h = buffered_vt" "sr_calls s i = Some ref" "ref < length (sr_heap s)"
    and "sr_heap s ! ref = call_new\<lparr>ca_cancel := tok\<rparr>" "length rows < usize_mod"
    and "s' = worker_finish h i ref ms (Inr (buffered_new cols rows aff)) s"
    and "\<forall>(rid, fr, n)\<in>set ps. fr + n < usize_mod"
  shows "\<exists>ls. sr_out (handle_all h (map (\<lambda>(rid, fr, n). page_request rid i fr n) ps) s') = sr_out s' @ ls
     \<and> list_all2 (\<lambda>(rid, fr, n) l. page_answer rows rid fr n l) ps ls"
proof -
  have "buf.finished_call i rows s'"
    unfolding assms(6) using assms(1-5) by (rule finish_buffered)
  with buf.page_any_order [of h, OF _ _ this assms(7)] show ?thesis
    by (simp add: assms(1) buffered_vt_def)
qed

definition demo_running :: demo_srv where
  "demo_running = (srv_new (registry_of []) 0)\<lparr>sr_calls := [1 \<mapsto> 0], sr_heap := [call_new]\<rparr>"

theorem paging_any_order_witness:
  "\<exists>ls. sr_out (handle_all demo_host [page_request 5 1 2 2, page_request 6 1 0 1]
       (worker_finish demo_host 1 0 0 (Inr (buffered_new [] [[VInt 1], [VInt 2], [VInt 3]] None)) demo_running))
     = sr_out (worker_finish demo_host 1 0 0 (Inr (buffered_new [] [[VInt 1], [VInt 2], [VInt 3]] None)) demo_running)
         @ ls
     \<and> list_all2 (\<lambda>(rid, fr, n) l. page_answer [[VInt 1], [VInt 2], [VInt 3]] rid fr n l) [(5, 2, 2), (6, 0, 1)] ls"
  using paging_any_order [of demo_host demo_running 1 0 None "[[VInt 1], [VInt 2], [VInt 3]]" _ 0 "[]" None
      "[(5, 2, 2), (6, 0, 1)]"]
  by (simp add: demo_host_def demo_running_def usize_mod_def call_new_def)

end
