(* ===== verification/Core_Claims.thy ===== *)
theory Core_Claims
  imports Fixtures
begin

text \<open>
  Properties of what a connection is made of: credentials, the network layer, the TLS configuration,
  the handlers that open and test a connection, and the values that go back to the client.
\<close>

section \<open>Credentials\<close>

text \<open>
  C16: A template as the connection form writes it, with any argument text, resolves through the
  provider its verb names with exactly that argument; an unknown verb is an error.
\<close>
theorem template_resolves:
  assumes "verb \<noteq> []" "\<forall>c\<in>set verb. plain_byte c"
  shows "secret_resolve w (Secret (template verb arg)) =
     (if verb = ''env''
      then ok_or (''secret: environment variable '' @ quoted arg @ '' is not set'') (w_env w arg)
      else if verb = ''cmd'' then run_cmd w arg
      else if verb = ''vault'' then vault_fetch (w_parse w) (w_env w) (w_agent w) arg
      else Inl (''secret: unknown template verb '' @ quoted verb))"
  by (rule resolve_template [OF assms])

theorem template_resolves_witness:
  "secret_resolve demo_world (Secret (template ''env'' ''PW'')) = Inr ''hunter2''"
  using template_resolves [of "''env''" demo_world "''PW''"]
  by (simp add: plain_byte_def is_ascii_ws_def byte_def demo_world_def)

text \<open>
  A literal secret is used trimmed, not verbatim: when what is left after trimming does not
  start as a template, that is what it resolves to.
\<close>
lemma literal_is_trimmed:
  assumes "strip_prefix ''{{'' (trim t) = None" "trim (trim t) = trim t"
  shows "secret_resolve w (Secret t) = Inr (trim t)"
  using assms by (simp add: secret_resolve_def strip_template_def Let_def)

lemma literal_is_trimmed_witness:
  "secret_resolve demo_world (Secret '' pass '') = Inr ''pass''"
proof -
  have "trim '' pass '' = ''pass''" "strip_prefix ''{{'' (trim '' pass '') = None" by code_simp+
  moreover have "trim (trim '' pass '') = trim '' pass ''" by code_simp
  ultimately show ?thesis using literal_is_trimmed [of "'' pass ''" demo_world] by simp
qed

text \<open>The printed form of a secret tells whether it is empty and nothing else.\<close>
lemma debug_hides_secret:
  "secret_debug s = secret_debug t \<longleftrightarrow> (secret_is_empty s \<longleftrightarrow> secret_is_empty t)"
  by (cases s; cases t) (simp add: secret_debug_def secret_is_empty_def)

text \<open>
  C38: A keyring session returns the answer to its own request: lines of text that are not JSON, or are
  not the response to it, change nothing wherever they stand before it, and nothing after it is read.  A line
  that is not UTF-8 is no such line: when one comes first, the fetch fails.
\<close>
theorem vault_takes_its_own_answer:
  assumes "socket_path env = Some path" "agent path (vault_request name) = Some s" "se_write_err s = None"
    and "se_lines s = pre @ line # rest" "\<forall>l\<in>set pre. vault_skips parse l"
  shows "(utf8_valid line \<and> line \<noteq> [] \<and> parse (trim line) = Some msg
        \<and> Option.bind (json_get ''id'' msg) json_u64 = Some 1 \<longrightarrow>
      vault_fetch parse env agent name = vault_answer msg)
    \<and> (\<not> utf8_valid line \<longrightarrow> vault_fetch parse env agent name = Inl not_utf8)"
  using vault_fetch_session [where env = env and agent = agent, OF assms(1-3)] assms(4)
    fetch_loop_answer [OF assms(5)] fetch_loop_not_utf8 [OF assms(5)] by simp

definition demo_answer :: json where
  "demo_answer = JObj [(''id'', JInt 1), (''ok'', JBool True), (''result'', JObj [(''value'', JStr ''s3cret'')])]"

definition demo_session :: "string list \<Rightarrow> agent_session" where
  "demo_session ls = \<lparr>se_write_err = None, se_lines = ls, se_end = None\<rparr>"

definition demo_parse :: "string \<Rightarrow> json option" where
  "demo_parse t = (if t = ''A'' then Some demo_answer else None)"

theorem vault_takes_its_own_answer_witness:
  "vault_fetch demo_parse [''LVIM_KEYRING_SOCK'' \<mapsto> ''/sock''] (\<lambda>p r. Some (demo_session [''hello'', ''A''])) ''db''
     = Inr ''s3cret''
   \<and> vault_fetch demo_parse [''LVIM_KEYRING_SOCK'' \<mapsto> ''/sock''] (\<lambda>p r. Some (demo_session [''hello'', [CHR 0xFF], ''A''])) ''db''
     = Inl not_utf8"
proof -
  have f: "socket_path [''LVIM_KEYRING_SOCK'' \<mapsto> ''/sock''] = Some ''/sock''"
    "vault_skips demo_parse ''hello''" "demo_parse (trim ''A'') = Some demo_answer"
    "Option.bind (json_get ''id'' demo_answer) json_u64 = Some 1" "utf8_valid ''A''" "\<not> utf8_valid [CHR 0xFF]"
    "vault_answer demo_answer = Inr ''s3cret''" by code_simp+
  show ?thesis
    using vault_takes_its_own_answer [where path = "''/sock''" and pre = "[''hello'']" and line = "''A''"
        and rest = "[]" and s = "demo_session [''hello'', ''A'']" and msg = demo_answer and parse = demo_parse
        and agent = "\<lambda>p r. Some (demo_session [''hello'', ''A''])" and name = "''db''", OF f(1)]
      vault_takes_its_own_answer [where path = "''/sock''" and pre = "[''hello'']" and line = "[CHR 0xFF]"
        and rest = "[''A'']" and s = "demo_session [''hello'', [CHR 0xFF], ''A'']" and parse = demo_parse
        and agent = "\<lambda>p r. Some (demo_session [''hello'', [CHR 0xFF], ''A''])" and name = "''db''", OF f(1)]
      f(2-)
    by (simp add: demo_session_def)
qed

section \<open>The network layer\<close>

text \<open>
  C11: A tunnel that is asked for is never bypassed: whenever a context with a tunnel yields an
  address, the SSH session was authenticated and the address is the local end of its forwarder.
\<close>
theorem tunnel_never_bypassed:
  assumes "net_inv sh resolve net" "nc_tunnel net = Some spec"
    and "net_resolve sh resolve host p net = (Inr addr, net')"
  shows "tunnel_authenticate sh resolve spec = Inr True \<and> net_inv sh resolve net'
     \<and> (\<exists>g. nc_established net' = Some g \<and> addr = tg_local_addr g)"
  using net_resolve_through [OF assms] net_resolve_inv [OF assms(1,3)] by blast

definition demo_tunnel :: tunnel_spec where
  "demo_tunnel = \<lparr>tun_host = ''gw'', tun_port = default_ssh_port, tun_user = ''u'', tun_auth = Tun_Agent\<rparr>"

theorem tunnel_never_bypassed_witness:
  "\<exists>net'. net_resolve demo_ssh (secret_resolve demo_world) ''db'' 5432 (net_new (Some demo_tunnel))
       = (Inr ''127.0.0.1:40000'', net')
     \<and> tunnel_authenticate demo_ssh (secret_resolve demo_world) demo_tunnel = Inr True"
proof -
  have r: "net_resolve demo_ssh (secret_resolve demo_world) ''db'' 5432 (net_new (Some demo_tunnel))
      = (Inr ''127.0.0.1:40000'', \<lparr>nc_tunnel = Some demo_tunnel,
          nc_established = Some \<lparr>tg_local_addr = ''127.0.0.1:40000'', tg_db_host = ''db'', tg_db_port = 5432\<rparr>\<rparr>)"
    by (simp add: net_resolve_def net_new_def tunnel_open_def tunnel_authenticate_def demo_tunnel_def
        demo_ssh_def)
  with tunnel_never_bypassed [OF net_inv_new _ r, of demo_tunnel] show ?thesis
    by (simp add: net_new_def)
qed

section \<open>TLS configurations\<close>

text \<open>
  C12: A client configuration verifies the server exactly in the verifying modes: against the pinned
  CA when there is one and the usable system roots otherwise; the accept-any verifier is built in the
  other modes only, and a client identity is shown exactly when certificate and key are both given.
\<close>
theorem client_config_posture:
  assumes "client_config te tls = Inr cfg"
  shows "(cc_verifier cfg = AcceptAny \<longleftrightarrow> tls_md tls < VerifyCa)
     \<and> (verifies_cert tls \<longrightarrow> cc_verifier cfg = Roots (case tls_ca tls of
          Some ca \<Rightarrow> unwrap_or [] (ok_opt (load_certs te ca))
        | None \<Rightarrow> filter (\<lambda>c. is_ok (te_add_root te c)) (te_native te)))
     \<and> (cc_identity cfg \<noteq> None \<longleftrightarrow> tls_client_cert tls \<noteq> None \<and> tls_client_key tls \<noteq> None)"
proof -
  have "\<exists>v. tls_finish te v tls = Inr cfg"
    using assms by (auto simp: client_config_def result_iff split: if_splits)
  then have "cc_identity cfg \<noteq> None \<longleftrightarrow> tls_client_cert tls \<noteq> None \<and> tls_client_key tls \<noteq> None"
    by (auto simp: tls_finish_def result_iff split: option.splits)
  moreover have "verifies_cert tls \<Longrightarrow> cc_verifier cfg = Roots (case tls_ca tls of
          Some ca \<Rightarrow> unwrap_or [] (ok_opt (load_certs te ca))
        | None \<Rightarrow> filter (\<lambda>c. is_ok (te_add_root te c)) (te_native te))"
    using client_config_verifier [OF assms] assms
    by (auto simp: client_config_def result_iff split: option.splits)
  moreover have "\<not> verifies_cert tls \<Longrightarrow> cc_verifier cfg = AcceptAny"
    using client_config_verifier [OF assms] by simp
  ultimately show ?thesis
    by (cases "verifies_cert tls") (simp_all add: verifies_cert_iff not_le)
qed

definition demo_tls_env :: "(string, string) tls_env" where
  "demo_tls_env = \<lparr>te_read = (\<lambda>p. Inr p), te_certs = (\<lambda>d. Inr [d]), te_key = (\<lambda>d. Inr (Some d)),
     te_native = [''r1'', ''r2''], te_add_root = (\<lambda>c. if c = ''r2'' then Inl ''expired'' else Inr ()),
     te_client_auth = (\<lambda>cs k. Inr ())\<rparr>"

theorem client_config_posture_witness:
  "\<exists>cfg. client_config demo_tls_env (tls_default\<lparr>tls_md := VerifyFull\<rparr>) = Inr cfg
     \<and> cc_verifier cfg = Roots [''r1''] \<and> cc_identity cfg = None"
proof -
  have "client_config demo_tls_env (tls_default\<lparr>tls_md := VerifyFull\<rparr>)
      = Inr \<lparr>cc_verifier = Roots [''r1''], cc_identity = None\<rparr>"
    by (simp add: client_config_def verifies_cert_def tls_default_def tls_finish_def demo_tls_env_def)
  with client_config_posture [OF this] show ?thesis by simp
qed

text \<open>
  The configuration does not depend on whether the mode asks for the host name to be checked:
  the two verifying modes build the same one.
\<close>
lemma verify_modes_coincide:
  "client_config te (tls\<lparr>tls_md := VerifyCa\<rparr>) = client_config te (tls\<lparr>tls_md := VerifyFull\<rparr>)"
  by (simp add: client_config_def verifies_cert_def tls_finish_def cong: option.case_cong)

section \<open>Opening and testing a connection\<close>

text \<open>
  C13: A connect that succeeds files the driver's connection under the next identifier, reports
  whether the link is encrypted (by TLS or by the tunnel), and warns exactly when it is not.
\<close>
theorem connect_reports_posture:
  assumes "srv_connect h params s = (Inr j, s')"
  shows "\<exists>spec d conn net w. ho_spec h params = Some spec
     \<and> registry_get (sr_registry s) (cs_driver spec) = Inr d
     \<and> drive_connect d spec (net_new (cs_tunnel spec)) (sr_world s) = (Inr (conn, net), w)
     \<and> (let i = sr_next_conn s; enc = cv_encrypted (ho_conn h) conn w \<or> cs_tunnel spec \<noteq> None in
          j = connected_json i enc (cs_tunnel spec \<noteq> None)
          \<and> sr_conns s' = (sr_conns s)(i \<mapsto> \<lparr>ce_conn = conn, ce_net = net\<rparr>)
          \<and> sr_next_conn s' = i + 1
          \<and> sr_out s' = sr_out s @ (if enc then [] else [warn_unencrypted i (cs_driver spec)]))"
proof -
  from srv_connect_Inr [OF assms] obtain spec d conn net w where
    "ho_spec h params = Some spec" "registry_get (sr_registry s) (cs_driver spec) = Inr d"
    "drive_connect d spec (net_new (cs_tunnel spec)) (sr_world s) = (Inr (conn, net), w)"
    "srv_register (cs_driver spec) (cv_encrypted (ho_conn h) conn w \<or> tunneled (net_new (cs_tunnel spec)))
       (tunneled (net_new (cs_tunnel spec))) \<lparr>ce_conn = conn, ce_net = net\<rparr> (s\<lparr>sr_world := w\<rparr>) = (Inr j, s')" .
  then show ?thesis
    by (intro exI [of _ spec] exI [of _ d] exI [of _ conn] exI [of _ net] exI [of _ w])
      (auto simp: srv_register_def Let_def srv_send_def tunneled_def net_new_def)
qed

theorem connect_reports_posture_witness:
  "\<exists>s'. srv_connect demo_host (JObj []) (cn_srv demo_start) = (Inr (connected_json 1 False False), s')
     \<and> sr_out s' = [warn_unencrypted 1 ''demo'']"
proof -
  obtain r s' where c: "srv_connect demo_host (JObj []) (cn_srv demo_start) = (r, s')"
    by (cases "srv_connect demo_host (JObj []) (cn_srv demo_start)")
  have "fst (srv_connect demo_host (JObj []) (cn_srv demo_start)) = Inr (connected_json 1 False False)"
    by code_simp
  with c have r: "r = Inr (connected_json 1 False False)" by simp
  have "sr_next_conn (cn_srv demo_start) = 1" "sr_out (cn_srv demo_start) = []" by code_simp+
  with connect_reports_posture [OF c [unfolded r]] r c show ?thesis
    by (auto simp: demo_host_def demo_conn_def demo_spec_def default_encrypted_def Let_def)
qed

text \<open>
  C24: The tls stage of a connection test succeeds only on an encrypted link: the driver has really
  connected, and native TLS was negotiated or the link rides a tunnel.
\<close>
theorem tls_test_means_encrypted:
  assumes "test_connect h spec ''tls'' s = (Inr t, s')"
  shows "\<exists>d conn net w. registry_get (sr_registry s) (cs_driver spec) = Inr d
     \<and> drive_connect d spec (net_new (cs_tunnel spec)) (sr_world s) = (Inr (conn, net), w)
     \<and> (cv_encrypted (ho_conn h) conn w \<or> cs_tunnel spec \<noteq> None)"
  using assms
  by (auto simp: test_connect_def io_bind_def srv_driver_def on_world_def conn_posture_def Let_def io_try_def
      posture_text_def tunneled_def net_new_def split: sum.splits prod.splits if_splits)

theorem tls_test_means_encrypted_witness:
  "\<exists>t s'. test_connect demo_host (demo_spec\<lparr>cs_tunnel := Some demo_tunnel\<rparr>) ''tls'' (cn_srv demo_start) = (Inr t, s')
     \<and> cs_tunnel (demo_spec\<lparr>cs_tunnel := Some demo_tunnel\<rparr>) \<noteq> None"
proof -
  let ?spec = "demo_spec\<lparr>cs_tunnel := Some demo_tunnel\<rparr>"
  obtain r s' where c: "test_connect demo_host ?spec ''tls'' (cn_srv demo_start) = (r, s')"
    by (cases "test_connect demo_host ?spec ''tls'' (cn_srv demo_start)")
  have "is_ok (fst (test_connect demo_host ?spec ''tls'' (cn_srv demo_start))) = True" by code_simp
  with c obtain t where r: "r = Inr t" by (auto simp: is_ok_iff)
  from tls_test_means_encrypted [OF c [unfolded r]] r c show ?thesis
    by (auto simp: demo_host_def demo_conn_def default_encrypted_def)
qed

end
