(* ===== verification/Data_Claims.thy ===== *)
theory Data_Claims
  imports Fixtures
begin

text \<open>Properties of the data that crosses the wire: cells, pages, catalog rows and request lines.\<close>

text \<open>
  C17: Every 64-bit integer cell survives the wire: a client that trusts numbers below 2^53 only and
  reads tagged text otherwise recovers exactly the value.
\<close>
theorem integer_cells_exact:
  assumes "- (2 ^ 63) \<le> i" "i < 2 ^ 63"
  shows "client_int (value_json (VInt i)) = Some i"
  by (rule client_int_value_json [OF assms])

theorem integer_cells_exact_witness: "client_int (value_json (VInt (2 ^ 53 + 1))) = Some (2 ^ 53 + 1)"
  by (rule integer_cells_exact) simp_all

text \<open>
  C15: Folding a catalog's index rows gives one index per distinct name, in the order the names first
  appear, each with the columns of all its rows in row order and the flags of its first row; rows
  without a name are ignored.
\<close>
theorem group_indexes_closed_form:
  "group_indexes rows = map (index_of_name rows) (nub (filter_map index_row_name rows))"
  by (rule group_indexes_eq)

text \<open>
  C40: A page whose window overflows the size type.  On a finished call with a buffered result, offset plus
  size wraps around to some end below the offset; when the buffer is longer than that end the handler
  panics and there is no answer, and otherwise the answer is an empty page, whatever rows there are.
\<close>
theorem page_overflow_panics:
  assumes "ca_status c = Done" "buf.call_ok c"
    and "fr < usize_mod" "n < usize_mod" "usize_mod \<le> fr + n"
  shows "if fr + n - usize_mod < length (ca_buffer c)
     then call_page buffered_next_page buffered_total fr n c = (Panicked, c)
     else \<exists>c' j. call_page buffered_next_page buffered_total fr n c = (Returned (Inr j), c')
       \<and> json_get ''rows'' j = Some (JArr []) \<and> buf.all_rows c' = buf.all_rows c"
  using buf.call_page_overflow [OF assms(2,1,3-5)] unfolding buf.pulled_def by meson

definition demo_done :: "row list \<Rightarrow> (bstream, nat) call" where
  "demo_done rows = call_new\<lparr>ca_status := Done, ca_buffer := rows,
     ca_stream := Some ((buffered_new [] [[VNull], [VNull]] None)\<lparr>bs_pos := length rows\<rparr>)\<rparr>"

theorem page_overflow_panics_witness:
  "call_page buffered_next_page buffered_total 2 (usize_mod - 1) (demo_done [[VNull], [VNull]])
     = (Panicked, demo_done [[VNull], [VNull]])
   \<and> (\<exists>c j. call_page buffered_next_page buffered_total (usize_mod - 1) 1 (demo_done [])
        = (Returned (Inr j), c) \<and> json_get ''rows'' j = Some (JArr []))"
proof
  have ok: "buf.call_ok (demo_done [[VNull], [VNull]])" "buf.call_ok (demo_done [])"
    and st: "ca_status (demo_done rs) = Done" "ca_buffer (demo_done rs) = rs" for rs
    by (simp_all add: demo_done_def call_new_def buf.call_ok_def buffered_new_def buffered_inv_def usize_mod_def)
  show "call_page buffered_next_page buffered_total 2 (usize_mod - 1) (demo_done [[VNull], [VNull]])
     = (Panicked, demo_done [[VNull], [VNull]])"
    using page_overflow_panics [OF st(1) ok(1), of 2 "usize_mod - 1"] by (simp add: st usize_mod_def)
  show "\<exists>c j. call_page buffered_next_page buffered_total (usize_mod - 1) 1 (demo_done [])
        = (Returned (Inr j), c) \<and> json_get ''rows'' j = Some (JArr [])"
    using page_overflow_panics [OF st(1) ok(2), of "usize_mod - 1" 1] by (auto simp: st usize_mod_def)
qed

text \<open>
  C39: The request loop hands on exactly the requests on the well-formed lines, in order: blank lines
  and lines that are no request are skipped, and it stops at a line that is not UTF-8.
\<close>
theorem request_lines:
  assumes "\<forall>l\<in>set ls. utf8_valid l" "\<not> utf8_valid bad"
  shows "main_requests parse ls = filter_map (line_request parse) ls
     \<and> main_requests parse (ls @ bad # rest) = filter_map (line_request parse) ls"
  using main_requests_valid [OF assms(1)] main_requests_stop [OF assms] by blast

definition demo_line_parse :: "string \<Rightarrow> json option" where
  "demo_line_parse s = (if s = ''R'' then Some (JObj [(''id'', JInt 4), (''method'', JStr ''rpc.hello'')]) else None)"

theorem request_lines_witness:
  "main_requests demo_line_parse ([''x'', '' R '', '' ''] @ [CHR 0xFF] # [''R''])
   = [\<lparr>rq_id = 4, rq_method = ''rpc.hello'', rq_params = JNull\<rparr>]"
proof -
  have v: "\<forall>l\<in>set [''x'', '' R '', '' '']. utf8_valid l" "\<not> utf8_valid [CHR 0xFF]" by code_simp+
  have "filter_map (line_request demo_line_parse) [''x'', '' R '', '' '']
      = [\<lparr>rq_id = 4, rq_method = ''rpc.hello'', rq_params = JNull\<rparr>]" by code_simp
  with request_lines [OF v, of demo_line_parse "[''R'']"] show ?thesis by simp
qed

end
