(* ===== verification/Driver_Common.thy ===== *)
theory Driver_Common
  imports Catalog Registry Buffered Tls
begin

text \<open>
  What the drivers share: the seam through which they reach the network layer, the secrets and the
  TLS builder; quoting of names in SQL text; the wire formats of numbers; and the contract of a
  driver's \<open>connect\<close> about encryption.
\<close>

section \<open>The seam\<close>

record ('key, 'ident, 'cert, 'pk) seam =
  sm_ssh :: "('key, 'ident) ssh"
  sm_world :: world
  sm_tls :: "('cert, 'pk) tls_env"
  sm_b64 :: "string \<Rightarrow> string"

definition seam_secret :: "('key, 'ident, 'cert, 'pk) seam \<Rightarrow> secret \<Rightarrow> ('s, string) io" where
  "seam_secret sm s = io_lift (secret_resolve (sm_world sm) s)"

text \<open>A driver connects with the server's network context and the outside world in its hands.\<close>

definition on_net :: "(net_ctx, 'a) io \<Rightarrow> (net_ctx \<times> 'w, 'a) io" where
  "on_net m = (\<lambda>(net, w). case m net of (r, net') \<Rightarrow> (r, (net', w)))"

definition on_lib :: "('w, 'a) io \<Rightarrow> ('x \<times> 'w, 'a) io" where
  "on_lib m = (\<lambda>(x, w). case m w of (r, w') \<Rightarrow> (r, (x, w')))"

definition seam_resolve ::
  "('key, 'ident, 'cert, 'pk) seam \<Rightarrow> string \<Rightarrow> u16 \<Rightarrow> (net_ctx \<times> 'w, string) io" where
  "seam_resolve sm host p = on_net (net_resolve (sm_ssh sm) (secret_resolve (sm_world sm)) host p)"

text \<open>The address that comes back, taken apart: a port that does not parse falls back to the spec's.\<close>

definition dial_parts :: "string \<Rightarrow> (string \<times> string) result" where
  "dial_parts addr = ok_or ''net resolved a malformed address'' (rsplit_once (CHR '':'') addr)"

definition dial_port :: "u16 \<Rightarrow> string \<Rightarrow> u16" where
  "dial_port p rport = unwrap_or p (parse_u16 rport)"

lemma dial_parts_addr [simp]: "dial_parts (addr_of h p) = Inr (h, show_port p)"
  by (simp add: dial_parts_def)

lemma dial_port_show [simp]: "dial_port q (show_port p) = p"
  by (simp add: dial_port_def)

text \<open>Without a tunnel a driver dials the address of its spec, whatever colons the host has.\<close>

lemma seam_resolve_plain [io_simps]:
  "nc_tunnel net = None \<Longrightarrow> seam_resolve sm host p (net, w) = (Inr (addr_of host p), (net, w))"
  by (simp add: seam_resolve_def on_net_def net_resolve_plain)

lemma net_new_tunnel [simp]: "nc_tunnel (net_new t) = t"
  by (simp add: net_new_def)

section \<open>Quoting\<close>

definition dbl :: "char \<Rightarrow> string \<Rightarrow> string" where
  "dbl c s = replace_char c [c, c] s"

definition esc_sq :: "string \<Rightarrow> string" where "esc_sq s = dbl (CHR 0x27) s"
definition esc_dq :: "string \<Rightarrow> string" where "esc_dq s = dbl (CHR 0x22) s"
definition esc_bt :: "string \<Rightarrow> string" where "esc_bt s = dbl (CHR 0x60) s"
definition esc_br :: "string \<Rightarrow> string" where "esc_br s = dbl (CHR '']'') s"

definition sql_lit :: "string \<Rightarrow> string" where "sql_lit s = sq @ esc_sq s @ sq"
definition bt_ident :: "string \<Rightarrow> string" where "bt_ident s = [CHR 0x60] @ esc_bt s @ [CHR 0x60]"
definition dq_ident :: "string \<Rightarrow> string" where "dq_ident s = dq @ esc_dq s @ dq"
definition br_ident :: "string \<Rightarrow> string" where "br_ident s = ''['' @ esc_br s @ '']''"

text \<open>
  The scanner of the SQL standard for a quoted token, after its opening quote: a doubled closing quote
  is one character, a single one ends the token.
\<close>

fun scan_quoted :: "char \<Rightarrow> string \<Rightarrow> (string \<times> string) option" where
  "scan_quoted q [] = None"
| "scan_quoted q (c # s) =
     (if c \<noteq> q then map_option (\<lambda>(a, b). (c # a, b)) (scan_quoted q s)
      else (case s of
              d # s' \<Rightarrow> if d = q then map_option (\<lambda>(a, b). (q # a, b)) (scan_quoted q s') else Some ([], s)
            | [] \<Rightarrow> Some ([], [])))"

lemma dbl_simps [simp]: "dbl c [] = []" "dbl c (x # s) = (if x = c then [c, c] else [x]) @ dbl c s"
  by (simp_all add: dbl_def)

lemma scan_dbl:
  "(case rest of d # _ \<Rightarrow> d \<noteq> q | [] \<Rightarrow> True) \<Longrightarrow> scan_quoted q (dbl q s @ q # rest) = Some (s, rest)"
  by (induction s) (auto split: list.splits)

section \<open>Numbers\<close>

text \<open>\<open>{:0>width}\<close>: zeros in front up to the width.\<close>

definition pad_zero :: "nat \<Rightarrow> string \<Rightarrow> string" where
  "pad_zero width s = replicate (width - length s) (CHR ''0'') @ s"

text \<open>\<open>{:0width}\<close> of an integer: the sign first, then the zeros.\<close>

definition fmt_pad :: "nat \<Rightarrow> int \<Rightarrow> string" where
  "fmt_pad width i =
     (if i < 0 then ''-'' @ pad_zero (width - 1) (show_nat (nat (- i))) else pad_zero width (show_nat (nat i)))"

text \<open>Division towards zero, and its remainder.\<close>

definition tdiv :: "int \<Rightarrow> int \<Rightarrow> int" where
  "tdiv a b = (if a < 0 then - ((- a) div b) else a div b)"

definition tmod :: "int \<Rightarrow> int \<Rightarrow> int" where
  "tmod a b = (if a < 0 then - ((- a) mod b) else a mod b)"

fun bitlen :: "nat \<Rightarrow> nat" where
  "bitlen n = (if n = 0 then 0 else Suc (bitlen (n div 2)))"

declare bitlen.simps [simp del]

text \<open>\<open>f as f64\<close> on the bits of an f32: exact, a subnormal becomes normal, a NaN becomes quiet.\<close>

definition f64_of_f32 :: "f32 \<Rightarrow> f64" where
  "f64_of_f32 f =
     (let n = unat f; s = n div 2 ^ 31; e = (n div 2 ^ 23) mod 2 ^ 8; m = n mod 2 ^ 23;
          em = (if e = 255 then 2047 * 2 ^ 52 + (if m = 0 then 0 else 2 ^ 51 + (m mod 2 ^ 22) * 2 ^ 29)
                else if e \<noteq> 0 then (e + 896) * 2 ^ 52 + m * 2 ^ 29
                else if m = 0 then 0
                else (let k = bitlen m - 1 in (k + 874) * 2 ^ 52 + (m - 2 ^ k) * 2 ^ (52 - k)))
      in of_nat (s * 2 ^ 63 + em))"

text \<open>An integer \<open>as f64\<close>: rounded to nearest, ties to even; a carry moves into the exponent.\<close>

definition round_shift :: "nat \<Rightarrow> nat \<Rightarrow> nat" where
  "round_shift n k =
     (let q = n div 2 ^ k; r = n mod 2 ^ k in
      if 2 ^ k < 2 * r \<or> (2 ^ k = 2 * r \<and> odd q) then q + 1 else q)"

definition f64_of_nat :: "nat \<Rightarrow> f64" where
  "f64_of_nat n =
     (if n = 0 then 0
      else (let k = bitlen n - 1;
                q = (if k \<le> 52 then n * 2 ^ (52 - k) else round_shift n (k - 52))
            in of_nat ((k + 1022) * 2 ^ 52 + q)))"

text \<open>\<open>f as i64\<close>: towards zero, clamped to the range, a NaN is 0.\<close>

definition f64_to_i64 :: "f64 \<Rightarrow> int" where
  "f64_to_i64 f =
     (let n = unat f; neg = (2 ^ 63 \<le> n); e = (n div 2 ^ 52) mod 2 ^ 11; m = n mod 2 ^ 52;
          mag = (if e < 1023 then 0
                 else if e < 1075 then (2 ^ 52 + m) div 2 ^ (1075 - e)
                 else (2 ^ 52 + m) * 2 ^ (e - 1075))
      in if e = 2047 \<and> m \<noteq> 0 then 0
         else if neg then max (- (2 ^ 63)) (- int mag) else min (2 ^ 63 - 1) (int mag))"

text \<open>\<open>u64\<close> into an i64 cell, or its decimal text when it does not fit.\<close>

definition uint_cell :: "nat \<Rightarrow> val" where
  "uint_cell u = (if u < 2 ^ 63 then VInt (int u) else VText (show_nat u))"

definition bytes_cell :: "(string \<Rightarrow> string) \<Rightarrow> string \<Rightarrow> val" where
  "bytes_cell b64 b = VBytes (b64 b) (length b)"

text \<open>Bytes that are UTF-8 are text, any others go out in base64.\<close>

definition text_or_bytes :: "(string \<Rightarrow> string) \<Rightarrow> string \<Rightarrow> val" where
  "text_or_bytes b64 b = (if utf8_valid b then VText b else bytes_cell b64 b)"

text \<open>A table type that names a view, in Unicode upper case.\<close>

definition view_kind :: "(string \<Rightarrow> string) \<Rightarrow> string \<Rightarrow> string" where
  "view_kind up ttype = (if contains ''VIEW'' (up ttype) then ''view'' else ''table'')"

section \<open>The encryption contract of a connect\<close>

locale tls_posture =
  fixes connect :: "conn_spec \<Rightarrow> (net_ctx \<times> 'w, 'c) io"
    and encrypted :: "'c \<Rightarrow> bool"
  assumes required_encrypted:
    "connect spec s = (Inr c, s') \<Longrightarrow> tls_required (cs_tls spec) \<Longrightarrow> encrypted c"
    and disabled_plain:
    "connect spec s = (Inr c, s') \<Longrightarrow> \<not> tls_wanted (cs_tls spec) \<Longrightarrow> \<not> encrypted c"
begin

text \<open>Seen from the server, which asks the connection for its posture.\<close>

lemma required_connects_encrypted:
  assumes "dr_connect d = connect" "tls_required (cs_tls spec)"
    and "dr_connect d spec s = (Inr c, s')"
  shows "encrypted c"
  using required_encrypted [of spec s c s'] assms by simp

end

lemma on_lib_app [io_simps]: "on_lib m (x, w) = (case m w of (r, w') \<Rightarrow> (r, (x, w')))"
  by (simp add: on_lib_def)

lemma on_net_Inr [result_iff]:
  "on_net m s = (Inr a, s') \<longleftrightarrow> (\<exists>net'. m (fst s) = (Inr a, net') \<and> s' = (net', snd s))"
  by (cases s) (auto simp: on_net_def split: prod.splits)

lemma on_lib_Inr [result_iff]:
  "on_lib m s = (Inr a, s') \<longleftrightarrow> (\<exists>w'. m (snd s) = (Inr a, w') \<and> s' = (fst s, w'))"
  by (cases s) (auto simp: on_lib_def split: prod.splits)

end
