(* ===== verification/Postgres.thy ===== *)
theory Postgres
  imports Driver_Common
begin

text \<open>
  \<open>drivers/postgres.rs\<close>, serving both registry kinds.  tokio-postgres is the record \<open>pg_lib\<close>: a
  client is opaque, a simple query yields messages or an error that may carry the server's report, and
  a describe yields type names.  A connection keeps its configuration and TLS posture, because
  switching the database means connecting again.
\<close>

section \<open>Metadata\<close>

definition pg_params :: "param_spec list" where
  "pg_params =
    [\<lparr>ps_key = ''host'', ps_label = ''Host'', ps_kind = PT_String, ps_required = True, ps_secret = False,
      ps_default = Some ''127.0.0.1''\<rparr>,
     \<lparr>ps_key = ''port'', ps_label = ''Port'', ps_kind = PT_Int, ps_required = False, ps_secret = False,
      ps_default = Some ''5432''\<rparr>,
     \<lparr>ps_key = ''database'', ps_label = ''Database'', ps_kind = PT_String, ps_required = True,
      ps_secret = False, ps_default = Some ''postgres''\<rparr>]"

definition pg_caps :: caps where
  "pg_caps = \<lparr>cap_sql = True, cap_schemas = True, cap_cancel = True, cap_tls = True, cap_tunnel = True,
     cap_multi_db = True, cap_kv = False, cap_indexes = True, cap_ddl = False\<rparr>"

definition PG_META :: driver_meta where
  "PG_META = \<lparr>dm_kind = ''postgres'', dm_display = ''PostgreSQL'', dm_default_port = Some 5432,
     dm_params = pg_params, dm_auth = [AK_None, AK_Password, AK_ClientCert], dm_caps = pg_caps\<rparr>"

definition CRDB_META :: driver_meta where
  "CRDB_META = \<lparr>dm_kind = ''cockroachdb'', dm_display = ''CockroachDB'', dm_default_port = Some 26257,
     dm_params = pg_params, dm_auth = [AK_None, AK_Password, AK_ClientCert], dm_caps = pg_caps\<rparr>"

section \<open>The client library\<close>

datatype pg_err =
    Pg_db string string string "string option" "string option"
  | Pg_other string

definition pg_error :: "pg_err \<Rightarrow> error" where
  "pg_error e =
     (case e of
        Pg_db severity message code detail hint \<Rightarrow>
          severity @ '': '' @ message @ '' ['' @ code @ '']''
          @ (case detail of Some d \<Rightarrow> '' '' @ em_dash @ '' '' @ d | None \<Rightarrow> [])
          @ (case hint of Some h \<Rightarrow> '' (hint: '' @ h @ '')'' | None \<Rightarrow> [])
      | Pg_other t \<Rightarrow> t)"

record pg_config =
  pgc_host :: string
  pgc_port :: u16
  pgc_user :: string
  pgc_dbname :: string
  pgc_password :: "string option"
  pgc_require_ssl :: bool

text \<open>A row message carries the column names and the cells in text form.\<close>

datatype pg_msg =
    Pg_row "string list" "string option list"
  | Pg_complete u64
  | Pg_ignored

record ('cl, 'cert, 'pk, 'w) pg_lib =
  pgl_dial_tls :: "('cert, 'pk) client_cfg \<Rightarrow> pg_config \<Rightarrow> ('w, 'cl) io"
  pgl_dial_plain :: "pg_config \<Rightarrow> ('w, 'cl) io"
  pgl_simple_query :: "'cl \<Rightarrow> string \<Rightarrow> 'w \<Rightarrow> (pg_err + pg_msg list) \<times> 'w"
  pgl_prepare :: "'cl \<Rightarrow> string \<Rightarrow> ('w, string list) io"
  pgl_cancel_query :: "'cl \<Rightarrow> ('w, unit) io"
  pgl_abort :: "'cl \<Rightarrow> 'w \<Rightarrow> 'w"

section \<open>Connecting\<close>

definition pg_user :: "conn_spec \<Rightarrow> string \<Rightarrow> string" where
  "pg_user spec user =
     (if user = [] then unwrap_or ''postgres'' (param_opt spec ''user'') else user)"

definition pg_credentials ::
  "('key, 'ident, 'cert, 'pk) seam \<Rightarrow> conn_spec \<Rightarrow> ('s, string \<times> string) io" where
  "pg_credentials sm spec =
     (case cs_auth spec of
        Auth_Password user password \<Rightarrow>
          io_bind (seam_secret sm password) (\<lambda>pw. io_ok (pg_user spec user, pw))
      | Auth_ClientCert _ _ _ user \<Rightarrow> io_ok (pg_user spec user, [])
      | _ \<Rightarrow> io_ok (unwrap_or ''postgres'' (param_opt spec ''user''), []))"

definition pg_build_config ::
  "('key, 'ident, 'cert, 'pk) seam \<Rightarrow> conn_spec \<Rightarrow> (net_ctx \<times> 'w, pg_config) io" where
  "pg_build_config sm spec =
     io_bind (io_lift (param spec ''host'')) (\<lambda>host.
     let p = port spec 5432 in
     io_bind (io_lift (param spec ''database'')) (\<lambda>db.
     io_bind (pg_credentials sm spec) (\<lambda>(user, password).
     io_bind (seam_resolve sm host p) (\<lambda>addr.
     io_bind (io_lift (dial_parts addr)) (\<lambda>(rhost, rport).
       io_ok \<lparr>pgc_host = rhost, pgc_port = dial_port p rport, pgc_user = user, pgc_dbname = db,
              pgc_password = (if password \<noteq> [] then Some password else None),
              pgc_require_ssl = False\<rparr>)))))"

record 'cl pg_conn =
  pg_client :: 'cl
  pg_cfg :: pg_config
  pg_tls :: tls_spec
  pg_encrypted :: bool

definition pg_open_plain ::
  "('cl, 'cert, 'pk, 'w) pg_lib \<Rightarrow> pg_config \<Rightarrow> tls_spec \<Rightarrow> bool \<Rightarrow> ('w, 'cl pg_conn) io" where
  "pg_open_plain lib cfg tls encrypted =
     io_bind (io_map_err (\<lambda>e. ''postgres connect failed: '' @ e) (pgl_dial_plain lib cfg)) (\<lambda>cl.
       io_ok \<lparr>pg_client = cl, pg_cfg = cfg, pg_tls = tls, pg_encrypted = encrypted\<rparr>)"

definition pg_open ::
  "('cl, 'cert, 'pk, 'w) pg_lib \<Rightarrow> ('cert, 'pk) tls_env \<Rightarrow> pg_config \<Rightarrow> tls_spec \<Rightarrow> ('w, 'cl pg_conn) io" where
  "pg_open lib te cfg tls =
     (if \<not> tls_wanted tls then pg_open_plain lib cfg tls False
      else io_bind (io_lift (client_config te tls)) (\<lambda>cc.
        io_match (pgl_dial_tls lib cc (cfg\<lparr>pgc_require_ssl := True\<rparr>))
          (\<lambda>e. if tls_required tls
               then io_err (''postgres: TLS is required but the server did not accept it: '' @ e)
               else pg_open_plain lib cfg tls False)
          (\<lambda>cl. io_ok \<lparr>pg_client = cl, pg_cfg = cfg, pg_tls = tls, pg_encrypted = True\<rparr>)))"

definition pg_connect ::
  "('key, 'ident, 'cert, 'pk) seam \<Rightarrow> ('cl, 'cert, 'pk, 'w) pg_lib \<Rightarrow> conn_spec
     \<Rightarrow> (net_ctx \<times> 'w, 'cl pg_conn) io" where
  "pg_connect sm lib spec =
     io_bind (pg_build_config sm spec) (\<lambda>cfg. on_lib (pg_open lib (sm_tls sm) cfg (cs_tls spec)))"

section \<open>Running a statement\<close>

definition pg_cell :: "string option \<Rightarrow> val" where
  "pg_cell v = (case v of Some s \<Rightarrow> VText s | None \<Rightarrow> VNull)"

definition untyped_column :: "string \<Rightarrow> column" where
  "untyped_column n = \<lparr>col_name = n, col_type = []\<rparr>"

text \<open>The loop over the messages, with its three accumulators.\<close>

definition pg_collect_msg ::
  "column list \<times> row list \<times> u64 option \<Rightarrow> pg_msg \<Rightarrow> column list \<times> row list \<times> u64 option" where
  "pg_collect_msg = (\<lambda>(columns, rows, affected) m.
     (case m of
        Pg_row names cells \<Rightarrow>
          ((if columns = [] then map untyped_column names else columns), rows @ [map pg_cell cells], affected)
      | Pg_complete n \<Rightarrow> (columns, rows, Some n)
      | Pg_ignored \<Rightarrow> (columns, rows, affected)))"

definition pg_collect :: "pg_msg list \<Rightarrow> column list \<times> row list \<times> u64 option" where
  "pg_collect msgs =
     (case foldl pg_collect_msg ([], [], None) msgs of
        (columns, rows, affected) \<Rightarrow> (columns, rows, if rows \<noteq> [] then None else affected))"

definition pg_simple ::
  "('cl, 'cert, 'pk, 'w) pg_lib \<Rightarrow> string \<Rightarrow> ('cl pg_conn \<times> 'w, column list \<times> row list \<times> u64 option) io" where
  "pg_simple lib sql = (\<lambda>(c, w).
     case pgl_simple_query lib (pg_client c) sql w of
       (Inl e, w') \<Rightarrow> (Inl (pg_error e), (c, w'))
     | (Inr msgs, w') \<Rightarrow> (Inr (pg_collect msgs), (c, w')))"

text \<open>The type names of a describe, zipped onto the columns.\<close>

fun set_types :: "column list \<Rightarrow> string list \<Rightarrow> column list" where
  "set_types (c # cs) (t # ts) = c\<lparr>col_type := t\<rparr> # set_types cs ts"
| "set_types cs _ = cs"

definition pg_execute ::
  "('cl, 'cert, 'pk, 'w) pg_lib \<Rightarrow> string \<Rightarrow> ('cl pg_conn \<times> 'w, bstream) io" where
  "pg_execute lib stmt =
     io_bind (pg_simple lib stmt) (\<lambda>(columns, rows, affected) (c, w).
       if columns = [] then (Inr (buffered_new columns rows affected), (c, w))
       else (case pgl_prepare lib (pg_client c) stmt w of
               (Inr types, w') \<Rightarrow> (Inr (buffered_new (set_types columns types) rows affected), (c, w'))
             | (Inl _, w') \<Rightarrow> (Inr (buffered_new columns rows affected), (c, w'))))"

section \<open>The catalog\<close>

definition pg_databases :: "('cl, 'cert, 'pk, 'w) pg_lib \<Rightarrow> ('cl pg_conn \<times> 'w, string list) io" where
  "pg_databases lib =
     io_bind (pg_simple lib
       ''SELECT datname FROM pg_database WHERE datistemplate = false ORDER BY datname'')
       (\<lambda>(_, rows, _). io_ok (first_texts rows))"

definition pg_switch_database ::
  "('cl, 'cert, 'pk, 'w) pg_lib \<Rightarrow> ('cert, 'pk) tls_env \<Rightarrow> string \<Rightarrow> ('cl pg_conn \<times> 'w, unit) io" where
  "pg_switch_database lib te db = (\<lambda>(c, w).
     case pg_open lib te ((pg_cfg c)\<lparr>pgc_dbname := db\<rparr>) (pg_tls c) w of
       (Inl e, w') \<Rightarrow> (Inl e, (c, w'))
     | (Inr fresh, w') \<Rightarrow>
         (Inr (), (c\<lparr>pg_client := pg_client fresh, pg_cfg := pg_cfg fresh, pg_encrypted := pg_encrypted fresh\<rparr>,
                   pgl_abort lib (pg_client c) w')))"

definition pg_structure_sql :: string where
  "pg_structure_sql =
     ''SELECT table_schema, table_name, table_type FROM information_schema.tables WHERE table_schema NOT IN (''
     @ quoted ''pg_catalog'' @ '', '' @ quoted ''information_schema'' @ '', '' @ quoted ''crdb_internal''
     @ '') ORDER BY table_schema, table_name''"

definition pg_kind :: "string \<Rightarrow> string" where
  "pg_kind ttype = (if eq_ignore_ascii_case ttype ''VIEW'' then ''view'' else ''table'')"

definition pg_structure :: "('cl, 'cert, 'pk, 'w) pg_lib \<Rightarrow> ('cl pg_conn \<times> 'w, node list) io" where
  "pg_structure lib =
     io_bind (pg_simple lib pg_structure_sql) (\<lambda>(_, rows, _). io_ok (schema_tree pg_kind rows))"

text \<open>The doubly quoted identifier path the primary-key lookup casts to a \<open>regclass\<close>.\<close>

definition pg_ident :: "obj_ref \<Rightarrow> string" where
  "pg_ident ob =
     (case ob_schema ob of
        Some s \<Rightarrow> dq @ esc_dq s @ dq @ ''.'' @ dq @ esc_dq (ob_name ob) @ dq
      | None \<Rightarrow> dq @ esc_dq (ob_name ob) @ dq)"

definition pg_columns_sql :: "obj_ref \<Rightarrow> string" where
  "pg_columns_sql ob =
     (let schema_pred = (case ob_schema ob of
            Some s \<Rightarrow> ''AND c.table_schema = '' @ sq @ esc_sq s @ sq | None \<Rightarrow> []);
          qual = esc_sq (pg_ident ob)
      in ''SELECT c.column_name, c.data_type, (pk.col IS NOT NULL) AS is_pk ''
         @ ''FROM information_schema.columns c LEFT JOIN ( SELECT a.attname AS col FROM pg_index i ''
         @ ''JOIN pg_attribute a ON a.attrelid = i.indrelid AND a.attnum = ANY(i.indkey) ''
         @ ''WHERE i.indrelid = '' @ sq @ qual @ sq @ ''::regclass AND i.indisprimary ''
         @ '') pk ON pk.col = c.column_name WHERE c.table_name = '' @ sq @ esc_sq (ob_name ob) @ sq
         @ '' '' @ schema_pred @ '' ORDER BY c.ordinal_position'')"

definition pg_primary :: "row \<Rightarrow> bool" where
  "pg_primary r =
     (case nth_opt r 2 of
        Some (VBool b) \<Rightarrow> b
      | Some (VText s) \<Rightarrow> s = ''t'' \<or> s = ''true''
      | _ \<Rightarrow> False)"

definition pg_columns ::
  "('cl, 'cert, 'pk, 'w) pg_lib \<Rightarrow> obj_ref \<Rightarrow> ('cl pg_conn \<times> 'w, table_column list) io" where
  "pg_columns lib ob =
     io_bind (pg_simple lib (pg_columns_sql ob)) (\<lambda>(_, rows, _). io_ok (table_columns 0 1 pg_primary rows))"

definition pg_indexes_sql :: "obj_ref \<Rightarrow> string" where
  "pg_indexes_sql ob =
     (let schema_pred = (case ob_schema ob of
            Some sc \<Rightarrow> ''AND n.nspname = '' @ sq @ esc_sq sc @ sq | None \<Rightarrow> [])
      in ''SELECT i.relname, ix.indisunique, ix.indisprimary, a.attname FROM pg_class t ''
         @ ''JOIN pg_index ix ON t.oid = ix.indrelid JOIN pg_class i ON i.oid = ix.indexrelid ''
         @ ''JOIN pg_namespace n ON n.oid = t.relnamespace ''
         @ ''LEFT JOIN unnest(ix.indkey) WITH ORDINALITY AS k(attnum, ord) ON true ''
         @ ''LEFT JOIN pg_attribute a ON a.attrelid = t.oid AND a.attnum = k.attnum ''
         @ ''WHERE t.relname = '' @ sq @ esc_sq (ob_name ob) @ sq @ '' '' @ schema_pred
         @ '' ORDER BY i.relname, k.ord'')"

definition pg_indexes ::
  "('cl, 'cert, 'pk, 'w) pg_lib \<Rightarrow> obj_ref \<Rightarrow> ('cl pg_conn \<times> 'w, index list) io" where
  "pg_indexes lib ob =
     io_bind (pg_simple lib (pg_indexes_sql ob)) (\<lambda>(_, rows, _). io_ok (group_indexes rows))"

definition pg_cancel_token :: "'cl pg_conn \<Rightarrow> 'cl option" where
  "pg_cancel_token c = Some (pg_client c)"

definition pg_cancel :: "('cl, 'cert, 'pk, 'w) pg_lib \<Rightarrow> 'cl \<Rightarrow> ('w, unit) io" where
  "pg_cancel lib cl = io_map_err (\<lambda>e. ''cancel failed: '' @ e) (pgl_cancel_query lib cl)"

definition pg_close :: "('cl, 'cert, 'pk, 'w) pg_lib \<Rightarrow> ('cl pg_conn \<times> 'w, unit) io" where
  "pg_close lib = (\<lambda>(c, w). (Inr (), (c, pgl_abort lib (pg_client c) w)))"

section \<open>Encryption\<close>

lemma pg_open_plain_Inr:
  "pg_open_plain lib cfg tls e w = (Inr c, w') \<Longrightarrow> pg_encrypted c = e \<and> pg_tls c = tls \<and> pg_cfg c = cfg"
  by (auto simp: pg_open_plain_def result_iff)

lemma pg_open_posture:
  assumes "pg_open lib te cfg tls w = (Inr c, w')"
  shows "(tls_required tls \<longrightarrow> pg_encrypted c) \<and> (\<not> tls_wanted tls \<longrightarrow> \<not> pg_encrypted c)
     \<and> pg_tls c = tls \<and> pg_cfg c = cfg"
  using assms tls_required_wanted [of tls]
  by (auto simp: pg_open_def result_iff split: if_splits sum.splits dest!: pg_open_plain_Inr)

text \<open>An encrypted connection was dialled through the verifying configuration of the spec.\<close>

lemma pg_open_encrypted_dialled:
  "pg_open lib te cfg tls w = (Inr c, w') \<Longrightarrow> pg_encrypted c \<Longrightarrow>
   \<exists>cc. client_config te tls = Inr cc
     \<and> pgl_dial_tls lib cc (cfg\<lparr>pgc_require_ssl := True\<rparr>) w = (Inr (pg_client c), w')"
  by (auto simp: pg_open_def result_iff split: if_splits sum.splits dest!: pg_open_plain_Inr)

text \<open>One that is not encrypted was not required to be, and if TLS was wanted its dial failed.\<close>

lemma pg_open_plaintext:
  "pg_open lib te cfg tls w = (Inr c, w') \<Longrightarrow> \<not> pg_encrypted c \<Longrightarrow>
   \<not> tls_required tls \<and> (tls_wanted tls \<longrightarrow> (\<exists>cc e w1. client_config te tls = Inr cc
     \<and> pgl_dial_tls lib cc (cfg\<lparr>pgc_require_ssl := True\<rparr>) w = (Inl e, w1)))"
  using tls_required_wanted [of tls]
  by (auto simp: pg_open_def result_iff split: if_splits sum.splits)

interpretation pg: tls_posture "pg_connect sm lib" pg_encrypted
  for sm :: "('key, 'ident, 'cert, 'pk) seam" and lib :: "('cl, 'cert, 'pk, 'w) pg_lib"
  by unfold_locales (auto simp: pg_connect_def result_iff dest: pg_open_posture)

text \<open>Switching the database keeps the posture, and a failed switch leaves the connection alone.\<close>

lemma pg_switch_opens:
  "pg_switch_database lib te db (c, w) = (r, (c', w')) \<Longrightarrow>
   (case r of
      Inl _ \<Rightarrow> c' = c
    | Inr _ \<Rightarrow> pg_tls c' = pg_tls c \<and> pg_cfg c' = (pg_cfg c)\<lparr>pgc_dbname := db\<rparr>
        \<and> (\<exists>w1. pg_open lib te ((pg_cfg c)\<lparr>pgc_dbname := db\<rparr>) (pg_tls c) w = (Inr c', w1)))"
  by (auto simp: pg_switch_database_def dest!: pg_open_posture split: prod.splits sum.splits)

section \<open>What a statement returns\<close>

definition pg_rows :: "pg_msg list \<Rightarrow> row list" where
  "pg_rows msgs = filter_map (\<lambda>m. case m of Pg_row _ cells \<Rightarrow> Some (map pg_cell cells) | _ \<Rightarrow> None) msgs"

definition pg_completions :: "pg_msg list \<Rightarrow> u64 list" where
  "pg_completions msgs = filter_map (\<lambda>m. case m of Pg_complete n \<Rightarrow> Some n | _ \<Rightarrow> None) msgs"

definition pg_headers :: "pg_msg list \<Rightarrow> string list list" where
  "pg_headers msgs =
     filter (\<lambda>ns. ns \<noteq> []) (filter_map (\<lambda>m. case m of Pg_row ns _ \<Rightarrow> Some ns | _ \<Rightarrow> None) msgs)"

lemma pg_snoc:
  "pg_rows (ms @ [m]) = pg_rows ms @ (case m of Pg_row _ cells \<Rightarrow> [map pg_cell cells] | _ \<Rightarrow> [])"
  "pg_completions (ms @ [m]) = pg_completions ms @ (case m of Pg_complete n \<Rightarrow> [n] | _ \<Rightarrow> [])"
  "pg_headers (ms @ [m]) = pg_headers ms @ (case m of Pg_row ns _ \<Rightarrow> if ns = [] then [] else [ns] | _ \<Rightarrow> [])"
  by (cases m; simp add: pg_rows_def pg_completions_def pg_headers_def)+

lemma pg_headers_ne: "pg_headers ms = ns # rest \<Longrightarrow> ns \<noteq> []"
proof -
  assume "pg_headers ms = ns # rest"
  then have "ns \<in> set (pg_headers ms)" by simp
  then show "ns \<noteq> []" by (simp add: pg_headers_def)
qed

lemma pg_fold:
  "foldl pg_collect_msg ([], [], None) msgs =
     ((case pg_headers msgs of [] \<Rightarrow> [] | ns # _ \<Rightarrow> map untyped_column ns), pg_rows msgs,
      (if pg_completions msgs = [] then None else Some (last (pg_completions msgs))))"
proof (induction msgs rule: rev_induct)
  case Nil
  show ?case by (simp add: pg_rows_def pg_headers_def pg_completions_def)
next
  case (snoc m msgs)
  then show ?case
    by (cases m; cases "pg_headers msgs")
      (auto simp: pg_collect_msg_def pg_snoc dest: pg_headers_ne)
qed

lemma pg_collect_eq:
  "pg_collect msgs =
     ((case pg_headers msgs of [] \<Rightarrow> [] | ns # _ \<Rightarrow> map untyped_column ns), pg_rows msgs,
      (if pg_rows msgs = [] \<and> pg_completions msgs \<noteq> [] then Some (last (pg_completions msgs)) else None))"
  by (simp add: pg_collect_def pg_fold)

end
