(* ===== verification/Mysql.thy ===== *)
theory Mysql
  imports Driver_Common
begin

text \<open>
  \<open>drivers/mysql.rs\<close>, serving \<open>mariadb\<close> and \<open>mysql\<close>.  mysql_async is the record \<open>my_lib\<close>: opening a
  connection from options, one statement (its columns, its typed rows and the affected count, or an
  error), a statement whose result is dropped, and the connection's identifier, which a cancel kills
  over a second connection.
\<close>

section \<open>Metadata\<close>

definition my_params :: "param_spec list" where
  "my_params =
    [\<lparr>ps_key = ''host'', ps_label = ''Host'', ps_kind = PT_String, ps_required = True, ps_secret = False,
      ps_default = Some ''127.0.0.1''\<rparr>,
     \<lparr>ps_key = ''port'', ps_label = ''Port'', ps_kind = PT_Int, ps_required = False, ps_secret = False,
      ps_default = Some ''3306''\<rparr>,
     \<lparr>ps_key = ''database'', ps_label = ''Database'', ps_kind = PT_String, ps_required = False,
      ps_secret = False, ps_default = None\<rparr>]"

definition my_caps :: caps where
  "my_caps = \<lparr>cap_sql = True, cap_schemas = True, cap_cancel = True, cap_tls = True, cap_tunnel = True,
     cap_multi_db = True, cap_kv = False, cap_indexes = True, cap_ddl = True\<rparr>"

definition MARIADB_META :: driver_meta where
  "MARIADB_META = \<lparr>dm_kind = ''mariadb'', dm_display = ''MariaDB'', dm_default_port = Some 3306,
     dm_params = my_params, dm_auth = [AK_None, AK_Password, AK_ClientCert], dm_caps = my_caps\<rparr>"

definition MYSQL_META :: driver_meta where
  "MYSQL_META = \<lparr>dm_kind = ''mysql'', dm_display = ''MySQL'', dm_default_port = Some 3306,
     dm_params = my_params, dm_auth = [AK_None, AK_Password, AK_ClientCert], dm_caps = my_caps\<rparr>"

section \<open>The client library\<close>

text \<open>A wire value; the date and time values carry their SQL literal.\<close>

datatype my_value =
    My_null
  | My_int int
  | My_uint nat
  | My_float f32
  | My_double f64
  | My_bytes string
  | My_date string

record my_ssl =
  mys_accept_invalid_certs :: bool
  mys_skip_domain :: bool
  mys_root_ca :: "string option"
  mys_identity :: "(string \<times> string) option"

record my_opts =
  myo_host :: string
  myo_port :: u16
  myo_user :: "string option"
  myo_pass :: "string option"
  myo_db :: "string option"
  myo_ssl :: "my_ssl option"

record my_result =
  myr_columns :: "(string \<times> string) list option"
  myr_rows :: "my_value option list list"
  myr_affected :: u64

record ('cl, 'w) my_lib =
  myl_open :: "my_opts \<Rightarrow> ('w, 'cl) io"
  myl_query :: "'cl \<Rightarrow> string \<Rightarrow> ('w, my_result) io"
  myl_drop :: "'cl \<Rightarrow> string \<Rightarrow> ('w, unit) io"
  myl_id :: "'cl \<Rightarrow> u32"
  myl_disconnect :: "'cl \<Rightarrow> ('w, unit) io"

section \<open>Connecting\<close>

definition my_credentials ::
  "('key, 'ident, 'cert, 'pk) seam \<Rightarrow> conn_spec \<Rightarrow> ('s, string \<times> string option) io" where
  "my_credentials sm spec =
     (case cs_auth spec of
        Auth_Password user password \<Rightarrow> io_bind (seam_secret sm password) (\<lambda>pw. io_ok (user, Some pw))
      | Auth_ClientCert _ _ _ user \<Rightarrow> io_ok (user, None)
      | _ \<Rightarrow> io_ok (unwrap_or ''root'' (param_opt spec ''user''), None))"

definition my_ssl_for :: "tls_spec \<Rightarrow> my_ssl" where
  "my_ssl_for tls =
     \<lparr>mys_accept_invalid_certs = (\<not> verifies_cert tls), mys_skip_domain = (\<not> verifies_hostname tls),
      mys_root_ca = tls_ca tls,
      mys_identity = (case (tls_client_cert tls, tls_client_key tls) of
          (Some cert, Some key) \<Rightarrow> Some (cert, key) | _ \<Rightarrow> None)\<rparr>"

definition my_build_opts ::
  "('key, 'ident, 'cert, 'pk) seam \<Rightarrow> conn_spec \<Rightarrow> bool \<Rightarrow> (net_ctx \<times> 'w, my_opts) io" where
  "my_build_opts sm spec with_tls =
     io_bind (io_lift (param spec ''host'')) (\<lambda>host.
     let p = port spec 3306 in
     io_bind (my_credentials sm spec) (\<lambda>(user, password).
     io_bind (seam_resolve sm host p) (\<lambda>addr.
     io_bind (io_lift (dial_parts addr)) (\<lambda>(rhost, rport).
       io_ok \<lparr>myo_host = rhost, myo_port = dial_port p rport,
              myo_user = (if user = [] then None else Some user), myo_pass = password,
              myo_db = param_opt spec ''database'',
              myo_ssl = (if with_tls then Some (my_ssl_for (cs_tls spec)) else None)\<rparr>))))"

record 'cl my_conn =
  my_client :: 'cl
  my_opts :: my_opts
  my_encrypted :: bool

definition my_open_plain ::
  "('key, 'ident, 'cert, 'pk) seam \<Rightarrow> ('cl, 'w) my_lib \<Rightarrow> conn_spec \<Rightarrow> (net_ctx \<times> 'w, 'cl my_conn) io" where
  "my_open_plain sm lib spec =
     io_bind (my_build_opts sm spec False) (\<lambda>opts.
     io_bind (io_map_err (\<lambda>e. ''mysql connect failed: '' @ e) (on_lib (myl_open lib opts))) (\<lambda>cl.
       io_ok \<lparr>my_client = cl, my_opts = opts, my_encrypted = False\<rparr>))"

definition my_connect ::
  "('key, 'ident, 'cert, 'pk) seam \<Rightarrow> ('cl, 'w) my_lib \<Rightarrow> conn_spec \<Rightarrow> (net_ctx \<times> 'w, 'cl my_conn) io" where
  "my_connect sm lib spec =
     (let tls = cs_tls spec in
      if \<not> tls_wanted tls then my_open_plain sm lib spec
      else io_bind (my_build_opts sm spec True) (\<lambda>opts.
        io_match (on_lib (myl_open lib opts))
          (\<lambda>e. if tls_required tls
               then io_err (''mysql: TLS is required but the server did not accept it: '' @ e)
               else my_open_plain sm lib spec)
          (\<lambda>cl. io_ok \<lparr>my_client = cl, my_opts = opts, my_encrypted = True\<rparr>)))"

section \<open>Running a statement\<close>

text \<open>\<open>trim_matches\<close> of the quote.\<close>

definition trim_sq :: "string \<Rightarrow> string" where
  "trim_sq s = rev (dropWhile (\<lambda>c. c = CHR 0x27) (rev (dropWhile (\<lambda>c. c = CHR 0x27) s)))"

definition my_cell :: "(string \<Rightarrow> string) \<Rightarrow> my_value \<Rightarrow> val" where
  "my_cell b64 v =
     (case v of
        My_null \<Rightarrow> VNull
      | My_int i \<Rightarrow> VInt i
      | My_uint u \<Rightarrow> uint_cell u
      | My_float f \<Rightarrow> VFloat (f64_of_f32 f)
      | My_double d \<Rightarrow> VFloat d
      | My_bytes b \<Rightarrow> text_or_bytes b64 b
      | My_date lit \<Rightarrow> VText (trim_sq lit))"

definition my_columns_of :: "my_result \<Rightarrow> column list" where
  "my_columns_of r =
     (case myr_columns r of
        Some cols \<Rightarrow> map (\<lambda>(n, t). \<lparr>col_name = n, col_type = t\<rparr>) cols | None \<Rightarrow> [])"

definition my_collect ::
  "(string \<Rightarrow> string) \<Rightarrow> my_result \<Rightarrow> column list \<times> row list \<times> u64 option" where
  "my_collect b64 r =
     (let out = map (map (\<lambda>v. my_cell b64 (unwrap_or My_null v))) (myr_rows r)
      in (my_columns_of r, out, if out = [] then Some (myr_affected r) else None))"

definition my_run ::
  "(string \<Rightarrow> string) \<Rightarrow> ('cl, 'w) my_lib \<Rightarrow> string
     \<Rightarrow> ('cl my_conn \<times> 'w, column list \<times> row list \<times> u64 option) io" where
  "my_run b64 lib sql = (\<lambda>(c, w).
     case myl_query lib (my_client c) sql w of
       (Inl e, w') \<Rightarrow> (Inl e, (c, w'))
     | (Inr r, w') \<Rightarrow> (Inr (my_collect b64 r), (c, w')))"

definition my_execute ::
  "(string \<Rightarrow> string) \<Rightarrow> ('cl, 'w) my_lib \<Rightarrow> string \<Rightarrow> ('cl my_conn \<times> 'w, bstream) io" where
  "my_execute b64 lib stmt =
     io_bind (my_run b64 lib stmt) (\<lambda>(columns, rows, affected). io_ok (buffered_new columns rows affected))"

section \<open>The catalog\<close>

definition my_databases ::
  "(string \<Rightarrow> string) \<Rightarrow> ('cl, 'w) my_lib \<Rightarrow> ('cl my_conn \<times> 'w, string list) io" where
  "my_databases b64 lib =
     io_bind (my_run b64 lib ''SELECT schema_name FROM information_schema.schemata ORDER BY schema_name'')
       (\<lambda>(_, rows, _). io_ok (first_texts rows))"

definition my_drop :: "('cl, 'w) my_lib \<Rightarrow> string \<Rightarrow> ('cl my_conn \<times> 'w, unit) io" where
  "my_drop lib sql = (\<lambda>(c, w). case myl_drop lib (my_client c) sql w of (r, w') \<Rightarrow> (r, (c, w')))"

definition my_switch_database :: "('cl, 'w) my_lib \<Rightarrow> string \<Rightarrow> ('cl my_conn \<times> 'w, unit) io" where
  "my_switch_database lib db = my_drop lib (''USE '' @ bt_ident db)"

definition my_structure_sql :: string where
  "my_structure_sql =
     ''SELECT table_schema, table_name, table_type FROM information_schema.tables WHERE table_schema NOT IN (''
     @ quoted ''mysql'' @ '','' @ quoted ''information_schema'' @ '','' @ quoted ''performance_schema'' @ '',''
     @ quoted ''sys'' @ '') ORDER BY table_schema, table_name''"

definition my_structure ::
  "(string \<Rightarrow> string) \<Rightarrow> (string \<Rightarrow> string) \<Rightarrow> ('cl, 'w) my_lib \<Rightarrow> ('cl my_conn \<times> 'w, node list) io" where
  "my_structure up b64 lib =
     io_bind (my_run b64 lib my_structure_sql) (\<lambda>(_, rows, _). io_ok (schema_tree (view_kind up) rows))"

definition my_columns_sql :: "obj_ref \<Rightarrow> string" where
  "my_columns_sql ob =
     (let schema_pred = (case ob_schema ob of
            Some s \<Rightarrow> ''AND table_schema = '' @ sq @ esc_sq s @ sq | None \<Rightarrow> [])
      in ''SELECT column_name, column_type, IF(column_key = '' @ quoted ''PRI''
         @ '', 1, 0) FROM information_schema.columns WHERE table_name = '' @ sq @ esc_sq (ob_name ob) @ sq
         @ '' '' @ schema_pred @ '' ORDER BY ordinal_position'')"

definition my_primary :: "row \<Rightarrow> bool" where
  "my_primary r =
     (case nth_opt r 2 of Some (VInt i) \<Rightarrow> i \<noteq> 0 | Some (VText s) \<Rightarrow> s = ''1'' | _ \<Rightarrow> False)"

definition my_columns ::
  "(string \<Rightarrow> string) \<Rightarrow> ('cl, 'w) my_lib \<Rightarrow> obj_ref \<Rightarrow> ('cl my_conn \<times> 'w, table_column list) io" where
  "my_columns b64 lib ob =
     io_bind (my_run b64 lib (my_columns_sql ob)) (\<lambda>(_, rows, _). io_ok (table_columns 0 1 my_primary rows))"

definition my_indexes_sql :: "obj_ref \<Rightarrow> string" where
  "my_indexes_sql ob =
     (let schema_pred = (case ob_schema ob of
            Some sc \<Rightarrow> '' AND TABLE_SCHEMA = '' @ sq @ esc_sq sc @ sq | None \<Rightarrow> [])
      in ''SELECT INDEX_NAME, IF(NON_UNIQUE = 0, 1, 0), IF(INDEX_NAME = '' @ quoted ''PRIMARY''
         @ '', 1, 0), COLUMN_NAME FROM information_schema.STATISTICS WHERE TABLE_NAME = ''
         @ sq @ esc_sq (ob_name ob) @ sq @ schema_pred @ '' ORDER BY INDEX_NAME, SEQ_IN_INDEX'')"

definition my_indexes ::
  "(string \<Rightarrow> string) \<Rightarrow> ('cl, 'w) my_lib \<Rightarrow> obj_ref \<Rightarrow> ('cl my_conn \<times> 'w, index list) io" where
  "my_indexes b64 lib ob =
     io_bind (my_run b64 lib (my_indexes_sql ob)) (\<lambda>(_, rows, _). io_ok (group_indexes rows))"

definition bt_qname :: "obj_ref \<Rightarrow> string" where
  "bt_qname ob =
     (case ob_schema ob of
        Some sc \<Rightarrow> bt_ident sc @ ''.'' @ bt_ident (ob_name ob)
      | None \<Rightarrow> bt_ident (ob_name ob))"

text \<open>The kinds in turn: a failure, or an answer without text in its second field, goes to the next.\<close>

fun my_show_create ::
  "(string \<Rightarrow> string) \<Rightarrow> ('cl, 'w) my_lib \<Rightarrow> obj_ref \<Rightarrow> string list \<Rightarrow> ('cl my_conn \<times> 'w, string option) io" where
  "my_show_create b64 lib ob [] = io_ok None"
| "my_show_create b64 lib ob (kind # kinds) =
     io_match (my_run b64 lib (''SHOW CREATE '' @ kind @ '' '' @ bt_qname ob))
       (\<lambda>_. my_show_create b64 lib ob kinds)
       (\<lambda>(_, rows, _).
          case text_of (Option.bind (first_opt rows) (\<lambda>r. nth_opt r 1)) of
            Some s \<Rightarrow> io_ok (Some s)
          | None \<Rightarrow> my_show_create b64 lib ob kinds)"

definition my_ddl ::
  "(string \<Rightarrow> string) \<Rightarrow> ('cl, 'w) my_lib \<Rightarrow> obj_ref \<Rightarrow> ('cl my_conn \<times> 'w, string option) io" where
  "my_ddl b64 lib ob = my_show_create b64 lib ob [''TABLE'', ''VIEW'']"

section \<open>Cancelling and closing\<close>

record my_cancel_handle =
  myc_opts :: my_opts
  myc_conn_id :: u32

definition my_cancel_token :: "('cl, 'w) my_lib \<Rightarrow> 'cl my_conn \<Rightarrow> my_cancel_handle option" where
  "my_cancel_token lib c = Some \<lparr>myc_opts = my_opts c, myc_conn_id = myl_id lib (my_client c)\<rparr>"

definition my_cancel :: "('cl, 'w) my_lib \<Rightarrow> my_cancel_handle \<Rightarrow> ('w, unit) io" where
  "my_cancel lib hnd =
     io_bind (io_map_err (\<lambda>e. ''cancel connect failed: '' @ e) (myl_open lib (myc_opts hnd))) (\<lambda>c.
     io_bind (io_try (io_map_err (\<lambda>e. ''cancel failed: '' @ e)
         (myl_drop lib c (''KILL QUERY '' @ show_nat (unat (myc_conn_id hnd)))))) (\<lambda>r.
     io_bind (io_try (myl_disconnect lib c)) (\<lambda>_. io_lift r)))"

definition my_close :: "('cl, 'w) my_lib \<Rightarrow> ('cl my_conn \<times> 'w, unit) io" where
  "my_close lib = (\<lambda>(c, w). case myl_disconnect lib (my_client c) w of (_, w') \<Rightarrow> (Inr (), (c, w')))"

section \<open>Encryption\<close>

lemma my_open_plain_Inr: "my_open_plain sm lib spec s = (Inr c, s') \<Longrightarrow> \<not> my_encrypted c"
  by (auto simp: my_open_plain_def result_iff)

lemma my_connect_posture:
  "my_connect sm lib spec s = (Inr c, s') \<Longrightarrow>
   (tls_required (cs_tls spec) \<longrightarrow> my_encrypted c) \<and> (\<not> tls_wanted (cs_tls spec) \<longrightarrow> \<not> my_encrypted c)
   \<and> (my_encrypted c \<longrightarrow> myo_ssl (my_opts c) = Some (my_ssl_for (cs_tls spec)))"
  using tls_required_wanted [of "cs_tls spec"]
  by (auto simp: my_connect_def my_build_opts_def Let_def result_iff split: if_splits
      dest!: my_open_plain_Inr)

interpretation my: tls_posture "my_connect sm lib" my_encrypted
  for sm :: "('key, 'ident, 'cert, 'pk) seam" and lib :: "('cl, 'w) my_lib"
  by unfold_locales (auto dest: my_connect_posture)

text \<open>An encrypted connection was dialled with the options it holds, which carry the SSL options of the spec.\<close>

lemma my_connect_dial:
  "my_connect sm lib spec (net, w) = (Inr c, (net', w')) \<Longrightarrow> my_encrypted c \<Longrightarrow>
   myo_ssl (my_opts c) = Some (my_ssl_for (cs_tls spec)) \<and> myl_open lib (my_opts c) w = (Inr (my_client c), w')"
  by (auto simp: my_connect_def my_build_opts_def my_credentials_def seam_resolve_def seam_secret_def Let_def
      result_iff split: if_splits auth_spec.splits dest!: my_open_plain_Inr)

end
