(* ===== verification/Sqlite.thy ===== *)
theory Sqlite
  imports Driver_Common
begin

text \<open>
  \<open>drivers/sqlite.rs\<close>, the embedded engine.  rusqlite is the record \<open>sq_lib\<close>: opening a file, preparing a
  statement (its columns), running a batch, and stepping through the rows of a prepared statement,
  whose cells are the engine's five value kinds.
\<close>

section \<open>Metadata\<close>

definition SQLITE_META :: driver_meta where
  "SQLITE_META = \<lparr>dm_kind = ''sqlite'', dm_display = ''SQLite'', dm_default_port = None,
     dm_params = [\<lparr>ps_key = ''file'', ps_label = ''Database file'', ps_kind = PT_File, ps_required = True,
       ps_secret = False, ps_default = Some '':memory:''\<rparr>],
     dm_auth = [AK_None],
     dm_caps = \<lparr>cap_sql = True, cap_schemas = True, cap_cancel = False, cap_tls = False, cap_tunnel = False,
       cap_multi_db = False, cap_kv = False, cap_indexes = True, cap_ddl = True\<rparr>\<rparr>"

section \<open>The client library\<close>

datatype sq_value = Sq_null | Sq_integer int | Sq_real f64 | Sq_text string | Sq_blob string

text \<open>A step of the row cursor: an error, a row with one result per column, or the end.\<close>

datatype sq_step = Sq_err error | Sq_row "sq_value result list"

record ('db, 'w) sq_lib =
  sql_open_memory :: "('w, 'db) io"
  sql_open_file :: "string \<Rightarrow> ('w, 'db) io"
  sql_prepare :: "'db \<Rightarrow> string \<Rightarrow> ('w, string list) io"
  sql_batch :: "'db \<Rightarrow> string \<Rightarrow> ('w, unit) io"
  sql_changes :: "'db \<Rightarrow> 'w \<Rightarrow> u64"
  sql_query :: "'db \<Rightarrow> string \<Rightarrow> ('w, sq_step list) io"

definition sqlite_connect :: "env \<Rightarrow> ('db, 'w) sq_lib \<Rightarrow> conn_spec \<Rightarrow> (net_ctx \<times> 'w, 'db) io" where
  "sqlite_connect env lib spec =
     io_bind (io_lift (param spec ''file'')) (\<lambda>raw.
     let file = expand_tilde env raw in
     io_map_err (\<lambda>e. ''sqlite open failed: '' @ e)
       (on_lib (if file = '':memory:'' then sql_open_memory lib else sql_open_file lib file)))"

section \<open>Running a statement\<close>

definition sqlite_cell :: "(string \<Rightarrow> string) \<Rightarrow> sq_value \<Rightarrow> val" where
  "sqlite_cell b64 v =
     (case v of
        Sq_null \<Rightarrow> VNull
      | Sq_integer i \<Rightarrow> VInt i
      | Sq_real f \<Rightarrow> VFloat f
      | Sq_text s \<Rightarrow> VText s
      | Sq_blob b \<Rightarrow> bytes_cell b64 b)"

fun sqlite_row :: "(string \<Rightarrow> string) \<Rightarrow> sq_value result list \<Rightarrow> row result" where
  "sqlite_row b64 [] = Inr []"
| "sqlite_row b64 (v # vs) =
     bind_result v (\<lambda>x. bind_result (sqlite_row b64 vs) (\<lambda>r. Inr (sqlite_cell b64 x # r)))"

text \<open>The cursor loop; the first error ends it.\<close>

fun sqlite_rows :: "(string \<Rightarrow> string) \<Rightarrow> row list \<Rightarrow> sq_step list \<Rightarrow> row list result" where
  "sqlite_rows b64 out [] = Inr out"
| "sqlite_rows b64 out (Sq_err e # steps) = Inl e"
| "sqlite_rows b64 out (Sq_row vs # steps) =
     bind_result (sqlite_row b64 vs) (\<lambda>r. sqlite_rows b64 (out @ [r]) steps)"

text \<open>
  A statement without columns runs the whole text as a batch and reports the changed rows; any other
  is queried.
\<close>

definition sqlite_run ::
  "(string \<Rightarrow> string) \<Rightarrow> ('db, 'w) sq_lib \<Rightarrow> 'db \<Rightarrow> string
     \<Rightarrow> ('w, column list \<times> row list \<times> u64 option) io" where
  "sqlite_run b64 lib db sql =
     io_bind (sql_prepare lib db sql) (\<lambda>names.
       if length names = 0
       then io_bind (sql_batch lib db sql) (\<lambda>_ w. (Inr ([], [], Some (sql_changes lib db w)), w))
       else io_bind (sql_query lib db sql) (\<lambda>steps.
            io_bind (io_lift (sqlite_rows b64 [] steps)) (\<lambda>out.
              io_ok (map (\<lambda>n. \<lparr>col_name = n, col_type = []\<rparr>) names, out, None))))"

definition sqlite_execute ::
  "(string \<Rightarrow> string) \<Rightarrow> ('db, 'w) sq_lib \<Rightarrow> 'db \<Rightarrow> string \<Rightarrow> ('w, bstream) io" where
  "sqlite_execute b64 lib db stmt =
     io_bind (sqlite_run b64 lib db stmt) (\<lambda>(columns, rows, affected). io_ok (buffered_new columns rows affected))"

section \<open>The catalog\<close>

definition sqlite_databases ::
  "(string \<Rightarrow> string) \<Rightarrow> ('db, 'w) sq_lib \<Rightarrow> 'db \<Rightarrow> ('w, string list) io" where
  "sqlite_databases b64 lib db =
     io_bind (sqlite_run b64 lib db ''PRAGMA database_list'') (\<lambda>(_, rows, _).
       io_ok (filter_map (\<lambda>r. text_of (nth_opt r 1)) rows))"

definition sqlite_switch_database :: "'db \<Rightarrow> string \<Rightarrow> ('w, unit) io" where
  "sqlite_switch_database db d = io_err ''SQLite has a single database per connection''"

definition sqlite_object :: "row \<Rightarrow> node" where
  "sqlite_object r =
     Node (text_at r 0) (if text_of (nth_opt r 1) = Some ''view'' then ''view'' else ''table'') (Some ''main'') []"

definition sqlite_structure ::
  "(string \<Rightarrow> string) \<Rightarrow> ('db, 'w) sq_lib \<Rightarrow> 'db \<Rightarrow> ('w, node list) io" where
  "sqlite_structure b64 lib db =
     io_bind (sqlite_run b64 lib db
       (''SELECT name, type FROM sqlite_master WHERE type IN ('' @ quoted ''table'' @ '','' @ quoted ''view''
        @ '') AND name NOT LIKE '' @ quoted ''sqlite_%'' @ '' ORDER BY name''))
       (\<lambda>(_, rows, _). io_ok [Node ''main'' ''schema'' None (map sqlite_object rows)])"

definition sqlite_primary :: "row \<Rightarrow> bool" where
  "sqlite_primary r = (case nth_opt r 5 of Some (VInt i) \<Rightarrow> 0 < i | _ \<Rightarrow> False)"

definition sqlite_columns_sql :: "obj_ref \<Rightarrow> string" where
  "sqlite_columns_sql ob =
     ''PRAGMA table_info('' @ sq @ esc_sq (ob_name ob) @ sq @ '')''"

definition sqlite_columns ::
  "(string \<Rightarrow> string) \<Rightarrow> ('db, 'w) sq_lib \<Rightarrow> 'db \<Rightarrow> obj_ref \<Rightarrow> ('w, table_column list) io" where
  "sqlite_columns b64 lib db ob =
     io_bind (sqlite_run b64 lib db (sqlite_columns_sql ob))
       (\<lambda>(_, rows, _). io_ok (table_columns 1 2 sqlite_primary rows))"

definition sqlite_index_info_sql :: "string \<Rightarrow> string" where
  "sqlite_index_info_sql name = ''PRAGMA index_info('' @ sq @ esc_sq name @ sq @ '')''"

text \<open>One more query per index, for its columns; a row without a name is skipped.\<close>

fun sqlite_index_loop ::
  "(string \<Rightarrow> string) \<Rightarrow> ('db, 'w) sq_lib \<Rightarrow> 'db \<Rightarrow> index list \<Rightarrow> row list \<Rightarrow> ('w, index list) io" where
  "sqlite_index_loop b64 lib db out [] = io_ok out"
| "sqlite_index_loop b64 lib db out (r # rows) =
     (case text_of (nth_opt r 1) of
        None \<Rightarrow> sqlite_index_loop b64 lib db out rows
      | Some name \<Rightarrow>
          io_bind (sqlite_run b64 lib db (sqlite_index_info_sql name))
            (\<lambda>(_, irows, _).
               sqlite_index_loop b64 lib db
                 (out @ [\<lparr>ix_name = name, ix_columns = filter_map (\<lambda>ir. text_of (nth_opt ir 2)) irows,
                          ix_unique = (nth_opt r 2 = Some (VInt 1)),
                          ix_primary = (text_of (nth_opt r 3) = Some ''pk'')\<rparr>]) rows))"

definition sqlite_index_list_sql :: "obj_ref \<Rightarrow> string" where
  "sqlite_index_list_sql ob =
     ''PRAGMA index_list('' @ sq @ esc_sq (ob_name ob) @ sq @ '')''"

definition sqlite_indexes ::
  "(string \<Rightarrow> string) \<Rightarrow> ('db, 'w) sq_lib \<Rightarrow> 'db \<Rightarrow> obj_ref \<Rightarrow> ('w, index list) io" where
  "sqlite_indexes b64 lib db ob =
     io_bind (sqlite_run b64 lib db (sqlite_index_list_sql ob))
       (\<lambda>(_, rows, _). sqlite_index_loop b64 lib db [] rows)"

definition sqlite_ddl_sql :: "obj_ref \<Rightarrow> string" where
  "sqlite_ddl_sql ob =
     ''SELECT sql FROM sqlite_master WHERE name = '' @ sq @ esc_sq (ob_name ob) @ sq @ '' AND type IN (''
        @ quoted ''table'' @ '','' @ quoted ''view'' @ '')''"

definition sqlite_ddl ::
  "(string \<Rightarrow> string) \<Rightarrow> ('db, 'w) sq_lib \<Rightarrow> 'db \<Rightarrow> obj_ref \<Rightarrow> ('w, string option) io" where
  "sqlite_ddl b64 lib db ob =
     io_bind (sqlite_run b64 lib db
       (sqlite_ddl_sql ob))
       (\<lambda>(_, rows, _). io_ok (text_of (Option.bind (first_opt rows) first_opt)))"

definition sqlite_close :: "'db \<Rightarrow> ('w, unit) io" where
  "sqlite_close db = io_ok ()"

section \<open>What a statement returns\<close>

text \<open>The rows of an error-free cursor, in order; the first error of the cursor is the statement's.\<close>

lemma sqlite_row_Inr: "sqlite_row b64 (map Inr vs) = Inr (map (sqlite_cell b64) vs)"
  by (induction vs) simp_all

lemma sqlite_rows_ok:
  "sqlite_rows b64 out (map (\<lambda>vs. Sq_row (map Inr vs)) vss) = Inr (out @ map (map (sqlite_cell b64)) vss)"
  by (induction vss arbitrary: out) (simp_all add: sqlite_row_Inr)

lemma sqlite_rows_err:
  "sqlite_rows b64 out (map (\<lambda>vs. Sq_row (map Inr vs)) vss @ Sq_err e # rest) = Inl e"
  by (induction vss arbitrary: out) (simp_all add: sqlite_row_Inr)

lemma sqlite_run_affected:
  "sqlite_run b64 lib db sql w = (Inr (columns, rows, affected), w') \<Longrightarrow>
   (columns = [] \<longrightarrow> rows = [] \<and> affected \<noteq> None) \<and> (columns \<noteq> [] \<longrightarrow> affected = None)"
  by (auto simp: sqlite_run_def result_iff split: if_splits)

end
