(* ===== verification/Sql_Text.thy ===== *)
theory Sql_Text
  imports Postgres Mysql Sqlite
begin

text \<open>
  The statements the SQL drivers compose around the names a client sends.  The lexer of the SQL standard
  takes a statement apart into its code and the texts it quotes; a composed statement is safe when its
  code is the same for every name and the quoted texts are exactly the names.  The lexer of a MySQL
  server in its default mode also reads a backslash as an escape.
\<close>

section \<open>The standard lexer\<close>

lemma scan_quoted_length:
  "scan_quoted q s = Some (a, rest) \<Longrightarrow> length rest < length s"
proof (induction q s arbitrary: a rest rule: scan_quoted.induct)
  case (2 q c s)
  then show ?case
    by (cases s) (fastforce split: if_splits)+
qed simp

text \<open>
  The code of a statement, with each quoted text replaced by its opening quote, and the texts; a
  statement that ends inside a quoted text has neither.
\<close>

function sql_split :: "string \<Rightarrow> (string \<times> string list) option" where
  "sql_split [] = Some ([], [])"
| "sql_split (c # s) =
     (if c = CHR 0x27 \<or> c = CHR 0x22 then
        (case scan_quoted c s of
           None \<Rightarrow> None
         | Some (t, rest) \<Rightarrow> map_option (\<lambda>(code, ts). (c # code, t # ts)) (sql_split rest))
      else map_option (\<lambda>(code, ts). (c # code, ts)) (sql_split s))"
  by pat_completeness auto
termination
  by (relation "measure length") (auto dest: scan_quoted_length)

definition is_code :: "string \<Rightarrow> bool" where
  "is_code s = list_all (\<lambda>c. c \<noteq> CHR 0x27 \<and> c \<noteq> CHR 0x22) s"

lemma sql_split_code [simp]:
  "is_code pre \<Longrightarrow> sql_split (pre @ s) = map_option (\<lambda>(code, ts). (pre @ code, ts)) (sql_split s)"
proof (induction pre)
  case Nil
  show ?case by (cases "sql_split s") auto
next
  case (Cons c pre)
  then show ?case
    by (cases "sql_split s") (auto simp: is_code_def)
qed

definition opens_code :: "string \<Rightarrow> bool" where
  "opens_code s = (case s of d # _ \<Rightarrow> d \<noteq> CHR 0x27 \<and> d \<noteq> CHR 0x22 | [] \<Rightarrow> True)"

lemma sql_split_lit [simp]:
  "opens_code s \<Longrightarrow>
   sql_split (sq @ esc_sq t @ sq @ s) = map_option (\<lambda>(code, ts). (CHR 0x27 # code, t # ts)) (sql_split s)"
  using scan_dbl [where rest = s and q = "CHR 0x27" and s = t]
  by (simp add: sq_def esc_sq_def opens_code_def split: list.splits)

lemma sql_split_const [simp]:
  "opens_code s \<Longrightarrow> is_code t \<Longrightarrow>
   sql_split (quoted t @ s) = map_option (\<lambda>(code, ts). (CHR 0x27 # code, t # ts)) (sql_split s)"
proof -
  assume *: "opens_code s" "is_code t"
  from *(2) have "esc_sq t = t"
    by (induction t) (simp_all add: is_code_def esc_sq_def)
  with sql_split_lit [OF *(1), of t] show ?thesis by (simp add: quoted_def sq_def)
qed

lemma sql_split_ident [simp]:
  "opens_code s \<Longrightarrow>
   sql_split (dq_ident t @ s) = map_option (\<lambda>(code, ts). (CHR 0x22 # code, t # ts)) (sql_split s)"
  using scan_dbl [where rest = s and q = "CHR 0x22" and s = t]
  by (simp add: dq_ident_def dq_def esc_dq_def opens_code_def split: list.splits)

lemma opens_code_Cons [simp]: "opens_code (c # s) \<longleftrightarrow> c \<noteq> CHR 0x27 \<and> c \<noteq> CHR 0x22"
  by (simp add: opens_code_def)

lemma opens_code_Nil [simp]: "opens_code []"
  by (simp add: opens_code_def)

lemma is_code_simps [simp]: "is_code []" "is_code (c # s) \<longleftrightarrow> c \<noteq> CHR 0x27 \<and> c \<noteq> CHR 0x22 \<and> is_code s"
  by (simp_all add: is_code_def)

lemma is_code_append [simp]: "is_code (s @ t) \<longleftrightarrow> is_code s \<and> is_code t"
  by (simp add: is_code_def)

section \<open>Composed statements\<close>

text \<open>A template: code, and between it names, as texts or as identifiers; its text, its code and its names.\<close>

datatype piece = Code string | Name string | Ident string

fun piece_text :: "piece \<Rightarrow> string" where
  "piece_text (Code s) = s"
| "piece_text (Name t) = sq @ esc_sq t @ sq"
| "piece_text (Ident t) = dq_ident t"

fun piece_code :: "piece \<Rightarrow> string" where
  "piece_code (Code s) = s"
| "piece_code (Name t) = sq"
| "piece_code (Ident t) = dq"

fun piece_names :: "piece list \<Rightarrow> string list" where
  "piece_names [] = []"
| "piece_names (Code s # ps) = piece_names ps"
| "piece_names (Name t # ps) = t # piece_names ps"
| "piece_names (Ident t # ps) = t # piece_names ps"

fun before_code :: "piece list \<Rightarrow> bool" where
  "before_code (Name t # ps) = False"
| "before_code (Ident t # ps) = False"
| "before_code ps = True"

fun well_pieced :: "piece list \<Rightarrow> bool" where
  "well_pieced [] = True"
| "well_pieced (Code s # ps) = (s \<noteq> [] \<and> is_code s \<and> well_pieced ps)"
| "well_pieced (Name t # ps) = (before_code ps \<and> well_pieced ps)"
| "well_pieced (Ident t # ps) = (before_code ps \<and> well_pieced ps)"

lemma opens_code_pieces:
  "before_code ps \<Longrightarrow> well_pieced ps \<Longrightarrow> opens_code (concat (map piece_text ps))"
proof (cases ps)
  case (Cons p ps')
  assume "before_code ps" "well_pieced ps"
  with Cons obtain s where "p = Code s" "s \<noteq> []" "is_code s" by (cases p) auto
  with Cons show ?thesis by (cases s) auto
qed simp

lemma sql_split_pieces:
  "well_pieced ps \<Longrightarrow>
   sql_split (concat (map piece_text ps)) = Some (concat (map piece_code ps), piece_names ps)"
proof (induction ps)
  case (Cons p ps)
  show ?case
  proof (cases p)
    case (Code s)
    with Cons show ?thesis by simp
  next
    case (Name t)
    with Cons.prems have "opens_code (concat (map piece_text ps))" by (simp add: opens_code_pieces)
    then show ?thesis using Cons Name sql_split_lit [of "concat (map piece_text ps)" t]
      by (simp add: sq_def)
  next
    case (Ident t)
    with Cons.prems have "opens_code (concat (map piece_text ps))" by (simp add: opens_code_pieces)
    then show ?thesis using Cons Ident by (simp add: dq_def)
  qed
qed simp

section \<open>The drivers' statements\<close>

text \<open>
  A statement about an object quotes exactly the given names, and its code depends on nothing but
  whether the object has a schema.
\<close>

definition quotes_exactly :: "(obj_ref \<Rightarrow> string) \<Rightarrow> (obj_ref \<Rightarrow> string list) \<Rightarrow> bool" where
  "quotes_exactly f names \<longleftrightarrow>
     (\<exists>code. \<forall>ob. sql_split (f ob) = Some (code (ob_schema ob = None), names ob))"

lemma quotes_exactlyI:
  assumes "\<And>ob. f ob = concat (map piece_text (tpl ob))" "\<And>ob. well_pieced (tpl ob)"
    and "\<And>ob. piece_names (tpl ob) = names ob"
    and "\<And>ob. concat (map piece_code (tpl ob)) = code (ob_schema ob = None)"
  shows "quotes_exactly f names"
  unfolding quotes_exactly_def
  by (rule exI [of _ code]) (simp add: assms sql_split_pieces)

definition schema_list :: "obj_ref \<Rightarrow> string list" where
  "schema_list ob = (case ob_schema ob of Some s \<Rightarrow> [s] | None \<Rightarrow> [])"

definition pg_columns_tpl :: "obj_ref \<Rightarrow> piece list" where
  "pg_columns_tpl ob =
     [Code (''SELECT c.column_name, c.data_type, (pk.col IS NOT NULL) AS is_pk ''
         @ ''FROM information_schema.columns c LEFT JOIN ( SELECT a.attname AS col FROM pg_index i ''
         @ ''JOIN pg_attribute a ON a.attrelid = i.indrelid AND a.attnum = ANY(i.indkey) ''
         @ ''WHERE i.indrelid = ''),
      Name (pg_ident ob),
      Code (''::regclass AND i.indisprimary ''
         @ '') pk ON pk.col = c.column_name WHERE c.table_name = ''),
      Name (ob_name ob), Code '' '']
     @ (case ob_schema ob of Some s \<Rightarrow> [Code ''AND c.table_schema = '', Name s] | None \<Rightarrow> [])
     @ [Code '' ORDER BY c.ordinal_position'']"

lemma pg_columns_quotes:
  "quotes_exactly pg_columns_sql (\<lambda>ob. [pg_ident ob, ob_name ob] @ schema_list ob)"
  by (rule quotes_exactlyI [where tpl = pg_columns_tpl
        and code = "\<lambda>b. concat (map piece_code (pg_columns_tpl \<lparr>ob_name = [], ob_schema = (if b then None else Some [])\<rparr>))"])
    (auto simp: pg_columns_sql_def pg_columns_tpl_def schema_list_def Let_def split: option.splits)

definition pg_indexes_tpl :: "obj_ref \<Rightarrow> piece list" where
  "pg_indexes_tpl ob =
     [Code (''SELECT i.relname, ix.indisunique, ix.indisprimary, a.attname FROM pg_class t ''
         @ ''JOIN pg_index ix ON t.oid = ix.indrelid JOIN pg_class i ON i.oid = ix.indexrelid ''
         @ ''JOIN pg_namespace n ON n.oid = t.relnamespace ''
         @ ''LEFT JOIN unnest(ix.indkey) WITH ORDINALITY AS k(attnum, ord) ON true ''
         @ ''LEFT JOIN pg_attribute a ON a.attrelid = t.oid AND a.attnum = k.attnum ''
         @ ''WHERE t.relname = ''),
      Name (ob_name ob), Code '' '']
     @ (case ob_schema ob of Some s \<Rightarrow> [Code ''AND n.nspname = '', Name s] | None \<Rightarrow> [])
     @ [Code '' ORDER BY i.relname, k.ord'']"

lemma pg_indexes_quotes: "quotes_exactly pg_indexes_sql (\<lambda>ob. ob_name ob # schema_list ob)"
  by (rule quotes_exactlyI [where tpl = pg_indexes_tpl
        and code = "\<lambda>b. concat (map piece_code (pg_indexes_tpl \<lparr>ob_name = [], ob_schema = (if b then None else Some [])\<rparr>))"])
    (auto simp: pg_indexes_sql_def pg_indexes_tpl_def schema_list_def Let_def split: option.splits)

lemma sqlite_pragma_quotes:
  "is_code pre \<Longrightarrow> pre \<noteq> [] \<Longrightarrow>
   quotes_exactly (\<lambda>ob. pre @ sq @ esc_sq (ob_name ob) @ sq @ '')'') (\<lambda>ob. [ob_name ob])"
  by (rule quotes_exactlyI [where tpl = "\<lambda>ob. [Code pre, Name (ob_name ob), Code '')'']"
        and code = "\<lambda>_. pre @ sq @ '')''"]) simp_all

lemma sqlite_columns_quotes: "quotes_exactly sqlite_columns_sql (\<lambda>ob. [ob_name ob])"
  unfolding sqlite_columns_sql_def by (rule sqlite_pragma_quotes) simp_all

lemma sqlite_index_list_quotes: "quotes_exactly sqlite_index_list_sql (\<lambda>ob. [ob_name ob])"
  unfolding sqlite_index_list_sql_def by (rule sqlite_pragma_quotes) simp_all

lemma sqlite_index_info_quotes: "quotes_exactly (\<lambda>ob. sqlite_index_info_sql (ob_name ob)) (\<lambda>ob. [ob_name ob])"
  unfolding sqlite_index_info_sql_def by (rule sqlite_pragma_quotes) simp_all

text \<open>A qualified name in double quotes: by itself, as \<open>regclass\<close> reads it, and inside code.\<close>

definition qname_pieces :: "obj_ref \<Rightarrow> piece list" where
  "qname_pieces ob = (case ob_schema ob of Some s \<Rightarrow> [Ident s, Code ''.''] | None \<Rightarrow> []) @ [Ident (ob_name ob)]"

lemma pg_ident_quotes: "quotes_exactly pg_ident (\<lambda>ob. schema_list ob @ [ob_name ob])"
  by (rule quotes_exactlyI [where tpl = qname_pieces
        and code = "\<lambda>b. if b then dq else dq @ ''.'' @ dq"])
    (auto simp: pg_ident_def qname_pieces_def schema_list_def dq_ident_def split: option.splits)

lemma sqlite_ddl_quotes: "quotes_exactly sqlite_ddl_sql (\<lambda>ob. [ob_name ob, ''table'', ''view''])"
  by (rule quotes_exactlyI [where
        tpl = "\<lambda>ob. [Code ''SELECT sql FROM sqlite_master WHERE name = '', Name (ob_name ob),
                 Code '' AND type IN ('', Name ''table'', Code '','', Name ''view'', Code '')'']"
        and code = "\<lambda>_. ''SELECT sql FROM sqlite_master WHERE name = '' @ sq @ '' AND type IN ('' @ sq @ '','' @ sq @ '')''"])
    (simp_all add: sqlite_ddl_sql_def quoted_def esc_sq_def)

section \<open>The MySQL lexer\<close>

text \<open>In the server's default mode a backslash takes the next character into the text.\<close>

fun my_scan :: "char \<Rightarrow> string \<Rightarrow> (string \<times> string) option" where
  "my_scan q [] = None"
| "my_scan q (c # s) =
     (if c = CHR 0x5C then
        (case s of
           d # s' \<Rightarrow> map_option (\<lambda>(a, b). (d # a, b)) (my_scan q s')
         | [] \<Rightarrow> None)
      else if c \<noteq> q then map_option (\<lambda>(a, b). (c # a, b)) (my_scan q s)
      else (case s of
              d # s' \<Rightarrow> if d = q then map_option (\<lambda>(a, b). (q # a, b)) (my_scan q s') else Some ([], s)
            | [] \<Rightarrow> Some ([], [])))"

lemma my_scan_dbl:
  "CHR 0x5C \<notin> set s \<Longrightarrow> q \<noteq> CHR 0x5C \<Longrightarrow> (case rest of d # _ \<Rightarrow> d \<noteq> q | [] \<Rightarrow> True) \<Longrightarrow>
   my_scan q (dbl q s @ q # rest) = Some (s, rest)"
  by (induction s) (auto split: list.splits)

lemma dbl_id [simp]: "c \<notin> set s \<Longrightarrow> dbl c s = s"
  by (simp add: dbl_def replace_char_id)

lemma dbl_append [simp]: "dbl c (s @ t) = dbl c s @ dbl c t"
  by (simp add: dbl_def replace_char_append)

lemma my_scan_plain:
  "CHR 0x5C \<notin> set a \<Longrightarrow> q \<notin> set a \<Longrightarrow> q \<noteq> CHR 0x5C \<Longrightarrow>
   my_scan q (a @ s) = map_option (\<lambda>(x, y). (a @ x, y)) (my_scan q s)"
proof (induction a)
  case Nil
  show ?case by (cases "my_scan q s") auto
next
  case (Cons c a)
  then show ?case by (cases "my_scan q s") auto
qed

text \<open>A backslash before the first of two doubled quotes leaves the second one to end the text.\<close>

lemma my_scan_breaks:
  assumes "CHR 0x5C \<notin> set a" "CHR 0x27 \<notin> set p" "p \<noteq> []" "CHR 0x27 \<notin> set a"
  shows "my_scan (CHR 0x27) (esc_sq (a @ [CHR 0x5C, CHR 0x27] @ p) @ rest) = Some (a @ [CHR 0x27], p @ rest)"
proof -
  from assms obtain d p' where p: "p = d # p'" "d \<noteq> CHR 0x27" by (cases p) auto
  have "esc_sq (a @ [CHR 0x5C, CHR 0x27] @ p) = a @ [CHR 0x5C, CHR 0x27, CHR 0x27] @ p"
    using assms by (simp add: esc_sq_def)
  then show ?thesis using assms p by (simp add: my_scan_plain)
qed

text \<open>The part of the column query before the table's name.\<close>

definition my_columns_head :: string where
  "my_columns_head =
     ''SELECT column_name, column_type, IF(column_key = '' @ quoted ''PRI''
     @ '', 1, 0) FROM information_schema.columns WHERE table_name = '' @ sq"

definition my_columns_tail :: "obj_ref \<Rightarrow> string" where
  "my_columns_tail ob = drop (length my_columns_head) (my_columns_sql ob)"

lemma my_columns_tail_eq:
  "my_columns_tail ob =
     esc_sq (ob_name ob) @ sq @ '' ''
     @ (case ob_schema ob of Some s \<Rightarrow> ''AND table_schema = '' @ sq @ esc_sq s @ sq | None \<Rightarrow> [])
     @ '' ORDER BY ordinal_position''"
  by (simp add: my_columns_tail_def my_columns_head_def my_columns_sql_def quoted_def sq_def Let_def)

end
