(* ===== verification/Mssql.thy ===== *)
theory Mssql
  imports Driver_Common
begin

text \<open>
  \<open>drivers/mssql.rs\<close>, SQL Server.  tiberius is the record \<open>ms_lib\<close>: dialling, the login, and a query with its
  result sets.  A row is what its typed getters answer: \<open>Some\<close> where \<open>try_get\<close> gives a value, \<open>None\<close> where
  it gives null or refuses the type.
\<close>

section \<open>Metadata\<close>

definition MSSQL_META :: driver_meta where
  "MSSQL_META = \<lparr>dm_kind = ''sqlserver'', dm_display = ''SQL Server'', dm_default_port = Some 1433,
     dm_params =
       [\<lparr>ps_key = ''host'', ps_label = ''Host'', ps_kind = PT_String, ps_required = True, ps_secret = False,
         ps_default = Some ''127.0.0.1''\<rparr>,
        \<lparr>ps_key = ''port'', ps_label = ''Port'', ps_kind = PT_Int, ps_required = False, ps_secret = False,
         ps_default = Some ''1433''\<rparr>,
        \<lparr>ps_key = ''database'', ps_label = ''Database'', ps_kind = PT_String, ps_required = False,
         ps_secret = False, ps_default = Some ''master''\<rparr>],
     dm_auth = [AK_Password],
     dm_caps = \<lparr>cap_sql = True, cap_schemas = True, cap_cancel = False, cap_tls = True, cap_tunnel = True,
       cap_multi_db = True, cap_kv = False, cap_indexes = True, cap_ddl = False\<rparr>\<rparr>"

section \<open>The client library\<close>

datatype ms_encryption = Enc_Off | Enc_On | Enc_Required
datatype ms_trust = Trust_system | Trust_any | Trust_ca string

record ms_config =
  msc_host :: string
  msc_port :: u16
  msc_user :: string
  msc_password :: string
  msc_database :: "string option"
  msc_encryption :: ms_encryption
  msc_trust :: ms_trust

text \<open>A fixed-point number, by the three observations the code makes of it.\<close>

record ms_numeric =
  nm_scale :: nat
  nm_int_part :: int
  nm_dec_part :: int

record ms_row =
  msr_columns :: "(string \<times> string) list"
  msr_i32 :: "nat \<Rightarrow> int option"
  msr_i64 :: "nat \<Rightarrow> int option"
  msr_u8 :: "nat \<Rightarrow> int option"
  msr_i16 :: "nat \<Rightarrow> int option"
  msr_f64 :: "nat \<Rightarrow> f64 option"
  msr_f32 :: "nat \<Rightarrow> f32 option"
  msr_bool :: "nat \<Rightarrow> bool option"
  msr_numeric :: "nat \<Rightarrow> ms_numeric option"
  msr_uuid :: "nat \<Rightarrow> string option"
  msr_str :: "nat \<Rightarrow> string option"
  msr_datetime :: "nat \<Rightarrow> string option"
  msr_date :: "nat \<Rightarrow> string option"
  msr_time :: "nat \<Rightarrow> string option"
  msr_datetime_utc :: "nat \<Rightarrow> string option"
  msr_bytes :: "nat \<Rightarrow> string option"

record ('tcp, 'cl, 'w) ms_lib =
  msl_tcp :: "ms_config \<Rightarrow> ('w, 'tcp) io"
  msl_nodelay :: "'tcp \<Rightarrow> ('w, unit) io"
  msl_connect :: "ms_config \<Rightarrow> 'tcp \<Rightarrow> ('w, 'cl) io"
  msl_query :: "'cl \<Rightarrow> string \<Rightarrow> ('w, unit) io"
  msl_into_results :: "'cl \<Rightarrow> ('w, ms_row list list) io"
  msl_execute :: "'cl \<Rightarrow> string \<Rightarrow> ('w, unit) io"

section \<open>Connecting\<close>

definition ms_credentials ::
  "('key, 'ident, 'cert, 'pk) seam \<Rightarrow> auth_spec \<Rightarrow> ('s, string \<times> string) io" where
  "ms_credentials sm a =
     (case a of
        Auth_Password user password \<Rightarrow> io_bind (seam_secret sm password) (\<lambda>pw. io_ok (user, pw))
      | _ \<Rightarrow> io_err ''SQL Server requires password authentication'')"

definition ms_level :: "tls_mode \<Rightarrow> ms_encryption" where
  "ms_level m = (case m of Disable \<Rightarrow> Enc_Off | Prefer \<Rightarrow> Enc_On | _ \<Rightarrow> Enc_Required)"

definition ms_trust_for :: "tls_spec \<Rightarrow> ms_trust" where
  "ms_trust_for tls =
     (if verifies_cert tls then (case tls_ca tls of Some ca \<Rightarrow> Trust_ca ca | None \<Rightarrow> Trust_system)
      else Trust_any)"

definition ms_config_for ::
  "('key, 'ident, 'cert, 'pk) seam \<Rightarrow> conn_spec \<Rightarrow> (net_ctx \<times> 'w, ms_config) io" where
  "ms_config_for sm spec =
     io_bind (io_lift (param spec ''host'')) (\<lambda>host.
     let p = port spec 1433 in
     io_bind (seam_resolve sm host p) (\<lambda>addr.
     io_bind (io_lift (dial_parts addr)) (\<lambda>(rhost, rport).
     io_bind (ms_credentials sm (cs_auth spec)) (\<lambda>(user, password).
       io_ok \<lparr>msc_host = rhost, msc_port = dial_port p rport, msc_user = user, msc_password = password,
              msc_database = param_opt spec ''database'', msc_encryption = ms_level (tls_md (cs_tls spec)),
              msc_trust = ms_trust_for (cs_tls spec)\<rparr>))))"

record 'cl ms_conn =
  ms_client :: 'cl
  ms_encrypted :: bool

definition ms_dial :: "('tcp, 'cl, 'w) ms_lib \<Rightarrow> tls_spec \<Rightarrow> ms_config \<Rightarrow> ('w, 'cl ms_conn) io" where
  "ms_dial lib tls cfg =
     io_bind (io_map_err (\<lambda>e. ''sqlserver tcp connect failed: '' @ e) (msl_tcp lib cfg)) (\<lambda>tcp.
     io_bind (io_try (msl_nodelay lib tcp)) (\<lambda>_.
     io_bind (io_map_err (\<lambda>e. ''sqlserver connect failed: '' @ e) (msl_connect lib cfg tcp)) (\<lambda>cl.
       io_ok \<lparr>ms_client = cl, ms_encrypted = (tls_md tls \<noteq> Disable \<and> tls_md tls \<noteq> Prefer)\<rparr>)))"

definition ms_connect ::
  "('key, 'ident, 'cert, 'pk) seam \<Rightarrow> ('tcp, 'cl, 'w) ms_lib \<Rightarrow> conn_spec
     \<Rightarrow> (net_ctx \<times> 'w, 'cl ms_conn) io" where
  "ms_connect sm lib spec =
     io_bind (ms_config_for sm spec) (\<lambda>cfg. on_lib (ms_dial lib (cs_tls spec) cfg))"

section \<open>Cells\<close>

definition numeric_text :: "ms_numeric \<Rightarrow> string" where
  "numeric_text n =
     (let scale = nm_scale n in
      if scale = 0 then show_int (nm_int_part n)
      else
        (let ip = nm_int_part n; frac = nat \<bar>nm_dec_part n\<bar>;
             neg = ip < 0 \<or> (ip = 0 \<and> nm_dec_part n < 0)
         in (if neg then ''-'' else []) @ show_int \<bar>ip\<bar> @ ''.'' @ pad_zero scale (show_nat frac)))"

text \<open>The ladder: the first type that answers wins.\<close>

definition rung :: "'a option \<Rightarrow> ('a \<Rightarrow> val) \<Rightarrow> val \<Rightarrow> val" where
  "rung x f below = (case x of Some v \<Rightarrow> f v | None \<Rightarrow> below)"

definition render_cell :: "(string \<Rightarrow> string) \<Rightarrow> ms_row \<Rightarrow> nat \<Rightarrow> val" where
  "render_cell b64 r i =
     rung (msr_i32 r i) VInt (
     rung (msr_i64 r i) VInt (
     rung (msr_u8 r i) VInt (
     rung (msr_i16 r i) VInt (
     rung (msr_f64 r i) VFloat (
     rung (msr_f32 r i) (\<lambda>v. VFloat (f64_of_f32 v)) (
     rung (msr_bool r i) VBool (
     rung (msr_numeric r i) (\<lambda>v. VText (numeric_text v)) (
     rung (msr_uuid r i) VText (
     rung (msr_str r i) VText (
     rung (msr_datetime r i) VTimestamp (
     rung (msr_date r i) VText (
     rung (msr_time r i) VText (
     rung (msr_datetime_utc r i) VTimestamp (
     rung (msr_bytes r i) (bytes_cell b64)
     VNull))))))))))))))"

section \<open>Running a statement\<close>

text \<open>The last result set with rows.\<close>

definition last_rows :: "'r list list \<Rightarrow> 'r list" where
  "last_rows results = unwrap_or [] (find (\<lambda>r. r \<noteq> []) (rev results))"

definition ms_collect :: "(string \<Rightarrow> string) \<Rightarrow> ms_row list list \<Rightarrow> column list \<times> row list" where
  "ms_collect b64 results =
     (let rows = last_rows results;
          columns = (case first_opt rows of
             Some r0 \<Rightarrow> map (\<lambda>(n, t). \<lparr>col_name = n, col_type = t\<rparr>) (msr_columns r0)
           | None \<Rightarrow> []);
          ncol = length columns
      in (columns, map (\<lambda>r. map (render_cell b64 r) [0 ..< ncol]) rows))"

definition ms_run ::
  "(string \<Rightarrow> string) \<Rightarrow> ('tcp, 'cl, 'w) ms_lib \<Rightarrow> string \<Rightarrow> ('cl ms_conn \<times> 'w, column list \<times> row list) io" where
  "ms_run b64 lib sql = (\<lambda>(c, w).
     case io_bind (msl_query lib (ms_client c) sql) (\<lambda>_. msl_into_results lib (ms_client c)) w of
       (Inl e, w') \<Rightarrow> (Inl e, (c, w'))
     | (Inr results, w') \<Rightarrow> (Inr (ms_collect b64 results), (c, w')))"

definition ms_execute ::
  "(string \<Rightarrow> string) \<Rightarrow> ('tcp, 'cl, 'w) ms_lib \<Rightarrow> string \<Rightarrow> ('cl ms_conn \<times> 'w, bstream) io" where
  "ms_execute b64 lib stmt =
     io_bind (ms_run b64 lib stmt) (\<lambda>(columns, rows). io_ok (buffered_new columns rows None))"

section \<open>The catalog\<close>

definition ms_databases ::
  "(string \<Rightarrow> string) \<Rightarrow> ('tcp, 'cl, 'w) ms_lib \<Rightarrow> ('cl ms_conn \<times> 'w, string list) io" where
  "ms_databases b64 lib =
     io_bind (ms_run b64 lib ''SELECT name FROM sys.databases ORDER BY name'')
       (\<lambda>(_, rows). io_ok (first_texts rows))"

definition ms_switch_database ::
  "('tcp, 'cl, 'w) ms_lib \<Rightarrow> string \<Rightarrow> ('cl ms_conn \<times> 'w, unit) io" where
  "ms_switch_database lib db = (\<lambda>(c, w).
     case msl_execute lib (ms_client c) (''USE '' @ br_ident db) w of (r, w') \<Rightarrow> (r, (c, w')))"

definition ms_structure ::
  "(string \<Rightarrow> string) \<Rightarrow> (string \<Rightarrow> string) \<Rightarrow> ('tcp, 'cl, 'w) ms_lib \<Rightarrow> ('cl ms_conn \<times> 'w, node list) io" where
  "ms_structure up b64 lib =
     io_bind (ms_run b64 lib
       (''SELECT TABLE_SCHEMA, TABLE_NAME, TABLE_TYPE FROM INFORMATION_SCHEMA.TABLES ''
        @ ''ORDER BY TABLE_SCHEMA, TABLE_NAME''))
       (\<lambda>(_, rows). io_ok (schema_tree (view_kind up) rows))"

definition ms_schema_pred :: "obj_ref \<Rightarrow> string" where
  "ms_schema_pred ob =
     (case ob_schema ob of Some s \<Rightarrow> ''AND s.name = '' @ sq @ esc_sq s @ sq | None \<Rightarrow> [])"

definition ms_columns_sql :: "obj_ref \<Rightarrow> string" where
  "ms_columns_sql ob =
     ''SELECT c.name, TYPE_NAME(c.user_type_id), CASE WHEN pk.column_id IS NULL THEN 0 ELSE 1 END ''
     @ ''FROM sys.columns c JOIN sys.tables t ON t.object_id = c.object_id ''
     @ ''JOIN sys.schemas s ON s.schema_id = t.schema_id LEFT JOIN ( ''
     @ ''SELECT ic.object_id, ic.column_id FROM sys.index_columns ic ''
     @ ''JOIN sys.indexes i ON i.object_id = ic.object_id AND i.index_id = ic.index_id ''
     @ ''WHERE i.is_primary_key = 1 ''
     @ '') pk ON pk.object_id = c.object_id AND pk.column_id = c.column_id WHERE t.name = ''
     @ sq @ esc_sq (ob_name ob) @ sq @ '' '' @ ms_schema_pred ob @ '' ORDER BY c.column_id''"

definition ms_primary :: "row \<Rightarrow> bool" where
  "ms_primary r = (case nth_opt r 2 of Some (VInt i) \<Rightarrow> i \<noteq> 0 | _ \<Rightarrow> False)"

definition ms_columns ::
  "(string \<Rightarrow> string) \<Rightarrow> ('tcp, 'cl, 'w) ms_lib \<Rightarrow> obj_ref \<Rightarrow> ('cl ms_conn \<times> 'w, table_column list) io" where
  "ms_columns b64 lib ob =
     io_bind (ms_run b64 lib (ms_columns_sql ob)) (\<lambda>(_, rows). io_ok (table_columns 0 1 ms_primary rows))"

definition ms_indexes_sql :: "obj_ref \<Rightarrow> string" where
  "ms_indexes_sql ob =
     ''SELECT i.name, CAST(i.is_unique AS INT), CAST(i.is_primary_key AS INT), c.name FROM sys.indexes i ''
     @ ''JOIN sys.tables t ON t.object_id = i.object_id JOIN sys.schemas s ON s.schema_id = t.schema_id ''
     @ ''LEFT JOIN sys.index_columns ic ON ic.object_id = i.object_id AND ic.index_id = i.index_id ''
     @ ''LEFT JOIN sys.columns c ON c.object_id = i.object_id AND c.column_id = ic.column_id WHERE t.name = ''
     @ sq @ esc_sq (ob_name ob) @ sq @ '' '' @ ms_schema_pred ob
     @ '' AND i.name IS NOT NULL ORDER BY i.name, ic.key_ordinal''"

definition ms_indexes ::
  "(string \<Rightarrow> string) \<Rightarrow> ('tcp, 'cl, 'w) ms_lib \<Rightarrow> obj_ref \<Rightarrow> ('cl ms_conn \<times> 'w, index list) io" where
  "ms_indexes b64 lib ob =
     io_bind (ms_run b64 lib (ms_indexes_sql ob)) (\<lambda>(_, rows). io_ok (group_indexes rows))"

definition ms_close :: "('cl ms_conn \<times> 'w, unit) io" where
  "ms_close = io_ok ()"

section \<open>Encryption\<close>

interpretation ms: tls_posture "ms_connect sm lib" ms_encrypted
  for sm :: "('key, 'ident, 'cert, 'pk) seam" and lib :: "('tcp, 'cl, 'w) ms_lib"
  by unfold_locales
    (auto simp: ms_connect_def ms_dial_def result_iff tls_required_def tls_wanted_def split: tls_mode.splits)

text \<open>The library was told to refuse a link in the clear whenever the connection claims to be encrypted.\<close>

lemma ms_encrypted_required:
  "ms_connect sm lib spec (net, w) = (Inr c, s') \<Longrightarrow> ms_encrypted c \<Longrightarrow>
   \<exists>cfg tcp w1 w2. msl_connect lib cfg tcp w1 = (Inr (ms_client c), w2)
     \<and> msc_encryption cfg = Enc_Required \<and> msc_trust cfg = ms_trust_for (cs_tls spec)"
  by (cases "tls_md (cs_tls spec)")
    (force simp: ms_connect_def ms_config_for_def ms_dial_def Let_def result_iff ms_level_def)+

section \<open>The ladder is complete\<close>

lemma rung_null: "(\<And>v. f v \<noteq> VNull) \<Longrightarrow> rung x f below = VNull \<longleftrightarrow> x = None \<and> below = VNull"
  by (cases x) (simp_all add: rung_def)

definition ms_answers :: "ms_row \<Rightarrow> nat \<Rightarrow> bool list" where
  "ms_answers r i =
     [msr_i32 r i \<noteq> None, msr_i64 r i \<noteq> None, msr_u8 r i \<noteq> None, msr_i16 r i \<noteq> None, msr_f64 r i \<noteq> None,
      msr_f32 r i \<noteq> None, msr_bool r i \<noteq> None, msr_numeric r i \<noteq> None, msr_uuid r i \<noteq> None,
      msr_str r i \<noteq> None, msr_datetime r i \<noteq> None, msr_date r i \<noteq> None, msr_time r i \<noteq> None,
      msr_datetime_utc r i \<noteq> None, msr_bytes r i \<noteq> None]"

lemma render_cell_null: "render_cell b64 r i = VNull \<longleftrightarrow> True \<notin> set (ms_answers r i)"
  by (simp add: render_cell_def rung_null bytes_cell_def ms_answers_def)

section \<open>Exact decimals\<close>

text \<open>
  The reading of a decimal text of at most 38 digits: its digits as one integer, and how many of them come
  after the point.
\<close>

definition read_unsigned_decimal :: "string \<Rightarrow> (nat \<times> nat) option" where
  "read_unsigned_decimal s =
     (case split_once ''.'' s of
        Some (a, b) \<Rightarrow> map_option (\<lambda>v. (v, length b)) (parse_digits (10 ^ 38) 0 (a @ b))
      | None \<Rightarrow> map_option (\<lambda>v. (v, 0)) (parse_digits (10 ^ 38) 0 s))"

definition read_decimal :: "string \<Rightarrow> (int \<times> nat) option" where
  "read_decimal s =
     (case s of
        CHR ''-'' # r \<Rightarrow> map_option (\<lambda>(v, k). (- int v, k)) (read_unsigned_decimal r)
      | _ \<Rightarrow> map_option (\<lambda>(v, k). (int v, k)) (read_unsigned_decimal s))"

lemma parse_digits_zeros:
  "acc * 10 ^ k < b \<Longrightarrow> parse_digits b acc (replicate k (CHR ''0'')) = Some (acc * 10 ^ k)"
proof (induction k arbitrary: acc)
  case (Suc k)
  have "acc * 10 \<le> acc * 10 ^ Suc k" by simp
  with Suc.prems have "acc * 10 < b" by linarith
  moreover have "parse_digits b (acc * 10) (replicate k (CHR ''0'')) = Some (acc * 10 * 10 ^ k)"
    using Suc.IH [of "acc * 10"] Suc.prems by (simp add: ac_simps)
  ultimately show ?case by (simp add: digit_val_def byte_def ac_simps)
qed simp

lemma parse_digits_more:
  "acc * 10 ^ length (show_nat n) + n < b \<Longrightarrow>
   parse_digits b acc (show_nat n) = Some (acc * 10 ^ length (show_nat n) + n)"
proof (induction n rule: show_nat.induct)
  case (1 n)
  show ?case
  proof (cases "n < 10")
    case True
    then have s: "show_nat n = [digit n]" by (subst show_nat.simps) simp
    with 1(2) True show ?thesis by simp
  next
    case False
    let ?m = "n div 10" and ?l = "length (show_nat (n div 10))"
    from False have s: "show_nat n = show_nat ?m @ [digit (n mod 10)]" by (subst show_nat.simps) simp
    have sum: "acc * 10 ^ length (show_nat n) + n = (acc * 10 ^ ?l + ?m) * 10 + n mod 10"
      by (simp add: s algebra_simps)
    have "acc * 10 ^ ?l + ?m \<le> (acc * 10 ^ ?l + ?m) * 10 + n mod 10" by simp
    also have "\<dots> < b" by (simp only: sum [symmetric] 1(2))
    finally have "acc * 10 ^ ?l + ?m < b" .
    with 1(1) False have "parse_digits b acc (show_nat ?m) = Some (acc * 10 ^ ?l + ?m)" by simp
    with 1(2) show ?thesis by (simp only: s sum [unfolded s]) (simp add: s parse_digits_append)
  qed
qed

lemma length_show_nat: "0 < k \<Longrightarrow> n < 10 ^ k \<Longrightarrow> length (show_nat n) \<le> k"
proof (induction k arbitrary: n)
  case (Suc k)
  show ?case
  proof (cases "n < 10")
    case True
    then show ?thesis by (subst show_nat.simps) simp
  next
    case False
    with Suc.prems have "k \<noteq> 0" by (cases k) simp_all
    moreover have "n div 10 < 10 ^ k" using Suc.prems by (simp add: less_mult_imp_div_less)
    ultimately have "length (show_nat (n div 10)) \<le> k" using Suc.IH by simp
    with False show ?thesis by (subst show_nat.simps) simp
  qed
qed simp

lemma parse_digits_pad:
  assumes "0 < k" "n < 10 ^ k" "acc * 10 ^ k + n < b"
  shows "parse_digits b acc (pad_zero k (show_nat n)) = Some (acc * 10 ^ k + n)"
proof -
  let ?l = "length (show_nat n)"
  have l: "?l \<le> k" using assms(1,2) by (rule length_show_nat)
  then have e: "acc * 10 ^ (k - ?l) * 10 ^ ?l = acc * 10 ^ k"
    by (metis le_add_diff_inverse2 mult.assoc power_add)
  have "acc * 10 ^ (k - ?l) \<le> acc * 10 ^ (k - ?l) * 10 ^ ?l" by simp
  with e assms(3) have "acc * 10 ^ (k - ?l) < b" by linarith
  with parse_digits_more [of "acc * 10 ^ (k - ?l)" n b] e assms(3) show ?thesis
    by (simp add: pad_zero_def parse_digits_append parse_digits_zeros)
qed

lemma digits_no_point: "CHR ''.'' \<notin> set (show_nat n)" "CHR ''-'' \<notin> set (show_nat n)"
  by (auto dest!: set_show_nat arg_cong [of _ _ byte] simp: digit_def) (simp_all add: byte_def)

text \<open>What the library documents of its fixed-point numbers: truncated quotient and remainder of the value.\<close>

definition numeric_of :: "int \<Rightarrow> nat \<Rightarrow> ms_numeric" where
  "numeric_of v k =
     \<lparr>nm_scale = k, nm_int_part = sgn v * (\<bar>v\<bar> div 10 ^ k), nm_dec_part = sgn v * (\<bar>v\<bar> mod 10 ^ k)\<rparr>"

lemma read_unsigned_point:
  assumes "0 < k" "m < 10 ^ k" "q * 10 ^ k + m < 10 ^ 38"
  shows "read_unsigned_decimal (show_nat q @ ''.'' @ pad_zero k (show_nat m)) = Some (q * 10 ^ k + m, k)"
proof -
  have "q * 1 \<le> q * 10 ^ k" by (intro mult_le_mono2) simp
  with assms(3) have q: "q < 10 ^ 38" by linarith
  have "split_once ''.'' (show_nat q @ ''.'' @ pad_zero k (show_nat m))
      = Some (show_nat q, pad_zero k (show_nat m))"
    using split_once_char [OF digits_no_point(1)] by simp
  moreover have "length (pad_zero k (show_nat m)) = k"
    using length_show_nat [OF assms(1,2)] by (simp add: pad_zero_def)
  moreover have "parse_digits (10 ^ 38) 0 (show_nat q @ pad_zero k (show_nat m)) = Some (q * 10 ^ k + m)"
    unfolding parse_digits_append parse_digits_show [OF q] using parse_digits_pad [OF assms] by simp
  ultimately show ?thesis by (simp add: read_unsigned_decimal_def)
qed

lemma read_decimal_minus: "read_decimal (CHR ''-'' # r) = map_option (\<lambda>(v, k). (- int v, k)) (read_unsigned_decimal r)"
  by (simp add: read_decimal_def)

lemma read_decimal_digits:
  "read_decimal (show_nat q @ r) = map_option (\<lambda>(v, k). (int v, k)) (read_unsigned_decimal (show_nat q @ r))"
proof -
  obtain c cs where c: "show_nat q = c # cs" by (cases "show_nat q") auto
  then have "c \<noteq> CHR ''-''" using digits_no_point(2) [of q] by auto
  then have "read_decimal (c # cs @ r)
      = map_option (\<lambda>(v, k). (int v, k)) (read_unsigned_decimal (c # cs @ r))"
    unfolding read_decimal_def by (simp split: char.split bool.split)
  with c show ?thesis by simp
qed

lemma numeric_text_parts:
  assumes "k \<noteq> 0" "0 \<le> q" "0 \<le> m" "v < 0 \<Longrightarrow> q \<noteq> 0 \<or> m \<noteq> 0" "v = 0 \<Longrightarrow> q = 0 \<and> m = 0"
  shows "numeric_text \<lparr>nm_scale = k, nm_int_part = sgn v * q, nm_dec_part = sgn v * m\<rparr> =
     (if v < 0 then ''-'' else []) @ show_nat (nat q) @ ''.'' @ pad_zero k (show_nat (nat m))"
proof (cases v "0 :: int" rule: linorder_cases)
  case less
  with assms(2-4) have "- q < 0 \<or> (- q = 0 \<and> - m < 0)" by linarith
  with less assms(1-3) show ?thesis by (simp add: numeric_text_def show_int_def)
next
  case equal
  with assms(1,5) show ?thesis by (simp add: numeric_text_def show_int_def)
next
  case greater
  with assms(1-3) show ?thesis by (simp add: numeric_text_def show_int_def)
qed

lemma numeric_text_body:
  assumes "k \<noteq> 0"
  shows "numeric_text (numeric_of v k) =
     (if v < 0 then ''-'' else []) @ show_nat (nat \<bar>v\<bar> div 10 ^ k) @ ''.'' @ pad_zero k (show_nat (nat \<bar>v\<bar> mod 10 ^ k))"
proof -
  have "\<bar>v\<bar> div 10 ^ k * 10 ^ k + \<bar>v\<bar> mod 10 ^ k = \<bar>v\<bar>" by (rule div_mult_mod_eq)
  then have "v < 0 \<Longrightarrow> \<bar>v\<bar> div 10 ^ k \<noteq> 0 \<or> \<bar>v\<bar> mod 10 ^ k \<noteq> 0" by (intro disjCI notI) simp
  moreover have "nat (\<bar>v\<bar> div 10 ^ k) = nat \<bar>v\<bar> div 10 ^ k" "nat (\<bar>v\<bar> mod 10 ^ k) = nat \<bar>v\<bar> mod 10 ^ k"
    by (simp_all add: nat_div_distrib nat_mod_distrib nat_power_eq)
  ultimately show ?thesis
    using numeric_text_parts [OF assms, of "\<bar>v\<bar> div 10 ^ k" "\<bar>v\<bar> mod 10 ^ k" v]
    by (simp add: numeric_of_def pos_imp_zdiv_nonneg_iff)
qed

text \<open>Reading the text back gives the value and its scale.\<close>

lemma read_numeric_text:
  assumes "\<bar>v\<bar> < 10 ^ 38"
  shows "read_decimal (numeric_text (numeric_of v k)) = Some (v, k)"
proof -
  let ?n = "nat \<bar>v\<bar>"
  let ?q = "?n div 10 ^ k" and ?m = "?n mod 10 ^ k"
  have n: "?n < 10 ^ 38" using assms by (simp add: nat_less_iff)
  have qm: "?q * 10 ^ k + ?m = ?n" by (rule div_mult_mod_eq)
  show ?thesis
  proof (cases "k = 0")
    case True
    have r: "read_unsigned_decimal (show_nat ?n) = Some (?n, 0)"
      using n by (simp add: read_unsigned_decimal_def split_once_char_None digits_no_point parse_digits_show)
    have "numeric_text (numeric_of v k) = show_int v"
      by (simp add: numeric_text_def numeric_of_def True sgn_mult_abs)
    then show ?thesis
      using r read_decimal_digits [of ?n "[]"]
      by (cases "v < 0") (simp_all add: show_int_def read_decimal_minus True)
  next
    case False
    let ?body = "show_nat ?q @ ''.'' @ pad_zero k (show_nat ?m)"
    have body: "numeric_text (numeric_of v k) = (if v < 0 then ''-'' else []) @ ?body"
      using False by (rule numeric_text_body)
    have "read_unsigned_decimal ?body = Some (?n, k)"
      using read_unsigned_point [of k ?m ?q] False n qm by simp
    then show ?thesis
      using read_decimal_digits [of ?q] by (auto simp: body read_decimal_minus)
  qed
qed

end
