(* ===== verification/Duckdb.thy ===== *)
theory Duckdb
  imports Driver_Common
begin

text \<open>
  \<open>drivers/duckdb.rs\<close>, the embedded analytics engine.  The engine's client is the record \<open>dk_lib\<close>; the
  date arithmetic of chrono, and Rust's shortest text of a floating-point number, are the record
  \<open>dk_text_env\<close>.  A value is rendered as a typed cell when it is a scalar and as text otherwise.
\<close>

section \<open>Metadata\<close>

definition DUCKDB_META :: driver_meta where
  "DUCKDB_META = \<lparr>dm_kind = ''duckdb'', dm_display = ''DuckDB'', dm_default_port = None,
     dm_params = [\<lparr>ps_key = ''file'', ps_label = ''Database file'', ps_kind = PT_File, ps_required = True,
       ps_secret = False, ps_default = Some '':memory:''\<rparr>],
     dm_auth = [AK_None],
     dm_caps = \<lparr>cap_sql = True, cap_schemas = True, cap_cancel = False, cap_tls = False, cap_tunnel = False,
       cap_multi_db = False, cap_kv = False, cap_indexes = True, cap_ddl = True\<rparr>\<rparr>"

section \<open>The client library\<close>

datatype time_unit = Second | Millisecond | Microsecond | Nanosecond

text \<open>A decimal is its exact text; a variant the code does not name is its debug text.\<close>

datatype duck_value =
    D_null
  | D_bool bool
  | D_tiny int
  | D_small int
  | D_int int
  | D_big int
  | D_huge int
  | D_utiny nat
  | D_usmall nat
  | D_uint nat
  | D_ubig nat
  | D_float f32
  | D_double f64
  | D_decimal string
  | D_timestamp time_unit int
  | D_text string
  | D_blob string
  | D_date32 int
  | D_time64 time_unit int
  | D_interval int int int
  | D_list "duck_value list"
  | D_array "duck_value list"
  | D_enum string
  | D_struct "(string \<times> duck_value) list"
  | D_map "(duck_value \<times> duck_value) list"
  | D_union duck_value
  | D_other string

record dk_text_env =
  dke_f32 :: "f32 \<Rightarrow> string"
  dke_f64 :: "f64 \<Rightarrow> string"
  dke_datetime :: "int \<Rightarrow> nat \<Rightarrow> string option"
  dke_date :: "int \<Rightarrow> string option"
  dke_time :: "nat \<Rightarrow> nat \<Rightarrow> string option"

text \<open>A step of the row cursor: an error, or a row with the names of its columns and its getter.\<close>

datatype dk_step = Dk_err error | Dk_row "string result list" "nat \<Rightarrow> duck_value result"

record ('db, 'w) dk_lib =
  dkl_open_memory :: "('w, 'db) io"
  dkl_open_file :: "string \<Rightarrow> ('w, 'db) io"
  dkl_prepare :: "'db \<Rightarrow> string \<Rightarrow> ('w, unit) io"
  dkl_query :: "'db \<Rightarrow> string \<Rightarrow> ('w, dk_step list \<times> string result list) io"

definition duck_connect :: "env \<Rightarrow> ('db, 'w) dk_lib \<Rightarrow> conn_spec \<Rightarrow> (net_ctx \<times> 'w, 'db) io" where
  "duck_connect env lib spec =
     io_bind (io_lift (param spec ''file'')) (\<lambda>raw.
     let file = expand_tilde env raw in
     io_map_err (\<lambda>e. ''duckdb open failed: '' @ e)
       (on_lib (if file = '':memory:'' then dkl_open_memory lib else dkl_open_file lib file)))"

section \<open>Values\<close>

text \<open>Whole seconds and nanoseconds; the Euclidean division keeps the second part non-negative.\<close>

definition unit_scale :: "time_unit \<Rightarrow> int \<times> int" where
  "unit_scale u =
     (case u of
        Second \<Rightarrow> (1, 1000000000)
      | Millisecond \<Rightarrow> (1000, 1000000)
      | Microsecond \<Rightarrow> (1000000, 1000)
      | Nanosecond \<Rightarrow> (1000000000, 1))"

definition duck_split :: "time_unit \<Rightarrow> int \<Rightarrow> int \<times> nat" where
  "duck_split u v = (case unit_scale u of (per_sec, nanos_per) \<Rightarrow> (v div per_sec, nat (v mod per_sec * nanos_per)))"

definition duck_interval :: "int \<Rightarrow> int \<Rightarrow> int \<Rightarrow> string" where
  "duck_interval months days nanos =
     (let parts = (if months \<noteq> 0 then [show_int months @ '' months''] else [])
                @ (if days \<noteq> 0 then [show_int days @ '' days''] else []);
          secs = tdiv nanos 1000000000;
          sub = \<bar>tmod nanos 1000000000\<bar>;
          clock = fmt_pad 2 (tdiv secs 3600) @ '':'' @ fmt_pad 2 (tdiv (tmod secs 3600) 60) @ '':''
                @ fmt_pad 2 (tmod secs 60) @ (if sub \<noteq> 0 then ''.'' @ fmt_pad 9 sub else [])
      in join '' '' (parts @ (if nanos \<noteq> 0 \<or> parts = [] then [clock] else [])))"

fun duck_text :: "dk_text_env \<Rightarrow> duck_value \<Rightarrow> string" where
  "duck_text te D_null = ''NULL''"
| "duck_text te (D_bool b) = (if b then ''true'' else ''false'')"
| "duck_text te (D_tiny i) = show_int i"
| "duck_text te (D_small i) = show_int i"
| "duck_text te (D_int i) = show_int i"
| "duck_text te (D_big i) = show_int i"
| "duck_text te (D_huge i) = show_int i"
| "duck_text te (D_utiny n) = show_nat n"
| "duck_text te (D_usmall n) = show_nat n"
| "duck_text te (D_uint n) = show_nat n"
| "duck_text te (D_ubig n) = show_nat n"
| "duck_text te (D_float f) = dke_f32 te f"
| "duck_text te (D_double f) = dke_f64 te f"
| "duck_text te (D_decimal d) = d"
| "duck_text te (D_text s) = s"
| "duck_text te (D_enum s) = s"
| "duck_text te (D_timestamp u x) =
     (case duck_split u x of (s, n) \<Rightarrow> unwrap_or (show_int x) (dke_datetime te s n))"
| "duck_text te (D_date32 d) = unwrap_or (show_int d) (dke_date te d)"
| "duck_text te (D_time64 u x) =
     (case duck_split u x of (s, n) \<Rightarrow> unwrap_or (show_int x) (dke_time te (nat (s mod 86400)) n))"
| "duck_text te (D_interval months days nanos) = duck_interval months days nanos"
| "duck_text te (D_blob b) = ''<'' @ show_nat (length b) @ '' bytes>''"
| "duck_text te (D_list xs) = ''['' @ join '', '' (map (duck_text te) xs) @ '']''"
| "duck_text te (D_array xs) = ''['' @ join '', '' (map (duck_text te) xs) @ '']''"
| "duck_text te (D_struct m) =
     ''{'' @ join '', '' (map (\<lambda>(k, v). k @ '': '' @ duck_text te v) m) @ ''}''"
| "duck_text te (D_map m) =
     ''{'' @ join '', '' (map (\<lambda>(k, v). duck_text te k @ '': '' @ duck_text te v) m) @ ''}''"
| "duck_text te (D_union v) = duck_text te v"
| "duck_text te (D_other dbg) = dbg"

definition duck_cell :: "(string \<Rightarrow> string) \<Rightarrow> dk_text_env \<Rightarrow> duck_value \<Rightarrow> val" where
  "duck_cell b64 te v =
     (case v of
        D_null \<Rightarrow> VNull
      | D_bool b \<Rightarrow> VBool b
      | D_tiny i \<Rightarrow> VInt i
      | D_small i \<Rightarrow> VInt i
      | D_int i \<Rightarrow> VInt i
      | D_big i \<Rightarrow> VInt i
      | D_utiny n \<Rightarrow> VInt (int n)
      | D_usmall n \<Rightarrow> VInt (int n)
      | D_uint n \<Rightarrow> VInt (int n)
      | D_ubig n \<Rightarrow> uint_cell n
      | D_float f \<Rightarrow> VFloat (f64_of_f32 f)
      | D_double f \<Rightarrow> VFloat f
      | D_text s \<Rightarrow> VText s
      | D_blob b \<Rightarrow> bytes_cell b64 b
      | other \<Rightarrow> VText (duck_text te other))"

section \<open>Running a statement\<close>

definition duck_column :: "string result \<Rightarrow> column" where
  "duck_column n = \<lparr>col_name = unwrap_or [] (ok_opt n), col_type = []\<rparr>"

fun duck_row :: "(duck_value \<Rightarrow> val) \<Rightarrow> (nat \<Rightarrow> duck_value result) \<Rightarrow> nat list \<Rightarrow> row result" where
  "duck_row cell get [] = Inr []"
| "duck_row cell get (i # is) =
     bind_result (get i) (\<lambda>v. bind_result (duck_row cell get is) (\<lambda>r. Inr (cell v # r)))"

text \<open>The cursor loop; the columns, and how many there are, come from the first row.\<close>

fun duck_rows ::
  "(duck_value \<Rightarrow> val) \<Rightarrow> column list option \<Rightarrow> row list \<Rightarrow> dk_step list \<Rightarrow> (column list option \<times> row list) result" where
  "duck_rows cell columns out [] = Inr (columns, out)"
| "duck_rows cell columns out (Dk_err e # steps) = Inl e"
| "duck_rows cell columns out (Dk_row names get # steps) =
     (let cols = unwrap_or (map duck_column names) columns in
      bind_result (duck_row cell get [0 ..< length cols]) (\<lambda>r. duck_rows cell (Some cols) (out @ [r]) steps))"

definition duck_is_mutation :: "string \<Rightarrow> bool" where
  "duck_is_mutation sql =
     (let up = to_ascii_uppercase (take 6 (trim_start sql))
      in up = ''INSERT'' \<or> up = ''UPDATE'' \<or> up = ''DELETE'' \<or> up = ''MERGE'')"

definition duck_finish ::
  "string \<Rightarrow> column list \<Rightarrow> row list \<Rightarrow> column list \<times> row list \<times> u64 option" where
  "duck_finish sql columns out =
     (if duck_is_mutation sql \<and> length columns = 1 \<and> map col_name (take 1 columns) = [''Count''] \<and> length out = 1
      then (case Option.bind (first_opt out) first_opt of
              Some (VInt n) \<Rightarrow> ([], [], Some (of_int (max n 0)))
            | _ \<Rightarrow> (columns, out, None))
      else (columns, out, None))"

definition duck_collect ::
  "(duck_value \<Rightarrow> val) \<Rightarrow> string \<Rightarrow> dk_step list \<times> string result list
     \<Rightarrow> (column list \<times> row list \<times> u64 option) result" where
  "duck_collect cell sql = (\<lambda>(steps, stmt_names).
     bind_result (duck_rows cell None [] steps) (\<lambda>(columns, out).
       let cols = unwrap_or [] columns in
       Inr (if cols \<noteq> [] then duck_finish sql cols out
            else if stmt_names = [] then ([], [], Some 0)
            else duck_finish sql (map duck_column stmt_names) out)))"

definition duck_run ::
  "(duck_value \<Rightarrow> val) \<Rightarrow> ('db, 'w) dk_lib \<Rightarrow> 'db \<Rightarrow> string
     \<Rightarrow> ('w, column list \<times> row list \<times> u64 option) io" where
  "duck_run cell lib db sql =
     io_bind (dkl_prepare lib db sql) (\<lambda>_.
     io_bind (dkl_query lib db sql) (\<lambda>r. io_lift (duck_collect cell sql r)))"

definition duck_execute ::
  "(duck_value \<Rightarrow> val) \<Rightarrow> ('db, 'w) dk_lib \<Rightarrow> 'db \<Rightarrow> string \<Rightarrow> ('w, bstream) io" where
  "duck_execute cell lib db stmt =
     io_bind (duck_run cell lib db stmt) (\<lambda>(columns, rows, affected). io_ok (buffered_new columns rows affected))"

section \<open>The catalog\<close>

definition duck_databases :: "('w, string list) io" where
  "duck_databases = io_ok [''main'']"

definition duck_switch_database :: "string \<Rightarrow> ('w, unit) io" where
  "duck_switch_database d = io_err ''DuckDB has a single database per connection''"

definition duck_structure ::
  "(string \<Rightarrow> string) \<Rightarrow> (duck_value \<Rightarrow> val) \<Rightarrow> ('db, 'w) dk_lib \<Rightarrow> 'db \<Rightarrow> ('w, node list) io" where
  "duck_structure up cell lib db =
     io_bind (duck_run cell lib db
       (''SELECT table_schema, table_name, table_type FROM information_schema.tables ''
        @ ''ORDER BY table_schema, table_name''))
       (\<lambda>(_, rows, _). io_ok (schema_tree (view_kind up) rows))"

definition duck_qname :: "obj_ref \<Rightarrow> string" where
  "duck_qname ob =
     (case ob_schema ob of
        Some s \<Rightarrow> dq_ident s @ ''.'' @ dq_ident (ob_name ob)
      | None \<Rightarrow> dq_ident (ob_name ob))"

definition duck_primary :: "row \<Rightarrow> bool" where
  "duck_primary r = (case nth_opt r 5 of Some (VBool b) \<Rightarrow> b | Some (VInt i) \<Rightarrow> 0 < i | _ \<Rightarrow> False)"

definition duck_columns_sql :: "obj_ref \<Rightarrow> string" where
  "duck_columns_sql ob = ''PRAGMA table_info('' @ duck_qname ob @ '')''"

definition duck_columns ::
  "(duck_value \<Rightarrow> val) \<Rightarrow> ('db, 'w) dk_lib \<Rightarrow> 'db \<Rightarrow> obj_ref \<Rightarrow> ('w, table_column list) io" where
  "duck_columns cell lib db ob =
     io_bind (duck_run cell lib db (duck_columns_sql ob))
       (\<lambda>(_, rows, _). io_ok (table_columns 1 2 duck_primary rows))"

definition duck_indexes_sql :: "obj_ref \<Rightarrow> string" where
  "duck_indexes_sql ob =
     (let schema_pred = (case ob_schema ob of
            Some sc \<Rightarrow> ''AND schema_name = '' @ sq @ esc_sq sc @ sq | None \<Rightarrow> [])
      in ''SELECT index_name, is_unique, is_primary, NULL FROM duckdb_indexes() WHERE table_name = ''
         @ sq @ esc_sq (ob_name ob) @ sq @ '' '' @ schema_pred @ '' ORDER BY index_name'')"

definition duck_indexes ::
  "(duck_value \<Rightarrow> val) \<Rightarrow> ('db, 'w) dk_lib \<Rightarrow> 'db \<Rightarrow> obj_ref \<Rightarrow> ('w, index list) io" where
  "duck_indexes cell lib db ob =
     io_bind (duck_run cell lib db (duck_indexes_sql ob)) (\<lambda>(_, rows, _). io_ok (group_indexes rows))"

definition duck_ddl_sql :: "obj_ref \<Rightarrow> string" where
  "duck_ddl_sql ob =
     ''SELECT sql FROM duckdb_tables() WHERE table_name = '' @ sq @ esc_sq (ob_name ob) @ sq
     @ '' UNION ALL SELECT sql FROM duckdb_views() WHERE view_name = '' @ sq @ esc_sq (ob_name ob) @ sq"

definition duck_ddl ::
  "(duck_value \<Rightarrow> val) \<Rightarrow> ('db, 'w) dk_lib \<Rightarrow> 'db \<Rightarrow> obj_ref \<Rightarrow> ('w, string option) io" where
  "duck_ddl cell lib db ob =
     io_bind (duck_run cell lib db (duck_ddl_sql ob))
       (\<lambda>(_, rows, _). io_ok (text_of (Option.bind (first_opt rows) first_opt)))"

definition duck_close :: "('w, unit) io" where
  "duck_close = io_ok ()"

section \<open>Facts\<close>

text \<open>The split loses nothing: seconds and nanoseconds give back the count.\<close>

lemma duck_split_exact:
  assumes "duck_split u v = (s, n)"
  shows "s * 10 ^ 9 + int n = v * snd (unit_scale u)" "n < 10 ^ 9"
proof -
  obtain per nanos where p: "unit_scale u = (per, nanos)" "0 < per" "0 < nanos" "per * nanos = 10 ^ 9"
    by (cases u) (simp_all add: unit_scale_def)
  have m: "0 \<le> v mod per" "v mod per < per" using p(2) by simp_all
  from assms p(1) have s: "s = v div per" "n = nat (v mod per * nanos)"
    by (auto simp: duck_split_def)
  with m p(3) have n: "int n = v mod per * nanos" by simp
  have "s * 10 ^ 9 + int n = (v div per * per + v mod per) * nanos"
    unfolding s(1) n p(4) [symmetric] by (simp only: ring_distribs mult.assoc)
  also have "\<dots> = v * nanos" by (simp only: div_mult_mod_eq)
  finally show "s * 10 ^ 9 + int n = v * snd (unit_scale u)" by (simp add: p(1))
  have "int n < per * nanos" unfolding n using m(2) p(3) by (rule mult_strict_right_mono)
  then show "n < 10 ^ 9" using p(4) by simp
qed

text \<open>An interval below a second, negated, has the same text.\<close>

lemma duck_interval_sign:
  assumes "0 < n" "n < 10 ^ 9"
  shows "duck_interval months days (- n) = duck_interval months days n"
proof -
  have "tdiv (- n) 1000000000 = 0" "tdiv n 1000000000 = 0" "\<bar>tmod (- n) 1000000000\<bar> = n" "\<bar>tmod n 1000000000\<bar> = n"
    using assms by (simp_all add: tdiv_def tmod_def)
  with assms show ?thesis by (simp add: duck_interval_def Let_def)
qed

text \<open>A statement with room for six characters is never recognised as a merge.\<close>

lemma duck_merge_missed:
  "length (trim_start sql) \<noteq> 5 \<Longrightarrow> to_ascii_uppercase (take 5 (trim_start sql)) = ''MERGE'' \<Longrightarrow> \<not> duck_is_mutation sql"
proof -
  assume l: "length (trim_start sql) \<noteq> 5" and m: "to_ascii_uppercase (take 5 (trim_start sql)) = ''MERGE''"
  let ?up = "to_ascii_uppercase (take 6 (trim_start sql))"
  have t: "take 5 ?up = ''MERGE''"
    using m by (simp add: to_ascii_uppercase_def take_map)
  moreover have "5 \<le> length (trim_start sql)"
    using arg_cong [OF m, of length] by (simp add: to_ascii_uppercase_def min_def split: if_split_asm)
  with l have "length ?up = 6" by (simp add: to_ascii_uppercase_def)
  ultimately show ?thesis by (auto simp: duck_is_mutation_def Let_def)
qed

end
