(* ===== verification/Firebird.thy ===== *)
theory Firebird
  imports Driver_Common
begin

text \<open>
  \<open>drivers/firebird.rs\<close>.  rsfbclient is the record \<open>fb_lib\<close>.  The driver never looks at the TLS settings, and
  a statement the cursor refuses is executed a second way.
\<close>

section \<open>Metadata\<close>

definition FIREBIRD_META :: driver_meta where
  "FIREBIRD_META = \<lparr>dm_kind = ''firebird'', dm_display = ''Firebird'', dm_default_port = Some 3050,
     dm_params =
       [\<lparr>ps_key = ''host'', ps_label = ''Host'', ps_kind = PT_String, ps_required = True, ps_secret = False,
         ps_default = Some ''127.0.0.1''\<rparr>,
        \<lparr>ps_key = ''port'', ps_label = ''Port'', ps_kind = PT_Int, ps_required = False, ps_secret = False,
         ps_default = Some ''3050''\<rparr>,
        \<lparr>ps_key = ''database'', ps_label = ''Database path'', ps_kind = PT_String, ps_required = True,
         ps_secret = False, ps_default = None\<rparr>],
     dm_auth = [AK_Password],
     dm_caps = \<lparr>cap_sql = True, cap_schemas = True, cap_cancel = False, cap_tls = False, cap_tunnel = True,
       cap_multi_db = False, cap_kv = False, cap_indexes = True, cap_ddl = False\<rparr>\<rparr>"

section \<open>The client library\<close>

datatype fb_value =
    Fb_null
  | Fb_text string
  | Fb_integer int
  | Fb_floating f64
  | Fb_boolean bool
  | Fb_timestamp string
  | Fb_binary string

record fb_config =
  fbc_host :: string
  fbc_port :: u16
  fbc_db :: string
  fbc_user :: string
  fbc_pass :: string

record ('cl, 'w) fb_lib =
  fbl_connect :: "fb_config \<Rightarrow> ('w, 'cl) io"
  fbl_query :: "'cl \<Rightarrow> string \<Rightarrow> ('w, (string \<times> fb_value) list list) io"
  fbl_execute :: "'cl \<Rightarrow> string \<Rightarrow> ('w, unit) io"

section \<open>Connecting\<close>

definition fb_credentials ::
  "('key, 'ident, 'cert, 'pk) seam \<Rightarrow> auth_spec \<Rightarrow> ('s, string \<times> string) io" where
  "fb_credentials sm a =
     (case a of
        Auth_Password user password \<Rightarrow>
          io_bind (seam_secret sm password) (\<lambda>pw. io_ok (if user = [] then ''SYSDBA'' else user, pw))
      | _ \<Rightarrow> io_ok (''SYSDBA'', []))"

definition fb_dial :: "string \<Rightarrow> u16 \<Rightarrow> string \<Rightarrow> string \<times> u16" where
  "fb_dial host p addr =
     (case rsplit_once (CHR '':'') addr of
        Some (h, rport) \<Rightarrow> (h, unwrap_or p (parse_u16 rport))
      | None \<Rightarrow> (host, p))"

definition fb_connect ::
  "('key, 'ident, 'cert, 'pk) seam \<Rightarrow> ('cl, 'w) fb_lib \<Rightarrow> conn_spec \<Rightarrow> (net_ctx \<times> 'w, 'cl) io" where
  "fb_connect sm lib spec =
     io_bind (io_lift (param spec ''host'')) (\<lambda>host.
     let p = port spec 3050 in
     io_bind (io_lift (param spec ''database'')) (\<lambda>db.
     io_bind (seam_resolve sm host p) (\<lambda>addr.
     let (rhost, rport) = fb_dial host p addr in
     io_bind (fb_credentials sm (cs_auth spec)) (\<lambda>(user, password).
       io_map_err (\<lambda>e. ''firebird connect failed: '' @ e)
         (on_lib (fbl_connect lib \<lparr>fbc_host = rhost, fbc_port = rport, fbc_db = db, fbc_user = user,
                                   fbc_pass = password\<rparr>))))))"

section \<open>Running a statement\<close>

definition fb_cell :: "(string \<Rightarrow> string) \<Rightarrow> fb_value \<Rightarrow> val" where
  "fb_cell b64 v =
     (case v of
        Fb_null \<Rightarrow> VNull
      | Fb_text t \<Rightarrow> VText t
      | Fb_integer i \<Rightarrow> VInt i
      | Fb_floating f \<Rightarrow> VFloat f
      | Fb_boolean b \<Rightarrow> VBool b
      | Fb_timestamp ts \<Rightarrow> VTimestamp ts
      | Fb_binary b \<Rightarrow> bytes_cell b64 b)"

definition fb_collect_row ::
  "(string \<Rightarrow> string) \<Rightarrow> column list \<times> row list \<Rightarrow> (string \<times> fb_value) list \<Rightarrow> column list \<times> row list" where
  "fb_collect_row b64 = (\<lambda>(columns, out) cols.
     (if columns = [] then map (\<lambda>(n, v). \<lparr>col_name = n, col_type = []\<rparr>) cols else columns,
      out @ [map (\<lambda>(n, v). fb_cell b64 v) cols]))"

text \<open>The cursor first; when it fails, the same text is executed, and the cursor's error is the one reported.\<close>

definition fb_run ::
  "(string \<Rightarrow> string) \<Rightarrow> ('cl, 'w) fb_lib \<Rightarrow> 'cl \<Rightarrow> string \<Rightarrow> ('w, column list \<times> row list) io" where
  "fb_run b64 lib cl sql =
     io_match (fbl_query lib cl sql)
       (\<lambda>qe. io_bind (io_map_err (\<lambda>_. qe) (fbl_execute lib cl sql)) (\<lambda>_. io_ok ([], [])))
       (\<lambda>rows. io_ok (foldl (fb_collect_row b64) ([], []) rows))"

definition fb_execute ::
  "(string \<Rightarrow> string) \<Rightarrow> ('cl, 'w) fb_lib \<Rightarrow> 'cl \<Rightarrow> string \<Rightarrow> ('w, bstream) io" where
  "fb_execute b64 lib cl stmt =
     io_bind (fb_run b64 lib cl stmt) (\<lambda>(columns, rows). io_ok (buffered_new columns rows None))"

section \<open>The catalog\<close>

definition fb_databases :: "('w, string list) io" where
  "fb_databases = io_ok [''main'']"

definition fb_switch_database :: "string \<Rightarrow> ('w, unit) io" where
  "fb_switch_database d = io_err ''Firebird has a single database per connection''"

definition fb_object :: "row \<Rightarrow> node" where
  "fb_object r =
     Node (text_at r 0)
       (case nth_opt r 1 of Some VNull \<Rightarrow> ''table'' | None \<Rightarrow> ''table'' | _ \<Rightarrow> ''view'') (Some ''main'') []"

definition fb_structure ::
  "(string \<Rightarrow> string) \<Rightarrow> ('cl, 'w) fb_lib \<Rightarrow> 'cl \<Rightarrow> ('w, node list) io" where
  "fb_structure b64 lib cl =
     io_bind (fb_run b64 lib cl
       (''SELECT TRIM(RDB$RELATION_NAME), RDB$VIEW_BLR FROM RDB$RELATIONS ''
        @ ''WHERE RDB$SYSTEM_FLAG = 0 ORDER BY RDB$RELATION_NAME''))
       (\<lambda>(_, rows). io_ok [Node ''main'' ''schema'' None (map fb_object rows)])"

definition fb_columns_sql :: "(string \<Rightarrow> string) \<Rightarrow> obj_ref \<Rightarrow> string" where
  "fb_columns_sql up ob =
     (let rel = esc_sq (up (ob_name ob))
      in ''SELECT TRIM(RF.RDB$FIELD_NAME), CASE WHEN PK.F IS NULL THEN 0 ELSE 1 END ''
         @ ''FROM RDB$RELATION_FIELDS RF LEFT JOIN ( SELECT TRIM(S.RDB$FIELD_NAME) AS F ''
         @ ''FROM RDB$RELATION_CONSTRAINTS RC JOIN RDB$INDEX_SEGMENTS S ON S.RDB$INDEX_NAME = RC.RDB$INDEX_NAME ''
         @ ''WHERE TRIM(RC.RDB$RELATION_NAME) = '' @ sq @ rel @ sq @ '' AND RC.RDB$CONSTRAINT_TYPE = ''
         @ quoted ''PRIMARY KEY'' @ '' ) PK ON PK.F = TRIM(RF.RDB$FIELD_NAME) ''
         @ ''WHERE TRIM(RF.RDB$RELATION_NAME) = '' @ sq @ rel @ sq @ '' ORDER BY RF.RDB$FIELD_POSITION'')"

definition fb_column :: "row \<Rightarrow> table_column" where
  "fb_column r =
     \<lparr>tc_name = (case first_opt r of Some (VText s) \<Rightarrow> trim s | _ \<Rightarrow> []), tc_type = [],
      tc_primary = (case nth_opt r 1 of
         Some (VInt i) \<Rightarrow> i \<noteq> 0 | Some (VText s) \<Rightarrow> trim s = ''1'' | _ \<Rightarrow> False)\<rparr>"

definition fb_columns ::
  "(string \<Rightarrow> string) \<Rightarrow> (string \<Rightarrow> string) \<Rightarrow> ('cl, 'w) fb_lib \<Rightarrow> 'cl \<Rightarrow> obj_ref
     \<Rightarrow> ('w, table_column list) io" where
  "fb_columns up b64 lib cl ob =
     io_bind (fb_run b64 lib cl (fb_columns_sql up ob)) (\<lambda>(_, rows). io_ok (map fb_column rows))"

definition fb_indexes_sql :: "obj_ref \<Rightarrow> string" where
  "fb_indexes_sql ob =
     ''SELECT TRIM(i.RDB$INDEX_NAME), COALESCE(i.RDB$UNIQUE_FLAG, 0), CASE WHEN rc.RDB$CONSTRAINT_TYPE = ''
     @ quoted ''PRIMARY KEY'' @ '' THEN 1 ELSE 0 END, TRIM(s.RDB$FIELD_NAME) FROM RDB$INDICES i ''
     @ ''LEFT JOIN RDB$INDEX_SEGMENTS s ON s.RDB$INDEX_NAME = i.RDB$INDEX_NAME ''
     @ ''LEFT JOIN RDB$RELATION_CONSTRAINTS rc ON rc.RDB$INDEX_NAME = i.RDB$INDEX_NAME ''
     @ ''WHERE TRIM(i.RDB$RELATION_NAME) = '' @ sq @ esc_sq (ob_name ob) @ sq
     @ '' ORDER BY i.RDB$INDEX_NAME, s.RDB$FIELD_POSITION''"

definition fb_indexes ::
  "(string \<Rightarrow> string) \<Rightarrow> ('cl, 'w) fb_lib \<Rightarrow> 'cl \<Rightarrow> obj_ref \<Rightarrow> ('w, index list) io" where
  "fb_indexes b64 lib cl ob =
     io_bind (fb_run b64 lib cl (fb_indexes_sql ob)) (\<lambda>(_, rows). io_ok (group_indexes rows))"

definition fb_close :: "('w, unit) io" where
  "fb_close = io_ok ()"

section \<open>Facts\<close>

text \<open>The TLS settings make no difference.\<close>

lemma fb_connect_tls: "fb_connect sm lib (spec\<lparr>cs_tls := t\<rparr>) = fb_connect sm lib spec"
proof -
  have "param (spec\<lparr>cs_tls := t\<rparr>) = param spec" "port (spec\<lparr>cs_tls := t\<rparr>) = port spec"
    by (simp_all add: param_def port_def param_opt_def fun_eq_iff)
  then show ?thesis by (simp add: fb_connect_def)
qed

lemma fb_connect_dial:
  "fb_connect sm lib spec (net, w) = (Inr cl, (net', w')) \<Longrightarrow>
   \<exists>cfg. fbl_connect lib cfg w = (Inr cl, w')"
  by (auto simp: fb_connect_def fb_credentials_def seam_resolve_def seam_secret_def Let_def case_prod_beta
      result_iff split: auth_spec.splits)

text \<open>A statement the cursor refuses is handed to the server once more.\<close>

lemma fb_run_twice:
  "fbl_query lib cl sql w = (Inl qe, w1) \<Longrightarrow>
   fb_run b64 lib cl sql w =
     (case fbl_execute lib cl sql w1 of (Inl _, w2) \<Rightarrow> (Inl qe, w2) | (Inr _, w2) \<Rightarrow> (Inr ([], []), w2))"
  by (simp add: fb_run_def io_simps split: prod.splits sum.splits)

end
