(* ===== verification/Snowflake.thy ===== *)
theory Snowflake
  imports Driver_Common
begin

text \<open>
  \<open>drivers/snowflake.rs\<close>, over the HTTP statement API.  The HTTP client with its decoder of a response and
  the token generator of the snowflake-jwt crate are the record \<open>sf_lib\<close>, the Unicode upper case is an
  argument; a connection is the data sent along with every statement.
\<close>

section \<open>Metadata\<close>

definition sf_param :: "string \<Rightarrow> string \<Rightarrow> bool \<Rightarrow> string option \<Rightarrow> param_spec" where
  "sf_param k l req dflt =
     \<lparr>ps_key = k, ps_label = l, ps_kind = PT_String, ps_required = req, ps_secret = False, ps_default = dflt\<rparr>"

definition SNOWFLAKE_META :: driver_meta where
  "SNOWFLAKE_META = \<lparr>dm_kind = ''snowflake'', dm_display = ''Snowflake'', dm_default_port = None,
     dm_params =
       [sf_param ''account'' ''Account identifier'' True None, sf_param ''user'' ''User'' True None,
        sf_param ''database'' ''Database'' False None, sf_param ''schema'' ''Schema'' False (Some ''PUBLIC''),
        sf_param ''warehouse'' ''Warehouse'' False None, sf_param ''role'' ''Role'' False None],
     dm_auth = [AK_ClientCert, AK_Provider],
     dm_caps = \<lparr>cap_sql = True, cap_schemas = True, cap_cancel = False, cap_tls = True, cap_tunnel = False,
       cap_multi_db = True, cap_kv = False, cap_indexes = False, cap_ddl = True\<rparr>\<rparr>"

section \<open>The HTTP library\<close>

record sf_request =
  sfq_url :: string
  sfq_bearer :: string
  sfq_headers :: "(string \<times> string) list"
  sfq_body :: json

text \<open>The relevant slice of a response; a column is its name and type.\<close>

record sf_response =
  sfr_columns :: "(string \<times> string) list option"
  sfr_data :: "string option list list option"
  sfr_message :: "string option"

text \<open>An answer: whether its status is a success, the status as text, and the decoded body.\<close>

record 'w sf_lib =
  sf_send :: "sf_request \<Rightarrow> ('w, bool \<times> string \<times> sf_response result) io"
  sf_jwt :: "string \<Rightarrow> string \<Rightarrow> string result"

section \<open>Running a statement\<close>

record sf_conn =
  sf_base :: string
  sf_token :: string
  sf_token_type :: string
  sf_database :: "string option"
  sf_schema :: "string option"
  sf_warehouse :: "string option"
  sf_role :: "string option"

definition sf_put :: "string \<Rightarrow> string option \<Rightarrow> json \<Rightarrow> json" where
  "sf_put k x body = (case x of Some s \<Rightarrow> json_set k (JStr s) body | None \<Rightarrow> body)"

definition sf_body :: "sf_conn \<Rightarrow> string \<Rightarrow> json" where
  "sf_body c sql =
     sf_put ''role'' (sf_role c) (sf_put ''warehouse'' (sf_warehouse c)
       (sf_put ''schema'' (sf_schema c) (sf_put ''database'' (sf_database c)
         (JObj [(''statement'', JStr sql), (''timeout'', JInt 60)]))))"

definition sf_request_for :: "sf_conn \<Rightarrow> string \<Rightarrow> sf_request" where
  "sf_request_for c sql =
     \<lparr>sfq_url = sf_base c @ ''/api/v2/statements'', sfq_bearer = sf_token c,
      sfq_headers = [(''X-Snowflake-Authorization-Token-Type'', sf_token_type c), (''Accept'', ''application/json'')],
      sfq_body = sf_body c sql\<rparr>"

definition sf_cell :: "string option \<Rightarrow> val" where
  "sf_cell cell = (case cell of Some s \<Rightarrow> VText s | None \<Rightarrow> VNull)"

definition sf_result :: "bool \<Rightarrow> string \<Rightarrow> sf_response \<Rightarrow> (column list \<times> row list) result" where
  "sf_result success status r =
     (if \<not> success then Inl (unwrap_or (''snowflake error '' @ status) (sfr_message r))
      else Inr (map (\<lambda>(n, t). \<lparr>col_name = n, col_type = t\<rparr>) (unwrap_or [] (sfr_columns r)),
                map (map sf_cell) (unwrap_or [] (sfr_data r))))"

definition sf_query :: "'w sf_lib \<Rightarrow> string \<Rightarrow> (sf_conn \<times> 'w, column list \<times> row list) io" where
  "sf_query lib sql = (\<lambda>(c, w).
     case sf_send lib (sf_request_for c sql) w of
       (Inl e, w') \<Rightarrow> (Inl (''snowflake request failed: '' @ e), (c, w'))
     | (Inr (success, status, body), w') \<Rightarrow>
         (bind_result (map_err (\<lambda>e. ''bad snowflake response: '' @ e) body) (sf_result success status), (c, w')))"

definition sf_string_column :: "'w sf_lib \<Rightarrow> string \<Rightarrow> (sf_conn \<times> 'w, string list) io" where
  "sf_string_column lib sql = io_bind (sf_query lib sql) (\<lambda>(_, rows). io_ok (first_texts rows))"

section \<open>Connecting\<close>

text \<open>\<open>read_to_string\<close>: the bytes of a file, if they are UTF-8.\<close>

definition read_to_string :: "('cert, 'pk) tls_env \<Rightarrow> string \<Rightarrow> string result" where
  "read_to_string te path =
     bind_result (te_read te path) (\<lambda>b.
       if utf8_valid b then Inr b else Inl ''stream did not contain valid UTF-8'')"

text \<open>The bearer token and its type.\<close>

definition sf_token_for ::
  "(string \<Rightarrow> string) \<Rightarrow> ('key, 'ident, 'cert, 'pk) seam \<Rightarrow> 'w sf_lib \<Rightarrow> string \<Rightarrow> string \<Rightarrow> auth_spec
     \<Rightarrow> (string \<times> string) result" where
  "sf_token_for up sm lib account user a =
     (case a of
        Auth_ClientCert _ key _ _ \<Rightarrow>
          bind_result (map_err (\<lambda>e. ''snowflake: cannot read key file '' @ quoted key @ '': '' @ e)
              (read_to_string (sm_tls sm) key)) (\<lambda>pem.
          bind_result (map_err (\<lambda>e. ''snowflake: JWT generation failed: '' @ e)
              (sf_jwt lib pem (up account @ ''.'' @ up user))) (\<lambda>jwt.
            Inr (jwt, ''KEYPAIR_JWT'')))
      | Auth_Provider _ token _ \<Rightarrow>
          bind_result (secret_resolve (sm_world sm) token) (\<lambda>t. Inr (t, ''OAUTH''))
      | _ \<Rightarrow> Inl ''Snowflake requires key-pair (JWT) or OAuth auth'')"

definition sf_conn_for :: "conn_spec \<Rightarrow> string \<Rightarrow> string \<Rightarrow> string \<Rightarrow> sf_conn" where
  "sf_conn_for spec account token ty =
     \<lparr>sf_base = ''https://'' @ account @ ''.snowflakecomputing.com'', sf_token = token, sf_token_type = ty,
      sf_database = param_opt spec ''database'', sf_schema = param_opt spec ''schema'',
      sf_warehouse = param_opt spec ''warehouse'', sf_role = param_opt spec ''role''\<rparr>"

text \<open>The connection is probed once; the network context is not used.\<close>

definition sf_probe :: "'w sf_lib \<Rightarrow> sf_conn \<Rightarrow> ('w, sf_conn) io" where
  "sf_probe lib conn = (\<lambda>w.
     case sf_query lib ''SELECT 1'' (conn, w) of
       (Inl e, (_, w')) \<Rightarrow> (Inl e, w')
     | (Inr _, (_, w')) \<Rightarrow> (Inr conn, w'))"

definition sf_connect ::
  "(string \<Rightarrow> string) \<Rightarrow> ('key, 'ident, 'cert, 'pk) seam \<Rightarrow> 'w sf_lib \<Rightarrow> conn_spec
     \<Rightarrow> (net_ctx \<times> 'w, sf_conn) io" where
  "sf_connect up sm lib spec =
     io_bind (io_lift (param spec ''account'')) (\<lambda>account.
     io_bind (io_lift (param spec ''user'')) (\<lambda>user.
     io_bind (io_lift (sf_token_for up sm lib account user (cs_auth spec))) (\<lambda>(token, ty).
       on_lib (sf_probe lib (sf_conn_for spec account token ty)))))"

section \<open>The operations of a connection\<close>

definition sf_databases :: "'w sf_lib \<Rightarrow> (sf_conn \<times> 'w, string list) io" where
  "sf_databases lib =
     sf_string_column lib ''SELECT DATABASE_NAME FROM INFORMATION_SCHEMA.DATABASES ORDER BY DATABASE_NAME''"

definition sf_switch_database :: "string \<Rightarrow> (sf_conn \<times> 'w, unit) io" where
  "sf_switch_database db = (\<lambda>(c, w). (Inr (), (c\<lparr>sf_database := Some db\<rparr>, w)))"

definition sf_structure :: "(string \<Rightarrow> string) \<Rightarrow> 'w sf_lib \<Rightarrow> (sf_conn \<times> 'w, node list) io" where
  "sf_structure up lib =
     io_bind (sf_query lib
       (''SELECT TABLE_SCHEMA, TABLE_NAME, TABLE_TYPE FROM INFORMATION_SCHEMA.TABLES ''
        @ ''ORDER BY TABLE_SCHEMA, TABLE_NAME''))
       (\<lambda>(_, rows). io_ok (schema_tree (view_kind up) rows))"

definition sf_columns_sql :: "(string \<Rightarrow> string) \<Rightarrow> obj_ref \<Rightarrow> string" where
  "sf_columns_sql up ob =
     ''SELECT COLUMN_NAME, DATA_TYPE FROM INFORMATION_SCHEMA.COLUMNS WHERE TABLE_NAME = ''
     @ sq @ esc_sq (up (ob_name ob)) @ sq @ '' ''
     @ (case ob_schema ob of Some s \<Rightarrow> ''AND TABLE_SCHEMA = '' @ sq @ esc_sq s @ sq | None \<Rightarrow> [])
     @ '' ORDER BY ORDINAL_POSITION''"

definition sf_qname :: "obj_ref \<Rightarrow> string" where
  "sf_qname ob =
     (case ob_schema ob of
        Some s \<Rightarrow> esc_sq s @ ''.'' @ esc_sq (ob_name ob)
      | None \<Rightarrow> esc_sq (ob_name ob))"

definition sf_keys_sql :: "obj_ref \<Rightarrow> string" where
  "sf_keys_sql ob = ''SHOW PRIMARY KEYS IN TABLE '' @ sf_qname ob"

text \<open>The key columns, by the name of the field that holds them.\<close>

definition position :: "('a \<Rightarrow> bool) \<Rightarrow> 'a list \<Rightarrow> nat option" where
  "position p xs = (let k = length (takeWhile (\<lambda>x. \<not> p x) xs) in if k < length xs then Some k else None)"

definition sf_keys :: "column list \<Rightarrow> row list \<Rightarrow> string list" where
  "sf_keys cols prows =
     (case position (\<lambda>c. eq_ignore_ascii_case (col_name c) ''column_name'') cols of
        Some i \<Rightarrow> filter_map (\<lambda>r. map_option to_ascii_uppercase (text_of (nth_opt r i))) prows
      | None \<Rightarrow> [])"

definition sf_column :: "string list \<Rightarrow> row \<Rightarrow> table_column" where
  "sf_column pk r =
     \<lparr>tc_name = text_at r 0, tc_type = text_at r 1,
      tc_primary = (\<exists>k\<in>set pk. eq_ignore_ascii_case k (text_at r 0))\<rparr>"

definition sf_columns ::
  "(string \<Rightarrow> string) \<Rightarrow> 'w sf_lib \<Rightarrow> obj_ref \<Rightarrow> (sf_conn \<times> 'w, table_column list) io" where
  "sf_columns up lib ob =
     io_bind (sf_query lib (sf_columns_sql up ob)) (\<lambda>(_, rows).
     io_bind (io_try (sf_query lib (sf_keys_sql ob))) (\<lambda>r.
       io_ok (map (sf_column (case r of Inr (cols, prows) \<Rightarrow> sf_keys cols prows | Inl _ \<Rightarrow> [])) rows)))"

definition sf_ddl_sql :: "obj_ref \<Rightarrow> string" where
  "sf_ddl_sql ob = ''SELECT GET_DDL('' @ quoted ''TABLE'' @ '', '' @ sq @ sf_qname ob @ sq @ '')''"

definition sf_ddl :: "'w sf_lib \<Rightarrow> obj_ref \<Rightarrow> (sf_conn \<times> 'w, string option) io" where
  "sf_ddl lib ob =
     io_bind (sf_query lib (sf_ddl_sql ob))
       (\<lambda>(_, rows). io_ok (text_of (Option.bind (first_opt rows) first_opt)))"

definition sf_execute :: "'w sf_lib \<Rightarrow> string \<Rightarrow> (sf_conn \<times> 'w, bstream) io" where
  "sf_execute lib stmt =
     io_bind (sf_query lib stmt) (\<lambda>(columns, rows). io_ok (buffered_new columns rows None))"

definition sf_encrypted :: "sf_conn \<Rightarrow> bool" where
  "sf_encrypted _ = True"

definition sf_close :: "(sf_conn \<times> 'w, unit) io" where
  "sf_close = io_ok ()"

section \<open>Facts\<close>

text \<open>Every statement of a connection goes over https to the account's own host.\<close>

lemma sf_probe_Inr: "sf_probe lib conn w = (Inr c, w') \<Longrightarrow> c = conn"
  by (auto simp: sf_probe_def split: prod.splits sum.splits)

lemma sf_connect_Inr:
  assumes "sf_connect up sm lib spec s = (Inr c, s')"
  obtains account token ty where "param spec ''account'' = Inr account"
    "c = sf_conn_for spec account token ty" "ty = ''KEYPAIR_JWT'' \<or> ty = ''OAUTH''" "fst s' = fst s"
proof -
  from assms obtain account user token ty w w' where *:
    "param spec ''account'' = Inr account"
    "sf_token_for up sm lib account user (cs_auth spec) = Inr (token, ty)"
    "sf_probe lib (sf_conn_for spec account token ty) w = (Inr c, w')" "fst s' = fst s"
    by (auto simp: sf_connect_def result_iff)
  have ty: "ty = ''KEYPAIR_JWT'' \<or> ty = ''OAUTH''"
    using *(2) by (auto simp: sf_token_for_def result_iff split: auth_spec.splits)
  show thesis by (rule that [OF *(1) sf_probe_Inr [OF *(3)] ty *(4)])
qed

text \<open>The settings travel with every statement.\<close>

definition is_obj :: "json \<Rightarrow> bool" where
  "is_obj j = (case j of JObj _ \<Rightarrow> True | _ \<Rightarrow> False)"

lemma is_obj_put [simp]: "is_obj (JObj kvs)" "is_obj b \<Longrightarrow> is_obj (sf_put k x b)"
  by (auto simp: is_obj_def sf_put_def json_set_def split: option.split json.splits)

lemma get_put [simp]:
  "is_obj b \<Longrightarrow> json_get k (sf_put k' x b) = (if k = k' \<and> x \<noteq> None then map_option JStr x else json_get k b)"
  by (auto simp: is_obj_def sf_put_def json_set_def split: option.split json.splits)

lemma sf_body_get:
  "json_get ''statement'' (sf_body c sql) = Some (JStr sql)"
  "json_get ''database'' (sf_body c sql) = map_option JStr (sf_database c)"
  "json_get ''schema'' (sf_body c sql) = map_option JStr (sf_schema c)"
  "json_get ''warehouse'' (sf_body c sql) = map_option JStr (sf_warehouse c)"
  "json_get ''role'' (sf_body c sql) = map_option JStr (sf_role c)"
  by (simp_all add: sf_body_def)

text \<open>A name without quotes goes into the key query as it is.\<close>

lemma sf_qname_plain:
  assumes "CHR 0x27 \<notin> set (ob_name ob)" "ob_schema ob = None"
  shows "sf_keys_sql ob = ''SHOW PRIMARY KEYS IN TABLE '' @ ob_name ob"
  using assms by (simp add: sf_keys_sql_def sf_qname_def esc_sq_def dbl_def replace_char_id)

end
