(* ===== verification/Cql.thy ===== *)
theory Cql
  imports Driver_Common
begin

text \<open>
  \<open>drivers/cql.rs\<close>, serving \<open>cassandra\<close> and \<open>scylla\<close>.  The scylla crate is the record \<open>cq_lib\<close>.  The driver has
  no TLS of its own: a spec that requires encryption is refused unless it also has a tunnel.
\<close>

section \<open>Metadata\<close>

definition cql_params :: "param_spec list" where
  "cql_params =
    [\<lparr>ps_key = ''host'', ps_label = ''Host'', ps_kind = PT_String, ps_required = True, ps_secret = False,
      ps_default = Some ''127.0.0.1''\<rparr>,
     \<lparr>ps_key = ''port'', ps_label = ''Port'', ps_kind = PT_Int, ps_required = False, ps_secret = False,
      ps_default = Some ''9042''\<rparr>,
     \<lparr>ps_key = ''keyspace'', ps_label = ''Keyspace'', ps_kind = PT_String, ps_required = False,
      ps_secret = False, ps_default = None\<rparr>]"

definition cql_caps :: caps where
  "cql_caps = \<lparr>cap_sql = True, cap_schemas = True, cap_cancel = False, cap_tls = True, cap_tunnel = True,
     cap_multi_db = True, cap_kv = False, cap_indexes = True, cap_ddl = False\<rparr>"

definition CASSANDRA_META :: driver_meta where
  "CASSANDRA_META = \<lparr>dm_kind = ''cassandra'', dm_display = ''Cassandra'', dm_default_port = Some 9042,
     dm_params = cql_params, dm_auth = [AK_None, AK_Password], dm_caps = cql_caps\<rparr>"

definition SCYLLA_META :: driver_meta where
  "SCYLLA_META = \<lparr>dm_kind = ''scylla'', dm_display = ''ScyllaDB'', dm_default_port = Some 9042,
     dm_params = cql_params, dm_auth = [AK_None, AK_Password], dm_caps = cql_caps\<rparr>"

section \<open>The client library\<close>

text \<open>A value the code does not name is its CQL literal.\<close>

datatype cql_value =
    C_ascii string
  | C_text string
  | C_boolean bool
  | C_tiny int
  | C_small int
  | C_int int
  | C_big int
  | C_float f32
  | C_double f64
  | C_blob string
  | C_other string

record cql_builder =
  cqb_node :: string
  cqb_user :: "(string \<times> string) option"
  cqb_keyspace :: "string option"

text \<open>The rows of a result: its columns, and a decoding that may fail as a whole or row by row.\<close>

record cql_rows =
  cqr_columns :: "(string \<times> string) list"
  cqr_rows :: "cql_value option list result list result"

record ('s, 'w) cq_lib =
  cql_build :: "cql_builder \<Rightarrow> ('w, 's) io"
  cql_query :: "'s \<Rightarrow> string \<Rightarrow> ('w, cql_rows option) io"
  cql_use :: "'s \<Rightarrow> string \<Rightarrow> ('w, unit) io"

section \<open>Connecting\<close>

record 's cql_conn =
  cq_session :: 's
  cq_keyspace :: "string option"

definition cql_credentials ::
  "('key, 'ident, 'cert, 'pk) seam \<Rightarrow> auth_spec \<Rightarrow> ('s, (string \<times> string) option) io" where
  "cql_credentials sm a =
     (case a of
        Auth_Password user password \<Rightarrow> io_bind (seam_secret sm password) (\<lambda>pw. io_ok (Some (user, pw)))
      | _ \<Rightarrow> io_ok None)"

definition cql_refused :: string where
  "cql_refused =
     ''CQL native TLS is not implemented in this build; use an SSH tunnel for encryption, ''
     @ ''or set tls.mode=disable to connect in the clear explicitly''"

definition cql_connect ::
  "('key, 'ident, 'cert, 'pk) seam \<Rightarrow> ('s, 'w) cq_lib \<Rightarrow> conn_spec \<Rightarrow> (net_ctx \<times> 'w, 's cql_conn) io" where
  "cql_connect sm lib spec = (\<lambda>(net, w).
     if tls_required (cs_tls spec) \<and> \<not> tunneled net then (Inl cql_refused, (net, w))
     else
       io_bind (io_lift (param spec ''host'')) (\<lambda>host.
       io_bind (seam_resolve sm host (port spec 9042)) (\<lambda>addr.
       io_bind (cql_credentials sm (cs_auth spec)) (\<lambda>cred.
       io_bind (io_map_err (\<lambda>e. ''cql connect failed: '' @ e)
           (on_lib (cql_build lib \<lparr>cqb_node = addr, cqb_user = cred, cqb_keyspace = param_opt spec ''keyspace''\<rparr>)))
         (\<lambda>session. io_ok \<lparr>cq_session = session, cq_keyspace = param_opt spec ''keyspace''\<rparr>)))) (net, w))"

section \<open>Running a statement\<close>

definition cql_cell :: "(string \<Rightarrow> string) \<Rightarrow> cql_value \<Rightarrow> val" where
  "cql_cell b64 v =
     (case v of
        C_ascii s \<Rightarrow> VText s
      | C_text s \<Rightarrow> VText s
      | C_boolean b \<Rightarrow> VBool b
      | C_tiny i \<Rightarrow> VInt i
      | C_small i \<Rightarrow> VInt i
      | C_int i \<Rightarrow> VInt i
      | C_big i \<Rightarrow> VInt i
      | C_float f \<Rightarrow> VFloat (f64_of_f32 f)
      | C_double f \<Rightarrow> VFloat f
      | C_blob b \<Rightarrow> bytes_cell b64 b
      | C_other lit \<Rightarrow> VText lit)"

fun cql_collect :: "(string \<Rightarrow> string) \<Rightarrow> row list \<Rightarrow> cql_value option list result list \<Rightarrow> row list result" where
  "cql_collect b64 out [] = Inr out"
| "cql_collect b64 out (Inl e # rs) = Inl e"
| "cql_collect b64 out (Inr r # rs) =
     cql_collect b64 (out @ [map (\<lambda>c. case c of Some v \<Rightarrow> cql_cell b64 v | None \<Rightarrow> VNull) r]) rs"

definition cql_run ::
  "(string \<Rightarrow> string) \<Rightarrow> ('s, 'w) cq_lib \<Rightarrow> string \<Rightarrow> ('s cql_conn \<times> 'w, column list \<times> row list) io" where
  "cql_run b64 lib cql = (\<lambda>(c, w).
     case cql_query lib (cq_session c) cql w of
       (Inl e, w') \<Rightarrow> (Inl e, (c, w'))
     | (Inr None, w') \<Rightarrow> (Inr ([], []), (c, w'))
     | (Inr (Some r), w') \<Rightarrow>
         (bind_result (bind_result (cqr_rows r) (cql_collect b64 [])) (\<lambda>out.
            Inr (map (\<lambda>(n, t). \<lparr>col_name = n, col_type = t\<rparr>) (cqr_columns r), out)), (c, w')))"

definition cql_execute ::
  "(string \<Rightarrow> string) \<Rightarrow> ('s, 'w) cq_lib \<Rightarrow> string \<Rightarrow> ('s cql_conn \<times> 'w, bstream) io" where
  "cql_execute b64 lib stmt =
     io_bind (cql_run b64 lib stmt) (\<lambda>(columns, rows). io_ok (buffered_new columns rows None))"

section \<open>The catalog\<close>

definition cql_databases ::
  "(string \<Rightarrow> string) \<Rightarrow> ('s, 'w) cq_lib \<Rightarrow> ('s cql_conn \<times> 'w, string list) io" where
  "cql_databases b64 lib =
     io_bind (cql_run b64 lib ''SELECT keyspace_name FROM system_schema.keyspaces'')
       (\<lambda>(_, rows). io_ok (first_texts rows))"

definition cql_switch_database :: "('s, 'w) cq_lib \<Rightarrow> string \<Rightarrow> ('s cql_conn \<times> 'w, unit) io" where
  "cql_switch_database lib db = (\<lambda>(c, w).
     case cql_use lib (cq_session c) db w of
       (Inl e, w') \<Rightarrow> (Inl e, (c, w'))
     | (Inr _, w') \<Rightarrow> (Inr (), (c\<lparr>cq_keyspace := Some db\<rparr>, w')))"

definition cql_structure ::
  "(string \<Rightarrow> string) \<Rightarrow> ('s, 'w) cq_lib \<Rightarrow> ('s cql_conn \<times> 'w, node list) io" where
  "cql_structure b64 lib =
     io_bind (cql_run b64 lib
       (''SELECT keyspace_name, table_name FROM system_schema.tables WHERE keyspace_name NOT IN (''
        @ quoted ''system'' @ '','' @ quoted ''system_schema'' @ '','' @ quoted ''system_auth'' @ '',''
        @ quoted ''system_distributed'' @ '','' @ quoted ''system_traces'' @ '') ALLOW FILTERING''))
       (\<lambda>(_, rows). io_ok (schema_tree (\<lambda>_. ''table'') rows))"

definition cql_columns_sql :: "string \<Rightarrow> string \<Rightarrow> string" where
  "cql_columns_sql ks tbl =
     ''SELECT column_name, type, kind FROM system_schema.columns WHERE keyspace_name = ''
     @ sq @ esc_sq ks @ sq @ '' AND table_name = '' @ sq @ esc_sq tbl @ sq"

definition cql_primary :: "row \<Rightarrow> bool" where
  "cql_primary r = (case nth_opt r 2 of Some (VText k) \<Rightarrow> k = ''partition_key'' \<or> k = ''clustering'' | _ \<Rightarrow> False)"

definition cql_columns ::
  "(string \<Rightarrow> string) \<Rightarrow> ('s, 'w) cq_lib \<Rightarrow> obj_ref \<Rightarrow> ('s cql_conn \<times> 'w, table_column list) io" where
  "cql_columns b64 lib ob = (\<lambda>(c, w).
     let ks = (case ob_schema ob of Some s \<Rightarrow> s | None \<Rightarrow> unwrap_or [] (cq_keyspace c)) in
     io_bind (cql_run b64 lib (cql_columns_sql ks (ob_name ob)))
       (\<lambda>(_, rows). io_ok (table_columns 0 1 cql_primary rows)) (c, w))"

definition cql_target :: "val option \<Rightarrow> string option" where
  "cql_target v =
     Option.bind (text_of v) (\<lambda>s.
     Option.bind (split_once (sq @ ''target'' @ sq @ '':'' @ sq) s) (\<lambda>(_, rest).
       map_option fst (split_once sq rest)))"

definition cql_index :: "row \<Rightarrow> index option" where
  "cql_index r =
     map_option (\<lambda>name.
       \<lparr>ix_name = name,
        ix_columns = (case filter_opt (\<lambda>t. t \<noteq> []) (cql_target (nth_opt r 1)) of Some t \<Rightarrow> [t] | None \<Rightarrow> []),
        ix_unique = False, ix_primary = False\<rparr>) (text_of (first_opt r))"

definition cql_indexes_sql :: "string \<Rightarrow> string \<Rightarrow> string" where
  "cql_indexes_sql ks tbl =
     ''SELECT index_name, options FROM system_schema.indexes WHERE keyspace_name = ''
     @ sq @ esc_sq ks @ sq @ '' AND table_name = '' @ sq @ esc_sq tbl @ sq"

definition cql_indexes ::
  "(string \<Rightarrow> string) \<Rightarrow> ('s, 'w) cq_lib \<Rightarrow> obj_ref \<Rightarrow> ('s cql_conn \<times> 'w, index list) io" where
  "cql_indexes b64 lib ob =
     (case ob_schema ob of
        None \<Rightarrow> io_ok []
      | Some sc \<Rightarrow>
          io_bind (cql_run b64 lib (cql_indexes_sql sc (ob_name ob)))
            (\<lambda>(_, rows). io_ok (filter_map cql_index rows)))"

definition cql_close :: "('s cql_conn \<times> 'w, unit) io" where
  "cql_close = io_ok ()"

section \<open>Facts\<close>

text \<open>A connection that must be encrypted dials the address of the tunnel.\<close>

lemma cql_required_tunnel:
  assumes "cql_connect sm lib spec (net, w) = (Inr c, (net', w'))" "tls_required (cs_tls spec)"
  shows "tunneled net \<and>
     (\<exists>host addr cred w1. net_resolve (sm_ssh sm) (secret_resolve (sm_world sm)) host (port spec 9042) net = (Inr addr, net')
        \<and> cql_build lib \<lparr>cqb_node = addr, cqb_user = cred, cqb_keyspace = param_opt spec ''keyspace''\<rparr> w1
            = (Inr (cq_session c), w'))"
  using assms
  by (force simp: cql_connect_def seam_resolve_def cql_credentials_def seam_secret_def result_iff
      split: if_splits auth_spec.splits)

text \<open>The target of an index, out of the map literal of its options.\<close>

lemma cql_target_literal:
  assumes "CHR 0x27 \<notin> set t" "CHR 0x27 \<notin> set pre"
  shows "cql_target (Some (VText (pre @ sq @ ''target'' @ sq @ '':'' @ sq @ t @ sq @ rest))) = Some t"
proof -
  have "split_once (sq @ ''target'' @ sq @ '':'' @ sq) (pre @ (sq @ ''target'' @ sq @ '':'' @ sq) @ t @ sq @ rest)
      = Some (pre, t @ sq @ rest)"
    using assms(2) by (induction pre) (simp_all add: sq_def)
  moreover have "split_once sq (t @ sq @ rest) = Some (t, rest)"
    using split_once_char [OF assms(1)] by (simp add: sq_def)
  ultimately show ?thesis by (simp add: cql_target_def)
qed

end
