(* ===== verification/Sql_Text_More.thy ===== *)
theory Sql_Text_More
  imports Sql_Text Mssql Duckdb Firebird Snowflake Cql
begin

text \<open>
  The composed catalog statements of the other drivers whose servers lex a quoted text as the standard
  does.  Most of them have one shape: some code, the object's name, and a condition on its schema when it
  has one.
  At the end, Snowflake, whose lexer differs.
\<close>

section \<open>The common shape\<close>

definition by_name_tpl :: "string \<Rightarrow> string \<Rightarrow> string \<Rightarrow> (obj_ref \<Rightarrow> string) \<Rightarrow> obj_ref \<Rightarrow> piece list" where
  "by_name_tpl head pred tail g ob =
     [Code head, Name (g ob), Code '' '']
     @ (case ob_schema ob of Some s \<Rightarrow> [Code pred, Name s] | None \<Rightarrow> []) @ [Code tail]"

lemma by_name_quotes:
  assumes "is_code head" "head \<noteq> []" "is_code pred" "pred \<noteq> []" "is_code tail" "tail \<noteq> []"
    and "\<And>ob. f ob = head @ sq @ esc_sq (g ob) @ sq @ '' ''
        @ (case ob_schema ob of Some s \<Rightarrow> pred @ sq @ esc_sq s @ sq | None \<Rightarrow> []) @ tail"
  shows "quotes_exactly f (\<lambda>ob. g ob # schema_list ob)"
  by (rule quotes_exactlyI [where tpl = "by_name_tpl head pred tail g"
        and code = "\<lambda>b. head @ sq @ '' '' @ (if b then [] else pred @ sq) @ tail"])
    (auto simp: assms by_name_tpl_def schema_list_def split: option.splits)

lemma pair_quotes:
  assumes "is_code head" "head \<noteq> []" "is_code mid" "mid \<noteq> []"
    and "\<And>ob. f ob = head @ sq @ esc_sq (g1 ob) @ sq @ mid @ sq @ esc_sq (g2 ob) @ sq"
  shows "quotes_exactly f (\<lambda>ob. [g1 ob, g2 ob])"
  by (rule quotes_exactlyI [where tpl = "\<lambda>ob. [Code head, Name (g1 ob), Code mid, Name (g2 ob)]"
        and code = "\<lambda>_. head @ sq @ mid @ sq"]) (simp_all add: assms)

section \<open>The drivers' statements\<close>

lemma ms_columns_quotes: "quotes_exactly ms_columns_sql (\<lambda>ob. ob_name ob # schema_list ob)"
  by (rule by_name_quotes [where pred = "''AND s.name = ''" and tail = "'' ORDER BY c.column_id''"
        and head = "''SELECT c.name, TYPE_NAME(c.user_type_id), CASE WHEN pk.column_id IS NULL THEN 0 ELSE 1 END ''
          @ ''FROM sys.columns c JOIN sys.tables t ON t.object_id = c.object_id ''
          @ ''JOIN sys.schemas s ON s.schema_id = t.schema_id LEFT JOIN ( ''
          @ ''SELECT ic.object_id, ic.column_id FROM sys.index_columns ic ''
          @ ''JOIN sys.indexes i ON i.object_id = ic.object_id AND i.index_id = ic.index_id ''
          @ ''WHERE i.is_primary_key = 1 ''
          @ '') pk ON pk.object_id = c.object_id AND pk.column_id = c.column_id WHERE t.name = ''"])
    (simp_all add: ms_columns_sql_def ms_schema_pred_def split: option.split)

lemma ms_indexes_quotes: "quotes_exactly ms_indexes_sql (\<lambda>ob. ob_name ob # schema_list ob)"
  by (rule by_name_quotes [where pred = "''AND s.name = ''"
        and tail = "'' AND i.name IS NOT NULL ORDER BY i.name, ic.key_ordinal''"
        and head = "''SELECT i.name, CAST(i.is_unique AS INT), CAST(i.is_primary_key AS INT), c.name FROM sys.indexes i ''
          @ ''JOIN sys.tables t ON t.object_id = i.object_id JOIN sys.schemas s ON s.schema_id = t.schema_id ''
          @ ''LEFT JOIN sys.index_columns ic ON ic.object_id = i.object_id AND ic.index_id = i.index_id ''
          @ ''LEFT JOIN sys.columns c ON c.object_id = i.object_id AND c.column_id = ic.column_id WHERE t.name = ''"])
    (simp_all add: ms_indexes_sql_def ms_schema_pred_def split: option.split)

lemma duck_indexes_quotes: "quotes_exactly duck_indexes_sql (\<lambda>ob. ob_name ob # schema_list ob)"
  by (rule by_name_quotes [where pred = "''AND schema_name = ''" and tail = "'' ORDER BY index_name''"
        and head = "''SELECT index_name, is_unique, is_primary, NULL FROM duckdb_indexes() WHERE table_name = ''"])
    (simp_all add: duck_indexes_sql_def split: option.split)

lemma duck_ddl_quotes: "quotes_exactly duck_ddl_sql (\<lambda>ob. [ob_name ob, ob_name ob])"
  by (rule pair_quotes [where head = "''SELECT sql FROM duckdb_tables() WHERE table_name = ''"
        and mid = "'' UNION ALL SELECT sql FROM duckdb_views() WHERE view_name = ''"])
    (simp_all add: duck_ddl_sql_def)

lemma duck_columns_quotes: "quotes_exactly duck_columns_sql (\<lambda>ob. schema_list ob @ [ob_name ob])"
  by (rule quotes_exactlyI [where tpl = "\<lambda>ob. Code ''PRAGMA table_info('' # qname_pieces ob @ [Code '')'']"
        and code = "\<lambda>b. ''PRAGMA table_info('' @ (if b then dq else dq @ ''.'' @ dq) @ '')''"])
    (auto simp: duck_columns_sql_def duck_qname_def qname_pieces_def schema_list_def split: option.splits)

lemma cql_columns_quotes: "quotes_exactly (\<lambda>ob. cql_columns_sql (g ob) (ob_name ob)) (\<lambda>ob. [g ob, ob_name ob])"
  by (rule pair_quotes [where head = "''SELECT column_name, type, kind FROM system_schema.columns WHERE keyspace_name = ''"
        and mid = "'' AND table_name = ''"]) (simp_all add: cql_columns_sql_def)

lemma cql_indexes_quotes: "quotes_exactly (\<lambda>ob. cql_indexes_sql (g ob) (ob_name ob)) (\<lambda>ob. [g ob, ob_name ob])"
  by (rule pair_quotes [where head = "''SELECT index_name, options FROM system_schema.indexes WHERE keyspace_name = ''"
        and mid = "'' AND table_name = ''"]) (simp_all add: cql_indexes_sql_def)

definition fb_indexes_tpl :: "obj_ref \<Rightarrow> piece list" where
  "fb_indexes_tpl ob =
     [Code ''SELECT TRIM(i.RDB$INDEX_NAME), COALESCE(i.RDB$UNIQUE_FLAG, 0), CASE WHEN rc.RDB$CONSTRAINT_TYPE = '',
      Name ''PRIMARY KEY'',
      Code ('' THEN 1 ELSE 0 END, TRIM(s.RDB$FIELD_NAME) FROM RDB$INDICES i ''
         @ ''LEFT JOIN RDB$INDEX_SEGMENTS s ON s.RDB$INDEX_NAME = i.RDB$INDEX_NAME ''
         @ ''LEFT JOIN RDB$RELATION_CONSTRAINTS rc ON rc.RDB$INDEX_NAME = i.RDB$INDEX_NAME ''
         @ ''WHERE TRIM(i.RDB$RELATION_NAME) = ''),
      Name (ob_name ob), Code '' ORDER BY i.RDB$INDEX_NAME, s.RDB$FIELD_POSITION'']"

lemma fb_indexes_quotes: "quotes_exactly fb_indexes_sql (\<lambda>ob. [''PRIMARY KEY'', ob_name ob])"
  by (rule quotes_exactlyI [where tpl = fb_indexes_tpl
        and code = "\<lambda>_. concat (map piece_code (fb_indexes_tpl \<lparr>ob_name = [], ob_schema = None\<rparr>))"])
    (simp_all add: fb_indexes_sql_def fb_indexes_tpl_def quoted_def esc_sq_def)

definition fb_columns_tpl :: "(string \<Rightarrow> string) \<Rightarrow> obj_ref \<Rightarrow> piece list" where
  "fb_columns_tpl up ob =
     [Code (''SELECT TRIM(RF.RDB$FIELD_NAME), CASE WHEN PK.F IS NULL THEN 0 ELSE 1 END ''
         @ ''FROM RDB$RELATION_FIELDS RF LEFT JOIN ( SELECT TRIM(S.RDB$FIELD_NAME) AS F ''
         @ ''FROM RDB$RELATION_CONSTRAINTS RC JOIN RDB$INDEX_SEGMENTS S ON S.RDB$INDEX_NAME = RC.RDB$INDEX_NAME ''
         @ ''WHERE TRIM(RC.RDB$RELATION_NAME) = ''),
      Name (up (ob_name ob)), Code '' AND RC.RDB$CONSTRAINT_TYPE = '', Name ''PRIMARY KEY'',
      Code ('' ) PK ON PK.F = TRIM(RF.RDB$FIELD_NAME) '' @ ''WHERE TRIM(RF.RDB$RELATION_NAME) = ''),
      Name (up (ob_name ob)), Code '' ORDER BY RF.RDB$FIELD_POSITION'']"

lemma fb_columns_quotes:
  "quotes_exactly (fb_columns_sql up) (\<lambda>ob. [up (ob_name ob), ''PRIMARY KEY'', up (ob_name ob)])"
  by (rule quotes_exactlyI [where tpl = "fb_columns_tpl up"
        and code = "\<lambda>_. concat (map piece_code (fb_columns_tpl id \<lparr>ob_name = [], ob_schema = None\<rparr>))"])
    (simp_all add: fb_columns_sql_def fb_columns_tpl_def quoted_def esc_sq_def Let_def)

section \<open>Snowflake\<close>

text \<open>
  Snowflake documents backslash escapes in quoted texts too, so the same name as with MySQL leaves its
  quotes in the column query; and the key query carries the name as code.
\<close>

definition sf_columns_head :: string where
  "sf_columns_head = ''SELECT COLUMN_NAME, DATA_TYPE FROM INFORMATION_SCHEMA.COLUMNS WHERE TABLE_NAME = '' @ sq"

lemma sf_backslash_breaks_out:
  assumes "CHR 0x5C \<notin> set a" "CHR 0x27 \<notin> set a" "CHR 0x27 \<notin> set p" "p \<noteq> []"
    and "up (ob_name ob) = a @ [CHR 0x5C, CHR 0x27] @ p"
  shows "\<exists>rest. sf_columns_sql up ob = sf_columns_head @ rest
     \<and> (\<exists>tail. my_scan (CHR 0x27) rest = Some (a @ sq, p @ tail))"
  by (rule exI [of _ "drop (length sf_columns_head) (sf_columns_sql up ob)"])
    (use my_scan_breaks [OF assms(1,3,4,2)] in \<open>auto simp: sf_columns_sql_def sf_columns_head_def assms(5) sq_def\<close>)

lemma sf_keys_unquoted:
  assumes "is_code (ob_name ob)" "ob_schema ob = None"
  shows "sql_split (sf_keys_sql ob) = Some (''SHOW PRIMARY KEYS IN TABLE '' @ ob_name ob, [])"
proof -
  have "CHR 0x27 \<notin> set (ob_name ob)" using assms(1) by (auto simp: is_code_def list_all_iff)
  from sf_qname_plain [OF this assms(2)] show ?thesis
    using sql_split_code [of "ob_name ob" "[]"] assms(1) by simp
qed

end
