(* ===== verification/Redis.thy ===== *)
theory Redis
  imports Driver_Common
begin

text \<open>
  \<open>drivers/redis.rs\<close>, the key/value driver.  The client library is the record \<open>rd_lib\<close>: parsing a URL,
  opening a connection, and one command with its reply.  A statement is a command line, taken apart by
  \<open>tokenize\<close>; a reply is rendered as a grid.  Rust's lossy decoding of bytes, and the text form of a JSON
  value, are parameters.
\<close>

section \<open>Metadata\<close>

definition REDIS_META :: driver_meta where
  "REDIS_META = \<lparr>dm_kind = ''redis'', dm_display = ''Redis'', dm_default_port = Some 6379,
     dm_params =
       [\<lparr>ps_key = ''host'', ps_label = ''Host'', ps_kind = PT_String, ps_required = True, ps_secret = False,
         ps_default = Some ''127.0.0.1''\<rparr>,
        \<lparr>ps_key = ''port'', ps_label = ''Port'', ps_kind = PT_Int, ps_required = False, ps_secret = False,
         ps_default = Some ''6379''\<rparr>,
        \<lparr>ps_key = ''db'', ps_label = ''DB index'', ps_kind = PT_Int, ps_required = False, ps_secret = False,
         ps_default = Some ''0''\<rparr>],
     dm_auth = [AK_None, AK_Password],
     dm_caps = \<lparr>cap_sql = False, cap_schemas = True, cap_cancel = False, cap_tls = True, cap_tunnel = True,
       cap_multi_db = True, cap_kv = True, cap_indexes = False, cap_ddl = False\<rparr>\<rparr>"

section \<open>The client library\<close>

text \<open>A reply; the variants the code does not name are their debug text.\<close>

datatype rvalue =
    R_nil
  | R_int int
  | R_double f64
  | R_bool bool
  | R_bulk string
  | R_simple string
  | R_okay
  | R_array "rvalue list"
  | R_set "rvalue list"
  | R_map "(rvalue \<times> rvalue) list"
  | R_other string

record ('cl, 'con, 'w) rd_lib =
  rdl_client :: "string \<Rightarrow> 'cl result"
  rdl_connect :: "'cl \<Rightarrow> ('w, 'con) io"
  rdl_query :: "'con \<Rightarrow> string list \<Rightarrow> ('w, rvalue) io"

section \<open>Connecting\<close>

text \<open>Percent-encoding of the user information of the URL.\<close>

definition hex_upper :: "nat \<Rightarrow> char" where
  "hex_upper n = (if n < 10 then ch (48 + n) else ch (55 + n))"

definition unreserved :: "char \<Rightarrow> bool" where
  "unreserved c \<longleftrightarrow>
     (65 \<le> byte c \<and> byte c \<le> 90) \<or> (97 \<le> byte c \<and> byte c \<le> 122) \<or> (48 \<le> byte c \<and> byte c \<le> 57)
     \<or> c = CHR ''-'' \<or> c = CHR ''_'' \<or> c = CHR ''.'' \<or> c = CHR ''~''"

definition pct_byte :: "char \<Rightarrow> string" where
  "pct_byte c =
     (if unreserved c then [c] else [CHR ''%'', hex_upper (byte c div 16), hex_upper (byte c mod 16)])"

definition pct :: "string \<Rightarrow> string" where
  "pct s = concat (map pct_byte s)"

definition redis_auth :: "('key, 'ident, 'cert, 'pk) seam \<Rightarrow> auth_spec \<Rightarrow> ('s, string) io" where
  "redis_auth sm a =
     (case a of
        Auth_Password user password \<Rightarrow>
          io_bind (seam_secret sm password) (\<lambda>s.
          let pw = pct s in
          io_ok (if user = [] then '':'' @ pw @ ''@'' else pct user @ '':'' @ pw @ ''@''))
      | _ \<Rightarrow> io_ok [])"

definition redis_url :: "string \<Rightarrow> string \<Rightarrow> string \<Rightarrow> string \<Rightarrow> string \<Rightarrow> string \<Rightarrow> string" where
  "redis_url scheme auth rhost rport db frag =
     scheme @ ''://'' @ auth @ rhost @ '':'' @ rport @ ''/'' @ db @ frag"

definition redis_frag :: "tls_spec \<Rightarrow> string" where
  "redis_frag tls = (if tls_wanted tls \<and> \<not> verifies_cert tls then ''#insecure'' else [])"

definition redis_open_con :: "('cl, 'con, 'w) rd_lib \<Rightarrow> string \<Rightarrow> ('w, 'con) io" where
  "redis_open_con lib url =
     io_bind (io_lift (map_err (\<lambda>e. ''redis url invalid: '' @ e) (rdl_client lib url))) (\<lambda>client.
       io_map_err (\<lambda>e. ''redis connect failed: '' @ e) (rdl_connect lib client))"

record 'con redis_conn =
  rc_con :: 'con
  rc_encrypted :: bool

definition redis_link :: "('cl, 'con, 'w) rd_lib \<Rightarrow> tls_spec \<Rightarrow> string \<Rightarrow> string \<Rightarrow> ('w, 'con redis_conn) io" where
  "redis_link lib tls url plain =
     (if \<not> tls_wanted tls
      then io_bind (redis_open_con lib url) (\<lambda>con. io_ok \<lparr>rc_con = con, rc_encrypted = False\<rparr>)
      else io_match (redis_open_con lib url)
        (\<lambda>e. if tls_required tls
             then io_err (''redis: TLS is required but the connection failed: '' @ e)
             else io_bind (redis_open_con lib plain) (\<lambda>con. io_ok \<lparr>rc_con = con, rc_encrypted = False\<rparr>))
        (\<lambda>con. io_ok \<lparr>rc_con = con, rc_encrypted = True\<rparr>))"

definition redis_connect ::
  "('key, 'ident, 'cert, 'pk) seam \<Rightarrow> ('cl, 'con, 'w) rd_lib \<Rightarrow> conn_spec
     \<Rightarrow> (net_ctx \<times> 'w, 'con redis_conn) io" where
  "redis_connect sm lib spec =
     io_bind (io_lift (param spec ''host'')) (\<lambda>host.
     let p = port spec 6379; db = unwrap_or ''0'' (param_opt spec ''db'') in
     io_bind (seam_resolve sm host p) (\<lambda>addr.
     io_bind (io_lift (dial_parts addr)) (\<lambda>(rhost, rport).
     io_bind (redis_auth sm (cs_auth spec)) (\<lambda>auth.
     let tls = cs_tls spec;
         scheme = (if tls_wanted tls then ''rediss'' else ''redis'');
         url = redis_url scheme auth rhost rport db (redis_frag tls) in
       on_lib (redis_link lib tls url (redis_url ''redis'' auth rhost rport db []))))))"

section \<open>Replies\<close>

fun rvalue_to_json :: "(string \<Rightarrow> string) \<Rightarrow> (json \<Rightarrow> string) \<Rightarrow> rvalue \<Rightarrow> json" where
  "rvalue_to_json lossy txt R_nil = JNull"
| "rvalue_to_json lossy txt (R_int i) = JInt i"
| "rvalue_to_json lossy txt (R_double d) = float_json d"
| "rvalue_to_json lossy txt (R_bool b) = JBool b"
| "rvalue_to_json lossy txt (R_bulk b) = JStr (lossy b)"
| "rvalue_to_json lossy txt (R_simple s) = JStr s"
| "rvalue_to_json lossy txt R_okay = JStr ''OK''"
| "rvalue_to_json lossy txt (R_array a) = JArr (map (rvalue_to_json lossy txt) a)"
| "rvalue_to_json lossy txt (R_set a) = JArr (map (rvalue_to_json lossy txt) a)"
| "rvalue_to_json lossy txt (R_map m) =
     JObj (foldl (\<lambda>obj (k, v). obj_insert (txt k) v obj) []
       (map (\<lambda>(k, v). (rvalue_to_json lossy txt k, rvalue_to_json lossy txt v)) m))"
| "rvalue_to_json lossy txt (R_other dbg) = JStr dbg"

definition rd_scalar ::
  "(string \<Rightarrow> string) \<Rightarrow> (string \<Rightarrow> string) \<Rightarrow> (json \<Rightarrow> string) \<Rightarrow> rvalue \<Rightarrow> val" where
  "rd_scalar b64 lossy txt v =
     (case v of
        R_nil \<Rightarrow> VNull
      | R_int i \<Rightarrow> VInt i
      | R_double d \<Rightarrow> VFloat d
      | R_bool b \<Rightarrow> VBool b
      | R_okay \<Rightarrow> VText ''OK''
      | R_simple s \<Rightarrow> VText s
      | R_bulk b \<Rightarrow> text_or_bytes b64 b
      | nested \<Rightarrow> VJson (rvalue_to_json lossy txt nested))"

definition rd_column :: "string \<Rightarrow> column" where
  "rd_column n = \<lparr>col_name = n, col_type = []\<rparr>"

definition rd_render ::
  "(string \<Rightarrow> string) \<Rightarrow> (string \<Rightarrow> string) \<Rightarrow> (json \<Rightarrow> string) \<Rightarrow> rvalue \<Rightarrow> column list \<times> row list" where
  "rd_render b64 lossy txt v =
     (case v of
        R_array a \<Rightarrow> ([rd_column ''value''], map (\<lambda>e. [rd_scalar b64 lossy txt e]) a)
      | R_set a \<Rightarrow> ([rd_column ''value''], map (\<lambda>e. [rd_scalar b64 lossy txt e]) a)
      | R_map m \<Rightarrow>
          ([rd_column ''key'', rd_column ''value''],
           map (\<lambda>(k, e). [rd_scalar b64 lossy txt k, rd_scalar b64 lossy txt e]) m)
      | scalar_v \<Rightarrow> ([rd_column ''value''], [[rd_scalar b64 lossy txt scalar_v]]))"

section \<open>The command line\<close>

text \<open>
  The loop over the characters: a double quote toggles quoting, white space outside quotes ends a token,
  and a token is only pushed when it is not empty.
\<close>

function tokenize_loop :: "string list \<Rightarrow> string \<Rightarrow> bool \<Rightarrow> string \<Rightarrow> string list" where
  "tokenize_loop out cur in_q [] = (if cur \<noteq> [] then out @ [cur] else out)"
| "tokenize_loop out cur in_q (c # s) =
     (if c = CHR 0x22 then tokenize_loop out cur (\<not> in_q) s
      else if 0 < ws_len (c # s) \<and> \<not> in_q then
        tokenize_loop (if cur \<noteq> [] then out @ [cur] else out) [] in_q (drop (ws_len (c # s) - 1) s)
      else tokenize_loop out (cur @ [c]) in_q s)"
  by pat_completeness auto
termination
  by (relation "measure (\<lambda>(out, cur, in_q, s). length s)") auto

definition tokenize :: "string \<Rightarrow> string list" where
  "tokenize line = tokenize_loop [] [] False (trim line)"

definition rd_command ::
  "('cl, 'con, 'w) rd_lib \<Rightarrow> string list \<Rightarrow> ('con redis_conn \<times> 'w, rvalue) io" where
  "rd_command lib tokens = (\<lambda>(c, w).
     if tokens = [] then (Inl ''empty command'', (c, w))
     else (case rdl_query lib (rc_con c) tokens w of (r, w') \<Rightarrow> (r, (c, w'))))"

definition redis_execute ::
  "(string \<Rightarrow> string) \<Rightarrow> (string \<Rightarrow> string) \<Rightarrow> (json \<Rightarrow> string) \<Rightarrow> ('cl, 'con, 'w) rd_lib \<Rightarrow> string
     \<Rightarrow> ('con redis_conn \<times> 'w, bstream) io" where
  "redis_execute b64 lossy txt lib stmt =
     io_bind (rd_command lib (tokenize stmt)) (\<lambda>reply.
       case rd_render b64 lossy txt reply of (columns, rows) \<Rightarrow> io_ok (buffered_new columns rows None))"

section \<open>The catalog\<close>

text \<open>The number of databases the server reports, 16 when it does not; a negative one wraps.\<close>

definition rd_db_count :: "rvalue option \<Rightarrow> nat" where
  "rd_db_count reply =
     (case reply of
        Some (R_array a) \<Rightarrow>
          unwrap_or 16 (case nth_opt a 1 of
             Some (R_bulk b) \<Rightarrow> if utf8_valid b then parse_unsigned (2 ^ 64) b else None
           | Some (R_int i) \<Rightarrow> Some (nat (i mod 2 ^ 64))
           | _ \<Rightarrow> None)
      | _ \<Rightarrow> 16)"

definition redis_databases :: "('cl, 'con, 'w) rd_lib \<Rightarrow> ('con redis_conn \<times> 'w, string list) io" where
  "redis_databases lib =
     io_bind (io_try (rd_command lib [''CONFIG'', ''GET'', ''databases''])) (\<lambda>r.
       io_ok (map show_nat [0 ..< rd_db_count (ok_opt r)]))"

definition redis_switch_database :: "('cl, 'con, 'w) rd_lib \<Rightarrow> string \<Rightarrow> ('con redis_conn \<times> 'w, unit) io" where
  "redis_switch_database lib db = io_bind (rd_command lib [''SELECT'', db]) (\<lambda>_. io_ok ())"

definition rd_scan_keys :: "(string \<Rightarrow> string) \<Rightarrow> rvalue \<Rightarrow> string list" where
  "rd_scan_keys lossy reply =
     (case reply of
        R_array a \<Rightarrow>
          (case nth_opt a 1 of
             Some (R_array ks) \<Rightarrow> filter_map (\<lambda>k. case k of R_bulk b \<Rightarrow> Some (lossy b) | _ \<Rightarrow> None) ks
           | _ \<Rightarrow> [])
      | _ \<Rightarrow> [])"

fun rd_key_nodes ::
  "('cl, 'con, 'w) rd_lib \<Rightarrow> node list \<Rightarrow> string list \<Rightarrow> ('con redis_conn \<times> 'w, node list) io" where
  "rd_key_nodes lib children [] = io_ok children"
| "rd_key_nodes lib children (key # keys) =
     io_bind (io_try (rd_command lib [''TYPE'', key])) (\<lambda>t.
       rd_key_nodes lib
         (children @ [Node key (case ok_opt t of Some (R_simple s) \<Rightarrow> s | _ \<Rightarrow> ''key'') (Some ''keyspace'') []])
         keys)"

definition redis_structure ::
  "(string \<Rightarrow> string) \<Rightarrow> ('cl, 'con, 'w) rd_lib \<Rightarrow> ('con redis_conn \<times> 'w, node list) io" where
  "redis_structure lossy lib =
     io_bind (rd_command lib [''SCAN'', ''0'', ''COUNT'', ''300'']) (\<lambda>reply.
     io_bind (rd_key_nodes lib [] (rd_scan_keys lossy reply)) (\<lambda>children.
       io_ok [Node ''keyspace'' ''schema'' None children]))"

definition redis_columns :: "obj_ref \<Rightarrow> ('con redis_conn \<times> 'w, table_column list) io" where
  "redis_columns ob = io_ok []"

definition redis_close :: "('con redis_conn \<times> 'w, unit) io" where
  "redis_close = io_ok ()"

section \<open>Encryption\<close>

lemma redis_link_Inr:
  "redis_link lib tls url plain w = (Inr c, w') \<Longrightarrow>
   (tls_required tls \<longrightarrow> rc_encrypted c) \<and> (\<not> tls_wanted tls \<longrightarrow> \<not> rc_encrypted c)
   \<and> (rc_encrypted c \<longrightarrow> redis_open_con lib url w = (Inr (rc_con c), w'))"
  using tls_required_wanted [of tls]
  by (auto simp: redis_link_def result_iff split: if_splits)

interpretation rd: tls_posture "redis_connect sm lib" rc_encrypted
  for sm :: "('key, 'ident, 'cert, 'pk) seam" and lib :: "('cl, 'con, 'w) rd_lib"
  by unfold_locales (auto simp: redis_connect_def Let_def result_iff dest!: redis_link_Inr)

section \<open>Credentials in the URL\<close>

definition unhex :: "char \<Rightarrow> nat" where
  "unhex c = (if byte c < 58 then byte c - 48 else byte c - 55)"

text \<open>Percent-decoding, as the reader of the URL does it.\<close>

fun pct_decode :: "string \<Rightarrow> string" where
  "pct_decode (c # a # b # s) =
     (if c = CHR ''%'' then ch (16 * unhex a + unhex b) # pct_decode s else c # pct_decode (a # b # s))"
| "pct_decode s = s"

lemma unhex_upper [simp]: "n < 16 \<Longrightarrow> unhex (hex_upper n) = n"
  by (simp add: unhex_def hex_upper_def)

lemma unreserved_ne:
  "unreserved c \<Longrightarrow> c \<noteq> CHR ''%'' \<and> c \<noteq> CHR ''@'' \<and> c \<noteq> CHR '':'' \<and> c \<noteq> CHR ''/'' \<and> c \<noteq> CHR ''?'' \<and> c \<noteq> CHR ''#''"
  by (auto simp: unreserved_def byte_def)

lemma pct_decode_plain: "c \<noteq> CHR ''%'' \<Longrightarrow> pct_decode (c # s) = c # pct_decode s"
  by (cases s rule: pct_decode.cases) auto

lemma pct_simps [simp]: "pct [] = []" "pct (c # s) = pct_byte c @ pct s"
  by (simp_all add: pct_def)

lemma byte_div_16 [simp]: "byte c div 16 < 16"
proof -
  have "byte c < 16 * 16" using byte_lt [of c] by simp
  then show ?thesis by (rule less_mult_imp_div_less)
qed

lemma pct_decode_pct [simp]: "pct_decode (pct s) = s"
proof (induction s)
  case (Cons c s)
  then show ?case
    by (auto simp: pct_byte_def pct_decode_plain dest: unreserved_ne)
qed simp

lemma unreserved_hex: "n < 16 \<Longrightarrow> unreserved (hex_upper n)"
  by (auto simp: unreserved_def hex_upper_def)

lemma set_pct: "c \<in> set (pct s) \<Longrightarrow> unreserved c \<or> c = CHR ''%''"
proof (induction s)
  case (Cons x s)
  then show ?case by (auto simp: pct_byte_def intro: unreserved_hex split: if_splits)
qed simp

lemma pct_delims [simp]:
  "CHR ''@'' \<notin> set (pct s)" "CHR '':'' \<notin> set (pct s)" "CHR ''/'' \<notin> set (pct s)"
  "CHR ''?'' \<notin> set (pct s)" "CHR ''#'' \<notin> set (pct s)"
  by (auto dest!: set_pct simp: unreserved_def byte_def)

text \<open>How a URL is read: the authority ends at the path, its user information at the last at-sign.\<close>

definition authority_end :: "char \<Rightarrow> bool" where
  "authority_end c \<longleftrightarrow> c = CHR ''/'' \<or> c = CHR ''?'' \<or> c = CHR ''#''"

definition url_userinfo :: "string \<Rightarrow> string \<Rightarrow> (string \<times> string \<times> string) option" where
  "url_userinfo scheme url =
     Option.bind (strip_prefix (scheme @ ''://'') url) (\<lambda>rest.
     Option.bind (rsplit_once (CHR ''@'') (takeWhile (\<lambda>c. \<not> authority_end c) rest)) (\<lambda>(ui, hostport).
       map_option (\<lambda>(u, p). (pct_decode u, pct_decode p, hostport)) (split_once '':'' ui)))"

lemma takeWhile_authority:
  "(\<forall>c\<in>set a. \<not> authority_end c) \<Longrightarrow> takeWhile (\<lambda>c. \<not> authority_end c) (a @ CHR ''/'' # s) = a"
  by (induction a) (auto simp: authority_end_def)

lemma pct_no_authority: "c \<in> set (pct s) \<Longrightarrow> \<not> authority_end c"
  using pct_delims [of s] by (auto simp: authority_end_def simp del: pct_delims)

lemma authority_end_delims [simp]: "\<not> authority_end (CHR ''@'')" "\<not> authority_end (CHR '':'')"
  by (simp_all add: authority_end_def)

lemma url_userinfo_redis:
  assumes "\<forall>c\<in>set (rhost @ rport). \<not> authority_end c \<and> c \<noteq> CHR ''@''"
  shows "url_userinfo scheme (redis_url scheme (pct user @ '':'' @ pct pw @ ''@'') rhost rport db frag)
     = Some (user, pw, rhost @ '':'' @ rport)"
proof -
  let ?ui = "pct user @ CHR '':'' # pct pw" and ?hp = "rhost @ CHR '':'' # rport"
  have "\<forall>c\<in>set (?ui @ CHR ''@'' # ?hp). \<not> authority_end c"
    using assms by (simp add: ball_Un pct_no_authority)
  then have "takeWhile (\<lambda>c. \<not> authority_end c) ((?ui @ CHR ''@'' # ?hp) @ CHR ''/'' # db @ frag)
      = ?ui @ CHR ''@'' # ?hp" by (rule takeWhile_authority)
  moreover have "rsplit_once (CHR ''@'') (?ui @ CHR ''@'' # ?hp) = Some (?ui, ?hp)"
    by (rule rsplit_once_char) (use assms in auto)
  moreover have "split_once '':'' ?ui = Some (pct user, pct pw)"
    by (rule split_once_char) simp
  ultimately show ?thesis
    using strip_prefix_append [of "scheme @ ''://''" "?ui @ CHR ''@'' # ?hp @ CHR ''/'' # db @ frag"]
    by (simp add: url_userinfo_def redis_url_def)
qed

section \<open>Command lines\<close>

text \<open>A quoted argument keeps its white space; one that is empty is no argument at all.\<close>

lemma tokenize_loop_in_quotes:
  "CHR 0x22 \<notin> set t \<Longrightarrow> tokenize_loop out cur True (t @ s) = tokenize_loop out (cur @ t) True s"
  by (induction t arbitrary: cur) auto

lemma tokenize_loop_arg:
  "CHR 0x22 \<notin> set t \<Longrightarrow> tokenize_loop out cur False (dq @ t @ dq @ s) = tokenize_loop out (cur @ t) False s"
  by (simp add: dq_def tokenize_loop_in_quotes)

lemma tokenize_loop_space:
  "tokenize_loop out cur False ('' '' @ s)
     = tokenize_loop (if cur \<noteq> [] then out @ [cur] else out) [] False s"
proof -
  have "ws_len (CHR '' '' # s) = 1"
    by (cases s rule: ws_len.cases) (auto simp: is_ascii_ws_def byte_def)
  then show ?thesis by simp
qed

definition quote_arg :: "string \<Rightarrow> string" where
  "quote_arg t = dq @ t @ dq"

lemma tokenize_loop_args:
  "\<forall>t\<in>set ts. CHR 0x22 \<notin> set t \<Longrightarrow>
   tokenize_loop out [] False (join '' '' (map quote_arg ts)) = out @ filter (\<lambda>t. t \<noteq> []) ts"
proof (induction ts arbitrary: out)
  case (Cons t ts)
  then have t: "CHR 0x22 \<notin> set t" by simp
  show ?case
  proof (cases ts)
    case Nil
    with t show ?thesis using tokenize_loop_arg [of t out "[]" "[]"] by (simp add: quote_arg_def)
  next
    case (Cons t' ts')
    let ?out = "if t \<noteq> [] then out @ [t] else out"
    have "tokenize_loop out [] False (join '' '' (map quote_arg (t # ts)))
        = tokenize_loop out [] False (dq @ t @ dq @ '' '' @ join '' '' (map quote_arg ts))"
      by (simp add: Cons quote_arg_def)
    also have "\<dots> = tokenize_loop ?out [] False (join '' '' (map quote_arg ts))"
      by (simp only: tokenize_loop_arg [OF t] tokenize_loop_space append_Nil)
    finally show ?thesis using Cons.IH [of ?out] \<open>\<forall>t\<in>set (t # ts). _ t\<close> by auto
  qed
qed simp

lemma join_quoted_ends:
  "ts \<noteq> [] \<Longrightarrow> \<exists>m. join '' '' (map quote_arg ts) = dq @ m @ dq"
proof (induction ts)
  case (Cons t ts)
  show ?case
  proof (cases ts)
    case Nil
    then show ?thesis by (auto simp: quote_arg_def)
  next
    case (Cons t' ts')
    with Cons.IH obtain m where "join '' '' (map quote_arg ts) = dq @ m @ dq" by auto
    then show ?thesis
      by (intro exI [of _ "t @ dq @ '' '' @ dq @ m"]) (simp add: Cons quote_arg_def [of t])
  qed
qed simp

lemma tokenize_args:
  "\<forall>t\<in>set ts. CHR 0x22 \<notin> set t \<Longrightarrow>
   tokenize (join '' '' (map quote_arg ts)) = filter (\<lambda>t. t \<noteq> []) ts"
proof (cases "ts = []")
  case False
  assume ts: "\<forall>t\<in>set ts. CHR 0x22 \<notin> set t"
  from False obtain m where m: "join '' '' (map quote_arg ts) = dq @ m @ dq"
    using join_quoted_ends by blast
  have "plain_byte (CHR 0x22)" by (simp add: plain_byte_def is_ascii_ws_def byte_def)
  then have "trim (dq @ m @ dq) = dq @ m @ dq" by (simp add: dq_def trim_plain)
  with m tokenize_loop_args [OF ts, of "[]"] show ?thesis by (simp add: tokenize_def)
qed (simp add: tokenize_def)

end
