(* ===== verification/Clickhouse.thy ===== *)
theory Clickhouse
  imports Driver_Common
begin

text \<open>
  \<open>drivers/clickhouse.rs\<close>, over the HTTP interface.  reqwest and the decoder of a JSONCompact response are
  the record \<open>ch_lib\<close>; a connection is an HTTP client with the base URL, the credentials and the current
  database it sends along with every request.
\<close>

section \<open>Metadata\<close>

definition CLICKHOUSE_META :: driver_meta where
  "CLICKHOUSE_META = \<lparr>dm_kind = ''clickhouse'', dm_display = ''ClickHouse'', dm_default_port = Some 8123,
     dm_params =
       [\<lparr>ps_key = ''host'', ps_label = ''Host'', ps_kind = PT_String, ps_required = True, ps_secret = False,
         ps_default = Some ''127.0.0.1''\<rparr>,
        \<lparr>ps_key = ''port'', ps_label = ''HTTP port'', ps_kind = PT_Int, ps_required = False, ps_secret = False,
         ps_default = Some ''8123''\<rparr>,
        \<lparr>ps_key = ''database'', ps_label = ''Database'', ps_kind = PT_String, ps_required = False,
         ps_secret = False, ps_default = Some ''default''\<rparr>],
     dm_auth = [AK_None, AK_Password],
     dm_caps = \<lparr>cap_sql = True, cap_schemas = True, cap_cancel = False, cap_tls = True, cap_tunnel = True,
       cap_multi_db = True, cap_kv = False, cap_indexes = True, cap_ddl = True\<rparr>\<rparr>"

section \<open>The HTTP library\<close>

record ('ca, 'idn) ch_builder =
  chb_invalid_certs :: bool
  chb_invalid_hostnames :: bool
  chb_roots :: "'ca list"
  chb_identity :: "'idn option"

record ch_request =
  chr_url :: string
  chr_query :: "(string \<times> string) list"
  chr_headers :: "(string \<times> string) list"
  chr_body :: string

text \<open>A response: whether its status is a success, and its text.\<close>

record ('ca, 'idn, 'cl, 'w) ch_lib =
  chl_ca :: "string \<Rightarrow> 'ca result"
  chl_identity :: "string \<Rightarrow> 'idn result"
  chl_build :: "('ca, 'idn) ch_builder \<Rightarrow> 'cl result"
  chl_send :: "'cl \<Rightarrow> ch_request \<Rightarrow> ('w, bool \<times> string result) io"
  chl_parse :: "string \<Rightarrow> ((string \<times> string) list \<times> json list list) result"

record 'cl ch_conn =
  ch_client :: 'cl
  ch_base :: string
  ch_user :: string
  ch_password :: string
  ch_database :: string
  ch_encrypted :: bool

section \<open>Running a query\<close>

definition ch_cell :: "json \<Rightarrow> val" where
  "ch_cell v =
     (case v of
        JNull \<Rightarrow> VNull
      | JBool b \<Rightarrow> VBool b
      | JInt i \<Rightarrow> if - (2 ^ 63) \<le> i \<and> i < 2 ^ 63 then VInt i else VFloat (f64_of_nat (nat i))
      | JFloat f \<Rightarrow> VFloat f
      | JStr s \<Rightarrow> VText s
      | other \<Rightarrow> VJson other)"

definition ch_request_for :: "'cl ch_conn \<Rightarrow> string \<Rightarrow> ch_request" where
  "ch_request_for c sql =
     \<lparr>chr_url = ch_base c,
      chr_query = [(''database'', ch_database c), (''default_format'', ''JSONCompact'')],
      chr_headers = [(''X-ClickHouse-User'', ch_user c), (''X-ClickHouse-Key'', ch_password c)],
      chr_body = sql\<rparr>"

definition ch_response ::
  "('ca, 'idn, 'cl, 'w) ch_lib \<Rightarrow> bool \<Rightarrow> string \<Rightarrow> (column list \<times> row list) result" where
  "ch_response lib success txt =
     (if \<not> success then Inl (trim txt)
      else if trim txt = [] then Inr ([], [])
      else bind_result (map_err (\<lambda>e. ''bad clickhouse response: '' @ e) (chl_parse lib txt)) (\<lambda>(meta, dat).
        Inr (map (\<lambda>(n, t). \<lparr>col_name = n, col_type = t\<rparr>) meta, map (map ch_cell) dat)))"

definition ch_query_json ::
  "('ca, 'idn, 'cl, 'w) ch_lib \<Rightarrow> string \<Rightarrow> ('cl ch_conn \<times> 'w, column list \<times> row list) io" where
  "ch_query_json lib sql = (\<lambda>(c, w).
     case chl_send lib (ch_client c) (ch_request_for c sql) w of
       (Inl e, w') \<Rightarrow> (Inl (''clickhouse request failed: '' @ e), (c, w'))
     | (Inr (success, body), w') \<Rightarrow> (bind_result body (ch_response lib success), (c, w')))"

section \<open>Connecting\<close>

text \<open>What the TLS settings add to the client builder.\<close>

definition ch_tls_builder ::
  "('cert, 'pk) tls_env \<Rightarrow> ('ca, 'idn, 'cl, 'w) ch_lib \<Rightarrow> tls_spec \<Rightarrow> ('ca, 'idn) ch_builder result" where
  "ch_tls_builder te lib tls =
     bind_result
       (case tls_ca tls of
          None \<Rightarrow> Inr []
        | Some ca \<Rightarrow>
            bind_result (map_err (\<lambda>e. ''cannot read CA '' @ quoted ca @ '': '' @ e) (te_read te ca)) (\<lambda>pem.
            bind_result (map_err (\<lambda>e. ''bad CA certificate: '' @ e) (chl_ca lib pem)) (\<lambda>cert. Inr [cert])))
       (\<lambda>roots.
     bind_result
       (case (tls_client_cert tls, tls_client_key tls) of
          (Some cert, Some key) \<Rightarrow>
            bind_result (map_err (\<lambda>e. ''cannot read cert: '' @ e) (te_read te cert)) (\<lambda>pem.
            bind_result (map_err (\<lambda>e. ''cannot read key: '' @ e) (te_read te key)) (\<lambda>kpem.
            bind_result (map_err (\<lambda>e. ''bad client identity: '' @ e) (chl_identity lib (pem @ kpem)))
              (\<lambda>i. Inr (Some i))))
        | _ \<Rightarrow> Inr None)
       (\<lambda>idn. Inr \<lparr>chb_invalid_certs = (\<not> verifies_cert tls), chb_invalid_hostnames = (\<not> verifies_hostname tls),
                  chb_roots = roots, chb_identity = idn\<rparr>))"

definition ch_plain_builder :: "('ca, 'idn) ch_builder" where
  "ch_plain_builder = \<lparr>chb_invalid_certs = False, chb_invalid_hostnames = False, chb_roots = [], chb_identity = None\<rparr>"

definition ch_build ::
  "('cert, 'pk) tls_env \<Rightarrow> ('ca, 'idn, 'cl, 'w) ch_lib \<Rightarrow> tls_spec
     \<Rightarrow> string \<Rightarrow> string \<Rightarrow> string \<Rightarrow> string \<Rightarrow> bool \<Rightarrow> 'cl ch_conn result" where
  "ch_build te lib tls addr user password database encrypted =
     bind_result (if encrypted then ch_tls_builder te lib tls else Inr ch_plain_builder) (\<lambda>cb.
     bind_result (map_err (\<lambda>e. ''http client: '' @ e) (chl_build lib cb)) (\<lambda>client.
       Inr \<lparr>ch_client = client, ch_base = (if encrypted then ''https'' else ''http'') @ ''://'' @ addr,
            ch_user = user, ch_password = password, ch_database = database, ch_encrypted = encrypted\<rparr>))"

text \<open>A built connection is probed once.\<close>

definition ch_probe :: "('ca, 'idn, 'cl, 'w) ch_lib \<Rightarrow> 'cl ch_conn \<Rightarrow> ('w, 'cl ch_conn) io" where
  "ch_probe lib conn = (\<lambda>w.
     case ch_query_json lib ''SELECT 1'' (conn, w) of
       (Inl e, (_, w')) \<Rightarrow> (Inl e, w')
     | (Inr _, (_, w')) \<Rightarrow> (Inr conn, w'))"

definition ch_open ::
  "('ca, 'idn, 'cl, 'w) ch_lib \<Rightarrow> tls_spec \<Rightarrow> (bool \<Rightarrow> 'cl ch_conn result) \<Rightarrow> ('w, 'cl ch_conn) io" where
  "ch_open lib tls build =
     (if \<not> tls_wanted tls then io_bind (io_lift (build False)) (ch_probe lib)
      else io_bind (io_lift (build True)) (\<lambda>conn.
        io_match (ch_probe lib conn)
          (\<lambda>e. if tls_required tls
               then io_err (''clickhouse: TLS is required but the connection failed: '' @ e)
               else io_bind (io_lift (build False)) (ch_probe lib))
          io_ok))"

definition ch_credentials ::
  "('key, 'ident, 'cert, 'pk) seam \<Rightarrow> auth_spec \<Rightarrow> ('s, string \<times> string) io" where
  "ch_credentials sm a =
     (case a of
        Auth_Password user password \<Rightarrow> io_bind (seam_secret sm password) (\<lambda>pw. io_ok (user, pw))
      | _ \<Rightarrow> io_ok ([], []))"

definition ch_connect ::
  "('key, 'ident, 'cert, 'pk) seam \<Rightarrow> ('ca, 'idn, 'cl, 'w) ch_lib \<Rightarrow> conn_spec
     \<Rightarrow> (net_ctx \<times> 'w, 'cl ch_conn) io" where
  "ch_connect sm lib spec =
     io_bind (io_lift (param spec ''host'')) (\<lambda>host.
     io_bind (seam_resolve sm host (port spec 8123)) (\<lambda>addr.
     io_bind (ch_credentials sm (cs_auth spec)) (\<lambda>(user, password).
       on_lib (ch_open lib (cs_tls spec)
         (ch_build (sm_tls sm) lib (cs_tls spec) addr user password
            (unwrap_or ''default'' (param_opt spec ''database'')))))))"

section \<open>The operations of a connection\<close>

definition ch_databases :: "('ca, 'idn, 'cl, 'w) ch_lib \<Rightarrow> ('cl ch_conn \<times> 'w, string list) io" where
  "ch_databases lib =
     io_bind (ch_query_json lib ''SELECT name FROM system.databases ORDER BY name'')
       (\<lambda>(_, rows). io_ok (first_texts rows))"

definition ch_switch_database :: "string \<Rightarrow> ('cl ch_conn \<times> 'w, unit) io" where
  "ch_switch_database db = (\<lambda>(c, w). (Inr (), (c\<lparr>ch_database := db\<rparr>, w)))"

definition ch_kind :: "string \<Rightarrow> string" where
  "ch_kind engine = (if contains ''View'' engine then ''view'' else ''table'')"

definition ch_structure :: "('ca, 'idn, 'cl, 'w) ch_lib \<Rightarrow> ('cl ch_conn \<times> 'w, node list) io" where
  "ch_structure lib =
     io_bind (ch_query_json lib
       (''SELECT database, name, engine FROM system.tables WHERE database NOT IN ('' @ quoted ''system'' @ '',''
        @ quoted ''INFORMATION_SCHEMA'' @ '','' @ quoted ''information_schema'' @ '') ORDER BY database, name''))
       (\<lambda>(_, rows). io_ok (schema_tree ch_kind rows))"

definition ch_columns_sql :: "string \<Rightarrow> string \<Rightarrow> string" where
  "ch_columns_sql tbl db =
     ''SELECT name, type, is_in_primary_key FROM system.columns WHERE table = '' @ sq @ esc_sq tbl @ sq
     @ '' AND database = '' @ sq @ esc_sq db @ sq @ '' ORDER BY position''"

definition ch_primary :: "row \<Rightarrow> bool" where
  "ch_primary r =
     (case nth_opt r 2 of
        Some (VInt i) \<Rightarrow> i \<noteq> 0 | Some (VText s) \<Rightarrow> s = ''1'' | Some (VBool b) \<Rightarrow> b | _ \<Rightarrow> False)"

definition ch_columns ::
  "('ca, 'idn, 'cl, 'w) ch_lib \<Rightarrow> obj_ref \<Rightarrow> ('cl ch_conn \<times> 'w, table_column list) io" where
  "ch_columns lib ob = (\<lambda>(c, w).
     io_bind (ch_query_json lib (ch_columns_sql (ob_name ob) (unwrap_or (ch_database c) (ob_schema ob))))
       (\<lambda>(_, rows). io_ok (table_columns 0 1 ch_primary rows)) (c, w))"

definition ch_indexes_sql :: "string \<Rightarrow> string \<Rightarrow> string" where
  "ch_indexes_sql tbl db =
     ''SELECT name, 0, 0, expr FROM system.data_skipping_indices WHERE table = '' @ sq @ esc_sq tbl @ sq
     @ '' AND database = '' @ sq @ esc_sq db @ sq @ '' ORDER BY name''"

definition ch_indexes ::
  "('ca, 'idn, 'cl, 'w) ch_lib \<Rightarrow> obj_ref \<Rightarrow> ('cl ch_conn \<times> 'w, index list) io" where
  "ch_indexes lib ob = (\<lambda>(c, w).
     io_bind (ch_query_json lib (ch_indexes_sql (ob_name ob) (unwrap_or (ch_database c) (ob_schema ob))))
       (\<lambda>(_, rows). io_ok (group_indexes rows)) (c, w))"

definition ch_qname :: "obj_ref \<Rightarrow> string" where
  "ch_qname ob =
     (case ob_schema ob of
        Some sc \<Rightarrow> bt_ident sc @ ''.'' @ bt_ident (ob_name ob)
      | None \<Rightarrow> bt_ident (ob_name ob))"

definition ch_ddl :: "('ca, 'idn, 'cl, 'w) ch_lib \<Rightarrow> obj_ref \<Rightarrow> ('cl ch_conn \<times> 'w, string option) io" where
  "ch_ddl lib ob =
     io_bind (ch_query_json lib (''SHOW CREATE TABLE '' @ ch_qname ob))
       (\<lambda>(_, rows). io_ok (text_of (Option.bind (first_opt rows) first_opt)))"

definition ch_execute :: "('ca, 'idn, 'cl, 'w) ch_lib \<Rightarrow> string \<Rightarrow> ('cl ch_conn \<times> 'w, bstream) io" where
  "ch_execute lib stmt =
     io_bind (ch_query_json lib stmt) (\<lambda>(columns, rows). io_ok (buffered_new columns rows None))"

definition ch_close :: "('cl ch_conn \<times> 'w, unit) io" where
  "ch_close = io_ok ()"

section \<open>Encryption\<close>

lemma ch_probe_Inr: "ch_probe lib conn w = (Inr c, w') \<Longrightarrow> c = conn"
  by (auto simp: ch_probe_def split: prod.splits sum.splits)

lemma ch_build_Inr:
  "ch_build te lib tls addr user password database enc = Inr c \<Longrightarrow>
   ch_encrypted c = enc \<and> ch_base c = (if enc then ''https'' else ''http'') @ ''://'' @ addr
   \<and> (enc \<longrightarrow> (\<exists>cb. ch_tls_builder te lib tls = Inr cb \<and> chl_build lib cb = Inr (ch_client c)))"
  by (auto simp: ch_build_def result_iff split: if_splits)

lemma ch_open_Inr:
  "ch_open lib tls build w = (Inr c, w') \<Longrightarrow>
   \<exists>enc. build enc = Inr c \<and> (tls_required tls \<longrightarrow> enc) \<and> (\<not> tls_wanted tls \<longrightarrow> \<not> enc)"
  using tls_required_wanted [of tls]
  by (auto simp: ch_open_def result_iff split: if_splits dest: ch_probe_Inr)

interpretation ch: tls_posture "ch_connect sm lib" ch_encrypted
  for sm :: "('key, 'ident, 'cert, 'pk) seam" and lib :: "('ca, 'idn, 'cl, 'w) ch_lib"
  by unfold_locales (auto simp: ch_connect_def result_iff dest!: ch_open_Inr ch_build_Inr)

text \<open>The client of an encrypted connection checks what the mode asks for.\<close>

lemma ch_tls_builder_checks:
  "ch_tls_builder te lib tls = Inr cb \<Longrightarrow>
   chb_invalid_certs cb = (\<not> verifies_cert tls) \<and> chb_invalid_hostnames cb = (\<not> verifies_hostname tls)"
  by (auto simp: ch_tls_builder_def result_iff)

lemma ch_connect_Inr:
  assumes "ch_connect sm lib spec s = (Inr c, s')"
  shows "\<exists>addr user password. ch_build (sm_tls sm) lib (cs_tls spec) addr user password
      (unwrap_or ''default'' (param_opt spec ''database'')) (ch_encrypted c) = Inr c"
proof -
  from assms obtain addr user password w w' where
    "ch_open lib (cs_tls spec) (ch_build (sm_tls sm) lib (cs_tls spec) addr user password
        (unwrap_or ''default'' (param_opt spec ''database''))) w = (Inr c, w')"
    by (auto simp: ch_connect_def result_iff)
  from ch_open_Inr [OF this] obtain enc where
    b: "ch_build (sm_tls sm) lib (cs_tls spec) addr user password
        (unwrap_or ''default'' (param_opt spec ''database'')) enc = Inr c" by blast
  with ch_build_Inr [OF b] show ?thesis by blast
qed

end
