(* ===== verification/Driver_Claims.thy ===== *)
theory Driver_Claims
  imports Sql_Text_More Redis Clickhouse Fixtures
begin

text \<open>
  The properties of the drivers: the encryption they promise, what a statement returns, and how they put
  names into the statements they compose.
\<close>

section \<open>Encryption\<close>

text \<open>
  C25: When the spec requires TLS, a Postgres connection that opens was dialled with the client configuration
  built from the spec, with SSL required, and counts as encrypted.
\<close>
theorem pg_required_tls:
  assumes "pg_connect sm lib spec (net, w) = (Inr c, (net', w'))" "tls_required (cs_tls spec)"
  shows "pg_encrypted c
     \<and> (\<exists>cc cfg. client_config (sm_tls sm) (cs_tls spec) = Inr cc \<and> pgc_require_ssl cfg
          \<and> pgl_dial_tls lib cc cfg w = (Inr (pg_client c), w'))"
proof -
  from assms have enc: "pg_encrypted c" by (rule pg.required_encrypted)
  from assms(1) obtain cfg where "pg_open lib (sm_tls sm) cfg (cs_tls spec) w = (Inr c, w')"
    by (auto simp: pg_connect_def pg_build_config_def seam_resolve_def seam_secret_def pg_credentials_def
        Let_def result_iff split: auth_spec.splits)
  from pg_open_encrypted_dialled [OF this enc] enc show ?thesis by force
qed

definition demo_seam :: "(unit, unit, string, string) seam" where
  "demo_seam = \<lparr>sm_ssh = demo_ssh, sm_world = demo_world,
     sm_tls = \<lparr>te_read = (\<lambda>p. Inr p), te_certs = (\<lambda>d. Inr [d]), te_key = (\<lambda>d. Inr (Some d)),
       te_native = [''r1''], te_add_root = (\<lambda>c. Inr ()), te_client_auth = (\<lambda>cs k. Inr ())\<rparr>,
     sm_b64 = id\<rparr>"

text \<open>A server that accepts TLS and answers every query with one row; it counts the dials.\<close>

definition demo_pg :: "(nat, string, string, nat) pg_lib" where
  "demo_pg = \<lparr>pgl_dial_tls = (\<lambda>cc cfg n. (Inr n, Suc n)), pgl_dial_plain = (\<lambda>cfg n. (Inr n, Suc n)),
     pgl_simple_query = (\<lambda>cl sql n. (Inr [Pg_row [''a''] [Some ''1'']], n)),
     pgl_prepare = (\<lambda>cl sql. io_ok [''int4'']), pgl_cancel_query = (\<lambda>cl. io_ok ()), pgl_abort = (\<lambda>cl n. n)\<rparr>"

definition demo_net_spec :: "tls_mode \<Rightarrow> conn_spec" where
  "demo_net_spec m = \<lparr>cs_driver = ''postgres'', cs_params = [''host'' \<mapsto> ''db'', ''database'' \<mapsto> ''app''],
     cs_auth = Auth_None, cs_tls = tls_default\<lparr>tls_md := m\<rparr>, cs_tunnel = None\<rparr>"

lemma demo_net_required:
  "tls_required (cs_tls (demo_net_spec VerifyFull))" "tls_required (cs_tls (demo_net_spec VerifyCa))"
  "tls_md (cs_tls (demo_net_spec m)) = m"
  by (simp_all add: demo_net_spec_def tls_required_def)

lemma demo_pg_connect:
  "pg_connect demo_seam demo_pg (demo_net_spec VerifyFull) (net_new None, 4)
   = (Inr \<lparr>pg_client = 4,
       pg_cfg = \<lparr>pgc_host = ''db'', pgc_port = 5432, pgc_user = ''postgres'', pgc_dbname = ''app'',
         pgc_password = None, pgc_require_ssl = False\<rparr>,
       pg_tls = tls_default\<lparr>tls_md := VerifyFull\<rparr>, pg_encrypted = True\<rparr>, (net_new None, 5))"
  by (simp add: pg_connect_def pg_build_config_def io_simps demo_net_spec_def param_def param_opt_def
      port_def pg_credentials_def seam_resolve_plain pg_open_def demo_seam_def demo_pg_def tls_wanted_def
      tls_default_def client_config_def verifies_cert_def tls_finish_def Let_def)

theorem pg_required_tls_witness:
  "\<exists>c w'. pg_connect demo_seam demo_pg (demo_net_spec VerifyFull) (net_new None, 4) = (Inr c, w')
     \<and> pg_encrypted c \<and> is_ok (client_config (sm_tls demo_seam) (cs_tls (demo_net_spec VerifyFull)))"
  using pg_required_tls [OF demo_pg_connect demo_net_required(1)] demo_pg_connect by (auto simp: is_ok_iff)

text \<open>
  C26: When the spec requires TLS, a MySQL connection that opens was dialled with SSL options that check the
  certificate in the verifying modes, the host name in verify_full only, against the spec's own CA, and it
  counts as encrypted.
\<close>
theorem my_required_tls:
  assumes "my_connect sm lib spec (net, w) = (Inr c, (net', w'))" "tls_required (cs_tls spec)"
  shows "my_encrypted c
     \<and> (\<exists>opts ssl. myl_open lib opts w = (Inr (my_client c), w') \<and> myo_ssl opts = Some ssl
          \<and> mys_accept_invalid_certs ssl = (tls_md (cs_tls spec) = Require)
          \<and> mys_skip_domain ssl = (tls_md (cs_tls spec) \<noteq> VerifyFull)
          \<and> mys_root_ca ssl = tls_ca (cs_tls spec) \<and> my_opts c = opts)"
proof -
  from assms have enc: "my_encrypted c" by (rule my.required_encrypted)
  from my_connect_dial [OF assms(1) enc] assms(2) enc show ?thesis
    by (cases "tls_md (cs_tls spec)")
      (auto simp: my_ssl_for_def tls_required_def verifies_cert_def verifies_hostname_def)
qed

text \<open>A server that refuses SSL.\<close>

definition demo_my :: "bool \<Rightarrow> (nat, nat) my_lib" where
  "demo_my ssl = \<lparr>myl_open = (\<lambda>opts n. if \<not> ssl \<and> myo_ssl opts \<noteq> None then (Inl ''no ssl'', n) else (Inr n, Suc n)),
     myl_query = (\<lambda>cl sql. io_ok \<lparr>myr_columns = None, myr_rows = [], myr_affected = 0\<rparr>),
     myl_drop = (\<lambda>cl sql. io_ok ()), myl_id = (\<lambda>cl. 9), myl_disconnect = (\<lambda>cl. io_ok ())\<rparr>"

lemma demo_my_connect:
  "my_connect demo_seam (demo_my True) (demo_net_spec VerifyCa) (net_new None, 4)
   = (Inr \<lparr>my_client = 4,
       my_opts = \<lparr>myo_host = ''db'', myo_port = 3306, myo_user = Some ''root'', myo_pass = None,
         myo_db = Some ''app'', myo_ssl = Some (my_ssl_for (cs_tls (demo_net_spec VerifyCa)))\<rparr>,
       my_encrypted = True\<rparr>, (net_new None, 5))"
  by (simp add: my_connect_def my_build_opts_def io_simps demo_net_spec_def param_def param_opt_def
      port_def my_credentials_def seam_resolve_plain demo_my_def tls_wanted_def tls_default_def Let_def)

theorem my_required_tls_witness:
  "\<exists>c s'. my_connect demo_seam (demo_my True) (demo_net_spec VerifyCa) (net_new None, 4) = (Inr c, s')
     \<and> my_encrypted c \<and> (\<exists>opts ssl. myl_open (demo_my True) opts 4 = (Inr (my_client c), 5)
          \<and> myo_ssl opts = Some ssl \<and> \<not> mys_accept_invalid_certs ssl)"
  using my_required_tls [OF demo_my_connect demo_net_required(2)] demo_my_connect
  by (fastforce simp: demo_net_required)

text \<open>
  C28: Switching the database of a Postgres connection dials the same server again under the same TLS settings.  A
  switch that fails leaves the connection as it was.  After one that succeeds the connection counts as encrypted
  only if the new link was dialled over TLS with the configuration of these settings, and it is in the clear only
  if TLS is not required and was not wanted or its dial failed: a required mode stays encrypted, while in the
  prefer mode an encrypted connection can go on in the clear.
\<close>
theorem pg_switch_keeps_posture:
  assumes "pg_switch_database lib te db (c, w) = (r, (c', w'))"
    and "cfg = (pg_cfg c)\<lparr>pgc_dbname := db\<rparr>"
  shows "case r of
      Inl _ \<Rightarrow> c' = c
    | Inr _ \<Rightarrow> pg_tls c' = pg_tls c \<and> pg_cfg c' = cfg
        \<and> (if pg_encrypted c'
           then \<exists>cc w1. client_config te (pg_tls c) = Inr cc
             \<and> pgl_dial_tls lib cc (cfg\<lparr>pgc_require_ssl := True\<rparr>) w = (Inr (pg_client c'), w1)
           else \<not> tls_required (pg_tls c)
             \<and> (tls_wanted (pg_tls c) \<longrightarrow> (\<exists>cc e w1. client_config te (pg_tls c) = Inr cc
                  \<and> pgl_dial_tls lib cc (cfg\<lparr>pgc_require_ssl := True\<rparr>) w = (Inl e, w1))))"
proof (cases r)
  case (Inl e)
  with pg_switch_opens [OF assms(1)] show ?thesis by simp
next
  case (Inr u)
  with pg_switch_opens [OF assms(1)] obtain w1 where o: "pg_tls c' = pg_tls c" "pg_cfg c' = cfg"
    "pg_open lib te cfg (pg_tls c) w = (Inr c', w1)"
    by (auto simp: assms(2))
  show ?thesis
  proof (cases "pg_encrypted c'")
    case True
    with pg_open_encrypted_dialled [OF o(3)] o(1,2) Inr show ?thesis by auto
  next
    case False
    with pg_open_plaintext [OF o(3)] o(1,2) Inr show ?thesis by simp
  qed
qed

definition demo_pg_conn :: "nat pg_conn" where
  "demo_pg_conn = \<lparr>pg_client = 4,
     pg_cfg = \<lparr>pgc_host = ''db'', pgc_port = 5432, pgc_user = ''u'', pgc_dbname = ''app'',
       pgc_password = None, pgc_require_ssl = False\<rparr>,
     pg_tls = tls_default\<lparr>tls_md := Require\<rparr>, pg_encrypted = True\<rparr>"

theorem pg_switch_keeps_posture_witness:
  "fst (pg_switch_database demo_pg (sm_tls demo_seam) ''other'' (demo_pg_conn, 6)) = Inr ()
   \<and> pg_encrypted (fst (snd (pg_switch_database demo_pg (sm_tls demo_seam) ''other'' (demo_pg_conn, 6))))
   \<and> pgc_dbname (pg_cfg (fst (snd (pg_switch_database demo_pg (sm_tls demo_seam) ''other'' (demo_pg_conn, 6))))) = ''other''"
proof -
  obtain r c' w' where s:
    "pg_switch_database demo_pg (sm_tls demo_seam) ''other'' (demo_pg_conn, 6) = (r, (c', w'))"
    by (metis prod.collapse)
  moreover have "r = Inr ()"
    using s by (simp add: pg_switch_database_def pg_open_def io_simps demo_pg_def demo_pg_conn_def demo_seam_def
        tls_wanted_def tls_default_def client_config_def verifies_cert_def tls_finish_def)
  ultimately show ?thesis
    using pg_switch_keeps_posture [OF s refl]
    by (simp add: demo_pg_conn_def tls_required_def tls_default_def split: if_splits)
qed

text \<open>The prefer mode: a switch takes an encrypted connection into the clear, and nothing tells the client.\<close>

lemma prefer_switch_weakens:
  assumes "tls_md (pg_tls c) = Prefer" "client_config te (pg_tls c) = Inr cc"
    and "pgl_dial_tls lib cc ((pg_cfg c)\<lparr>pgc_dbname := db, pgc_require_ssl := True\<rparr>) w = (Inl e, w1)"
    and "pgl_dial_plain lib ((pg_cfg c)\<lparr>pgc_dbname := db\<rparr>) w1 = (Inr cl, w2)"
  shows "pg_switch_database lib te db (c, w) =
     (Inr (), (c\<lparr>pg_client := cl, pg_cfg := (pg_cfg c)\<lparr>pgc_dbname := db\<rparr>, pg_encrypted := False\<rparr>,
               pgl_abort lib (pg_client c) w2))"
  using assms
  by (simp add: pg_switch_database_def pg_open_def pg_open_plain_def io_simps tls_wanted_def tls_required_def)

text \<open>
  C36: In the mode that only prefers TLS, whatever error the TLS dial of a Postgres connection ends with, the
  driver dials again in the clear with the same credentials.
\<close>
theorem prefer_falls_back_on_any_error:
  assumes "tls_md tls = Prefer" "client_config te tls = Inr cc"
    and "pgl_dial_tls lib cc (cfg\<lparr>pgc_require_ssl := True\<rparr>) w = (Inl e, w')"
  shows "pg_open lib te cfg tls w =
     (case pgl_dial_plain lib cfg w' of
        (Inl e', w'') \<Rightarrow> (Inl (''postgres connect failed: '' @ e'), w'')
      | (Inr cl, w'') \<Rightarrow>
          (Inr \<lparr>pg_client = cl, pg_cfg = cfg, pg_tls = tls, pg_encrypted = False\<rparr>, w''))"
proof -
  have "tls_wanted tls" "\<not> tls_required tls"
    using assms(1) by (simp_all add: tls_wanted_def tls_required_def)
  with assms(2,3) show ?thesis
    by (simp add: pg_open_def pg_open_plain_def io_simps split: prod.splits sum.splits)
qed

text \<open>A server that speaks TLS, and rejects the password over it.\<close>

definition demo_pg_reject :: "(nat, string, string, nat) pg_lib" where
  "demo_pg_reject =
     demo_pg\<lparr>pgl_dial_tls := (\<lambda>cc cfg n. (Inl ''password authentication failed'', Suc n))\<rparr>"

theorem prefer_falls_back_on_any_error_witness:
  "\<exists>c. pg_open demo_pg_reject (sm_tls demo_seam) (pg_cfg demo_pg_conn) tls_default 0 = (Inr c, 2)
     \<and> \<not> pg_encrypted c"
proof -
  have "client_config (sm_tls demo_seam) tls_default = Inr \<lparr>cc_verifier = AcceptAny, cc_identity = None\<rparr>"
    by (simp add: demo_seam_def client_config_def verifies_cert_def tls_finish_def tls_default_def)
  then show ?thesis
    using prefer_falls_back_on_any_error
      [of tls_default "sm_tls demo_seam" _ demo_pg_reject "pg_cfg demo_pg_conn" 0
        "''password authentication failed''" 1]
    by (simp add: tls_default_def demo_pg_reject_def demo_pg_def)
qed

section \<open>Catalogs and results\<close>

text \<open>
  C31: A Postgres statement returns its row messages in order, every cell in text form; the header is that of
  the first row message with columns, and the affected count is the last completion's, given only when
  there are no rows.
\<close>
theorem pg_result_shape:
  "pg_collect msgs =
     ((case pg_headers msgs of [] \<Rightarrow> [] | ns # _ \<Rightarrow> map untyped_column ns), pg_rows msgs,
      (if pg_rows msgs = [] \<and> pg_completions msgs \<noteq> [] then Some (last (pg_completions msgs)) else None))"
  by (rule pg_collect_eq)

text \<open>
  C30: The Postgres object tree has one node per distinct schema of the catalog rows, in the order in which the
  schemas first appear, and below it exactly the objects of that schema, in row order.
\<close>
theorem pg_structure_groups:
  "pg_structure lib (c, w) =
     (case pgl_simple_query lib (pg_client c) pg_structure_sql w of
        (Inl e, w') \<Rightarrow> (Inl (pg_error e), (c, w'))
      | (Inr msgs, w') \<Rightarrow>
          (Inr (map (\<lambda>s. Node s ''schema'' None
                   (map (object_node pg_kind) (filter (\<lambda>r. text_at r 0 = s) (pg_rows msgs))))
                 (nub (map (\<lambda>r. text_at r 0) (pg_rows msgs)))), (c, w')))"
  by (simp add: pg_structure_def pg_simple_def io_simps pg_collect_eq schema_tree_eq schema_node_def [abs_def]
      split: prod.splits sum.splits)

text \<open>
  C35: A SQLite query returns the rows its cursor yields before the end, in order and cell by cell; an error
  after any number of rows makes the whole statement fail with it.
\<close>
theorem sqlite_cursor:
  assumes "sql_prepare lib db sql w = (Inr names, w1)" "names \<noteq> []"
    and "sql_query lib db sql w1
      = (Inr (map (\<lambda>vs. Sq_row (map Inr vs)) vss @ (case stop of Some e \<Rightarrow> Sq_err e # others | None \<Rightarrow> [])), w2)"
  shows "sqlite_run b64 lib db sql w =
     ((case stop of
         Some e \<Rightarrow> Inl e
       | None \<Rightarrow> Inr (map (\<lambda>n. \<lparr>col_name = n, col_type = []\<rparr>) names,
                    map (map (sqlite_cell b64)) vss, None)), w2)"
  using assms sqlite_rows_ok [of b64 "[]" vss] sqlite_rows_err [of b64 "[]" vss]
  by (cases stop) (auto simp: sqlite_run_def io_simps)

definition demo_sq :: "sq_step list \<Rightarrow> (unit, nat) sq_lib" where
  "demo_sq steps = \<lparr>sql_open_memory = io_ok (), sql_open_file = (\<lambda>f. io_ok ()), sql_prepare = (\<lambda>db sql. io_ok [''a'']),
     sql_batch = (\<lambda>db sql. io_ok ()), sql_changes = (\<lambda>db n. 0), sql_query = (\<lambda>db sql. io_ok steps)\<rparr>"

theorem sqlite_cursor_witness:
  "sqlite_run id (demo_sq [Sq_row [Inr (Sq_integer 1)], Sq_row [Inr Sq_null]]) () ''select a'' 0
     = (Inr ([\<lparr>col_name = ''a'', col_type = []\<rparr>], [[VInt 1], [VNull]], None), 0)
   \<and> sqlite_run id (demo_sq [Sq_row [Inr (Sq_integer 1)], Sq_err ''busy'']) () ''select a'' 0 = (Inl ''busy'', 0)"
  using sqlite_cursor [where lib = "demo_sq [Sq_row [Inr (Sq_integer 1)], Sq_row [Inr Sq_null]]" and db = "()" and sql = "''select a''" and w = 0
      and names = "[''a'']" and ?w1.0 = 0 and vss = "[[Sq_integer 1], [Sq_null]]" and stop = "None" and others = "[]" and ?w2.0 = 0 and ?b64.0 = id]
    sqlite_cursor [where lib = "demo_sq [Sq_row [Inr (Sq_integer 1)], Sq_err ''busy'']" and db = "()" and sql = "''select a''" and w = 0
      and names = "[''a'']" and ?w1.0 = 0 and vss = "[[Sq_integer 1]]" and stop = "Some ''busy''" and others = "[]" and ?w2.0 = 0 and ?b64.0 = id]
  by (simp add: demo_sq_def sqlite_cell_def)

section \<open>Names in statements\<close>

text \<open>
  C29: The statements that look up an object, on the drivers whose servers read quotes as the standard does
  (Postgres, SQLite, SQL Server, DuckDB, Firebird, Cassandra), quote exactly the names they are given, whatever
  these contain, and their code depends on nothing but whether the object has a schema.  Postgres reads the text
  its column query casts to a class once more, and finds exactly the schema and the name in it.
\<close>
theorem names_stay_quoted:
  "quotes_exactly pg_columns_sql (\<lambda>ob. [pg_ident ob, ob_name ob] @ schema_list ob)
   \<and> quotes_exactly pg_ident (\<lambda>ob. schema_list ob @ [ob_name ob])
   \<and> quotes_exactly pg_indexes_sql (\<lambda>ob. ob_name ob # schema_list ob)
   \<and> quotes_exactly sqlite_columns_sql (\<lambda>ob. [ob_name ob])
   \<and> quotes_exactly sqlite_index_list_sql (\<lambda>ob. [ob_name ob])
   \<and> quotes_exactly (\<lambda>ob. sqlite_index_info_sql (ob_name ob)) (\<lambda>ob. [ob_name ob])
   \<and> quotes_exactly sqlite_ddl_sql (\<lambda>ob. [ob_name ob, ''table'', ''view''])
   \<and> quotes_exactly ms_columns_sql (\<lambda>ob. ob_name ob # schema_list ob)
   \<and> quotes_exactly ms_indexes_sql (\<lambda>ob. ob_name ob # schema_list ob)
   \<and> quotes_exactly duck_columns_sql (\<lambda>ob. schema_list ob @ [ob_name ob])
   \<and> quotes_exactly duck_indexes_sql (\<lambda>ob. ob_name ob # schema_list ob)
   \<and> quotes_exactly duck_ddl_sql (\<lambda>ob. [ob_name ob, ob_name ob])
   \<and> quotes_exactly (fb_columns_sql up) (\<lambda>ob. [up (ob_name ob), ''PRIMARY KEY'', up (ob_name ob)])
   \<and> quotes_exactly fb_indexes_sql (\<lambda>ob. [''PRIMARY KEY'', ob_name ob])
   \<and> quotes_exactly (\<lambda>ob. cql_columns_sql (g ob) (ob_name ob)) (\<lambda>ob. [g ob, ob_name ob])
   \<and> quotes_exactly (\<lambda>ob. cql_indexes_sql (g ob) (ob_name ob)) (\<lambda>ob. [g ob, ob_name ob])"
  by (intro conjI pg_columns_quotes pg_ident_quotes pg_indexes_quotes sqlite_columns_quotes
      sqlite_index_list_quotes sqlite_index_info_quotes sqlite_ddl_quotes ms_columns_quotes ms_indexes_quotes
      duck_columns_quotes duck_indexes_quotes duck_ddl_quotes fb_columns_quotes fb_indexes_quotes
      cql_columns_quotes cql_indexes_quotes)

text \<open>
  C37: A MySQL server in its default mode reads a table name with a backslash before a quote as ending at that quote:
  what follows in the name is read as code of the column query.
\<close>
theorem mysql_backslash_breaks_out:
  assumes "CHR 0x5C \<notin> set a" "CHR 0x27 \<notin> set a" "CHR 0x27 \<notin> set p" "p \<noteq> []"
  shows "my_scan (CHR 0x27) (my_columns_tail \<lparr>ob_name = a @ [CHR 0x5C, CHR 0x27] @ p, ob_schema = None\<rparr>)
     = Some (a @ sq, p @ sq @ ''  ORDER BY ordinal_position'')"
  using my_scan_breaks [OF assms(1,3,4,2)] by (simp add: my_columns_tail_eq sq_def)

theorem mysql_backslash_breaks_out_witness:
  "my_scan (CHR 0x27) (my_columns_tail
       \<lparr>ob_name = ''t'' @ [CHR 0x5C, CHR 0x27] @ '' UNION SELECT 1, 2, 3 -- '', ob_schema = None\<rparr>)
     = Some (''t'' @ sq, '' UNION SELECT 1, 2, 3 -- '' @ sq @ ''  ORDER BY ordinal_position'')"
  by (rule mysql_backslash_breaks_out) simp_all

section \<open>Redis\<close>

text \<open>
  C33: The credentials in a Redis URL are read back exactly, whatever characters the user name and the password
  contain, and the host is the one that was resolved.
\<close>
theorem redis_credentials_roundtrip:
  assumes "redis_auth sm (Auth_Password user password) s = (Inr auth, s')"
    and "secret_resolve (sm_world sm) password = Inr pw"
    and "\<forall>c\<in>set (rhost @ rport). \<not> authority_end c \<and> c \<noteq> CHR ''@''"
  shows "url_userinfo scheme (redis_url scheme auth rhost rport db frag) = Some (user, pw, rhost @ '':'' @ rport)"
proof -
  from assms(1,2) have "auth = pct user @ '':'' @ pct pw @ ''@''"
    by (auto simp: redis_auth_def seam_secret_def io_simps Let_def split: if_splits)
  with url_userinfo_redis [OF assms(3)] show ?thesis by simp
qed

theorem redis_credentials_roundtrip_witness:
  "\<exists>auth. redis_auth demo_seam (Auth_Password ''a@b'' (Secret ''p/w:#'')) () = (Inr auth, ())
     \<and> url_userinfo ''rediss'' (redis_url ''rediss'' auth ''db'' ''6379'' ''0'' [])
         = Some (''a@b'', ''p/w:#'', ''db:6379'')"
proof -
  have r: "secret_resolve (sm_world demo_seam) (Secret ''p/w:#'') = Inr ''p/w:#''"
    by code_simp
  obtain auth where a: "redis_auth demo_seam (Auth_Password ''a@b'' (Secret ''p/w:#'')) () = (Inr auth, ())"
    using r by (simp add: redis_auth_def seam_secret_def io_simps Let_def)
  show ?thesis
    using redis_credentials_roundtrip [OF a r, of "''db''" "''6379''" "''rediss''" "''0''" "[]"] a
    by (simp add: authority_end_def)
qed

text \<open>
  C34: A Redis command line of quoted arguments reaches the server argument by argument, white space kept, except that
  an empty argument is dropped.
\<close>
theorem redis_command_line:
  assumes "\<forall>t\<in>set ts. CHR 0x22 \<notin> set t"
  shows "tokenize (join '' '' (map quote_arg ts)) = filter (\<lambda>t. t \<noteq> []) ts"
  using assms by (rule tokenize_args)

theorem redis_command_line_witness:
  "tokenize (join '' '' (map quote_arg [''SET'', ''a key'', []])) = [''SET'', ''a key'']"
  using redis_command_line [of "[''SET'', ''a key'', []]"] by simp

section \<open>SQL Server\<close>

text \<open>
  C32: A decimal of up to 38 digits is shown as text that reads back to the same digits and the same scale.
\<close>
theorem mssql_decimal_exact:
  assumes "\<bar>v\<bar> < 10 ^ 38"
  shows "read_decimal (numeric_text (numeric_of v k)) = Some (v, k)"
  using assms by (rule read_numeric_text)

theorem mssql_decimal_exact_witness: "read_decimal (numeric_text (numeric_of (- 5) 3)) = Some (- 5, 3)"
  by (rule mssql_decimal_exact) simp

text \<open>
  A SQL Server cell is shown as null only when none of the fifteen types the ladder asks for gives a value.
\<close>
lemma mssql_null_is_null: "render_cell b64 r i = VNull \<longleftrightarrow> True \<notin> set (ms_answers r i)"
  by (rule render_cell_null)

section \<open>ClickHouse\<close>

text \<open>
  C27: When the spec requires TLS, a ClickHouse connection that opens talks https, through an HTTP client that accepts
  an invalid certificate only in the require mode and an unchecked host name only below verify_full, and it has
  answered a probe.
\<close>
theorem clickhouse_required_tls:
  assumes "ch_connect sm lib spec (net, w) = (Inr c, s')" "tls_required (cs_tls spec)"
  shows "ch_encrypted c \<and> starts_with ''https://'' (ch_base c)
     \<and> (\<exists>cb. chl_build lib cb = Inr (ch_client c)
          \<and> chb_invalid_certs cb = (tls_md (cs_tls spec) = Require)
          \<and> chb_invalid_hostnames cb = (tls_md (cs_tls spec) \<noteq> VerifyFull))"
proof -
  from assms have enc: "ch_encrypted c" by (rule ch.required_encrypted)
  from assms(1) obtain addr user password where
    c: "ch_build (sm_tls sm) lib (cs_tls spec) addr user password
          (unwrap_or ''default'' (param_opt spec ''database'')) (ch_encrypted c) = Inr c"
    using ch_connect_Inr by blast
  from ch_build_Inr [OF c] enc obtain cb where
    cb: "ch_tls_builder (sm_tls sm) lib (cs_tls spec) = Inr cb" "chl_build lib cb = Inr (ch_client c)"
    and base: "ch_base c = ''https://'' @ addr" by auto
  from ch_tls_builder_checks [OF cb(1)] assms(2)
  have "chb_invalid_certs cb = (tls_md (cs_tls spec) = Require)"
    "chb_invalid_hostnames cb = (tls_md (cs_tls spec) \<noteq> VerifyFull)"
    by (cases "tls_md (cs_tls spec)"; simp add: tls_required_def verifies_cert_def verifies_hostname_def)+
  with enc cb(2) base show ?thesis by (auto simp: starts_with_def)
qed

definition demo_ch :: "(string, string, nat, nat) ch_lib" where
  "demo_ch = \<lparr>chl_ca = Inr, chl_identity = Inr, chl_build = (\<lambda>cb. Inr 3),
     chl_send = (\<lambda>cl r n. (Inr (True, Inr []), Suc n)), chl_parse = (\<lambda>t. Inl ''no'')\<rparr>"

lemma demo_ch_connect:
  "ch_connect demo_seam demo_ch (demo_net_spec VerifyCa) (net_new None, 4)
   = (Inr \<lparr>ch_client = 3, ch_base = ''https://'' @ addr_of ''db'' 8123, ch_user = [], ch_password = [],
       ch_database = ''app'', ch_encrypted = True\<rparr>, (net_new None, 5))"
  by (simp add: ch_connect_def io_simps demo_net_spec_def param_def param_opt_def port_def ch_credentials_def
      seam_resolve_plain demo_ch_def tls_wanted_def tls_default_def ch_open_def ch_build_def ch_tls_builder_def
      ch_probe_def ch_query_json_def ch_response_def Let_def)

theorem clickhouse_required_tls_witness:
  "\<exists>c s'. ch_connect demo_seam demo_ch (demo_net_spec VerifyCa) (net_new None, 4) = (Inr c, s')
     \<and> ch_encrypted c \<and> starts_with ''https://'' (ch_base c)"
  using clickhouse_required_tls [OF demo_ch_connect demo_net_required(2)] demo_ch_connect by blast

end
