(* ===== verification/Mongo.thy ===== *)
theory Mongo
  imports Driver_Common
begin

text \<open>
  \<open>drivers/mongodb.rs\<close>.  The mongodb crate is the record \<open>mg_lib\<close>; a cursor is the list of answers it still
  has to give, each a document or an error.  The text forms the bson crate computes (extended JSON, the
  display of the rarer types) are parameters.  A find or an aggregation is the one live stream of the
  daemon; it keeps the contract of \<open>Result_Stream\<close> as long as its cursor reports no error.
\<close>

section \<open>Metadata\<close>

definition MONGO_META :: driver_meta where
  "MONGO_META = \<lparr>dm_kind = ''mongodb'', dm_display = ''MongoDB'', dm_default_port = Some 27017,
     dm_params =
       [\<lparr>ps_key = ''host'', ps_label = ''Host'', ps_kind = PT_String, ps_required = True, ps_secret = False,
         ps_default = Some ''127.0.0.1''\<rparr>,
        \<lparr>ps_key = ''port'', ps_label = ''Port'', ps_kind = PT_Int, ps_required = False, ps_secret = False,
         ps_default = Some ''27017''\<rparr>,
        \<lparr>ps_key = ''database'', ps_label = ''Database'', ps_kind = PT_String, ps_required = True,
         ps_secret = False, ps_default = Some ''test''\<rparr>,
        \<lparr>ps_key = ''auth_source'', ps_label = ''Auth database'', ps_kind = PT_String, ps_required = False,
         ps_secret = False, ps_default = Some ''admin''\<rparr>],
     dm_auth = [AK_None, AK_Password, AK_ClientCert, AK_Provider],
     dm_caps = \<lparr>cap_sql = False, cap_schemas = True, cap_cancel = False, cap_tls = True, cap_tunnel = True,
       cap_multi_db = True, cap_kv = True, cap_indexes = True, cap_ddl = False\<rparr>\<rparr>"

section \<open>The client library\<close>

text \<open>Dates and decimals are their text; an identifier is its hex; a type the code does not name its display.\<close>

datatype bson =
    B_null
  | B_undefined
  | B_bool bool
  | B_int32 int
  | B_int64 int
  | B_double f64
  | B_string string
  | B_oid string
  | B_datetime string
  | B_decimal string
  | B_binary string
  | B_document "(string \<times> bson) list"
  | B_array "bson list"
  | B_other string

type_synonym document = "(string \<times> bson) list"

record bson_env =
  be_extjson :: "bson \<Rightarrow> json"
  be_display :: "bson \<Rightarrow> string"
  be_b64 :: "string \<Rightarrow> string"

record mg_tls =
  mgt_ca :: "string option"
  mgt_invalid_certs :: bool
  mgt_cert_key :: "string option"

record mg_opts =
  mgo_host :: string
  mgo_port :: "u16 option"
  mgo_credential :: "(string \<times> string \<times> string option) option"
  mgo_direct :: bool
  mgo_app_name :: string
  mgo_tls :: "mg_tls option"

record mg_index =
  mgi_keys :: document
  mgi_name :: "string option"
  mgi_unique :: "bool option"

record ('cl, 'w) mg_lib =
  mgl_client :: "mg_opts \<Rightarrow> ('w, 'cl) io"
  mgl_command :: "'cl \<Rightarrow> string \<Rightarrow> document \<Rightarrow> ('w, document) io"
  mgl_json :: "string \<Rightarrow> json result"
  mgl_bson :: "json \<Rightarrow> bson result"
  mgl_count :: "'cl \<Rightarrow> string \<Rightarrow> string \<Rightarrow> document \<Rightarrow> ('w, nat) io"
  mgl_find :: "'cl \<Rightarrow> string \<Rightarrow> string \<Rightarrow> document \<Rightarrow> document option \<Rightarrow> int option \<Rightarrow> document option
     \<Rightarrow> ('w, document result list) io"
  mgl_aggregate :: "'cl \<Rightarrow> string \<Rightarrow> string \<Rightarrow> document list \<Rightarrow> ('w, document result list) io"
  mgl_find_one :: "'cl \<Rightarrow> string \<Rightarrow> string \<Rightarrow> ('w, document option) io"
  mgl_databases :: "'cl \<Rightarrow> ('w, string list) io"
  mgl_collections :: "'cl \<Rightarrow> string \<Rightarrow> ('w, string list) io"
  mgl_indexes :: "'cl \<Rightarrow> string \<Rightarrow> string \<Rightarrow> ('w, mg_index result list) io"

section \<open>Connecting\<close>

definition mongo_credential ::
  "('key, 'ident, 'cert, 'pk) seam \<Rightarrow> conn_spec \<Rightarrow> ('s, (string \<times> string \<times> string option) option) io" where
  "mongo_credential sm spec =
     (case cs_auth spec of
        Auth_Password user password \<Rightarrow>
          io_bind (seam_secret sm password) (\<lambda>pw. io_ok (Some (user, pw, param_opt spec ''auth_source'')))
      | _ \<Rightarrow> io_ok None)"

definition mongo_probe :: "('cl, 'w) mg_lib \<Rightarrow> mg_opts \<Rightarrow> string \<Rightarrow> ('w, 'cl) io" where
  "mongo_probe lib opts db =
     io_bind (io_map_err (\<lambda>e. ''mongodb connect failed: '' @ e) (mgl_client lib opts)) (\<lambda>client.
     io_bind (io_map_err (\<lambda>e. ''mongodb ping failed: '' @ e)
         (mgl_command lib client db [(''ping'', B_int32 1)])) (\<lambda>_. io_ok client))"

record 'cl mongo_conn =
  mc_client :: 'cl
  mc_db :: string
  mc_encrypted :: bool

definition mongo_opts ::
  "('key, 'ident, 'cert, 'pk) seam \<Rightarrow> conn_spec \<Rightarrow> (net_ctx \<times> 'w, string \<times> mg_opts) io" where
  "mongo_opts sm spec =
     io_bind (io_lift (param spec ''host'')) (\<lambda>host.
     io_bind (io_lift (param spec ''database'')) (\<lambda>db.
     io_bind (seam_resolve sm host (port spec 27017)) (\<lambda>addr.
     io_bind (io_lift (dial_parts addr)) (\<lambda>(rhost, rport).
     io_bind (mongo_credential sm spec) (\<lambda>cred.
       io_ok (db, \<lparr>mgo_host = rhost, mgo_port = parse_u16 rport, mgo_credential = cred, mgo_direct = True,
                   mgo_app_name = ''lvim-db'', mgo_tls = None\<rparr>))))))"

definition mongo_tls :: "tls_spec \<Rightarrow> mg_tls" where
  "mongo_tls tls = \<lparr>mgt_ca = tls_ca tls, mgt_invalid_certs = (\<not> verifies_cert tls),
     mgt_cert_key = tls_client_cert tls\<rparr>"

definition mongo_open :: "('cl, 'w) mg_lib \<Rightarrow> tls_spec \<Rightarrow> string \<Rightarrow> mg_opts \<Rightarrow> ('w, 'cl mongo_conn) io" where
  "mongo_open lib tls db opts =
     (let plain = io_bind (mongo_probe lib opts db) (\<lambda>client.
            io_ok \<lparr>mc_client = client, mc_db = db, mc_encrypted = False\<rparr>)
      in if tls_wanted tls then
           io_match (mongo_probe lib (opts\<lparr>mgo_tls := Some (mongo_tls tls)\<rparr>) db)
             (\<lambda>e. if tls_required tls
                  then io_err (''mongodb: TLS is required but the connection failed: '' @ e) else plain)
             (\<lambda>client. io_ok \<lparr>mc_client = client, mc_db = db, mc_encrypted = True\<rparr>)
         else plain)"

definition mongo_connect ::
  "('key, 'ident, 'cert, 'pk) seam \<Rightarrow> ('cl, 'w) mg_lib \<Rightarrow> conn_spec \<Rightarrow> (net_ctx \<times> 'w, 'cl mongo_conn) io" where
  "mongo_connect sm lib spec =
     io_bind (mongo_opts sm spec) (\<lambda>(db, opts). on_lib (mongo_open lib (cs_tls spec) db opts))"

section \<open>Documents\<close>

definition mongo_cell :: "bson_env \<Rightarrow> bson \<Rightarrow> val" where
  "mongo_cell be b =
     (case b of
        B_null \<Rightarrow> VNull
      | B_undefined \<Rightarrow> VNull
      | B_bool v \<Rightarrow> VBool v
      | B_int32 i \<Rightarrow> VInt i
      | B_int64 i \<Rightarrow> VInt i
      | B_double d \<Rightarrow> VFloat d
      | B_string s \<Rightarrow> VText s
      | B_oid hex \<Rightarrow> VOid hex
      | B_datetime t \<Rightarrow> VExt t ''$date''
      | B_decimal t \<Rightarrow> VExt t ''$numberDecimal''
      | B_binary bin \<Rightarrow> bytes_cell (be_b64 be) bin
      | B_document _ \<Rightarrow> VJson (be_extjson be b)
      | B_array _ \<Rightarrow> VJson (be_extjson be b)
      | B_other t \<Rightarrow> VText t)"

definition column_order :: "document \<Rightarrow> string list" where
  "column_order doc =
     (if ''_id'' \<in> fst ` set doc then [''_id''] else []) @ filter (\<lambda>k. k \<noteq> ''_id'') (map fst doc)"

definition doc_to_row :: "bson_env \<Rightarrow> string list \<Rightarrow> document \<Rightarrow> row" where
  "doc_to_row be keys doc =
     map (\<lambda>k. unwrap_or VNull (map_option (mongo_cell be) (map_of doc k))) keys
     @ [VJson (be_extjson be (B_document doc))]"

definition columns_for :: "string list \<Rightarrow> column list" where
  "columns_for keys =
     map (\<lambda>k. \<lparr>col_name = k, col_type = []\<rparr>) keys @ [\<lparr>col_name = ''_document'', col_type = ''json''\<rparr>]"

section \<open>The live stream\<close>

record mstream =
  mst_cursor :: "document result list"
  mst_keys :: "string list"
  mst_columns :: "column list"
  mst_first :: "document option"
  mst_done :: bool
  mst_total :: "nat option"

definition mongo_stream_open :: "document result list \<Rightarrow> nat option \<Rightarrow> mstream result" where
  "mongo_stream_open cursor tot =
     bind_result
       (case cursor of
          [] \<Rightarrow> Inr (None, [])
        | Inl e # _ \<Rightarrow> Inl e
        | Inr doc # rest \<Rightarrow> Inr (Some doc, rest))
       (\<lambda>(first, rest).
          let keys = (case first of Some doc \<Rightarrow> column_order doc | None \<Rightarrow> []) in
          Inr \<lparr>mst_cursor = rest, mst_keys = keys, mst_columns = columns_for keys, mst_first = first,
               mst_done = False, mst_total = tot\<rparr>)"

text \<open>The loop of \<open>next_page\<close>: what it gives, what is left of the cursor, and whether it has ended.\<close>

fun mongo_fill ::
  "(document \<Rightarrow> row) \<Rightarrow> nat \<Rightarrow> row list \<Rightarrow> document result list \<Rightarrow> row list result \<times> document result list \<times> bool" where
  "mongo_fill f n rows [] = (Inr rows, [], length rows < n)"
| "mongo_fill f n rows (d # cursor) =
     (if length rows < n then
        (case d of
           Inr doc \<Rightarrow> mongo_fill f n (rows @ [f doc]) cursor
         | Inl e \<Rightarrow> (Inl e, cursor, False))
      else (Inr rows, d # cursor, False))"

definition mongo_next_page :: "bson_env \<Rightarrow> nat \<Rightarrow> mstream \<Rightarrow> (row list option result \<times> mstream) option" where
  "mongo_next_page be n s =
     (if mst_done s \<and> mst_first s = None then Some (Inr None, s)
      else
        (let rows = (case mst_first s of Some doc \<Rightarrow> [doc_to_row be (mst_keys s) doc] | None \<Rightarrow> []);
             s1 = s\<lparr>mst_first := None\<rparr> in
         case (if mst_done s then (Inr rows, mst_cursor s, True)
               else mongo_fill (doc_to_row be (mst_keys s)) n rows (mst_cursor s)) of
           (Inl e, cursor, ended) \<Rightarrow> Some (Inl e, s1\<lparr>mst_cursor := cursor\<rparr>)
         | (Inr out, cursor, ended) \<Rightarrow>
             Some (Inr (if out = [] then None else Some out),
                   s1\<lparr>mst_cursor := cursor, mst_done := mst_done s \<or> ended\<rparr>)))"

text \<open>What \<open>execute\<close> hands out: a live cursor, or the one document of a raw command.\<close>

datatype mongo_result = M_cursor mstream | M_buffered bstream

definition mongo_vt :: "bson_env \<Rightarrow> mongo_result stream_vt" where
  "mongo_vt be =
     \<lparr>sv_columns = (\<lambda>r. case r of M_cursor s \<Rightarrow> mst_columns s | M_buffered b \<Rightarrow> bs_columns b),
      sv_affected = (\<lambda>r. case r of M_cursor s \<Rightarrow> None | M_buffered b \<Rightarrow> buffered_affected b),
      sv_total = (\<lambda>r. case r of M_cursor s \<Rightarrow> mst_total s | M_buffered b \<Rightarrow> buffered_total b),
      sv_next_page = (\<lambda>n r. case r of
          M_cursor s \<Rightarrow> map_option (\<lambda>(x, s'). (x, M_cursor s')) (mongo_next_page be n s)
        | M_buffered b \<Rightarrow> map_option (\<lambda>(x, b'). (x, M_buffered b')) (buffered_next_page n b))\<rparr>"

section \<open>Statements\<close>

definition get_str :: "document \<Rightarrow> string \<Rightarrow> string option" where
  "get_str doc k = (case map_of doc k of Some (B_string s) \<Rightarrow> Some s | _ \<Rightarrow> None)"

definition get_document :: "document \<Rightarrow> string \<Rightarrow> document option" where
  "get_document doc k = (case map_of doc k of Some (B_document d) \<Rightarrow> Some d | _ \<Rightarrow> None)"

definition mongo_limit :: "document \<Rightarrow> int option" where
  "mongo_limit doc =
     (case map_of doc ''limit'' of Some (B_int64 i) \<Rightarrow> Some i | Some (B_int32 i) \<Rightarrow> Some i | _ \<Rightarrow> None)"

definition mongo_total :: "int option \<Rightarrow> nat \<Rightarrow> nat" where
  "mongo_total limit n = (case limit of Some l \<Rightarrow> if 0 < l then min n (nat l) else n | None \<Rightarrow> n)"

definition mongo_pipeline :: "document \<Rightarrow> document list" where
  "mongo_pipeline doc =
     (case map_of doc ''pipeline'' of
        Some (B_array arr) \<Rightarrow> filter_map (\<lambda>b. case b of B_document d \<Rightarrow> Some d | _ \<Rightarrow> None) arr
      | _ \<Rightarrow> [])"

definition mongo_parse :: "('cl, 'w) mg_lib \<Rightarrow> string \<Rightarrow> document result" where
  "mongo_parse lib stmt =
     bind_result (map_err (\<lambda>e. ''statement must be a JSON document: '' @ e) (mgl_json lib stmt)) (\<lambda>j.
       case mgl_bson lib j of
         Inr (B_document d) \<Rightarrow> Inr d
       | Inr _ \<Rightarrow> Inl ''statement must be a JSON object''
       | Inl e \<Rightarrow> Inl (''invalid command document: '' @ e))"

definition mongo_stream ::
  "('w, document result list) io \<Rightarrow> nat option \<Rightarrow> ('w, mongo_result) io" where
  "mongo_stream open_cursor tot =
     io_bind open_cursor (\<lambda>cursor. io_bind (io_lift (mongo_stream_open cursor tot)) (\<lambda>s. io_ok (M_cursor s)))"

definition mongo_run ::
  "bson_env \<Rightarrow> ('cl, 'w) mg_lib \<Rightarrow> 'cl \<Rightarrow> string \<Rightarrow> document \<Rightarrow> ('w, mongo_result) io" where
  "mongo_run be lib cl db doc =
     (case get_str doc ''find'' of
        Some coll \<Rightarrow>
          (let filter_doc = unwrap_or [] (get_document doc ''filter''); limit = mongo_limit doc in
           io_bind (io_try (mgl_count lib cl db coll filter_doc)) (\<lambda>count.
             mongo_stream
               (mgl_find lib cl db coll filter_doc (get_document doc ''sort'') limit (get_document doc ''projection''))
               (map_option (mongo_total limit) (ok_opt count))))
      | None \<Rightarrow>
          (case get_str doc ''aggregate'' of
             Some coll \<Rightarrow> mongo_stream (mgl_aggregate lib cl db coll (mongo_pipeline doc)) None
           | None \<Rightarrow>
               io_bind (mgl_command lib cl db doc) (\<lambda>res.
                 let keys = column_order res in
                 io_ok (M_buffered (buffered_new (columns_for keys) [doc_to_row be keys res] None)))))"

definition mongo_dispatch ::
  "bson_env \<Rightarrow> ('cl, 'w) mg_lib \<Rightarrow> string \<Rightarrow> ('cl mongo_conn \<times> 'w, mongo_result) io" where
  "mongo_dispatch be lib stmt = (\<lambda>(c, w).
     case io_bind (io_lift (mongo_parse lib stmt)) (mongo_run be lib (mc_client c) (mc_db c)) w of
       (r, w') \<Rightarrow> (r, (c, w')))"

definition mongo_execute ::
  "bson_env \<Rightarrow> ('cl, 'w) mg_lib \<Rightarrow> string \<Rightarrow> ('cl mongo_conn \<times> 'w, mongo_result) io" where
  "mongo_execute be lib stmt = mongo_dispatch be lib stmt"

section \<open>The catalog\<close>

definition on_client :: "('cl \<Rightarrow> string \<Rightarrow> ('w, 'a) io) \<Rightarrow> ('cl mongo_conn \<times> 'w, 'a) io" where
  "on_client f = (\<lambda>(c, w). case f (mc_client c) (mc_db c) w of (r, w') \<Rightarrow> (r, (c, w')))"

definition mongo_databases :: "('cl, 'w) mg_lib \<Rightarrow> ('cl mongo_conn \<times> 'w, string list) io" where
  "mongo_databases lib = on_client (\<lambda>cl db. mgl_databases lib cl)"

definition mongo_switch_database :: "string \<Rightarrow> ('cl mongo_conn \<times> 'w, unit) io" where
  "mongo_switch_database db = (\<lambda>(c, w). (Inr (), (c\<lparr>mc_db := db\<rparr>, w)))"

definition mongo_structure :: "('cl, 'w) mg_lib \<Rightarrow> ('cl mongo_conn \<times> 'w, node list) io" where
  "mongo_structure lib = on_client (\<lambda>cl db.
     io_bind (mgl_collections lib cl db) (\<lambda>names.
       io_ok [Node db ''schema'' None (map (\<lambda>n. Node n ''collection'' (Some db) []) names)]))"

definition mongo_columns :: "('cl, 'w) mg_lib \<Rightarrow> obj_ref \<Rightarrow> ('cl mongo_conn \<times> 'w, table_column list) io" where
  "mongo_columns lib ob = on_client (\<lambda>cl db.
     io_bind (mgl_find_one lib cl db (ob_name ob)) (\<lambda>sample.
       io_ok (case sample of
          Some doc \<Rightarrow> map (\<lambda>c. \<lparr>tc_name = col_name c, tc_type = col_type c, tc_primary = (col_name c = ''_id'')\<rparr>)
                        (columns_for (column_order doc))
        | None \<Rightarrow> [])))"

definition bson_key_suffix :: "bson_env \<Rightarrow> bson \<Rightarrow> string" where
  "bson_key_suffix be v =
     (case v of
        B_int32 i \<Rightarrow> show_int i
      | B_int64 i \<Rightarrow> show_int i
      | B_double f \<Rightarrow> show_int (f64_to_i64 f)
      | B_string s \<Rightarrow> s
      | other \<Rightarrow> be_display be other)"

definition mongo_index :: "bson_env \<Rightarrow> mg_index \<Rightarrow> index" where
  "mongo_index be m =
     (let columns = map fst (mgi_keys m); primary = (columns = [''_id'']) in
      \<lparr>ix_name = unwrap_or (join ''_'' (map (\<lambda>(k, v). k @ ''_'' @ bson_key_suffix be v) (mgi_keys m))) (mgi_name m),
       ix_columns = columns, ix_unique = (unwrap_or False (mgi_unique m) \<or> primary), ix_primary = primary\<rparr>)"

fun mongo_index_loop :: "bson_env \<Rightarrow> index list \<Rightarrow> mg_index result list \<Rightarrow> index list result" where
  "mongo_index_loop be out [] = Inr out"
| "mongo_index_loop be out (Inl e # ms) = Inl e"
| "mongo_index_loop be out (Inr m # ms) = mongo_index_loop be (out @ [mongo_index be m]) ms"

definition mongo_indexes ::
  "bson_env \<Rightarrow> ('cl, 'w) mg_lib \<Rightarrow> obj_ref \<Rightarrow> ('cl mongo_conn \<times> 'w, index list) io" where
  "mongo_indexes be lib ob = on_client (\<lambda>cl db.
     io_bind (mgl_indexes lib cl db (ob_name ob)) (\<lambda>ms. io_lift (mongo_index_loop be [] ms)))"

definition mongo_close :: "('cl mongo_conn \<times> 'w, unit) io" where
  "mongo_close = io_ok ()"

section \<open>Encryption\<close>

lemma mongo_open_Inr:
  "mongo_open lib tls db opts w = (Inr c, w') \<Longrightarrow>
   (tls_required tls \<longrightarrow> mc_encrypted c) \<and> (\<not> tls_wanted tls \<longrightarrow> \<not> mc_encrypted c)
   \<and> (mc_encrypted c \<longrightarrow> mongo_probe lib (opts\<lparr>mgo_tls := Some (mongo_tls tls)\<rparr>) db w = (Inr (mc_client c), w'))"
  using tls_required_wanted [of tls]
  by (auto simp: mongo_open_def Let_def result_iff split: if_splits)

interpretation mg: tls_posture "mongo_connect sm lib" mc_encrypted
  for sm :: "('key, 'ident, 'cert, 'pk) seam" and lib :: "('cl, 'w) mg_lib"
  by unfold_locales (auto simp: mongo_connect_def result_iff dest!: mongo_open_Inr)

section \<open>The stream keeps its contract\<close>

text \<open>The rows a stream still has to give, when its cursor reports no error.\<close>

fun ok_list :: "'a result list \<Rightarrow> 'a list" where
  "ok_list [] = []"
| "ok_list (Inr a # xs) = a # ok_list xs"
| "ok_list (Inl e # xs) = ok_list xs"

definition mongo_pending :: "bson_env \<Rightarrow> mstream \<Rightarrow> row list" where
  "mongo_pending be s =
     map (doc_to_row be (mst_keys s))
       ((case mst_first s of Some d \<Rightarrow> [d] | None \<Rightarrow> []) @ ok_list (mst_cursor s))"

definition mongo_inv :: "mstream \<Rightarrow> bool" where
  "mongo_inv s \<longleftrightarrow>
     list_all is_ok (mst_cursor s) \<and> (mst_done s \<longrightarrow> mst_cursor s = [] \<and> mst_first s = None)"

lemma mongo_fill_ok:
  assumes "list_all is_ok cursor" "length rows \<le> n"
  shows "mongo_fill f n rows cursor =
     (Inr (rows @ map f (take (n - length rows) (ok_list cursor))), drop (n - length rows) cursor,
      length rows + length cursor < n)"
  using assms
proof (induction f n rows cursor rule: mongo_fill.induct)
  case (2 f n rows d cursor)
  then obtain doc where d: "d = Inr doc" by (auto simp: is_ok_iff)
  show ?case
  proof (cases "length rows < n")
    case True
    then have s: "n - length rows = Suc (n - Suc (length rows))" by simp
    from 2 True d show ?thesis by (simp add: s)
  next
    case False
    with "2.prems" show ?thesis by simp
  qed
qed simp

lemma ok_list_simps:
  "list_all is_ok xs \<Longrightarrow> length (ok_list xs) = length xs"
  "list_all is_ok xs \<Longrightarrow> ok_list xs = [] \<longleftrightarrow> xs = []"
  "list_all is_ok xs \<Longrightarrow> ok_list (drop k xs) = drop k (ok_list xs)"
proof -
  show "list_all is_ok xs \<Longrightarrow> length (ok_list xs) = length xs"
    by (induction xs rule: ok_list.induct) simp_all
  then show "list_all is_ok xs \<Longrightarrow> ok_list xs = [] \<longleftrightarrow> xs = []" by fastforce
  show "list_all is_ok xs \<Longrightarrow> ok_list (drop k xs) = drop k (ok_list xs)"
    by (induction xs arbitrary: k rule: ok_list.induct) (auto simp: drop_Cons split: nat.splits)
qed

lemma list_all_drop: "list_all p xs \<Longrightarrow> list_all p (drop k xs)"
  by (simp add: list_all_iff) (meson in_set_dropD)

lemma mongo_next_page_ok:
  assumes inv: "mongo_inv s" and n: "0 < n"
  shows "\<exists>s'. mongo_next_page be n s =
       Some (Inr (if mongo_pending be s = [] then None else Some (take n (mongo_pending be s))), s')
     \<and> mongo_inv s' \<and> mongo_pending be s' = drop n (mongo_pending be s) \<and> mst_total s' = mst_total s"
proof (cases "mst_done s")
  case True
  with inv have "mst_cursor s = []" "mst_first s = None" by (simp_all add: mongo_inv_def)
  with True inv show ?thesis by (simp add: mongo_next_page_def mongo_pending_def)
next
  case False
  let ?f = "doc_to_row be (mst_keys s)" and ?cur = "mst_cursor s"
  let ?rows = "case mst_first s of Some d \<Rightarrow> [?f d] | None \<Rightarrow> []"
  have ok: "list_all is_ok ?cur" using inv by (simp add: mongo_inv_def)
  have rows: "length ?rows \<le> n" "mongo_pending be s = ?rows @ map ?f (ok_list ?cur)"
    using n by (cases "mst_first s"; simp add: mongo_pending_def)+
  let ?out = "?rows @ map ?f (take (n - length ?rows) (ok_list ?cur))"
  let ?s = "s\<lparr>mst_first := None, mst_cursor := drop (n - length ?rows) ?cur,
     mst_done := length ?rows + length ?cur < n\<rparr>"
  have out: "?out = take n (mongo_pending be s)"
    using rows by (simp add: take_map)
  have step: "mongo_next_page be n s = Some (Inr (if ?out = [] then None else Some ?out), ?s)"
    using False mongo_fill_ok [OF ok rows(1), of ?f] by (simp add: mongo_next_page_def Let_def)
  have "?out = [] \<longleftrightarrow> mongo_pending be s = []"
    using n by (simp only: out take_eq_Nil) simp
  moreover have "mongo_inv ?s"
    using ok by (auto simp: mongo_inv_def list_all_drop)
  moreover have "mongo_pending be ?s = drop n (mongo_pending be s)"
    using rows ok by (simp add: mongo_pending_def ok_list_simps(3) drop_map)
  ultimately show ?thesis unfolding step using out by (intro exI [of _ ?s]) simp
qed

interpretation mgs: result_stream "mongo_next_page be" mst_total "mongo_pending be" "\<lambda>s k. True" mongo_inv
  for be :: bson_env
proof (unfold_locales, goal_cases)
  case (1 s n k)
  from mongo_next_page_ok [OF 1(1,4), of be] 1(3) show ?case by auto
next
  case (2 s n k)
  from mongo_next_page_ok [OF 2(1,4), of be] 2(3) show ?case by auto
qed

lemma mongo_stream_open_Inr:
  assumes "list_all is_ok cursor" "mongo_stream_open cursor tot = Inr s"
  shows "mongo_inv s \<and> mst_total s = tot
     \<and> mongo_pending be s = map (doc_to_row be (case ok_list cursor of d # _ \<Rightarrow> column_order d | [] \<Rightarrow> []))
         (ok_list cursor)"
  using assms
  by (cases cursor rule: ok_list.cases)
    (auto simp: mongo_stream_open_def mongo_inv_def mongo_pending_def Let_def result_iff)

section \<open>A document becomes a row\<close>

lemma column_order_id:
  "distinct (map fst doc) \<Longrightarrow>
   distinct (column_order doc) \<and> set (column_order doc) = fst ` set doc
   \<and> (''_id'' \<in> fst ` set doc \<longrightarrow> hd (column_order doc) = ''_id'')"
  by (auto simp: column_order_def) force

lemma doc_to_row_length: "length (doc_to_row be keys doc) = length (columns_for keys)"
  by (simp add: doc_to_row_def columns_for_def)

section \<open>A cursor error loses the rows of its page\<close>

lemma mongo_fill_err:
  "length rows + length docs < n \<Longrightarrow>
   mongo_fill f n rows (map Inr docs @ Inl e # rest) = (Inl e, rest, False)"
  by (induction docs arbitrary: rows) simp_all

end
