(* ===== verification/Daemon.thy ===== *)
theory Daemon
  imports Server_Paging Postgres Mysql Sqlite Redis Mssql Clickhouse Duckdb Mongo Cql Firebird Snowflake
    "HOL-Library.Sublist"
begin

text \<open>
  The daemon with its drivers compiled in: \<open>Registry::new\<close> of \<open>registry.rs\<close> over the drivers of the
  other theories, and the method tables of the trait objects.  The connections live in a heap beside
  the outside world; a trait object is an index into it, and a method runs on the connection found
  there and writes it back.  The clients of the third-party libraries are handles of one type \<open>'cl\<close>.
\<close>

section \<open>The libraries\<close>

record ('cl, 'ca, 'key, 'ident, 'cert, 'pk, 'w) libs =
  lb_seam :: "('key, 'ident, 'cert, 'pk) seam"
  lb_pg :: "('cl, 'cert, 'pk, 'w) pg_lib"
  lb_my :: "('cl, 'w) my_lib"
  lb_mg :: "('cl, 'w) mg_lib"
  lb_sq :: "('cl, 'w) sq_lib"
  lb_dk :: "('cl, 'w) dk_lib"
  lb_rd :: "('cl, 'cl, 'w) rd_lib"
  lb_ch :: "('ca, 'ca, 'cl, 'w) ch_lib"
  lb_ms :: "('cl, 'cl, 'w) ms_lib"
  lb_cq :: "('cl, 'w) cq_lib"
  lb_fb :: "('cl, 'w) fb_lib"
  lb_sf :: "'w sf_lib"
  lb_upper :: "string \<Rightarrow> string"
  lb_lossy :: "string \<Rightarrow> string"
  lb_json :: "json \<Rightarrow> string"
  lb_bson :: bson_env
  lb_duck :: dk_text_env

definition lb_b64 :: "('cl, 'ca, 'key, 'ident, 'cert, 'pk, 'w) libs \<Rightarrow> string \<Rightarrow> string" where
  "lb_b64 lb = sm_b64 (lb_seam lb)"

definition lb_env :: "('cl, 'ca, 'key, 'ident, 'cert, 'pk, 'w) libs \<Rightarrow> env" where
  "lb_env lb = w_env (sm_world (lb_seam lb))"

definition lb_duck_cell :: "('cl, 'ca, 'key, 'ident, 'cert, 'pk, 'w) libs \<Rightarrow> duck_value \<Rightarrow> val" where
  "lb_duck_cell lb = duck_cell (lb_b64 lb) (lb_duck lb)"

section \<open>Connections of any driver\<close>

datatype 'cl any_conn =
    A_pg "'cl pg_conn"
  | A_my "'cl my_conn"
  | A_mongo "'cl mongo_conn"
  | A_sqlite 'cl
  | A_duck 'cl
  | A_redis "'cl redis_conn"
  | A_ch "'cl ch_conn"
  | A_ms "'cl ms_conn"
  | A_cql "'cl cql_conn"
  | A_fb 'cl
  | A_sf sf_conn

text \<open>A method that may change its connection, and one that only uses its handle.\<close>

definition via :: "('x \<Rightarrow> 'cl any_conn) \<Rightarrow> ('x \<times> 'w, 'a) io \<Rightarrow> 'x \<Rightarrow> 'w \<Rightarrow> 'a result \<times> 'cl any_conn \<times> 'w" where
  "via C m x w = (case m (x, w) of (r, (x', w')) \<Rightarrow> (r, (C x', w')))"

definition kept :: "('w, 'a) io \<Rightarrow> 'cl any_conn \<Rightarrow> 'w \<Rightarrow> 'a result \<times> 'cl any_conn \<times> 'w" where
  "kept m c w = (case m w of (r, w') \<Rightarrow> (r, (c, w')))"

type_synonym ('cl, 'w, 'a) obj_io = "('cl any_conn \<times> 'w, 'a) io"

definition any_databases ::
  "('cl, 'ca, 'key, 'ident, 'cert, 'pk, 'w) libs \<Rightarrow> ('cl, 'w, string list) obj_io" where
  "any_databases lb = (\<lambda>(c, w).
     case c of
       A_pg x \<Rightarrow> via A_pg (pg_databases (lb_pg lb)) x w
     | A_my x \<Rightarrow> via A_my (my_databases (lb_b64 lb) (lb_my lb)) x w
     | A_mongo x \<Rightarrow> via A_mongo (mongo_databases (lb_mg lb)) x w
     | A_sqlite x \<Rightarrow> kept (sqlite_databases (lb_b64 lb) (lb_sq lb) x) c w
     | A_duck x \<Rightarrow> kept duck_databases c w
     | A_redis x \<Rightarrow> via A_redis (redis_databases (lb_rd lb)) x w
     | A_ch x \<Rightarrow> via A_ch (ch_databases (lb_ch lb)) x w
     | A_ms x \<Rightarrow> via A_ms (ms_databases (lb_b64 lb) (lb_ms lb)) x w
     | A_cql x \<Rightarrow> via A_cql (cql_databases (lb_b64 lb) (lb_cq lb)) x w
     | A_fb x \<Rightarrow> kept fb_databases c w
     | A_sf x \<Rightarrow> via A_sf (sf_databases (lb_sf lb)) x w)"

definition any_switch_database ::
  "('cl, 'ca, 'key, 'ident, 'cert, 'pk, 'w) libs \<Rightarrow> string \<Rightarrow> ('cl, 'w, unit) obj_io" where
  "any_switch_database lb db = (\<lambda>(c, w).
     case c of
       A_pg x \<Rightarrow> via A_pg (pg_switch_database (lb_pg lb) (sm_tls (lb_seam lb)) db) x w
     | A_my x \<Rightarrow> via A_my (my_switch_database (lb_my lb) db) x w
     | A_mongo x \<Rightarrow> via A_mongo (mongo_switch_database db) x w
     | A_sqlite x \<Rightarrow> kept (sqlite_switch_database x db) c w
     | A_duck x \<Rightarrow> kept (duck_switch_database db) c w
     | A_redis x \<Rightarrow> via A_redis (redis_switch_database (lb_rd lb) db) x w
     | A_ch x \<Rightarrow> via A_ch (ch_switch_database db) x w
     | A_ms x \<Rightarrow> via A_ms (ms_switch_database (lb_ms lb) db) x w
     | A_cql x \<Rightarrow> via A_cql (cql_switch_database (lb_cq lb) db) x w
     | A_fb x \<Rightarrow> kept (fb_switch_database db) c w
     | A_sf x \<Rightarrow> via A_sf (sf_switch_database db) x w)"

definition any_structure ::
  "('cl, 'ca, 'key, 'ident, 'cert, 'pk, 'w) libs \<Rightarrow> ('cl, 'w, node list) obj_io" where
  "any_structure lb = (\<lambda>(c, w).
     case c of
       A_pg x \<Rightarrow> via A_pg (pg_structure (lb_pg lb)) x w
     | A_my x \<Rightarrow> via A_my (my_structure (lb_upper lb) (lb_b64 lb) (lb_my lb)) x w
     | A_mongo x \<Rightarrow> via A_mongo (mongo_structure (lb_mg lb)) x w
     | A_sqlite x \<Rightarrow> kept (sqlite_structure (lb_b64 lb) (lb_sq lb) x) c w
     | A_duck x \<Rightarrow> kept (duck_structure (lb_upper lb) (lb_duck_cell lb) (lb_dk lb) x) c w
     | A_redis x \<Rightarrow> via A_redis (redis_structure (lb_lossy lb) (lb_rd lb)) x w
     | A_ch x \<Rightarrow> via A_ch (ch_structure (lb_ch lb)) x w
     | A_ms x \<Rightarrow> via A_ms (ms_structure (lb_upper lb) (lb_b64 lb) (lb_ms lb)) x w
     | A_cql x \<Rightarrow> via A_cql (cql_structure (lb_b64 lb) (lb_cq lb)) x w
     | A_fb x \<Rightarrow> kept (fb_structure (lb_b64 lb) (lb_fb lb) x) c w
     | A_sf x \<Rightarrow> via A_sf (sf_structure (lb_upper lb) (lb_sf lb)) x w)"

definition any_columns ::
  "('cl, 'ca, 'key, 'ident, 'cert, 'pk, 'w) libs \<Rightarrow> obj_ref \<Rightarrow> ('cl, 'w, table_column list) obj_io" where
  "any_columns lb ob = (\<lambda>(c, w).
     case c of
       A_pg x \<Rightarrow> via A_pg (pg_columns (lb_pg lb) ob) x w
     | A_my x \<Rightarrow> via A_my (my_columns (lb_b64 lb) (lb_my lb) ob) x w
     | A_mongo x \<Rightarrow> via A_mongo (mongo_columns (lb_mg lb) ob) x w
     | A_sqlite x \<Rightarrow> kept (sqlite_columns (lb_b64 lb) (lb_sq lb) x ob) c w
     | A_duck x \<Rightarrow> kept (duck_columns (lb_duck_cell lb) (lb_dk lb) x ob) c w
     | A_redis x \<Rightarrow> via A_redis (redis_columns ob) x w
     | A_ch x \<Rightarrow> via A_ch (ch_columns (lb_ch lb) ob) x w
     | A_ms x \<Rightarrow> via A_ms (ms_columns (lb_b64 lb) (lb_ms lb) ob) x w
     | A_cql x \<Rightarrow> via A_cql (cql_columns (lb_b64 lb) (lb_cq lb) ob) x w
     | A_fb x \<Rightarrow> kept (fb_columns (lb_upper lb) (lb_b64 lb) (lb_fb lb) x ob) c w
     | A_sf x \<Rightarrow> via A_sf (sf_columns (lb_upper lb) (lb_sf lb) ob) x w)"

definition any_indexes ::
  "('cl, 'ca, 'key, 'ident, 'cert, 'pk, 'w) libs \<Rightarrow> obj_ref \<Rightarrow> ('cl, 'w, index list) obj_io" where
  "any_indexes lb ob = (\<lambda>(c, w).
     case c of
       A_pg x \<Rightarrow> via A_pg (pg_indexes (lb_pg lb) ob) x w
     | A_my x \<Rightarrow> via A_my (my_indexes (lb_b64 lb) (lb_my lb) ob) x w
     | A_mongo x \<Rightarrow> via A_mongo (mongo_indexes (lb_bson lb) (lb_mg lb) ob) x w
     | A_sqlite x \<Rightarrow> kept (sqlite_indexes (lb_b64 lb) (lb_sq lb) x ob) c w
     | A_duck x \<Rightarrow> kept (duck_indexes (lb_duck_cell lb) (lb_dk lb) x ob) c w
     | A_redis x \<Rightarrow> kept (default_indexes x ob) c w
     | A_ch x \<Rightarrow> via A_ch (ch_indexes (lb_ch lb) ob) x w
     | A_ms x \<Rightarrow> via A_ms (ms_indexes (lb_b64 lb) (lb_ms lb) ob) x w
     | A_cql x \<Rightarrow> via A_cql (cql_indexes (lb_b64 lb) (lb_cq lb) ob) x w
     | A_fb x \<Rightarrow> kept (fb_indexes (lb_b64 lb) (lb_fb lb) x ob) c w
     | A_sf x \<Rightarrow> kept (default_indexes x ob) c w)"

definition any_ddl ::
  "('cl, 'ca, 'key, 'ident, 'cert, 'pk, 'w) libs \<Rightarrow> obj_ref \<Rightarrow> ('cl, 'w, string option) obj_io" where
  "any_ddl lb ob = (\<lambda>(c, w).
     case c of
       A_my x \<Rightarrow> via A_my (my_ddl (lb_b64 lb) (lb_my lb) ob) x w
     | A_sqlite x \<Rightarrow> kept (sqlite_ddl (lb_b64 lb) (lb_sq lb) x ob) c w
     | A_duck x \<Rightarrow> kept (duck_ddl (lb_duck_cell lb) (lb_dk lb) x ob) c w
     | A_ch x \<Rightarrow> via A_ch (ch_ddl (lb_ch lb) ob) x w
     | A_sf x \<Rightarrow> via A_sf (sf_ddl (lb_sf lb) ob) x w
     | _ \<Rightarrow> kept (default_ddl c ob) c w)"

text \<open>A statement's result: Mongo's live cursor, or a materialised one.\<close>

definition buffered :: "('w, bstream) io \<Rightarrow> ('w, mongo_result) io" where
  "buffered m = io_bind m (\<lambda>b. io_ok (M_buffered b))"

definition any_execute ::
  "('cl, 'ca, 'key, 'ident, 'cert, 'pk, 'w) libs \<Rightarrow> string \<Rightarrow> ('cl, 'w, mongo_result) obj_io" where
  "any_execute lb stmt = (\<lambda>(c, w).
     case c of
       A_pg x \<Rightarrow> via A_pg (buffered (pg_execute (lb_pg lb) stmt)) x w
     | A_my x \<Rightarrow> via A_my (buffered (my_execute (lb_b64 lb) (lb_my lb) stmt)) x w
     | A_mongo x \<Rightarrow> via A_mongo (mongo_execute (lb_bson lb) (lb_mg lb) stmt) x w
     | A_sqlite x \<Rightarrow> kept (buffered (sqlite_execute (lb_b64 lb) (lb_sq lb) x stmt)) c w
     | A_duck x \<Rightarrow> kept (buffered (duck_execute (lb_duck_cell lb) (lb_dk lb) x stmt)) c w
     | A_redis x \<Rightarrow> via A_redis (buffered (redis_execute (lb_b64 lb) (lb_lossy lb) (lb_json lb) (lb_rd lb) stmt)) x w
     | A_ch x \<Rightarrow> via A_ch (buffered (ch_execute (lb_ch lb) stmt)) x w
     | A_ms x \<Rightarrow> via A_ms (buffered (ms_execute (lb_b64 lb) (lb_ms lb) stmt)) x w
     | A_cql x \<Rightarrow> via A_cql (buffered (cql_execute (lb_b64 lb) (lb_cq lb) stmt)) x w
     | A_fb x \<Rightarrow> kept (buffered (fb_execute (lb_b64 lb) (lb_fb lb) x stmt)) c w
     | A_sf x \<Rightarrow> via A_sf (buffered (sf_execute (lb_sf lb) stmt)) x w)"

definition any_close ::
  "('cl, 'ca, 'key, 'ident, 'cert, 'pk, 'w) libs \<Rightarrow> ('cl, 'w, unit) obj_io" where
  "any_close lb = (\<lambda>(c, w).
     case c of
       A_pg x \<Rightarrow> via A_pg (pg_close (lb_pg lb)) x w
     | A_my x \<Rightarrow> via A_my (my_close (lb_my lb)) x w
     | A_mongo x \<Rightarrow> via A_mongo mongo_close x w
     | A_sqlite x \<Rightarrow> kept (sqlite_close x) c w
     | A_duck x \<Rightarrow> kept duck_close c w
     | A_redis x \<Rightarrow> via A_redis redis_close x w
     | A_ch x \<Rightarrow> via A_ch ch_close x w
     | A_ms x \<Rightarrow> via A_ms ms_close x w
     | A_cql x \<Rightarrow> via A_cql cql_close x w
     | A_fb x \<Rightarrow> kept fb_close c w
     | A_sf x \<Rightarrow> via A_sf sf_close x w)"

text \<open>The posture and the cancel handle of a connection.\<close>

definition any_encrypted :: "'cl any_conn \<Rightarrow> bool" where
  "any_encrypted c =
     (case c of
        A_pg x \<Rightarrow> pg_encrypted x
      | A_my x \<Rightarrow> my_encrypted x
      | A_mongo x \<Rightarrow> mc_encrypted x
      | A_redis x \<Rightarrow> rc_encrypted x
      | A_ch x \<Rightarrow> ch_encrypted x
      | A_ms x \<Rightarrow> ms_encrypted x
      | A_sf x \<Rightarrow> sf_encrypted x
      | _ \<Rightarrow> default_encrypted c ())"

datatype 'cl any_cancel = X_pg 'cl | X_my my_cancel_handle

definition any_cancel_token :: "('cl, 'ca, 'key, 'ident, 'cert, 'pk, 'w) libs \<Rightarrow> 'cl any_conn \<Rightarrow> 'cl any_cancel option" where
  "any_cancel_token lb c =
     (case c of
        A_pg x \<Rightarrow> map_option X_pg (pg_cancel_token x)
      | A_my x \<Rightarrow> map_option X_my (my_cancel_token (lb_my lb) x)
      | _ \<Rightarrow> default_cancel_token c ())"

definition any_cancel :: "('cl, 'ca, 'key, 'ident, 'cert, 'pk, 'w) libs \<Rightarrow> 'cl any_cancel \<Rightarrow> ('w, unit) io" where
  "any_cancel lb t = (case t of X_pg cl \<Rightarrow> pg_cancel (lb_pg lb) cl | X_my hnd \<Rightarrow> my_cancel (lb_my lb) hnd)"

section \<open>The heap of trait objects\<close>

record ('cl, 'w) objects =
  ob_conns :: "'cl any_conn list"
  ob_world :: 'w

definition on_obj :: "('cl, 'w, 'a) obj_io \<Rightarrow> nat \<Rightarrow> (('cl, 'w) objects, 'a) io" where
  "on_obj m r = (\<lambda>s.
     case m (ob_conns s ! r, ob_world s) of
       (x, (c, w)) \<Rightarrow> (x, s\<lparr>ob_conns := (ob_conns s)[r := c], ob_world := w\<rparr>))"

definition boxed ::
  "('x \<Rightarrow> 'cl any_conn) \<Rightarrow> (net_ctx \<times> 'w, 'x) io \<Rightarrow> (net_ctx \<times> ('cl, 'w) objects, nat) io" where
  "boxed C m = (\<lambda>(net, s).
     case m (net, ob_world s) of
       (Inl e, (net', w)) \<Rightarrow> (Inl e, (net', s\<lparr>ob_world := w\<rparr>))
     | (Inr x, (net', w)) \<Rightarrow>
         (Inr (length (ob_conns s)), (net', s\<lparr>ob_conns := ob_conns s @ [C x], ob_world := w\<rparr>)))"

definition daemon_vt :: "('cl, 'ca, 'key, 'ident, 'cert, 'pk, 'w) libs \<Rightarrow> (nat, mongo_result, 'cl any_cancel, ('cl, 'w) objects) conn_vt" where
  "daemon_vt lb =
     \<lparr>cv_databases = on_obj (any_databases lb),
      cv_switch_database = (\<lambda>r db. on_obj (any_switch_database lb db) r),
      cv_structure = on_obj (any_structure lb),
      cv_columns = (\<lambda>r ob. on_obj (any_columns lb ob) r),
      cv_indexes = (\<lambda>r ob. on_obj (any_indexes lb ob) r),
      cv_ddl = (\<lambda>r ob. on_obj (any_ddl lb ob) r),
      cv_execute = (\<lambda>r stmt. on_obj (any_execute lb stmt) r),
      cv_cancel_token = (\<lambda>r s. any_cancel_token lb (ob_conns s ! r)),
      cv_encrypted = (\<lambda>r s. any_encrypted (ob_conns s ! r)),
      cv_close = on_obj (any_close lb)\<rparr>"

section \<open>The registry (registry.rs)\<close>

type_synonym ('cl, 'w) compiled = "(nat, ('cl, 'w) objects) driver"

definition driver_of ::
  "driver_meta \<Rightarrow> ('x \<Rightarrow> 'cl any_conn) \<Rightarrow> (conn_spec \<Rightarrow> (net_ctx \<times> 'w, 'x) io) \<Rightarrow> ('cl, 'w) compiled" where
  "driver_of m C con = \<lparr>dr_meta = m, dr_connect = (\<lambda>spec. boxed C (con spec))\<rparr>"

text \<open>\<open>Registry::new\<close>: the drivers the build's cargo features enable, in the order they register.\<close>

definition feature :: "bool \<Rightarrow> 'a list \<Rightarrow> 'a list" where
  "feature b ds = (if b then ds else [])"

definition compiled_drivers :: "(string \<Rightarrow> bool) \<Rightarrow> ('cl, 'ca, 'key, 'ident, 'cert, 'pk, 'w) libs \<Rightarrow> ('cl, 'w) compiled list" where
  "compiled_drivers feats lb =
     (let sm = lb_seam lb; pg = pg_connect sm (lb_pg lb); my = my_connect sm (lb_my lb);
          cql = cql_connect sm (lb_cq lb) in
      feature (feats ''postgres'')
        (driver_of PG_META A_pg pg # feature (feats ''cockroachdb'') [driver_of CRDB_META A_pg pg])
      @ feature (feats ''mariadb'') [driver_of MARIADB_META A_my my]
      @ feature (feats ''mysql'') [driver_of MYSQL_META A_my my]
      @ feature (feats ''mongodb'') [driver_of MONGO_META A_mongo (mongo_connect sm (lb_mg lb))]
      @ feature (feats ''sqlite'') [driver_of SQLITE_META A_sqlite (sqlite_connect (lb_env lb) (lb_sq lb))]
      @ feature (feats ''duckdb'') [driver_of DUCKDB_META A_duck (duck_connect (lb_env lb) (lb_dk lb))]
      @ feature (feats ''redis'') [driver_of REDIS_META A_redis (redis_connect sm (lb_rd lb))]
      @ feature (feats ''clickhouse'') [driver_of CLICKHOUSE_META A_ch (ch_connect sm (lb_ch lb))]
      @ feature (feats ''sqlserver'') [driver_of MSSQL_META A_ms (ms_connect sm (lb_ms lb))]
      @ feature (feats ''cassandra'') [driver_of CASSANDRA_META A_cql cql]
      @ feature (feats ''scylla'') [driver_of SCYLLA_META A_cql cql]
      @ feature (feats ''firebird'') [driver_of FIREBIRD_META A_fb (fb_connect sm (lb_fb lb))]
      @ feature (feats ''snowflake'') [driver_of SNOWFLAKE_META A_sf (sf_connect (lb_upper lb) sm (lb_sf lb))])"

definition registry_new :: "(string \<Rightarrow> bool) \<Rightarrow> ('cl, 'ca, 'key, 'ident, 'cert, 'pk, 'w) libs \<Rightarrow> (nat, ('cl, 'w) objects) registry" where
  "registry_new feats lb = registry_of (compiled_drivers feats lb)"

definition daemon_cancel :: "('cl, 'ca, 'key, 'ident, 'cert, 'pk, 'w) libs \<Rightarrow> 'cl any_cancel \<Rightarrow> (('cl, 'w) objects, unit) io" where
  "daemon_cancel lb t = (\<lambda>s. case any_cancel lb t (ob_world s) of (r, w) \<Rightarrow> (r, s\<lparr>ob_world := w\<rparr>))"

text \<open>The server runs over these drivers.\<close>

definition runs_on ::
  "('cl, 'ca, 'key, 'ident, 'cert, 'pk, 'w) libs \<Rightarrow> (nat, mongo_result, 'cl any_cancel, ('cl, 'w) objects, 'key, 'ident) host \<Rightarrow> bool" where
  "runs_on lb h \<longleftrightarrow>
     ho_conn h = daemon_vt lb \<and> ho_stream h = mongo_vt (lb_bson lb) \<and> ho_cancel h = daemon_cancel lb
     \<and> ho_secrets h = sm_world (lb_seam lb) \<and> ho_ssh h = sm_ssh (lb_seam lb)"

section \<open>What a driver makes\<close>

text \<open>The kinds whose drivers make a connection of this form, with the capabilities they declare.\<close>

definition metas_of :: "'cl any_conn \<Rightarrow> driver_meta list" where
  "metas_of c =
     (case c of
        A_pg _ \<Rightarrow> [PG_META, CRDB_META]
      | A_my _ \<Rightarrow> [MARIADB_META, MYSQL_META]
      | A_mongo _ \<Rightarrow> [MONGO_META]
      | A_sqlite _ \<Rightarrow> [SQLITE_META]
      | A_duck _ \<Rightarrow> [DUCKDB_META]
      | A_redis _ \<Rightarrow> [REDIS_META]
      | A_ch _ \<Rightarrow> [CLICKHOUSE_META]
      | A_ms _ \<Rightarrow> [MSSQL_META]
      | A_cql _ \<Rightarrow> [CASSANDRA_META, SCYLLA_META]
      | A_fb _ \<Rightarrow> [FIREBIRD_META]
      | A_sf _ \<Rightarrow> [SNOWFLAKE_META])"

text \<open>The drivers that have no encryption of their own to require.\<close>

definition clear_conn :: "'cl any_conn \<Rightarrow> bool" where
  "clear_conn c = (case c of A_sqlite _ \<Rightarrow> True | A_duck _ \<Rightarrow> True | A_fb _ \<Rightarrow> True | _ \<Rightarrow> False)"

lemma boxed_Inr:
  "boxed C m (net, s) = (Inr r, (net', s')) \<longleftrightarrow>
     r = length (ob_conns s) \<and> (\<exists>x w. m (net, ob_world s) = (Inr x, (net', w))
       \<and> s' = s\<lparr>ob_conns := ob_conns s @ [C x], ob_world := w\<rparr>)"
  by (auto simp: boxed_def split: prod.splits sum.splits)

lemma set_feature [simp]: "x \<in> set (feature b ds) \<longleftrightarrow> b \<and> x \<in> set ds"
  by (simp add: feature_def)

text \<open>Every driver in the registry boxes the connections of one of the theories.\<close>

lemma compiled_cases:
  assumes "d \<in> set (compiled_drivers feats lb)"
  obtains (pg) m where "m \<in> {PG_META, CRDB_META}" "d = driver_of m A_pg (pg_connect (lb_seam lb) (lb_pg lb))"
  | (my) m where "m \<in> {MARIADB_META, MYSQL_META}" "d = driver_of m A_my (my_connect (lb_seam lb) (lb_my lb))"
  | (mongo) "d = driver_of MONGO_META A_mongo (mongo_connect (lb_seam lb) (lb_mg lb))"
  | (sqlite) "d = driver_of SQLITE_META A_sqlite (sqlite_connect (lb_env lb) (lb_sq lb))"
  | (duck) "d = driver_of DUCKDB_META A_duck (duck_connect (lb_env lb) (lb_dk lb))"
  | (redis) "d = driver_of REDIS_META A_redis (redis_connect (lb_seam lb) (lb_rd lb))"
  | (ch) "d = driver_of CLICKHOUSE_META A_ch (ch_connect (lb_seam lb) (lb_ch lb))"
  | (ms) "d = driver_of MSSQL_META A_ms (ms_connect (lb_seam lb) (lb_ms lb))"
  | (cql) m where "m \<in> {CASSANDRA_META, SCYLLA_META}" "d = driver_of m A_cql (cql_connect (lb_seam lb) (lb_cq lb))"
  | (fb) "d = driver_of FIREBIRD_META A_fb (fb_connect (lb_seam lb) (lb_fb lb))"
  | (sf) "d = driver_of SNOWFLAKE_META A_sf (sf_connect (lb_upper lb) (lb_seam lb) (lb_sf lb))"
  using assms unfolding compiled_drivers_def Let_def by auto

lemma driver_of_Inr:
  "dr_connect (driver_of m C con) spec (net, s) = (Inr r, (net', s')) \<longleftrightarrow>
     r = length (ob_conns s) \<and> (\<exists>x w. con spec (net, ob_world s) = (Inr x, (net', w))
       \<and> s' = s\<lparr>ob_conns := ob_conns s @ [C x], ob_world := w\<rparr>)"
  by (simp add: driver_of_def boxed_Inr)

text \<open>What a connect leaves: one more object, made by that driver, that keeps to the TLS mode.\<close>

definition keeps_mode :: "conn_spec \<Rightarrow> net_ctx \<Rightarrow> 'cl any_conn \<Rightarrow> bool" where
  "keeps_mode spec net c \<longleftrightarrow>
     tls_required (cs_tls spec) \<longrightarrow> any_encrypted c \<or> tunneled net \<or> clear_conn c"

lemma driver_of_makes:
  assumes "dr_connect (driver_of m C con) spec (net, s) = (Inr r, (net', s'))" "\<And>x. m \<in> set (metas_of (C x))"
    and "\<And>x w net' w'. con spec (net, w) = (Inr x, (net', w')) \<Longrightarrow> keeps_mode spec net (C x)"
  shows "\<exists>c. r = length (ob_conns s) \<and> ob_conns s' = ob_conns s @ [c]
     \<and> dr_meta (driver_of m C con) \<in> set (metas_of c) \<and> keeps_mode spec net c"
proof -
  from assms(1) obtain x w where x: "r = length (ob_conns s)" "con spec (net, ob_world s) = (Inr x, (net', w))"
    "s' = s\<lparr>ob_conns := ob_conns s @ [C x], ob_world := w\<rparr>" by (auto simp only: driver_of_Inr)
  show ?thesis
    by (rule exI [of _ "C x"]) (simp add: x(1,3) assms(2) assms(3) [OF x(2)] driver_of_def)
qed

lemma pg_mode_kept: "pg_connect sm lib spec (net, w) = (Inr x, s) \<Longrightarrow> keeps_mode spec net (A_pg x)"
  using pg.required_encrypted [of sm lib spec "(net, w)" x s] by (simp add: keeps_mode_def any_encrypted_def)

lemma my_mode_kept: "my_connect sm lib spec (net, w) = (Inr x, s) \<Longrightarrow> keeps_mode spec net (A_my x)"
  using my.required_encrypted [of sm lib spec "(net, w)" x s] by (simp add: keeps_mode_def any_encrypted_def)

lemma mongo_mode_kept: "mongo_connect sm lib spec (net, w) = (Inr x, s) \<Longrightarrow> keeps_mode spec net (A_mongo x)"
  using mg.required_encrypted [of sm lib spec "(net, w)" x s] by (simp add: keeps_mode_def any_encrypted_def)

lemma redis_mode_kept: "redis_connect sm lib spec (net, w) = (Inr x, s) \<Longrightarrow> keeps_mode spec net (A_redis x)"
  using rd.required_encrypted [of sm lib spec "(net, w)" x s] by (simp add: keeps_mode_def any_encrypted_def)

lemma ch_mode_kept: "ch_connect sm lib spec (net, w) = (Inr x, s) \<Longrightarrow> keeps_mode spec net (A_ch x)"
  using ch.required_encrypted [of sm lib spec "(net, w)" x s] by (simp add: keeps_mode_def any_encrypted_def)

lemma ms_mode_kept: "ms_connect sm lib spec (net, w) = (Inr x, s) \<Longrightarrow> keeps_mode spec net (A_ms x)"
  using ms.required_encrypted [of sm lib spec "(net, w)" x s] by (simp add: keeps_mode_def any_encrypted_def)

lemma cql_mode_kept:
  "cql_connect sm lib spec (net, w) = (Inr x, (net', w')) \<Longrightarrow> keeps_mode spec net (A_cql x)"
  using cql_required_tunnel [of sm lib spec net w x net' w'] by (auto simp: keeps_mode_def)

lemma clear_modes_kept:
  "keeps_mode spec net (A_sqlite xq)" "keeps_mode spec net (A_duck xd)" "keeps_mode spec net (A_fb xf)"
  "keeps_mode spec net (A_sf xn)"
  by (simp_all add: keeps_mode_def clear_conn_def any_encrypted_def sf_encrypted_def)

lemmas modes_kept = pg_mode_kept my_mode_kept mongo_mode_kept redis_mode_kept ch_mode_kept ms_mode_kept

lemma compiled_connect:
  assumes d: "d \<in> set (compiled_drivers feats lb)"
    and c: "dr_connect d spec (net, s) = (Inr r, (net', s'))"
  shows "\<exists>x. r = length (ob_conns s) \<and> ob_conns s' = ob_conns s @ [x] \<and> dr_meta d \<in> set (metas_of x)
     \<and> keeps_mode spec net x"
  using d
proof (cases rule: compiled_cases)
  case (pg m)
  show ?thesis unfolding pg(2)
    by (rule driver_of_makes [OF c [unfolded pg(2)]]) (use pg(1) in \<open>auto simp: metas_of_def intro: pg_mode_kept\<close>)
next
  case (my m)
  show ?thesis unfolding my(2)
    by (rule driver_of_makes [OF c [unfolded my(2)]]) (use my(1) in \<open>auto simp: metas_of_def intro: my_mode_kept\<close>)
next
  case (cql m)
  show ?thesis unfolding cql(2)
    by (rule driver_of_makes [OF c [unfolded cql(2)]]) (use cql(1) in \<open>auto simp: metas_of_def intro: cql_mode_kept\<close>)
next
  case mongo
  show ?thesis unfolding mongo
    by (rule driver_of_makes [OF c [unfolded mongo]]) (auto simp: metas_of_def intro: modes_kept)
next
  case redis
  show ?thesis unfolding redis
    by (rule driver_of_makes [OF c [unfolded redis]]) (auto simp: metas_of_def intro: modes_kept)
next
  case ch
  show ?thesis unfolding ch
    by (rule driver_of_makes [OF c [unfolded ch]]) (auto simp: metas_of_def intro: modes_kept)
next
  case ms
  show ?thesis unfolding ms
    by (rule driver_of_makes [OF c [unfolded ms]]) (auto simp: metas_of_def intro: modes_kept)
next
  case sqlite
  show ?thesis unfolding sqlite
    by (rule driver_of_makes [OF c [unfolded sqlite]]) (auto simp: metas_of_def intro: clear_modes_kept)
next
  case duck
  show ?thesis unfolding duck
    by (rule driver_of_makes [OF c [unfolded duck]]) (auto simp: metas_of_def intro: clear_modes_kept)
next
  case fb
  show ?thesis unfolding fb
    by (rule driver_of_makes [OF c [unfolded fb]]) (auto simp: metas_of_def intro: clear_modes_kept)
next
  case sf
  show ?thesis unfolding sf
    by (rule driver_of_makes [OF c [unfolded sf]]) (auto simp: metas_of_def intro: clear_modes_kept)
qed

text \<open>No two drivers share a kind, whatever the build's features.\<close>

lemma subseq_feature: "subseq (feature b ds) ds"
  by (simp add: feature_def)

lemma compiled_subseq: "subseq (compiled_drivers feats lb) (compiled_drivers (\<lambda>_. True) lb)"
  unfolding compiled_drivers_def Let_def
  by (intro list_emb_append_mono subseq_feature) (simp_all add: feature_def)

lemma all_kinds:
  "map (\<lambda>d. dm_kind (dr_meta d)) (compiled_drivers (\<lambda>_. True) lb) =
     [''postgres'', ''cockroachdb'', ''mariadb'', ''mysql'', ''mongodb'', ''sqlite'', ''duckdb'', ''redis'',
      ''clickhouse'', ''sqlserver'', ''cassandra'', ''scylla'', ''firebird'', ''snowflake'']"
  by (simp add: compiled_drivers_def Let_def feature_def driver_of_def PG_META_def CRDB_META_def MARIADB_META_def
      MYSQL_META_def MONGO_META_def SQLITE_META_def DUCKDB_META_def REDIS_META_def CLICKHOUSE_META_def
      MSSQL_META_def CASSANDRA_META_def SCYLLA_META_def FIREBIRD_META_def SNOWFLAKE_META_def)

lemma subseq_keeps_distinct: "subseq xs ys \<Longrightarrow> distinct ys \<Longrightarrow> distinct xs"
  by (auto simp: subseq_conv_nths)

lemma compiled_kinds: "distinct (map (\<lambda>d. dm_kind (dr_meta d)) (compiled_drivers feats lb))"
proof -
  have "distinct (map (\<lambda>d. dm_kind (dr_meta d)) (compiled_drivers (\<lambda>_. True) lb))"
    unfolding all_kinds by simp
  then show ?thesis by (rule subseq_keeps_distinct [OF subseq_map [OF compiled_subseq]])
qed

section \<open>The registry of a build\<close>

lemma registry_get_compiled:
  "registry_get (registry_new feats lb) k = Inr d \<Longrightarrow>
   d \<in> set (compiled_drivers feats lb) \<and> dm_kind (dr_meta d) = k"
proof -
  assume "registry_get (registry_new feats lb) k = Inr d"
  then have "RBT.lookup (registry_new feats lb) k = Some d"
    by (auto simp: registry_get_def result_iff)
  then obtain ds where "filter (\<lambda>d. dm_kind (dr_meta d) = k) (rev (compiled_drivers feats lb)) = d # ds"
    by (auto simp: registry_new_def registry_of_def lookup_fold_add split: list.splits)
  then have "d \<in> set (filter (\<lambda>d. dm_kind (dr_meta d) = k) (rev (compiled_drivers feats lb)))" by simp
  then show ?thesis by simp
qed

lemma registry_get_new:
  "d \<in> set (compiled_drivers feats lb) \<Longrightarrow>
   registry_get (registry_new feats lb) (dm_kind (dr_meta d)) = Inr d"
  unfolding registry_new_def by (rule registry_get_of [OF compiled_kinds])

lemma registry_new_kinds:
  "map dm_kind (registry_metas (registry_new feats lb)) =
     sort (map (\<lambda>d. dm_kind (dr_meta d)) (compiled_drivers feats lb))"
proof (rule sorted_distinct_set_unique)
  let ?reg = "registry_new feats lb"
  have inv: "registry_inv ?reg" by (simp add: registry_new_def)
  show "sorted (map dm_kind (registry_metas ?reg))" "distinct (map dm_kind (registry_metas ?reg))"
    using metas_sorted [OF inv] by blast+
  show "distinct (sort (map (\<lambda>d. dm_kind (dr_meta d)) (compiled_drivers feats lb)))"
    by (simp add: compiled_kinds)
  have "m \<in> set (registry_metas ?reg) \<longleftrightarrow> (\<exists>d\<in>set (compiled_drivers feats lb). dr_meta d = m)" for m
    using metas_get [OF inv, of m] registry_get_compiled registry_get_new by metis
  then show "set (map dm_kind (registry_metas ?reg)) =
      set (sort (map (\<lambda>d. dm_kind (dr_meta d)) (compiled_drivers feats lb)))" by force
qed simp

section \<open>A connect through the server\<close>

lemma clear_conn_kinds:
  "clear_conn c \<Longrightarrow> m \<in> set (metas_of c) \<Longrightarrow> dm_kind m \<in> {''sqlite'', ''duckdb'', ''firebird''}"
  by (cases c) (simp_all add: clear_conn_def metas_of_def SQLITE_META_def DUCKDB_META_def FIREBIRD_META_def)

lemma firebird_kind: "''firebird'' \<in> dm_kind ` set (metas_of c) \<Longrightarrow> \<exists>cl. c = A_fb cl"
  by (cases c) (simp_all add: metas_of_def PG_META_def CRDB_META_def MARIADB_META_def MYSQL_META_def MONGO_META_def
      SQLITE_META_def DUCKDB_META_def REDIS_META_def CLICKHOUSE_META_def MSSQL_META_def CASSANDRA_META_def
      SCYLLA_META_def SNOWFLAKE_META_def)

lemma registry_firebird:
  assumes "registry_get (registry_new feats lb) ''firebird'' = Inr d"
  shows "d = driver_of FIREBIRD_META A_fb (fb_connect (lb_seam lb) (lb_fb lb))"
proof -
  from registry_get_compiled [OF assms]
  have d: "d \<in> set (compiled_drivers feats lb)" and k: "dm_kind (dr_meta d) = ''firebird''" by simp_all
  from d show ?thesis
    by (cases rule: compiled_cases)
      (use k in \<open>auto simp: driver_of_def PG_META_def CRDB_META_def MARIADB_META_def MYSQL_META_def MONGO_META_def
        SQLITE_META_def DUCKDB_META_def REDIS_META_def CLICKHOUSE_META_def MSSQL_META_def CASSANDRA_META_def
        SCYLLA_META_def SNOWFLAKE_META_def\<close>)
qed

lemma daemon_connect:
  assumes "runs_on lb h" "sr_registry s = registry_new feats lb" "srv_connect h params s = (Inr j, s')"
  obtains spec i r x net where "ho_spec h params = Some spec"
    "j = connected_json i (any_encrypted x \<or> cs_tunnel spec \<noteq> None) (cs_tunnel spec \<noteq> None)"
    "sr_conns s' = (sr_conns s)(i \<mapsto> \<lparr>ce_conn = r, ce_net = net\<rparr>)"
    "ob_conns (sr_world s') = ob_conns (sr_world s) @ [x]" "r = length (ob_conns (sr_world s))"
    "cs_driver spec \<in> dm_kind ` set (metas_of x)" "keeps_mode spec (net_new (cs_tunnel spec)) x"
proof -
  from srv_connect_Inr [OF assms(3)] obtain spec d r net w where *:
    "ho_spec h params = Some spec" "registry_get (sr_registry s) (cs_driver spec) = Inr d"
    "drive_connect d spec (net_new (cs_tunnel spec)) (sr_world s) = (Inr (r, net), w)"
    "srv_register (cs_driver spec) (cv_encrypted (ho_conn h) r w \<or> tunneled (net_new (cs_tunnel spec)))
       (tunneled (net_new (cs_tunnel spec))) \<lparr>ce_conn = r, ce_net = net\<rparr> (s\<lparr>sr_world := w\<rparr>) = (Inr j, s')" .
  from registry_get_compiled [OF *(2) [unfolded assms(2)]]
  have d: "d \<in> set (compiled_drivers feats lb)" "dm_kind (dr_meta d) = cs_driver spec" by simp_all
  from *(3) have "dr_connect d spec (net_new (cs_tunnel spec), sr_world s) = (Inr r, (net, w))"
    by (auto simp: drive_connect_def split: prod.splits sum.splits)
  from compiled_connect [OF d(1) this] obtain x where x: "r = length (ob_conns (sr_world s))"
    "ob_conns w = ob_conns (sr_world s) @ [x]" "dr_meta d \<in> set (metas_of x)"
    "keeps_mode spec (net_new (cs_tunnel spec)) x" by blast
  have enc: "cv_encrypted (ho_conn h) r w = any_encrypted x"
    using assms(1) x(1,2) by (simp add: runs_on_def daemon_vt_def)
  have t: "tunneled (net_new (cs_tunnel spec)) = (cs_tunnel spec \<noteq> None)" by (simp add: tunneled_def)
  from *(4) have "j = connected_json (sr_next_conn s) (any_encrypted x \<or> cs_tunnel spec \<noteq> None) (cs_tunnel spec \<noteq> None)"
    "sr_conns s' = (sr_conns s)(sr_next_conn s \<mapsto> \<lparr>ce_conn = r, ce_net = net\<rparr>)" "sr_world s' = w"
    unfolding enc t by (auto simp: srv_register_def Let_def srv_send_def)
  then show thesis using that *(1) x d(2) by (metis image_eqI)
qed

lemma srv_connect_succeeds:
  assumes "ho_spec h params = Some spec" "registry_get (sr_registry s) (cs_driver spec) = Inr d"
    and "dr_connect d spec (net_new (cs_tunnel spec), sr_world s) = (Inr r, (net, w))"
  shows "\<exists>j s'. srv_connect h params s = (Inr j, s')"
  using assms
  by (simp add: srv_connect_def decode_def io_simps srv_driver_def on_world_def drive_connect_def
      conn_posture_def srv_register_def Let_def)

lemma connected_json_encrypted [simp]: "json_get ''encrypted'' (connected_json i e t) = Some (JBool e)"
  by (simp add: connected_json_def)

section \<open>Paging over any stream\<close>

definition any_pending :: "bson_env \<Rightarrow> mongo_result \<Rightarrow> row list" where
  "any_pending be r = (case r of M_cursor s \<Rightarrow> mongo_pending be s | M_buffered b \<Rightarrow> buffered_pending b)"

definition any_at :: "mongo_result \<Rightarrow> nat \<Rightarrow> bool" where
  "any_at r k = (case r of M_cursor s \<Rightarrow> True | M_buffered b \<Rightarrow> bs_pos b = k)"

definition any_inv :: "mongo_result \<Rightarrow> bool" where
  "any_inv r = (case r of M_cursor s \<Rightarrow> mongo_inv s | M_buffered b \<Rightarrow> buffered_inv b)"

interpretation anys: result_stream "sv_next_page (mongo_vt be)" "sv_total (mongo_vt be)" "any_pending be" any_at any_inv
  for be :: bson_env
proof (unfold_locales, goal_cases)
  case (1 s n k)
  show ?case
  proof (cases s)
    case (M_cursor m)
    with 1 mgs.next_page_end [where s = m and n = n and be = be] show ?thesis
      by (force simp: mongo_vt_def any_pending_def any_at_def any_inv_def)
  next
    case (M_buffered b)
    with 1 buf.next_page_end [where s = b and n = n and k = k] show ?thesis
      by (force simp: mongo_vt_def any_pending_def any_at_def any_inv_def)
  qed
next
  case (2 s n k)
  show ?case
  proof (cases s)
    case (M_cursor m)
    with 2 mgs.next_page_rows [where s = m and n = n and be = be] show ?thesis
      by (force simp: mongo_vt_def any_pending_def any_at_def any_inv_def)
  next
    case (M_buffered b)
    with 2 buf.next_page_rows [where s = b and n = n and k = k] show ?thesis
      by (force simp: mongo_vt_def any_pending_def any_at_def any_inv_def)
  qed
qed

text \<open>A worker that ends with a fresh stream leaves a finished call with the stream's rows.\<close>

lemma finish_any:
  assumes "ho_stream h = mongo_vt be" "sr_calls s i = Some ref" "ref < length (sr_heap s)"
    and "sr_heap s ! ref = call_new\<lparr>ca_cancel := tok\<rparr>" "any_inv st" "any_at st 0"
  shows "anys.finished_call be i (any_pending be st) (worker_finish h i ref ms (Inr st) s)"
  using assms
  by (auto simp: worker_finish_def call_finish_def Let_def anys.finished_call_def notify_state_def
      srv_send_def call_new_def anys.call_ok_def anys.all_rows_def)

end
