(* ===== verification/Daemon_Claims.thy ===== *)
theory Daemon_Claims
  imports Daemon Driver_Claims
begin

text \<open>The properties of the daemon with its drivers: what it lists, what it promises, and what it pages.\<close>

section \<open>A build for the witnesses\<close>

definition demo_libs :: "(nat, string, unit, unit, string, string, nat) libs" where
  "demo_libs =
     \<lparr>lb_seam = demo_seam, lb_pg = demo_pg, lb_my = demo_my True,
      lb_mg = \<lparr>mgl_client = (\<lambda>opts. io_ok 1), mgl_command = (\<lambda>cl db d. io_ok []), mgl_json = (\<lambda>t. Inr JNull),
        mgl_bson = (\<lambda>j. Inr B_null), mgl_count = (\<lambda>cl db c d. io_ok 0),
        mgl_find = (\<lambda>cl db c f srt lim prj. io_ok []), mgl_aggregate = (\<lambda>cl db c p. io_ok []),
        mgl_find_one = (\<lambda>cl db c. io_ok None), mgl_databases = (\<lambda>cl. io_ok []),
        mgl_collections = (\<lambda>cl db. io_ok []), mgl_indexes = (\<lambda>cl db c. io_ok [])\<rparr>,
      lb_sq = \<lparr>sql_open_memory = io_ok 1, sql_open_file = (\<lambda>f. io_ok 1), sql_prepare = (\<lambda>db sql. io_ok []),
        sql_batch = (\<lambda>db sql. io_ok ()), sql_changes = (\<lambda>db w. 0), sql_query = (\<lambda>db sql. io_ok [])\<rparr>,
      lb_dk = \<lparr>dkl_open_memory = io_ok 1, dkl_open_file = (\<lambda>f. io_ok 1), dkl_prepare = (\<lambda>db sql. io_ok ()),
        dkl_query = (\<lambda>db sql. io_ok ([], []))\<rparr>,
      lb_rd = \<lparr>rdl_client = (\<lambda>u. Inr 1), rdl_connect = (\<lambda>cl. io_ok 1), rdl_query = (\<lambda>cl a. io_ok R_nil)\<rparr>,
      lb_ch = demo_ch,
      lb_ms = \<lparr>msl_tcp = (\<lambda>c. io_ok 1), msl_nodelay = (\<lambda>t. io_ok ()), msl_connect = (\<lambda>c t. io_ok 1),
        msl_query = (\<lambda>cl sql. io_ok ()), msl_into_results = (\<lambda>cl. io_ok []), msl_execute = (\<lambda>cl sql. io_ok ())\<rparr>,
      lb_cq = \<lparr>cql_build = (\<lambda>b. io_ok 1), cql_query = (\<lambda>s q. io_ok None), cql_use = (\<lambda>s k. io_ok ())\<rparr>,
      lb_fb = \<lparr>fbl_connect = (\<lambda>c. io_ok 1), fbl_query = (\<lambda>cl sql. io_ok []), fbl_execute = (\<lambda>cl sql. io_ok ())\<rparr>,
      lb_sf = \<lparr>sf_send = (\<lambda>r. io_err ''offline''), sf_jwt = (\<lambda>p i. Inl ''no key'')\<rparr>,
      lb_upper = to_ascii_uppercase, lb_lossy = id, lb_json = (\<lambda>j. []),
      lb_bson = \<lparr>be_extjson = (\<lambda>b. JNull), be_display = (\<lambda>b. []), be_b64 = id\<rparr>,
      lb_duck = \<lparr>dke_f32 = (\<lambda>f. []), dke_f64 = (\<lambda>f. []), dke_datetime = (\<lambda>s n. None), dke_date = (\<lambda>d. None),
        dke_time = (\<lambda>s n. None)\<rparr>\<rparr>"

type_synonym demo_objects = "(nat, nat) objects"

definition demo_daemon :: "conn_spec \<Rightarrow> (nat, mongo_result, nat any_cancel, demo_objects, unit, unit) host" where
  "demo_daemon spec =
     \<lparr>ho_conn = daemon_vt demo_libs, ho_stream = mongo_vt (lb_bson demo_libs), ho_cancel = daemon_cancel demo_libs,
      ho_spec = (\<lambda>j. Some spec), ho_de_err = (\<lambda>m j. ''bad parameters''), ho_stat = (\<lambda>p. io_ok (True, 3)),
      ho_open = (\<lambda>p. io_ok ()), ho_dial = (\<lambda>a. io_ok Dial_ok), ho_clock = (\<lambda>w. 0), ho_ssh = sm_ssh demo_seam,
      ho_secrets = sm_world demo_seam\<rparr>"

definition demo_build :: "(nat, mongo_result, nat any_cancel, demo_objects) srv" where
  "demo_build = srv_new (registry_new (\<lambda>_. True) demo_libs) \<lparr>ob_conns = [], ob_world = 4\<rparr>"

lemma demo_daemon_runs [simp]: "runs_on demo_libs (demo_daemon spec)"
  by (simp add: runs_on_def demo_daemon_def demo_libs_def)

lemma demo_daemon_spec [simp]: "ho_spec (demo_daemon spec) params = Some spec"
  by (simp add: demo_daemon_def)

lemma demo_build_registry [simp]: "sr_registry demo_build = registry_new (\<lambda>_. True) demo_libs"
  "sr_world demo_build = \<lparr>ob_conns = [], ob_world = 4\<rparr>"
  by (simp_all add: demo_build_def srv_new_def)

section \<open>What a build offers\<close>

text \<open>
  C22: The handshake of any build lists exactly the kinds its features compile in, each once, in the order of
  their names.
\<close>
theorem hello_lists_compiled:
  "\<exists>j ds. srv_hello (srv_new (registry_new feats lb) w) = (Inr j, srv_new (registry_new feats lb) w)
     \<and> json_get ''drivers'' j = Some (JArr ds)
     \<and> map (json_get ''kind'') ds
         = map (\<lambda>k. Some (JStr k)) (sort (map (\<lambda>d. dm_kind (dr_meta d)) (compiled_drivers feats lb)))"
  unfolding registry_new_kinds [symmetric]
  by (simp add: srv_hello_def srv_new_def driver_meta_json_def)

text \<open>
  C21: A driver's capabilities tell the truth about its connections, whatever the operation: a connection hands out
  a cancel handle exactly when its kind declares cancelling, and a kind that declares no indexes, or no
  CREATE statements, answers such a request with nothing, without contacting the server.
\<close>
theorem caps_are_honest:
  assumes "m \<in> set (metas_of c)"
  shows "(cap_cancel (dm_caps m) \<longleftrightarrow> any_cancel_token lb c \<noteq> None)
     \<and> (cap_indexes (dm_caps m) \<or> any_indexes lb ob (c, w) = (Inr [], (c, w)))
     \<and> (cap_ddl (dm_caps m) \<or> any_ddl lb ob (c, w) = (Inr None, (c, w)))"
  using assms
  by (cases c) (auto simp: metas_of_def any_cancel_token_def any_indexes_def any_ddl_def kept_def
      default_indexes_def default_ddl_def default_cancel_token_def io_simps pg_cancel_token_def my_cancel_token_def
      PG_META_def CRDB_META_def pg_caps_def MARIADB_META_def MYSQL_META_def my_caps_def MONGO_META_def
      SQLITE_META_def DUCKDB_META_def REDIS_META_def CLICKHOUSE_META_def MSSQL_META_def CASSANDRA_META_def
      SCYLLA_META_def cql_caps_def FIREBIRD_META_def SNOWFLAKE_META_def)

theorem caps_are_honest_witness:
  "any_cancel_token demo_libs (A_redis \<lparr>rc_con = 1, rc_encrypted = True\<rparr>) = None
   \<and> any_indexes demo_libs \<lparr>ob_name = ''k'', ob_schema = None\<rparr> (A_redis \<lparr>rc_con = 1, rc_encrypted = True\<rparr>, 4)
       = (Inr [], (A_redis \<lparr>rc_con = 1, rc_encrypted = True\<rparr>, 4))"
  using caps_are_honest [of REDIS_META "A_redis \<lparr>rc_con = 1, rc_encrypted = True\<rparr>" demo_libs "\<lparr>ob_name = ''k'', ob_schema = None\<rparr>" 4]
  by (simp add: metas_of_def REDIS_META_def)

section \<open>Encryption of the whole daemon\<close>

text \<open>
  C3: A connect through the server whose spec requires TLS, in any build, either fails or reports an encrypted link,
  whatever the driver, except for the two embedded engines and Firebird.
\<close>
theorem daemon_required_tls:
  assumes "runs_on lb h" "sr_registry s = registry_new feats lb" "ho_spec h params = Some spec"
    and "tls_required (cs_tls spec)" "srv_connect h params s = (Inr j, s')"
  shows "json_get ''encrypted'' j = Some (JBool True) \<or> cs_driver spec \<in> {''sqlite'', ''duckdb'', ''firebird''}"
proof -
  from daemon_connect [OF assms(1,2,5)] obtain spec' i r x net where x': "ho_spec h params = Some spec'"
    "j = connected_json i (any_encrypted x \<or> cs_tunnel spec' \<noteq> None) (cs_tunnel spec' \<noteq> None)"
    "sr_conns s' = (sr_conns s)(i \<mapsto> \<lparr>ce_conn = r, ce_net = net\<rparr>)"
    "ob_conns (sr_world s') = ob_conns (sr_world s) @ [x]" "r = length (ob_conns (sr_world s))"
    "cs_driver spec' \<in> dm_kind ` set (metas_of x)" "keeps_mode spec' (net_new (cs_tunnel spec')) x" .
  from x'(1) assms(3) have "spec' = spec" by simp
  note x = x'(2,6,7) [unfolded this]
  from x(3) have "any_encrypted x \<or> cs_tunnel spec \<noteq> None \<or> clear_conn x"
    using assms(4) by (simp add: keeps_mode_def tunneled_def)
  moreover obtain m where m: "m \<in> set (metas_of x)" "cs_driver spec = dm_kind m" using x(2) by blast
  then have "clear_conn x \<Longrightarrow> cs_driver spec \<in> {''sqlite'', ''duckdb'', ''firebird''}"
    using clear_conn_kinds [OF _ m(1)] by simp
  ultimately show ?thesis using x(1) by auto
qed

theorem daemon_required_tls_witness:
  "\<exists>j s'. srv_connect (demo_daemon (demo_net_spec VerifyFull)) JNull demo_build = (Inr j, s')
     \<and> json_get ''encrypted'' j = Some (JBool True)"
proof -
  let ?d = "driver_of PG_META A_pg (pg_connect (lb_seam demo_libs) (lb_pg demo_libs))"
  let ?spec = "demo_net_spec VerifyFull"
  have "?d \<in> set (compiled_drivers (\<lambda>_. True) demo_libs)" by (simp add: compiled_drivers_def Let_def feature_def)
  from registry_get_new [OF this] have reg: "registry_get (sr_registry demo_build) (cs_driver ?spec) = Inr ?d"
    by (simp add: driver_of_def PG_META_def demo_net_spec_def)
  obtain pc where "pg_connect demo_seam demo_pg ?spec (net_new None, 4) = (Inr pc, (net_new None, 5))"
    using demo_pg_connect by blast
  then have "dr_connect ?d ?spec (net_new (cs_tunnel ?spec), sr_world demo_build) =
      (Inr 0, (net_new None, \<lparr>ob_conns = [A_pg pc], ob_world = 5\<rparr>))"
    by (simp add: driver_of_Inr demo_libs_def) (simp add: demo_net_spec_def)
  from srv_connect_succeeds [OF _ reg this, of "demo_daemon ?spec" JNull] obtain j s' where
    c: "srv_connect (demo_daemon ?spec) JNull demo_build = (Inr j, s')" by auto
  from daemon_required_tls [OF demo_daemon_runs demo_build_registry(1) _ demo_net_required(1) c] c
  show ?thesis by (simp add: demo_net_spec_def)
qed


definition demo_fb_spec :: conn_spec where
  "demo_fb_spec = (demo_net_spec VerifyFull)\<lparr>cs_driver := ''firebird''\<rparr>"


section \<open>Live cursors\<close>

text \<open>
  C14: A live MongoDB cursor pages like a materialised result: once a worker has ended with the stream of a cursor that
  gives its documents without an error, any sequence of page requests, in any order, whose windows end below
  2 ^ 64, is answered with exactly the requested windows of one row per document, in the column order of the first.
\<close>
theorem live_cursor_pages:
  assumes "ho_stream h = mongo_vt be" "sr_calls s i = Some ref" "ref < length (sr_heap s)"
    and "sr_heap s ! ref = call_new\<lparr>ca_cancel := tok\<rparr>" "mongo_stream_open (map Inr docs) tot = Inr m"
    and "s' = worker_finish h i ref ms (Inr (M_cursor m)) s"
    and "\<forall>(rid, fr, n)\<in>set ps. fr + n < usize_mod"
  shows "\<exists>ls. sr_out (handle_all h (map (\<lambda>(rid, fr, n). page_request rid i fr n) ps) s') = sr_out s' @ ls
     \<and> list_all2 (\<lambda>(rid, fr, n) l. page_answer
         (map (doc_to_row be (case docs of d # _ \<Rightarrow> column_order d | [] \<Rightarrow> [])) docs) rid fr n l) ps ls"
proof -
  have "list_all is_ok (map Inr docs)" "ok_list (map Inr docs) = docs"
    by (induction docs) (simp_all add: is_ok_def)
  with mongo_stream_open_Inr [OF _ assms(5), of be]
  have m: "mongo_inv m" "mongo_pending be m = map (doc_to_row be (case docs of d # _ \<Rightarrow> column_order d | [] \<Rightarrow> [])) docs"
    by simp_all
  have "anys.finished_call be i (any_pending be (M_cursor m)) s'"
    unfolding assms(6) by (rule finish_any [OF assms(1-4)]) (simp_all add: any_inv_def any_at_def m(1))
  from anys.page_any_order [of h, OF _ _ this assms(7)] show ?thesis
    by (simp add: assms(1) any_pending_def m(2))
qed

definition demo_docs :: "document list" where
  "demo_docs = [[(''a'', B_int32 1), (''_id'', B_int32 7)], [(''_id'', B_int32 8)]]"

definition demo_mongo_running :: "(nat, mongo_result, nat any_cancel, demo_objects) srv" where
  "demo_mongo_running = demo_build\<lparr>sr_calls := [1 \<mapsto> 0], sr_heap := [call_new]\<rparr>"

theorem live_cursor_pages_witness:
  "\<exists>m ls. mongo_stream_open (map Inr demo_docs) (Some 2) = Inr m
     \<and> sr_out (handle_all (demo_daemon demo_fb_spec) [page_request 5 1 1 1, page_request 6 1 0 1]
         (worker_finish (demo_daemon demo_fb_spec) 1 0 0 (Inr (M_cursor m)) demo_mongo_running))
       = sr_out (worker_finish (demo_daemon demo_fb_spec) 1 0 0 (Inr (M_cursor m)) demo_mongo_running) @ ls
     \<and> length ls = 2"
proof -
  let ?h = "demo_daemon demo_fb_spec"
  obtain m where m: "mongo_stream_open (map Inr demo_docs) (Some 2) = Inr m"
    by (simp add: mongo_stream_open_def demo_docs_def Let_def)
  have "ho_stream ?h = mongo_vt (lb_bson demo_libs)" by (simp add: demo_daemon_def)
  from live_cursor_pages [OF this _ _ _ m refl, of demo_mongo_running 1 0 None "[(5, 1, 1), (6, 0, 1)]" 0] m
  show ?thesis by (auto simp: demo_mongo_running_def call_new_def usize_mod_def list_all2_Cons1)
qed




end
