(* ===== verification/Spec2Isabelle.thy ===== *)
theory Spec2Isabelle
  imports Server_Claims Core_Claims Data_Claims Driver_Claims Daemon_Claims
begin

text \<open>
  A model of lvim-db's daemon, the Rust program under \<open>src/native/src\<close>, with the theorems that make it
  correct.  The daemon is a child process of the editor.  It reads requests as JSON lines, opens connections
  to databases of fourteen kinds, runs statements on them in the background, pages their results back, and
  reports every change of a statement's state with a notification.

  The parts of the program and the theories that model them.

  \<^item> Foundations.  \<open>Prelude\<close>: results as sums, effectful calls as state passing (\<open>io\<close>), the arithmetic of
    64-bit sizes, and the rules for taking such programs apart (the collections \<open>result_iff\<close>, \<open>io_simps\<close>).
    \<open>Rust_Str\<close>: the string functions of Rust's standard library that the program uses, on byte strings.
    \<open>Json\<close>: the values of the protocol and the envelopes of \<open>rpc.rs\<close>.

  \<^item> Data.  \<open>Spec\<close> models \<open>spec.rs\<close>: connection specs, parameters, TLS modes, cells and their JSON form.
    \<open>Vault\<close> and \<open>Secret\<close> model \<open>vault.rs\<close> and \<open>secret.rs\<close>: the credential templates and what resolves them.
    \<open>Tls\<close> models \<open>tls.rs\<close>: from a spec to a client configuration.  \<open>Net\<close> models \<open>net.rs\<close>: addresses and
    the establishment of an SSH tunnel.

  \<^item> Results.  \<open>Result_Stream\<close> holds the pager of \<open>server.rs\<close> over the interface of a stream, the locale
    \<open>result_stream\<close>; \<open>Buffered\<close> models \<open>drivers/buffered.rs\<close>, the materialised stream, and interprets it;
    \<open>Mongo\<close> interprets it on the live cursor, and \<open>Daemon\<close> on the streams of all drivers together.
    \<open>Catalog\<close> models the folds of catalog rows in \<open>drivers/mod.rs\<close>.

  \<^item> The server.  \<open>Registry\<close> models \<open>registry.rs\<close> and the traits of \<open>driver.rs\<close> as records of methods.
    \<open>Server\<close> models \<open>server.rs\<close>: the state of \<open>Inner\<close> as the record \<open>srv\<close>, one definition per handler, the
    worker of a statement.  \<open>Main_Loop\<close> models \<open>main.rs\<close>.  \<open>Server_Conc\<close> is the transition system of
    handlers and workers: an event is one critical section between two waits.  A handler that needs a
    connection is two events: the lookup, after which it waits with the connection in hand (\<open>waiting\<close>, so
    that a disconnect meanwhile does not close it), and the driver's call under the lock (\<open>step_resume\<close>).

  \<^item> The drivers.  \<open>Driver_Common\<close> holds what they share: the seam to secrets, network and TLS, quoting,
    number formats, and the locale \<open>tls_posture\<close>, the contract of a connect about encryption, which the
    drivers that speak TLS interpret.  Then one theory per file of \<open>drivers/\<close>: \<open>Postgres\<close>, \<open>Mysql\<close>, \<open>Sqlite\<close>,
    \<open>Redis\<close>, \<open>Mssql\<close>, \<open>Clickhouse\<close>, \<open>Duckdb\<close>, \<open>Mongo\<close>, \<open>Cql\<close>, \<open>Firebird\<close>, \<open>Snowflake\<close>.  Each has the metadata, the
    connect, the run of a statement with the conversion of its cells, and every operation of a connection.

  \<^item> The whole.  \<open>Daemon\<close> puts the server on these drivers: \<open>Registry::new\<close> for any set of cargo features,
    and the trait objects as references into a heap of connections of any driver.

  What the groups of lemmas show.

  \<^item> \<open>Server_Props\<close>: what each handler leaves alone, by frame locales (\<open>frame\<close>, \<open>server_frame\<close>, \<open>conn_frame\<close>)
    interpreted on three relations; each request is answered once.
  \<^item> \<open>Server_Conc\<close>: the tables of calls and workers stay in step, two workers never hold one connection's
    lock, and the two events of a handler are the handler when nothing comes between.  \<open>Server_Notes\<close>: a step has one of four effects on calls and output; the answer with a call's
    identifier precedes its one notification, a final status is final, and the cancel handle of a call is
    that of its own connection.
  \<^item> \<open>Server_Live\<close>: the work left is a measure that every stage decreases, and some stage is enabled while
    there is any, so every statement can end; and the calls refine a three-rule specification of their
    life.
  \<^item> \<open>Server_Paging\<close>: over any stream that keeps its contract, page requests in any order see one list.
  \<^item> \<open>Sql_Text\<close> and \<open>Sql_Text_More\<close>: with the lexer of the SQL standard, the composed statements about an
    object quote exactly the names they are given; where a server's lexer differs, or a name is not quoted, a name can leave its
    quotes.
  \<^item> The driver theories and \<open>Driver_Claims\<close>: encryption, result shapes, exactness of numbers and text.
  \<^item> \<open>Daemon_Claims\<close>: the handshake of a build, the honesty of the declared capabilities, and the TLS
    promise of the whole daemon.
  The properties are the theorems whose text begins with an identifier (C and a number), in the theories
  whose name ends in \<open>Claims\<close>; their concrete inputs are in \<open>Fixtures\<close> and beside them.

  Bounds and loops.  Sizes and identifiers are 64-bit and wrap: \<open>usize_add\<close> wraps as the release build
  does, and properties about identifiers assume that fewer than \<open>2 ^ 64 - 1\<close> calls were made
  (\<open>in_range\<close>).  The page loop \<open>pull\<close> may run for ever on a stream that keeps handing out empty pages, so
  it is a partial function; that it ends is proved for every stream that keeps the contract.  All other
  loops are structural recursions or have a termination proof; no definition uses fuel.

  Assumptions.  A third-party crate is a record of functions (\<open>pg_lib\<close>, \<open>my_lib\<close> and so on), and its calls
  return; the file system, the environment, a shell and the keyring agent are arguments too.  Unicode's
  upper case, the lossy decoding of bytes, the text forms of floats, dates and rare BSON types, and the
  text form of JSON are parameters.  A handler is atomic before and after its wait for a connection; a
  driver's call under the connection's lock is one event, and so is looking a call up together with what is
  done under the call's own lock, which no event holds when it ends.  Blocking threads are calls.

  Not modelled.  The forwarder of \<open>net.rs\<close> that copies bytes through an open tunnel, and tokio's runtime,
  have no state of the daemon's own.  The Lua client (\<open>src/lua\<close>), the build scripts, the containers and the
  tests are outside the daemon.  The decoder of a connection spec is derived code, a parameter of the
  server (\<open>ho_spec\<close>).

  Next.  The decoder of a connection spec field by field; the deadline of a dial in a connection test as
  time that passes; a MySQL and a ClickHouse lexer for all composed statements; and the connections of the
  heap under the interleavings of \<open>Server_Conc\<close>, so that a lock also protects the object behind it.
\<close>

end
